(* ===== verification/Go_Prelude.thy ===== *)
theory Go_Prelude
  imports Complex_Main "HOL-Library.Word" "HOL-Library.Multiset" "HOL-Library.AList"
begin

text \<open>
  What every component of the model shares: the fault values of a Go call (an \<open>error\<close> that is
  returned, a panic that is raised), sequencing of fallible calls, Go maps as association lists
  whose order is one possible iteration order, and machine integers with their wrap-around.
\<close>

section \<open>Collections of facts used by the component proofs\<close>

named_theorems go_err \<open>inversion of sequenced fallible calls\<close>
named_theorems go_map_simps \<open>lookup in Go maps after an update\<close>
named_theorems metric_defs \<open>definitions of the metric descriptors\<close>

section \<open>Faults\<close>

text \<open>
  A Go function that returns \<open>(T, error)\<close> is modelled by \<open>fault + T\<close>; a nil dereference or a failed
  type assertion panics, which is the other kind of fault.
\<close>

datatype fault =
    GoError string
  | GoPanic string

primrec is_panic :: "fault \<Rightarrow> bool" where
  "is_panic (GoError m) = False"
| "is_panic (GoPanic m) = True"

text \<open>The text of the verb \<open>%w\<close>.\<close>

primrec fault_text :: "fault \<Rightarrow> string" where
  "fault_text (GoError m) = m"
| "fault_text (GoPanic m) = m"

type_synonym 'a res = "fault + 'a"

definition bindR :: "'a res \<Rightarrow> ('a \<Rightarrow> 'b res) \<Rightarrow> 'b res" where
  "bindR r f = (case r of Inl e \<Rightarrow> Inl e | Inr a \<Rightarrow> f a)"

lemma bindR_simps [simp]:
  "bindR (Inl e) f = Inl e"
  "bindR (Inr a) f = f a"
  by (simp_all add: bindR_def)

lemma bindR_eq_Inr [go_err]: "bindR r f = Inr b \<longleftrightarrow> (\<exists>a. r = Inr a \<and> f a = Inr b)"
  by (cases r) auto

lemma bindR_eq_Inl [go_err]: "bindR r f = Inl e \<longleftrightarrow> r = Inl e \<or> (\<exists>a. r = Inr a \<and> f a = Inl e)"
  by (cases r) auto

lemma bindR_cong [fundef_cong]:
  "r = r' \<Longrightarrow> (\<And>a. r' = Inr a \<Longrightarrow> f a = f' a) \<Longrightarrow> bindR r f = bindR r' f'"
  by (cases r') auto

text \<open>A Go loop that collects one result per element and stops at the first fault.\<close>

fun mapR :: "('a \<Rightarrow> 'b res) \<Rightarrow> 'a list \<Rightarrow> 'b list res" where
  "mapR f [] = Inr []"
| "mapR f (x # xs) = bindR (f x) (\<lambda>y. bindR (mapR f xs) (\<lambda>ys. Inr (y # ys)))"

definition concatR :: "('a \<Rightarrow> 'b list res) \<Rightarrow> 'a list \<Rightarrow> 'b list res" where
  "concatR f xs = bindR (mapR f xs) (\<lambda>yss. Inr (concat yss))"

lemma mapR_Inr: "(\<And>x. x \<in> set xs \<Longrightarrow> f x = Inr (g x)) \<Longrightarrow> mapR f xs = Inr (map g xs)"
  by (induction xs) auto

lemma mapR_eq_InrD: "mapR f xs = Inr ys \<Longrightarrow> list_all2 (\<lambda>x y. f x = Inr y) xs ys"
  by (induction xs arbitrary: ys) (auto simp: go_err)

lemma mapR_total: "(\<And>x. x \<in> set xs \<Longrightarrow> \<exists>y. f x = Inr y) \<Longrightarrow> \<exists>ys. mapR f xs = Inr ys"
proof (induction xs)
  case Nil
  then show ?case by simp
next
  case (Cons x xs)
  obtain y where "f x = Inr y" using Cons.prems [of x] by auto
  moreover obtain ys where "mapR f xs = Inr ys" using Cons by auto
  ultimately show ?case by simp
qed

lemma concatR_Inr: "(\<And>x. x \<in> set xs \<Longrightarrow> f x = Inr (g x)) \<Longrightarrow> concatR f xs = Inr (concat (map g xs))"
  by (simp add: concatR_def mapR_Inr)

lemma mapR_set: "mapR f xs = Inr ys \<Longrightarrow> y \<in> set ys \<Longrightarrow> \<exists>x \<in> set xs. f x = Inr y"
  by (induction xs arbitrary: ys) (auto simp: go_err)

lemma mapR_length: "mapR f xs = Inr ys \<Longrightarrow> length ys = length xs"
  by (drule mapR_eq_InrD) (simp add: list_all2_lengthD)

lemma concatR_setD: "concatR f xs = Inr ys \<Longrightarrow> y \<in> set ys \<Longrightarrow> \<exists>x \<in> set xs. \<exists>zs. f x = Inr zs \<and> y \<in> set zs"
  by (fastforce simp: concatR_def go_err dest: mapR_set)

lemma map_filter_setD: "y \<in> set (List.map_filter f xs) \<Longrightarrow> \<exists>x \<in> set xs. f x = Some y"
  by (auto simp: map_filter_def)

section \<open>Go maps\<close>

text \<open>
  A Go map is an association list with distinct keys. The code looks a key up with \<open>map_of\<close>; a
  \<open>range\<close> loop visits the entries in an order the language leaves open, which is the order of
  the list. A result is independent of that order when it is the same for every permutation.
\<close>

type_synonym 'v gomap = "(string \<times> 'v) list"

definition gomap_ok :: "'v gomap \<Rightarrow> bool" where
  "gomap_ok m \<longleftrightarrow> distinct (map fst m)"

definition gomap_upd :: "string \<Rightarrow> 'v \<Rightarrow> 'v gomap \<Rightarrow> 'v gomap" where
  "gomap_upd k v m = AList.update k v m"

definition gomap_del :: "string \<Rightarrow> 'v gomap \<Rightarrow> 'v gomap" where
  "gomap_del k m = filter (\<lambda>e. fst e \<noteq> k) m"

text \<open>The zero value a Go map yields for a missing key of a string map.\<close>

definition str_at :: "string gomap \<Rightarrow> string \<Rightarrow> string" where
  "str_at m k = (case map_of m k of None \<Rightarrow> '''' | Some v \<Rightarrow> v)"

text \<open>A set of names as the allowlists keep it: \<open>map[string]bool\<close>, false for a missing key.\<close>

definition bool_at :: "bool gomap \<Rightarrow> string \<Rightarrow> bool" where
  "bool_at m k = (map_of m k = Some True)"

lemma map_of_gomap_upd [go_map_simps]: "map_of (gomap_upd k v m) = (map_of m)(k \<mapsto> v)"
  by (simp add: gomap_upd_def update_conv')

lemma map_of_gomap_del [go_map_simps]: "map_of (gomap_del k m) = (map_of m)(k := None)"
  by (induction m) (auto simp: gomap_del_def fun_eq_iff)

lemma gomap_ok_upd: "gomap_ok m \<Longrightarrow> gomap_ok (gomap_upd k v m)"
  by (simp add: gomap_ok_def gomap_upd_def distinct_update)

lemma gomap_ok_filter: "gomap_ok m \<Longrightarrow> gomap_ok (filter P m)"
  by (induction m) (auto simp: gomap_ok_def)

lemma gomap_ok_del: "gomap_ok m \<Longrightarrow> gomap_ok (gomap_del k m)"
  by (simp add: gomap_del_def gomap_ok_filter)

lemma gomap_ok_Nil [simp]: "gomap_ok []"
  by (simp add: gomap_ok_def)

lemma gomap_ok_Cons [simp]: "gomap_ok ((k, v) # m) \<longleftrightarrow> k \<notin> fst ` set m \<and> gomap_ok m"
  by (simp add: gomap_ok_def)

lemma gomap_mem_iff: "gomap_ok m \<Longrightarrow> (k, v) \<in> set m \<longleftrightarrow> map_of m k = Some v"
  by (simp add: gomap_ok_def)

lemma gomap_perm_eq: "mset m = mset m' \<Longrightarrow> gomap_ok m \<longleftrightarrow> gomap_ok m'"
  unfolding gomap_ok_def by (metis mset_map mset_eq_imp_distinct_iff)

lemma gomap_perm_map_of: "mset m = mset m' \<Longrightarrow> gomap_ok m \<Longrightarrow> map_of m = map_of m'"
  by (metis gomap_ok_def gomap_perm_eq map_of_inject_set mset_eq_setD)

lemma gomap_upd_fresh: "k \<notin> fst ` set m \<Longrightarrow> gomap_upd k v m = m @ [(k, v)]"
  unfolding gomap_upd_def by (induction m) auto

lemma gomap_upd_same: "map_of m k = Some v \<Longrightarrow> gomap_upd k v m = m"
  unfolding gomap_upd_def by (rule update_triv)

text \<open>Copying the entries of one Go map into another, entry by entry.\<close>

fun gomap_copy :: "'v gomap \<Rightarrow> 'v gomap \<Rightarrow> 'v gomap" where
  "gomap_copy dst [] = dst"
| "gomap_copy dst ((k, v) # src) = gomap_copy (gomap_upd k v dst) src"

lemma gomap_ok_copy: "gomap_ok dst \<Longrightarrow> gomap_ok (gomap_copy dst src)"
  by (induction dst src rule: gomap_copy.induct) (auto simp: gomap_ok_upd)

lemma map_of_gomap_copy: "gomap_ok src \<Longrightarrow> map_of (gomap_copy dst src) = map_of dst ++ map_of src"
proof (induction dst src rule: gomap_copy.induct)
  case (1 dst)
  show ?case by simp
next
  case (2 dst k v src)
  then have "map_of src k = None"
    by (simp add: map_of_eq_None_iff)
  with 2 show ?case
    by (auto simp: go_map_simps map_add_def fun_eq_iff split: option.splits)
qed

text \<open>
  A loop that copies a map under renamed keys, over the entries in the order they are visited; a later
  entry overwrites an earlier one of the same new name.
\<close>

fun gomap_rename :: "(string \<Rightarrow> string) \<Rightarrow> 'v gomap \<Rightarrow> 'v gomap \<Rightarrow> 'v gomap" where
  "gomap_rename f [] acc = acc"
| "gomap_rename f ((key, v) # entries) acc = gomap_rename f entries (gomap_upd (f key) v acc)"

lemma gomap_rename_dom: "map_of (gomap_rename f es acc) n \<noteq> None \<longleftrightarrow>
    n \<in> f ` fst ` set es \<or> map_of acc n \<noteq> None"
  by (induction f es acc rule: gomap_rename.induct) (auto simp: go_map_simps)

lemma gomap_rename_skip: "n \<notin> f ` fst ` set es \<Longrightarrow> map_of (gomap_rename f es acc) n = map_of acc n"
  by (induction f es acc rule: gomap_rename.induct) (auto simp: go_map_simps)

lemma gomap_rename_lookup:
  assumes "inj_on f (fst ` set es)" and "gomap_ok es" and "(k, v) \<in> set es"
  shows "map_of (gomap_rename f es acc) (f k) = Some v"
  using assms
proof (induction f es acc rule: gomap_rename.induct)
  case (1 f acc)
  then show ?case by simp
next
  case (2 f key val es acc)
  show ?case
  proof (cases "k = key")
    case True
    with 2 have "v = val" and fresh: "key \<notin> fst ` set es" by (force simp: image_iff)+
    have "f key \<notin> f ` fst ` set es"
      using 2(2) fresh by (auto simp: inj_on_def)
    with True \<open>v = val\<close> show ?thesis
      by (simp add: gomap_rename_skip go_map_simps)
  next
    case False
    with 2 show ?thesis by (auto simp: inj_on_def)
  qed
qed

lemma gomap_rename_Nil_iff: "gomap_rename f es acc = [] \<longleftrightarrow> es = [] \<and> acc = []"
proof (cases "es = [] \<and> acc = []")
  case False
  then have "f ` fst ` set es \<union> fst ` set acc \<noteq> {}" by auto
  then obtain n where "n \<in> f ` fst ` set es \<union> fst ` set acc" unfolding ex_in_conv [symmetric] by (rule exE)
  then have "n \<in> f ` fst ` set es \<or> map_of acc n \<noteq> None" by (simp add: map_of_eq_None_iff)
  then have "map_of (gomap_rename f es acc) n \<noteq> None" by (simp only: gomap_rename_dom)
  then have "gomap_rename f es acc \<noteq> []" by auto
  with False show ?thesis by simp
qed simp

section \<open>Keys of concatenated lists\<close>

lemma distinct_by_tag:
  assumes "distinct (map tag xs)"
    and "\<And>x. x \<in> set xs \<Longrightarrow> distinct (map k (f x))"
    and "\<And>x r. x \<in> set xs \<Longrightarrow> r \<in> set (f x) \<Longrightarrow> h r = tag x"
    and "\<And>r r'. k r = k r' \<Longrightarrow> h r = h r'"
  shows "distinct (map k (concat (map f xs)))"
  using assms(1-3)
proof (induction xs)
  case Nil
  show ?case by simp
next
  case (Cons x xs)
  have "k r \<noteq> k r'" if r: "r \<in> set (f x)" "r' \<in> set (f y)" "y \<in> set xs" for r r' y
  proof
    assume "k r = k r'"
    then have "h r = h r'" by (rule assms(4))
    with Cons.prems(3) [of x r] Cons.prems(3) [of y r'] r have "tag x = tag y" by simp
    with Cons.prems(1) r(3) show False by (auto simp: image_iff)
  qed
  then have "k ` set (f x) \<inter> k ` set (concat (map f xs)) = {}" by fastforce
  with Cons show ?case by simp
qed

lemma distinct_map_append:
  "distinct (map k xs) \<Longrightarrow> distinct (map k ys) \<Longrightarrow> (\<And>x y. x \<in> set xs \<Longrightarrow> y \<in> set ys \<Longrightarrow> k x \<noteq> k y) \<Longrightarrow>
   distinct (map k (xs @ ys))"
  by (auto simp: distinct_append)

section \<open>Machine integers\<close>

text \<open>
  A signed 64-bit Go integer is an \<open>int\<close> in the range below; an operation that may overflow is
  followed by \<open>i64\<close>, which wraps as two's complement does. Go divides towards zero.
\<close>

definition i64 :: "int \<Rightarrow> int" where
  "i64 x = (x + 2 ^ 63) mod 2 ^ 64 - 2 ^ 63"

definition in_i64 :: "int \<Rightarrow> bool" where
  "in_i64 x \<longleftrightarrow> - (2 ^ 63) \<le> x \<and> x < 2 ^ 63"

lemma i64_id [simp]: "in_i64 x \<Longrightarrow> i64 x = x"
  by (simp add: i64_def in_i64_def)

lemma in_i64_i64 [simp]: "in_i64 (i64 x)"
  by (simp add: i64_def in_i64_def)

definition go_div :: "int \<Rightarrow> int \<Rightarrow> int" where
  "go_div a b = sgn a * sgn b * (\<bar>a\<bar> div \<bar>b\<bar>)"

definition go_mod :: "int \<Rightarrow> int \<Rightarrow> int" where
  "go_mod a b = a - b * go_div a b"

lemma go_div_nonneg: "0 \<le> a \<Longrightarrow> 0 < b \<Longrightarrow> go_div a b = a div b"
  by (cases "a = 0") (simp_all add: go_div_def)

lemma go_mod_nonneg: "0 \<le> a \<Longrightarrow> 0 < b \<Longrightarrow> go_mod a b = a mod b"
  by (simp add: go_mod_def go_div_nonneg minus_mult_div_eq_mod)

end
