(* ===== verification/Kube_Quantity.thy ===== *)
theory Kube_Quantity
  imports Go_Prelude
begin

text \<open>
  The part of \<open>resource.Quantity\<close> (\<open>k8s.io/apimachinery/pkg/api/resource\<close>) the collectors read:
  \<open>IsZero\<close>, \<open>ScaledValue\<close> and \<open>Value\<close>, on the scaled \<open>int64\<close> form and on the \<open>inf.Dec\<close> form, with the
  overflow behaviour of the 64-bit code. \<open>Value\<close> of a quantity that fits rounds up.
\<close>

record quantity =
  q_value :: int
  q_scale :: int
  q_dec :: "(int \<times> int) option"

definition mk_quantity :: "int \<Rightarrow> int \<Rightarrow> quantity" where
  "mk_quantity v s = \<lparr>q_value = v, q_scale = s, q_dec = None\<rparr>"

definition zero_quantity :: quantity where
  "zero_quantity = mk_quantity 0 0"

definition IsZero :: "quantity \<Rightarrow> bool" where
  "IsZero q = (case q_dec q of Some (u, s) \<Rightarrow> u = 0 | None \<Rightarrow> q_value q = 0)"

section \<open>Scaling a 64-bit amount\<close>

definition most_negative :: int where
  "most_negative = - (2 ^ 63)"

definition int64MultiplyScale :: "int \<Rightarrow> int \<Rightarrow> int \<times> bool" where
  "int64MultiplyScale a b =
     (if a = 0 \<or> a = 1 then (i64 (a * b), True)
      else if a = most_negative \<and> b \<noteq> 1 then (0, False)
      else (let c = i64 (a * b) in (c, go_div c b = a)))"

fun mul10_loop :: "nat \<Rightarrow> int \<Rightarrow> int \<times> bool" where
  "mul10_loop 0 v = (v, True)"
| "mul10_loop (Suc n) v =
     (let (v', ok) = int64MultiplyScale v 10 in if ok then mul10_loop n v' else (0, False))"

definition positiveScaleInt64 :: "int \<Rightarrow> nat \<Rightarrow> int \<times> bool" where
  "positiveScaleInt64 base scale =
     (if scale = 0 then (base, True)
      else if scale \<in> {1, 2, 3, 6, 9} then int64MultiplyScale base (10 ^ scale)
      else mul10_loop scale base)"

fun neg_scale_loop :: "nat \<Rightarrow> int \<Rightarrow> int \<Rightarrow> bool \<Rightarrow> int" where
  "neg_scale_loop 0 base v fraction =
     (if fraction then (if 0 < base then v + 1 else v - 1) else v)"
| "neg_scale_loop (Suc n) base v fraction =
     (let fraction' = (fraction \<or> go_mod v 10 \<noteq> 0); v' = go_div v 10
      in if v' = 0 then (if fraction' then (if 0 < base then 1 else - 1) else 0)
         else neg_scale_loop n base v' fraction')"

definition negativeScaleInt64 :: "int \<Rightarrow> nat \<Rightarrow> int" where
  "negativeScaleInt64 base scale = (if scale = 0 then base else neg_scale_loop scale base base False)"

definition AsScaledInt64 :: "int \<Rightarrow> int \<Rightarrow> int \<Rightarrow> int" where
  "AsScaledInt64 v s scale =
     (if s < scale then negativeScaleInt64 v (nat (scale - s)) else fst (positiveScaleInt64 v (nat (s - scale))))"

section \<open>Scaling an arbitrary-precision amount\<close>

definition scaledValue :: "int \<Rightarrow> int \<Rightarrow> int \<Rightarrow> int" where
  "scaledValue unscaled scale newScale =
     (let dif = scale - newScale in
      if dif = 0 then i64 unscaled
      else if dif < 0 then i64 (i64 unscaled * 10 ^ nat (- dif))
      else if unscaled < 2 ^ 63 - 1 \<and> dif < 19 then
        (let divide = 10 ^ nat dif; result = go_div (i64 unscaled) divide
         in if go_mod (i64 unscaled) divide \<noteq> 0 then i64 (result + 1) else result)
      else
        (let divisor = 10 ^ nat dif; result = unscaled div divisor
         in if unscaled mod divisor \<noteq> 0 then i64 (i64 result + 1) else i64 result))"

definition ScaledValue :: "quantity \<Rightarrow> int \<Rightarrow> int" where
  "ScaledValue q scale =
     (case q_dec q of None \<Rightarrow> AsScaledInt64 (q_value q) (q_scale q) scale
      | Some (unscaled, s) \<Rightarrow> scaledValue unscaled s (- scale))"

definition Value :: "quantity \<Rightarrow> int" where
  "Value q = ScaledValue q 0"

definition milli :: int where
  "milli = - 3"

section \<open>Rounding up\<close>

lemma neg_scale_loop_ceil:
  assumes "0 < base" and "0 \<le> v"
  shows "neg_scale_loop n base v fraction =
    (if fraction \<or> v mod 10 ^ n \<noteq> 0 then v div 10 ^ n + 1 else v div 10 ^ n)"
  using assms(2)
proof (induction n arbitrary: v fraction)
  case 0
  with assms(1) show ?case by simp
next
  case (Suc n)
  have d: "go_div v 10 = v div 10" "go_mod v 10 = v mod 10"
    using Suc.prems by (simp_all add: go_div_nonneg go_mod_nonneg)
  have split: "v mod 10 ^ Suc n = v mod 10 + 10 * (v div 10 mod 10 ^ n)"
    by (simp add: mod_mult2_eq' zmod_zmult2_eq)
  have "0 \<le> v mod 10" and "0 \<le> v div 10 mod 10 ^ n" by simp_all
  with split have zero: "v mod 10 ^ Suc n = 0 \<longleftrightarrow> v mod 10 = 0 \<and> v div 10 mod 10 ^ n = 0"
    by linarith
  have q: "v div 10 ^ Suc n = v div 10 div 10 ^ n"
    by (simp add: zdiv_zmult2_eq)
  show ?case
  proof (cases "v div 10 = 0")
    case True
    with d zero q assms(1) show ?thesis by simp
  next
    case False
    have "0 \<le> v div 10" using Suc.prems by simp
    from Suc.IH [OF this] False d zero q show ?thesis by (auto simp: Let_def)
  qed
qed

text \<open>A value with fractional digits is reported as the next integer above it.\<close>

lemma Value_fraction:
  assumes "q_dec q = None" and "0 \<le> q_value q" and "q_scale q \<le> 0"
  shows "Value q = \<lceil>rat_of_int (q_value q) / 10 ^ nat (- q_scale q)\<rceil>"
proof -
  define n where "n = nat (- q_scale q)"
  define v where "v = q_value q"
  have pos: "(0::int) < 10 ^ n" by simp
  have ceil: "\<lceil>rat_of_int v / 10 ^ n\<rceil> = - ((- v) div 10 ^ n)"
  proof -
    have "\<lceil>rat_of_int v / rat_of_int (10 ^ n)\<rceil> = - ((- v) div 10 ^ n)"
      by (rule ceiling_divide_eq_div)
    then show ?thesis by simp
  qed
  have neg: "- ((- v) div 10 ^ n) = (if v mod 10 ^ n \<noteq> 0 then v div 10 ^ n + 1 else v div 10 ^ n)"
    by (simp add: zdiv_zminus1_eq_if)
  show ?thesis
  proof (cases "q_scale q = 0")
    case True
    then show ?thesis
      by (simp add: Value_def ScaledValue_def assms(1) AsScaledInt64_def positiveScaleInt64_def)
  next
    case False
    with assms(3) have s: "q_scale q < 0" and n0: "n \<noteq> 0" by (simp_all add: n_def)
    have "Value q = neg_scale_loop n v v False"
      using s n0 by (simp add: Value_def ScaledValue_def assms(1) AsScaledInt64_def
          negativeScaleInt64_def n_def v_def)
    also have "\<dots> = (if v mod 10 ^ n \<noteq> 0 then v div 10 ^ n + 1 else v div 10 ^ n)"
    proof (cases "v = 0")
      case True
      then show ?thesis using n0 by (cases n) (simp_all add: go_div_def go_mod_def)
    next
      case False
      with assms(2) have "0 < v" by (simp add: v_def)
      then show ?thesis by (simp add: neg_scale_loop_ceil)
    qed
    finally show ?thesis using ceil neg by (simp add: n_def v_def)
  qed
qed

lemma Value_plain: "q_dec q = None \<Longrightarrow> q_scale q = 0 \<Longrightarrow> Value q = q_value q"
  by (simp add: Value_def ScaledValue_def AsScaledInt64_def positiveScaleInt64_def)

lemma IsZero_zero_quantity [simp]: "IsZero zero_quantity"
  by (simp add: zero_quantity_def mk_quantity_def IsZero_def)

end
