(* ===== verification/Kube_Types.thy ===== *)
theory Kube_Types
  imports Kube_Quantity
begin

text \<open>
  The API objects the controller reads, with the fields it reads (\<open>kubevirt.io/api/core/v1\<close>,
  \<open>k8s.io/api/core/v1\<close>, \<open>k8s.io/apimachinery/pkg/apis/meta/v1\<close>). A pointer field is an option. A
  pointer to a struct none of whose fields is read is a \<open>bool\<close> (set or nil). Times are Unix
  seconds. Labels, annotations and resource lists are Go maps.
\<close>

record object_meta =
  om_name :: string
  om_namespace :: string
  om_uid :: string
  om_labels :: "string gomap"
  om_annotations :: "string gomap"
  om_creation :: "int option"

record cpu_spec =
  cpu_cores :: "32 word"
  cpu_sockets :: "32 word"
  cpu_threads :: "32 word"

record memory_spec =
  mem_guest :: "quantity option"
  mem_hugepages :: "string option"

record vnic =
  nic_name :: string
  nic_model :: string
  nic_masquerade :: bool
  nic_bridge :: bool
  nic_sriov :: bool
  nic_binding :: "string option"

record network =
  net_name :: string
  net_pod :: bool
  net_multus :: "string option"

record volume =
  vol_name :: string
  vol_pvc :: "string option"
  vol_dv :: "string option"

record domain_spec =
  dom_requests :: "quantity gomap"
  dom_limits :: "quantity gomap"
  dom_cpu :: "cpu_spec option"
  dom_memory :: "memory_spec option"
  dom_machine :: "string option"
  dom_interfaces :: "vnic list"

record vmi_spec =
  spec_domain :: domain_spec
  spec_eviction :: "string option"
  spec_volumes :: "volume list"
  spec_networks :: "network list"

record vmi_condition =
  vc_type :: string
  vc_status :: string

record status_nic =
  sn_name :: string
  sn_ifname :: string
  sn_ip :: string

record migration_state =
  ms_uid :: string
  ms_start :: "int option"
  ms_end :: "int option"
  ms_completed :: bool
  ms_failed :: bool

record guest_os_info =
  gi_name :: string
  gi_kernel_release :: string
  gi_version :: string
  gi_pretty_name :: string
  gi_version_id :: string
  gi_kernel_version :: string
  gi_machine :: string
  gi_id :: string

record vmi_status =
  st_node :: string
  st_phase :: string
  st_conditions :: "vmi_condition list"
  st_guest_os :: guest_os_info
  st_interfaces :: "status_nic list"
  st_migration :: "migration_state option"
  st_machine :: "string option"
  st_memory :: "quantity option option"

record vmi =
  vmi_meta :: object_meta
  vmi_the_spec :: vmi_spec
  vmi_the_status :: vmi_status

record template =
  tpl_meta :: object_meta
  tpl_spec :: vmi_spec

record matcher =
  mt_kind :: string
  mt_name :: string

record dv_template =
  dvt_name :: string
  dvt_pvc :: "quantity gomap option"
  dvt_storage :: "quantity gomap option"

record vm_condition =
  vmc_type :: string
  vmc_time :: int

record vm =
  vm_meta :: object_meta
  vm_template :: "template option"
  vm_instancetype :: "matcher option"
  vm_preference :: "matcher option"
  vm_dv_templates :: "dv_template list"
  vm_printable :: string
  vm_conditions :: "vm_condition list"

record pvc =
  pvc_meta :: object_meta
  pvc_requests :: "quantity gomap"
  pvc_volume_mode :: "string option"

record pod =
  pod_meta :: object_meta
  pod_node :: string
  pod_phase :: string
  pod_ip :: string

record vmim =
  vmim_meta :: object_meta
  vmim_vmi_name :: string
  vmim_phase :: string

text \<open>
  An element of a store is an \<open>any\<close>: one of the API types, another object that has metadata, or a
  value that is not an API object at all. A Go type assertion is a match on the constructor.
\<close>

datatype any =
    AVM vm
  | AVMI vmi
  | APVC pvc
  | APod pod
  | AVMIM vmim
  | AMeta object_meta
  | AOther

fun any_meta :: "any \<Rightarrow> object_meta option" where
  "any_meta (AVM v) = Some (vm_meta v)"
| "any_meta (AVMI v) = Some (vmi_meta v)"
| "any_meta (APVC p) = Some (pvc_meta p)"
| "any_meta (APod p) = Some (pod_meta p)"
| "any_meta (AVMIM m) = Some (vmim_meta m)"
| "any_meta (AMeta m) = Some m"
| "any_meta AOther = None"

fun as_vm :: "any \<Rightarrow> vm option" where
  "as_vm (AVM v) = Some v"
| "as_vm _ = None"

fun as_vmi :: "any \<Rightarrow> vmi option" where
  "as_vmi (AVMI v) = Some v"
| "as_vmi _ = None"

fun as_pvc :: "any \<Rightarrow> pvc option" where
  "as_pvc (APVC p) = Some p"
| "as_pvc _ = None"

fun as_pod :: "any \<Rightarrow> pod option" where
  "as_pod (APod p) = Some p"
| "as_pod _ = None"

fun as_vmim :: "any \<Rightarrow> vmim option" where
  "as_vmim (AVMIM m) = Some m"
| "as_vmim _ = None"

text \<open>A type assertion without the second result panics on another type.\<close>

definition assert_type :: "('b \<Rightarrow> 'a option) \<Rightarrow> 'b \<Rightarrow> 'a res" where
  "assert_type f x = (case f x of None \<Rightarrow> Inl (GoPanic ''interface conversion'') | Some y \<Rightarrow> Inr y)"

abbreviation vmi_name :: "vmi \<Rightarrow> string" where
  "vmi_name v \<equiv> om_name (vmi_meta v)"

abbreviation vmi_namespace :: "vmi \<Rightarrow> string" where
  "vmi_namespace v \<equiv> om_namespace (vmi_meta v)"

abbreviation vmi_node :: "vmi \<Rightarrow> string" where
  "vmi_node v \<equiv> st_node (vmi_the_status v)"

abbreviation vm_name :: "vm \<Rightarrow> string" where
  "vm_name v \<equiv> om_name (vm_meta v)"

abbreviation vm_namespace :: "vm \<Rightarrow> string" where
  "vm_namespace v \<equiv> om_namespace (vm_meta v)"

section \<open>Default values for concrete objects\<close>

text \<open>The zero values of Go, from which the witnesses build their objects.\<close>

definition zero_meta :: object_meta where
  "zero_meta = \<lparr>om_name = [], om_namespace = [], om_uid = [], om_labels = [], om_annotations = [],
     om_creation = None\<rparr>"

definition zero_domain :: domain_spec where
  "zero_domain = \<lparr>dom_requests = [], dom_limits = [], dom_cpu = None, dom_memory = None,
     dom_machine = None, dom_interfaces = []\<rparr>"

definition zero_spec :: vmi_spec where
  "zero_spec = \<lparr>spec_domain = zero_domain, spec_eviction = None, spec_volumes = [], spec_networks = []\<rparr>"

definition zero_guest_os :: guest_os_info where
  "zero_guest_os = \<lparr>gi_name = [], gi_kernel_release = [], gi_version = [], gi_pretty_name = [],
     gi_version_id = [], gi_kernel_version = [], gi_machine = [], gi_id = []\<rparr>"

definition zero_status :: vmi_status where
  "zero_status = \<lparr>st_node = [], st_phase = [], st_conditions = [], st_guest_os = zero_guest_os,
     st_interfaces = [], st_migration = None, st_machine = None, st_memory = None\<rparr>"

definition zero_vmi :: vmi where
  "zero_vmi = \<lparr>vmi_meta = zero_meta, vmi_the_spec = zero_spec, vmi_the_status = zero_status\<rparr>"

definition zero_vm :: vm where
  "zero_vm = \<lparr>vm_meta = zero_meta, vm_template = None, vm_instancetype = None, vm_preference = None,
     vm_dv_templates = [], vm_printable = [], vm_conditions = []\<rparr>"

lemmas zero_defs = zero_meta_def zero_domain_def zero_spec_def zero_guest_os_def zero_status_def
  zero_vmi_def zero_vm_def

end
