(* ===== verification/Go_Strings.thy ===== *)
theory Go_Strings
  imports Go_Prelude "HOL-Library.Sublist"
begin

text \<open>
  The string operations of the Go standard library that the controller calls, on byte strings
  (a Go string is a sequence of bytes, a HOL \<open>char\<close> is a byte): \<open>strings.TrimSpace\<close>,
  \<open>strings.Split\<close>, \<open>strings.Join\<close>, \<open>strings.ToLower\<close>, \<open>strings.EqualFold\<close>,
  \<open>strings.Count\<close>, \<open>fmt.Sprintf\<close>, \<open>strconv.FormatBool\<close>, and the UTF-8
  decoding step that decides how many bytes a regular expression consumes at once.
\<close>

section \<open>UTF-8 decoding\<close>

definition byte :: "char \<Rightarrow> nat" where
  "byte c = of_char c"

definition cont_byte :: "char \<Rightarrow> bool" where
  "cont_byte c \<longleftrightarrow> 128 \<le> byte c \<and> byte c \<le> 191"

text \<open>
  The width \<open>utf8.DecodeRuneInString\<close> reports: the length of a well-formed encoding at the front
  of the string, and 1 for an ill-formed byte.
\<close>

fun rune_width :: "string \<Rightarrow> nat" where
  "rune_width [] = 0"
| "rune_width (c # cs) =
     (let b = byte c in
      if b < 128 then 1
      else if 194 \<le> b \<and> b \<le> 223 then
        (case cs of c1 # _ \<Rightarrow> (if cont_byte c1 then 2 else 1) | _ \<Rightarrow> 1)
      else if 224 \<le> b \<and> b \<le> 239 then
        (case cs of
           c1 # c2 # _ \<Rightarrow>
             (if cont_byte c1 \<and> cont_byte c2 \<and> (b = 224 \<longrightarrow> 160 \<le> byte c1) \<and> (b = 237 \<longrightarrow> byte c1 \<le> 159)
              then 3 else 1)
         | _ \<Rightarrow> 1)
      else if 240 \<le> b \<and> b \<le> 244 then
        (case cs of
           c1 # c2 # c3 # _ \<Rightarrow>
             (if cont_byte c1 \<and> cont_byte c2 \<and> cont_byte c3 \<and> (b = 240 \<longrightarrow> 144 \<le> byte c1) \<and>
                 (b = 244 \<longrightarrow> byte c1 \<le> 143)
              then 4 else 1)
         | _ \<Rightarrow> 1)
      else 1)"

lemma rune_width_pos: "0 < rune_width (c # cs)"
  by (auto simp: Let_def split: list.splits)

section \<open>Trimming white space\<close>

text \<open>The UTF-8 encodings of the runes for which \<open>unicode.IsSpace\<close> holds.\<close>

definition space_encs :: "string list" where
  "space_encs =
     [[CHR 0x09], [CHR 0x0A], [CHR 0x0B], [CHR 0x0C], [CHR 0x0D], [CHR 0x20],
      [CHR 0xC2, CHR 0x85], [CHR 0xC2, CHR 0xA0], [CHR 0xE1, CHR 0x9A, CHR 0x80],
      [CHR 0xE2, CHR 0x80, CHR 0x80], [CHR 0xE2, CHR 0x80, CHR 0x81], [CHR 0xE2, CHR 0x80, CHR 0x82],
      [CHR 0xE2, CHR 0x80, CHR 0x83], [CHR 0xE2, CHR 0x80, CHR 0x84], [CHR 0xE2, CHR 0x80, CHR 0x85],
      [CHR 0xE2, CHR 0x80, CHR 0x86], [CHR 0xE2, CHR 0x80, CHR 0x87], [CHR 0xE2, CHR 0x80, CHR 0x88],
      [CHR 0xE2, CHR 0x80, CHR 0x89], [CHR 0xE2, CHR 0x80, CHR 0x8A], [CHR 0xE2, CHR 0x80, CHR 0xA8],
      [CHR 0xE2, CHR 0x80, CHR 0xA9], [CHR 0xE2, CHR 0x80, CHR 0xAF], [CHR 0xE2, CHR 0x81, CHR 0x9F],
      [CHR 0xE3, CHR 0x80, CHR 0x80]]"

definition front_len :: "string list \<Rightarrow> string \<Rightarrow> nat" where
  "front_len encs s = (case find (\<lambda>e. e \<noteq> [] \<and> take (length e) s = e) encs of None \<Rightarrow> 0 | Some e \<Rightarrow> length e)"

fun trim_front :: "string list \<Rightarrow> string \<Rightarrow> string" where
  "trim_front encs [] = []"
| "trim_front encs (c # cs) =
     (let n = front_len encs (c # cs) in if n = 0 then c # cs else trim_front encs (drop (n - 1) cs))"

definition trim_left :: "string \<Rightarrow> string" where
  "trim_left s = trim_front space_encs s"

definition trim_right :: "string \<Rightarrow> string" where
  "trim_right s = rev (trim_front (map rev space_encs) (rev s))"

definition trim_space :: "string \<Rightarrow> string" where
  "trim_space s = trim_right (trim_left s)"

lemma front_len_0_iff:
  "front_len encs s = 0 \<longleftrightarrow> (\<forall>e \<in> set encs. e \<noteq> [] \<longrightarrow> \<not> prefix e s)"
proof -
  have "take (length e) s = e \<longleftrightarrow> prefix e s" for e :: string
    by (metis append_eq_conv_conj append_take_drop_id prefix_def)
  then have pre: "(\<lambda>e. e \<noteq> [] \<and> take (length e) s = e) = (\<lambda>e. e \<noteq> [] \<and> prefix e s)"
    by simp
  show ?thesis
  proof (cases "find (\<lambda>e. e \<noteq> [] \<and> prefix e s) encs")
    case None
    then have "front_len encs s = 0" by (simp add: front_len_def pre)
    moreover have "\<forall>e \<in> set encs. e \<noteq> [] \<longrightarrow> \<not> prefix e s"
      using None by (auto simp: find_None_iff)
    ultimately show ?thesis by simp
  next
    case (Some e)
    then have "e \<in> set encs \<and> e \<noteq> [] \<and> prefix e s" by (auto simp: find_Some_iff)
    with Some show ?thesis by (auto simp: front_len_def pre)
  qed
qed

lemma trim_front_suffix: "suffix (trim_front encs s) s"
proof (induction encs s rule: trim_front.induct)
  case (1 encs)
  show ?case by simp
next
  case (2 encs c cs)
  show ?case
  proof (cases "front_len encs (c # cs) = 0")
    case True
    then show ?thesis by simp
  next
    case False
    then have "suffix (trim_front encs (c # cs)) (drop (front_len encs (c # cs) - 1) cs)"
      using "2.IH" by simp
    also have "suffix (drop (front_len encs (c # cs) - 1) cs) (c # cs)"
      by (meson suffix_ConsI suffix_drop)
    finally show ?thesis .
  qed
qed

lemma trim_front_stops: "front_len encs (trim_front encs s) = 0"
proof (induction encs s rule: trim_front.induct)
  case (1 encs)
  show ?case by (auto simp: front_len_0_iff)
next
  case (2 encs c cs)
  then show ?case by (simp add: Let_def)
qed

lemma trim_front_id: "front_len encs s = 0 \<Longrightarrow> trim_front encs s = s"
  by (cases s) (simp_all add: Let_def)

lemma trim_right_prefix: "prefix (trim_right s) s"
  unfolding trim_right_def using trim_front_suffix [of "map rev space_encs" "rev s"]
  by (simp add: suffix_to_prefix)

lemma trim_space_no_front: "e \<in> set space_encs \<Longrightarrow> e \<noteq> [] \<Longrightarrow> \<not> prefix e (trim_space s)"
  using trim_front_stops [of space_encs s] trim_right_prefix [of "trim_left s"]
  unfolding front_len_0_iff trim_space_def trim_left_def
  by (meson prefix_order.trans)

lemma trim_space_idem: "trim_space (trim_space s) = trim_space s"
proof -
  have "front_len space_encs (trim_space s) = 0"
    by (simp add: front_len_0_iff trim_space_no_front)
  then have left: "trim_left (trim_space s) = trim_space s"
    by (simp add: trim_left_def trim_front_id)
  have "front_len (map rev space_encs) (rev (trim_space s)) = 0"
    by (simp add: trim_space_def trim_right_def trim_front_stops)
  then have "trim_right (trim_space s) = trim_space s"
    by (simp add: trim_right_def trim_front_id)
  with left show ?thesis by (simp add: trim_space_def)
qed

lemma set_trim_space: "set (trim_space s) \<subseteq> set s"
proof -
  have "set (trim_left s) \<subseteq> set s"
    unfolding trim_left_def by (rule set_mono_suffix [OF trim_front_suffix])
  moreover have "set (trim_right t) \<subseteq> set t" for t
    by (rule set_mono_prefix [OF trim_right_prefix])
  ultimately show ?thesis unfolding trim_space_def by blast
qed

section \<open>Splitting and joining\<close>

fun split_on :: "char \<Rightarrow> string \<Rightarrow> string list" where
  "split_on d [] = [[]]"
| "split_on d (c # cs) =
     (if c = d then [] # split_on d cs
      else (case split_on d cs of [] \<Rightarrow> [[c]] | p # ps \<Rightarrow> (c # p) # ps))"

fun join_with :: "string \<Rightarrow> string list \<Rightarrow> string" where
  "join_with sep [] = []"
| "join_with sep [p] = p"
| "join_with sep (p # q # ps) = p @ sep @ join_with sep (q # ps)"

lemma split_on_nonempty: "split_on d s \<noteq> []"
  by (induction s) (auto split: list.splits)

lemma join_split: "join_with [d] (split_on d s) = s"
proof (induction s)
  case Nil
  show ?case by simp
next
  case (Cons c cs)
  obtain p ps where s: "split_on d cs = p # ps"
    using split_on_nonempty [of d cs] by (cases "split_on d cs") auto
  with Cons show ?case by (cases ps) auto
qed

lemma split_on_no_sep: "p \<in> set (split_on d s) \<Longrightarrow> d \<notin> set p"
proof (induction s arbitrary: p)
  case Nil
  then show ?case by simp
next
  case (Cons c cs)
  then show ?case by (auto split: if_splits list.splits)
qed

lemma split_join: "ps \<noteq> [] \<Longrightarrow> \<forall>p \<in> set ps. d \<notin> set p \<Longrightarrow> split_on d (join_with [d] ps) = ps"
proof (induction "[d]" ps rule: join_with.induct)
  case 1
  then show ?case by simp
next
  case (2 p)
  have "d \<notin> set q \<Longrightarrow> split_on d q = [q]" for q
    by (induction q) auto
  with 2 show ?case by simp
next
  case (3 p q ps)
  have "d \<notin> set r \<Longrightarrow> split_on d (r @ d # t) = r # split_on d t" for r t
    by (induction r) auto
  with 3 show ?case by simp
qed

section \<open>Case\<close>

text \<open>\<open>strings.ToLower\<close> on ASCII bytes; the bytes of other runes are left as they are.\<close>

definition lower_char :: "char \<Rightarrow> char" where
  "lower_char c = (if 65 \<le> byte c \<and> byte c \<le> 90 then char_of (byte c + 32) else c)"

definition to_lower :: "string \<Rightarrow> string" where
  "to_lower s = map lower_char s"

text \<open>
  \<open>strings.EqualFold\<close> against an ASCII string: besides the other case of an ASCII letter, only the
  long s (U+017F) and the Kelvin sign (U+212A) fold to an ASCII letter.
\<close>

fun fold_runes :: "string \<Rightarrow> string" where
  "fold_runes [] = []"
| "fold_runes [a] = [lower_char a]"
| "fold_runes [a, b] =
     (if a = CHR 0xC5 \<and> b = CHR 0xBF then ''s'' else [lower_char a, lower_char b])"
| "fold_runes (a # b # c # cs) =
     (if a = CHR 0xC5 \<and> b = CHR 0xBF then CHR ''s'' # fold_runes (c # cs)
      else if a = CHR 0xE2 \<and> b = CHR 0x84 \<and> c = CHR 0xAA then CHR ''k'' # fold_runes cs
      else lower_char a # fold_runes (b # c # cs))"

definition equal_fold :: "string \<Rightarrow> string \<Rightarrow> bool" where
  "equal_fold s t \<longleftrightarrow> fold_runes s = fold_runes t"

lemma equal_fold_refl: "equal_fold s s"
  by (simp add: equal_fold_def)

section \<open>Formatting\<close>

fun count_verb :: "string \<Rightarrow> nat" where
  "count_verb (a # b # cs) = (if a = CHR ''%'' \<and> b = CHR ''s'' then Suc (count_verb cs) else count_verb (b # cs))"
| "count_verb cs = 0"

definition digit :: "nat \<Rightarrow> char" where
  "digit d = char_of (48 + d)"

fun show_nat :: "nat \<Rightarrow> string" where
  "show_nat n = (if n < 10 then [digit n] else show_nat (n div 10) @ [digit (n mod 10)])"

declare show_nat.simps [simp del]

definition show_int :: "int \<Rightarrow> string" where
  "show_int i = (if i < 0 then CHR ''-'' # show_nat (nat (- i)) else show_nat (nat i))"

definition format_bool :: "bool \<Rightarrow> string" where
  "format_bool b = (if b then ''true'' else ''false'')"

definition digit_val :: "char \<Rightarrow> nat" where
  "digit_val c = byte c - 48"

definition dec_val :: "string \<Rightarrow> nat" where
  "dec_val s = foldl (\<lambda>v c. 10 * v + digit_val c) 0 s"

lemma digit_val_digit: "d < 10 \<Longrightarrow> digit_val (digit d) = d"
  by (simp add: digit_val_def digit_def byte_def)

lemma dec_val_show_nat [simp]: "dec_val (show_nat n) = n"
proof (induction n rule: show_nat.induct)
  case (1 n)
  show ?case
  proof (cases "n < 10")
    case True
    then show ?thesis by (simp add: show_nat.simps [of n] dec_val_def digit_val_digit)
  next
    case False
    with 1 have "dec_val (show_nat (n div 10)) = n div 10" by simp
    with False show ?thesis
      by (simp add: show_nat.simps [of n] dec_val_def digit_val_digit)
  qed
qed

lemma show_nat_inject [simp]: "show_nat m = show_nat n \<longleftrightarrow> m = n"
  by (metis dec_val_show_nat)

lemma show_nat_nonempty: "show_nat n \<noteq> []"
  by (subst show_nat.simps) simp

section \<open>fmt.Sprintf\<close>

text \<open>
  The verbs \<open>%s\<close>, \<open>%d\<close>, \<open>%v\<close> and \<open>%%\<close> on string and integer operands, with the text the standard
  library writes for a missing, a mistyped and an unused operand. Flags, widths and the other verbs
  are outside of the model; no format of the repository uses them.
\<close>

datatype fmt_arg = FStr string | FInt int

primrec fmt_value :: "fmt_arg \<Rightarrow> string" where
  "fmt_value (FStr s) = s"
| "fmt_value (FInt i) = show_int i"

primrec fmt_typed :: "fmt_arg \<Rightarrow> string" where
  "fmt_typed (FStr s) = ''string='' @ s"
| "fmt_typed (FInt i) = ''int='' @ show_int i"

primrec fmt_takes :: "fmt_arg \<Rightarrow> char \<Rightarrow> bool" where
  "fmt_takes (FStr s) v = (v = CHR ''s'' \<or> v = CHR ''v'')"
| "fmt_takes (FInt i) v = (v = CHR ''d'' \<or> v = CHR ''v'')"

definition fmt_verb :: "char \<Rightarrow> fmt_arg \<Rightarrow> string" where
  "fmt_verb v a = (if fmt_takes a v then fmt_value a else ''%!'' @ [v] @ ''('' @ fmt_typed a @ '')'')"

definition fmt_extra :: "fmt_arg list \<Rightarrow> string" where
  "fmt_extra as = (if as = [] then [] else ''%!(EXTRA '' @ join_with '', '' (map fmt_typed as) @ '')'')"

fun sprintf :: "string \<Rightarrow> fmt_arg list \<Rightarrow> string" where
  "sprintf [] as = fmt_extra as"
| "sprintf [c] as = (if c = CHR ''%'' then ''%!(NOVERB)'' else [c]) @ fmt_extra as"
| "sprintf (c # v # cs) as =
     (if c \<noteq> CHR ''%'' then c # sprintf (v # cs) as
      else if v = CHR ''%'' then CHR ''%'' # sprintf cs as
      else (case as of
              [] \<Rightarrow> ''%!'' @ [v] @ ''(MISSING)'' @ sprintf cs []
            | a # rest \<Rightarrow> fmt_verb v a @ sprintf cs rest))"

lemma sprintf_plain: "CHR ''%'' \<notin> set s \<Longrightarrow> sprintf s as = s @ fmt_extra as"
  by (induction s as rule: sprintf.induct) (auto split: list.splits)

lemma sprintf_pre: "CHR ''%'' \<notin> set pre \<Longrightarrow> t \<noteq> [] \<Longrightarrow> sprintf (pre @ t) as = pre @ sprintf t as"
proof (induction pre)
  case Nil
  then show ?case by simp
next
  case (Cons c pre)
  then obtain d r where "pre @ t = d # r" by (cases "pre @ t") auto
  with Cons show ?case by auto
qed

lemma sprintf_one:
  assumes "CHR ''%'' \<notin> set pre" and "CHR ''%'' \<notin> set post"
  shows "sprintf (pre @ ''%s'' @ post) [FStr x] = pre @ x @ post"
  using assms by (simp add: sprintf_pre sprintf_plain fmt_verb_def fmt_extra_def)

text \<open>
  The verb \<open>%q\<close> (\<open>strconv.Quote\<close>) on ASCII bytes; a byte above 127 is copied, which is what the
  library does for a printable rune.
\<close>

definition hex_digit :: "nat \<Rightarrow> char" where
  "hex_digit d = (if d < 10 then char_of (48 + d) else char_of (87 + d))"

definition quote_char :: "char \<Rightarrow> string" where
  "quote_char c =
     (if c = CHR 0x22 \<or> c = CHR 0x5C then [CHR 0x5C, c]
      else if c = CHR 0x07 then [CHR 0x5C, CHR ''a''] else if c = CHR 0x08 then [CHR 0x5C, CHR ''b'']
      else if c = CHR 0x0C then [CHR 0x5C, CHR ''f''] else if c = CHR 0x0A then [CHR 0x5C, CHR ''n'']
      else if c = CHR 0x0D then [CHR 0x5C, CHR ''r''] else if c = CHR 0x09 then [CHR 0x5C, CHR ''t'']
      else if c = CHR 0x0B then [CHR 0x5C, CHR ''v'']
      else if byte c < 32 \<or> byte c = 127 then
        [CHR 0x5C, CHR ''x'', hex_digit (byte c div 16), hex_digit (byte c mod 16)]
      else [c])"

definition go_quote :: "string \<Rightarrow> string" where
  "go_quote s = [CHR 0x22] @ concat (map quote_char s) @ [CHR 0x22]"

section \<open>Namespaced keys\<close>

text \<open>\<open>namespace + "/" + name\<close>, the key of an object in a store.\<close>

definition slash_key :: "string \<Rightarrow> string \<Rightarrow> string" where
  "slash_key ns nm = ns @ ''/'' @ nm"

lemma slash_key_inject:
  assumes "CHR ''/'' \<notin> set ns" and "CHR ''/'' \<notin> set ns'" and "slash_key ns nm = slash_key ns' nm'"
  shows "ns = ns' \<and> nm = nm'"
proof -
  have tw: "takeWhile (\<lambda>c. c \<noteq> CHR ''/'') (slash_key a b) = a" if "CHR ''/'' \<notin> set a" for a b
    using that by (induction a) (auto simp: slash_key_def)
  have "ns = ns'" using tw [OF assms(1)] tw [OF assms(2)] assms(3) by metis
  with assms(3) show ?thesis by (simp add: slash_key_def)
qed

end
