(* ===== verification/Metrics_Stores.thy ===== *)
theory Metrics_Stores
  imports Kube_Types Go_Strings
begin

text \<open>
  The informer caches the collectors read (\<open>pkg/monitoring/metrics/stores.go\<close>, the atomic pointers
  of \<open>metrics.go\<close> and the set-up in \<open>informers.go\<close>). A \<open>cache.Store\<close> is the Go map of client-go's
  thread-safe store, an indexer adds the index functions registered by name. The interface the
  collectors rely on is the locale \<open>object_store\<close>.
\<close>

section \<open>Stores\<close>

type_synonym store = "any gomap"

definition store_add :: "string \<Rightarrow> any \<Rightarrow> store \<Rightarrow> store" where
  "store_add key obj s = gomap_upd key obj s"

definition store_delete :: "string \<Rightarrow> store \<Rightarrow> store" where
  "store_delete key s = gomap_del key s"

definition store_get :: "store \<Rightarrow> string \<Rightarrow> any option" where
  "store_get s key = map_of s key"

definition store_list :: "store \<Rightarrow> any list" where
  "store_list s = map snd s"

text \<open>What the collectors and the poller rely on.\<close>

locale object_store =
  fixes add :: "string \<Rightarrow> 'v \<Rightarrow> 's \<Rightarrow> 's"
    and del :: "string \<Rightarrow> 's \<Rightarrow> 's"
    and get :: "'s \<Rightarrow> string \<Rightarrow> 'v option"
    and lst :: "'s \<Rightarrow> 'v list"
    and empty :: "'s"
    and inv :: "'s \<Rightarrow> bool"
  assumes get_empty: "get empty key = None"
    and get_add: "inv s \<Longrightarrow> get (add key obj s) = (get s)(key \<mapsto> obj)"
    and get_del: "inv s \<Longrightarrow> get (del key s) = (get s)(key := None)"
    and lst_get: "inv s \<Longrightarrow> obj \<in> set (lst s) \<longleftrightarrow> (\<exists>key. get s key = Some obj)"
    and inv_empty: "inv empty"
    and inv_add: "inv s \<Longrightarrow> inv (add key obj s)"
    and inv_del: "inv s \<Longrightarrow> inv (del key s)"
begin

lemma listed_after_add: "inv s \<Longrightarrow> obj \<in> set (lst (add key obj s))"
  by (auto simp: lst_get inv_add get_add)

lemma listed_after_del: "inv s \<Longrightarrow> obj \<in> set (lst (del key s)) \<Longrightarrow> \<exists>k. k \<noteq> key \<and> get s k = Some obj"
  by (auto simp: lst_get inv_del get_del split: if_splits)

lemma list_empty: "lst empty = []"
  using lst_get [OF inv_empty] by (metis get_empty list.set_intros(1) neq_Nil_conv option.distinct(1))

end

interpretation ts: object_store store_add store_delete store_get store_list "[]" gomap_ok
proof unfold_locales
  show "gomap_ok s \<Longrightarrow> obj \<in> set (store_list s) \<longleftrightarrow> (\<exists>key. store_get s key = Some obj)" for s obj
    by (force simp: store_list_def store_get_def gomap_mem_iff [symmetric])
qed (simp_all add: fun_eq_iff store_get_def store_add_def store_delete_def go_map_simps gomap_ok_upd gomap_ok_del)

section \<open>Indexers\<close>

record indexer =
  ix_items :: store
  ix_funcs :: "(string \<times> (any \<Rightarrow> string list)) list"

definition by_index :: "indexer \<Rightarrow> string \<Rightarrow> string \<Rightarrow> any list res" where
  "by_index ix name v =
     (case map_of (ix_funcs ix) name of
        None \<Rightarrow> Inl (GoError ''Index with name does not exist'')
      | Some f \<Rightarrow> Inr (filter (\<lambda>obj. v \<in> set (f obj)) (store_list (ix_items ix))))"

definition add_indexer :: "string \<Rightarrow> (any \<Rightarrow> string list) \<Rightarrow> indexer \<Rightarrow> indexer res" where
  "add_indexer name f ix =
     (if name \<in> fst ` set (ix_funcs ix) then Inl (GoError ''indexer conflict'')
      else Inr (ix\<lparr>ix_funcs := ix_funcs ix @ [(name, f)]\<rparr>))"

lemma by_index_add:
  "add_indexer name f ix = Inr ix' \<Longrightarrow>
   by_index ix' name v = Inr (filter (\<lambda>obj. v \<in> set (f obj)) (store_list (ix_items ix)))"
  by (auto simp: add_indexer_def by_index_def map_add_def split: if_splits option.splits
      dest: map_of_SomeD)
    (force dest: map_of_SomeD)+

lemma add_indexer_items: "add_indexer name f ix = Inr ix' \<Longrightarrow> ix_items ix' = ix_items ix"
  by (auto simp: add_indexer_def split: if_splits)

definition NamespaceIndex :: string where
  "NamespaceIndex = ''namespace''"

definition ByMigrationUIDIndex :: string where
  "ByMigrationUIDIndex = ''byMigrationUID''"

text \<open>The index function registered on the migration informer.\<close>

definition migration_uid_index :: "any \<Rightarrow> string list" where
  "migration_uid_index obj = (case as_vmim obj of None \<Rightarrow> [] | Some m \<Rightarrow> [om_uid (vmim_meta m)])"

text \<open>\<open>cache.MetaNamespaceIndexFunc\<close>, which every informer carries.\<close>

definition namespace_index :: "any \<Rightarrow> string list" where
  "namespace_index obj = (case any_meta obj of None \<Rightarrow> [] | Some m \<Rightarrow> [om_namespace m])"

section \<open>The references the collectors load\<close>

record stores =
  s_vm :: "store option"
  s_vmi :: "store option"
  s_pvc :: "store option"
  s_instancetype :: "store option"
  s_cluster_instancetype :: "store option"
  s_preference :: "store option"
  s_cluster_preference :: "store option"
  s_controller_revision :: "store option"
  s_virt_handler_pod :: "store option"

record indexers =
  i_vmi_migration :: "indexer option"
  i_kv_pod :: "indexer option"

record mstate =
  stores_ref :: "stores option"
  indexers_ref :: "indexers option"

definition empty_stores :: stores where
  "empty_stores = \<lparr>s_vm = None, s_vmi = None, s_pvc = None, s_instancetype = None,
     s_cluster_instancetype = None, s_preference = None, s_cluster_preference = None,
     s_controller_revision = None, s_virt_handler_pod = None\<rparr>"

definition empty_indexers :: indexers where
  "empty_indexers = \<lparr>i_vmi_migration = None, i_kv_pod = None\<rparr>"

definition getStores :: "mstate \<Rightarrow> stores option" where
  "getStores st = stores_ref st"

definition getIndexers :: "mstate \<Rightarrow> indexers option" where
  "getIndexers st = indexers_ref st"

definition SetStores :: "stores \<Rightarrow> indexers \<Rightarrow> mstate \<Rightarrow> mstate" where
  "SetStores s i st = st\<lparr>stores_ref := Some s, indexers_ref := Some i\<rparr>"

text \<open>Reading a field through a nil \<open>*Stores\<close> panics.\<close>

definition deref :: "'a option \<Rightarrow> 'a res" where
  "deref p = (case p of None \<Rightarrow> Inl (GoPanic ''nil pointer dereference'') | Some x \<Rightarrow> Inr x)"

lemma deref_simps [simp]: "deref (Some x) = Inr x" "deref None = Inl (GoPanic ''nil pointer dereference'')"
  by (simp_all add: deref_def)

section \<open>Setting the informers up\<close>

datatype kind =
    KVM | KVMI | KPVC | KInstancetype | KClusterInstancetype | KPreference | KClusterPreference
  | KControllerRevision | KVMIM | KPod

text \<open>
  \<open>get_informer\<close> stands for the manager's cache: an error, an informer that does not expose its
  store (\<open>None\<close>), or the indexer behind one that does.
\<close>

definition informerFor :: "(kind \<Rightarrow> indexer option res) \<Rightarrow> kind \<Rightarrow> indexer res" where
  "informerFor get_informer k =
     bindR (get_informer k)
       (\<lambda>inf. case inf of None \<Rightarrow> Inl (GoError ''informer does not expose store/indexer'') | Some si \<Rightarrow> Inr si)"

definition wrap_err :: "string \<Rightarrow> 'a res \<Rightarrow> 'a res" where
  "wrap_err p r = (case r of Inl (GoError m) \<Rightarrow> Inl (GoError (p @ '': '' @ m)) | _ \<Rightarrow> r)"

lemma wrap_err_Inr [simp]: "wrap_err p r = Inr x \<longleftrightarrow> r = Inr x"
  by (auto simp: wrap_err_def split: sum.splits fault.splits)

lemma wrap_err_simps [simp]: "wrap_err p (Inr x) = Inr x"
  by (simp add: wrap_err_def)

definition SetupInformers :: "(kind \<Rightarrow> indexer option res) \<Rightarrow> mstate \<Rightarrow> mstate res" where
  "SetupInformers c st =
     bindR (wrap_err ''VM'' (informerFor c KVM)) (\<lambda>vm.
     bindR (wrap_err ''VMI'' (informerFor c KVMI)) (\<lambda>vmi.
     bindR (wrap_err ''PVC'' (informerFor c KPVC)) (\<lambda>pvc.
     bindR (wrap_err ''instancetype'' (informerFor c KInstancetype)) (\<lambda>it.
     bindR (wrap_err ''clusterInstancetype'' (informerFor c KClusterInstancetype)) (\<lambda>cit.
     bindR (wrap_err ''preference'' (informerFor c KPreference)) (\<lambda>pref.
     bindR (wrap_err ''clusterPreference'' (informerFor c KClusterPreference)) (\<lambda>cpref.
     bindR (wrap_err ''controllerRevision'' (informerFor c KControllerRevision)) (\<lambda>cr.
     bindR (wrap_err ''VMIM'' (informerFor c KVMIM)) (\<lambda>vmim.
     bindR (wrap_err ''VMIM index'' (add_indexer ByMigrationUIDIndex migration_uid_index vmim)) (\<lambda>vmim'.
     bindR (wrap_err ''pod'' (informerFor c KPod)) (\<lambda>pod.
       Inr (SetStores
         \<lparr>s_vm = Some (ix_items vm), s_vmi = Some (ix_items vmi), s_pvc = Some (ix_items pvc),
          s_instancetype = Some (ix_items it), s_cluster_instancetype = Some (ix_items cit),
          s_preference = Some (ix_items pref), s_cluster_preference = Some (ix_items cpref),
          s_controller_revision = Some (ix_items cr), s_virt_handler_pod = Some (ix_items pod)\<rparr>
         \<lparr>i_vmi_migration = Some vmim', i_kv_pod = Some pod\<rparr> st))))))))))))"

text \<open>The condition for which \<open>setupVMStats\<close> waits before it starts the poller.\<close>

definition stores_ready :: "mstate \<Rightarrow> bool" where
  "stores_ready st = (case getStores st of None \<Rightarrow> False | Some s \<Rightarrow> s_vmi s \<noteq> None \<and> s_virt_handler_pod s \<noteq> None)"

lemma SetupInformers_stores: "SetupInformers c st = Inr st' \<Longrightarrow> stores_ready st'"
  by (auto simp: SetupInformers_def go_err SetStores_def stores_ready_def getStores_def)

text \<open>A successful informer set-up stores every cache the collectors read and registers the
  migration-UID index, so the poller's wait ends and a lookup of a migration by UID finds exactly
  the migrations with that UID.\<close>

theorem SetupInformers_ready:
  assumes "SetupInformers c st = Inr st'"
  shows "stores_ready st' \<and>
    (\<exists>ix vmim. indexers_ref st' = Some ix \<and> i_vmi_migration ix = Some vmim \<and>
       by_index vmim ByMigrationUIDIndex uid =
         Inr (filter (\<lambda>obj. uid \<in> set (migration_uid_index obj)) (store_list (ix_items vmim))))"
  using assms
  by (auto simp: SetupInformers_def go_err SetStores_def stores_ready_def getStores_def
      add_indexer_items by_index_add)

definition demo_informers :: "kind \<Rightarrow> indexer option res" where
  "demo_informers k = Inr (Some \<lparr>ix_items = [], ix_funcs = [(NamespaceIndex, namespace_index)]\<rparr>)"

lemma demo_informers_setup: "\<exists>st'. SetupInformers demo_informers \<lparr>stores_ref = None, indexers_ref = None\<rparr> = Inr st'"
  by (simp add: SetupInformers_def informerFor_def demo_informers_def add_indexer_def
      NamespaceIndex_def ByMigrationUIDIndex_def)

theorem SetupInformers_ready_witness:
  "\<exists>st'. SetupInformers demo_informers \<lparr>stores_ref = None, indexers_ref = None\<rparr> = Inr st' \<and> stores_ready st'"
proof -
  obtain st' where "SetupInformers demo_informers \<lparr>stores_ref = None, indexers_ref = None\<rparr> = Inr st'"
    using demo_informers_setup by blast
  with SetupInformers_ready [OF this] show ?thesis by blast
qed

end
