(* ===== verification/Metrics_Helpers.thy ===== *)
theory Metrics_Helpers
  imports Metrics_Stores
begin

text \<open>
  The pure helpers of the collectors (\<open>pkg/monitoring/metrics/helpers.go\<close>): classification of VM
  states, vCPU and memory arithmetic, label sanitising, network lookup, condition times, eviction,
  the vendor whitelist and the reading of guest and migration state.
\<close>

section \<open>Constants\<close>

definition NoneS :: string where "NoneS = ''''"
definition Other :: string where "Other = ''<other>''"
definition ModelNone :: string where "ModelNone = ''<none>''"
definition AnnotationPrefix :: string where "AnnotationPrefix = ''vm.kubevirt.io/''"
definition InstancetypeVendorLabel :: string where
  "InstancetypeVendorLabel = ''instancetype.kubevirt.io/vendor''"
definition BindingTypeCore :: string where "BindingTypeCore = ''core''"
definition BindingTypePlugin :: string where "BindingTypePlugin = ''plugin''"

definition WhitelistedInstanceTypeVendors :: "string list" where
  "WhitelistedInstanceTypeVendors = [''kubevirt.io'', ''redhat.com'']"

definition StartingStatuses :: "string list" where
  "StartingStatuses = [''Provisioning'', ''Starting'', ''WaitingForVolumeBinding'']"

definition RunningStatuses :: "string list" where
  "RunningStatuses = [''Running'']"

definition MigratingStatuses :: "string list" where
  "MigratingStatuses = [''Migrating'']"

definition NonRunningStatuses :: "string list" where
  "NonRunningStatuses = [''Stopped'', ''Paused'', ''Stopping'', ''Terminating'']"

definition ErrorStatuses :: "string list" where
  "ErrorStatuses = [''CrashLoopBackOff'', ''Unknown'', ''ErrorUnschedulable'', ''ErrImagePull'',
     ''ImagePullBackOff'', ''ErrorPvcNotFound'', ''DataVolumeError'']"

lemmas status_lists = StartingStatuses_def RunningStatuses_def MigratingStatuses_def
  NonRunningStatuses_def ErrorStatuses_def

section \<open>CPU and memory\<close>

definition GetNumberOfVCPUs :: "cpu_spec option \<Rightarrow> int" where
  "GetNumberOfVCPUs spec =
     (case spec of None \<Rightarrow> 1
      | Some cpu \<Rightarrow>
          (let vCPUs = cpu_cores cpu;
               vCPUs = (if cpu_sockets cpu \<noteq> 0
                        then (if vCPUs = 0 then cpu_sockets cpu else vCPUs * cpu_sockets cpu) else vCPUs);
               vCPUs = (if cpu_threads cpu \<noteq> 0
                        then (if vCPUs = 0 then cpu_threads cpu else vCPUs * cpu_threads cpu) else vCPUs)
           in if vCPUs = 0 then 1 else uint vCPUs))"

definition ResourceMemory :: string where "ResourceMemory = ''memory''"
definition ResourceCPU :: string where "ResourceCPU = ''cpu''"
definition ResourceStorage :: string where "ResourceStorage = ''storage''"

text \<open>\<open>ResourceList.Name\<close>: the listed quantity, or a zero quantity.\<close>

definition rl_get :: "quantity gomap \<Rightarrow> string \<Rightarrow> quantity" where
  "rl_get rl n = (case map_of rl n of Some q \<Rightarrow> q | None \<Rightarrow> zero_quantity)"

definition GetVirtualMemory :: "vmi_spec \<Rightarrow> quantity" where
  "GetVirtualMemory sp =
     (let d = spec_domain sp in
      case Option.bind (dom_memory d) mem_guest of
        Some g \<Rightarrow> g
      | None \<Rightarrow>
          (let reqMemory = rl_get (dom_requests d) ResourceMemory;
               isReqMemSet = (map_of (dom_requests d) ResourceMemory \<noteq> None)
           in case map_of (dom_limits d) ResourceMemory of
                Some v \<Rightarrow> (if \<not> isReqMemSet then v else reqMemory)
              | None \<Rightarrow> reqMemory))"

section \<open>Annotations and statuses\<close>

definition GetSystemInfoFromAnnotations :: "string gomap \<Rightarrow> string \<times> string \<times> string" where
  "GetSystemInfoFromAnnotations annotations =
     (str_at annotations (AnnotationPrefix @ ''os''),
      str_at annotations (AnnotationPrefix @ ''workload''),
      str_at annotations (AnnotationPrefix @ ''flavor''))"

fun ContainsStatus :: "string \<Rightarrow> string list \<Rightarrow> bool" where
  "ContainsStatus target [] = False"
| "ContainsStatus target (elem # elems) = (if elem = target then True else ContainsStatus target elems)"

lemma ContainsStatus_iff [simp]: "ContainsStatus t es \<longleftrightarrow> t \<in> set es"
  by (induction es) auto

definition GetVMStatusGroup :: "string \<Rightarrow> string" where
  "GetVMStatusGroup status =
     (if ContainsStatus status StartingStatuses then ''starting''
      else if ContainsStatus status RunningStatuses then ''running''
      else if ContainsStatus status MigratingStatuses then ''migrating''
      else if ContainsStatus status NonRunningStatuses then ''non_running''
      else if ContainsStatus status ErrorStatuses then ''error''
      else ''<unknown>'')"

section \<open>Label names\<close>

definition label_char :: "char \<Rightarrow> bool" where
  "label_char c \<longleftrightarrow> (97 \<le> byte c \<and> byte c \<le> 122) \<or> (65 \<le> byte c \<and> byte c \<le> 90) \<or>
     (48 \<le> byte c \<and> byte c \<le> 57) \<or> c = CHR ''_''"

definition isValidLabelStart :: "char \<Rightarrow> bool" where
  "isValidLabelStart c \<longleftrightarrow> (97 \<le> byte c \<and> byte c \<le> 122) \<or> (65 \<le> byte c \<and> byte c \<le> 90) \<or> c = CHR ''_''"

text \<open>
  \<open>InvalidLabelCharRE.ReplaceAllString(name, "_")\<close>: the expression consumes one rune at a time, so
  a multi-byte rune becomes a single underscore.
\<close>

fun replace_invalid :: "string \<Rightarrow> string" where
  "replace_invalid [] = []"
| "replace_invalid (c # cs) =
     (if label_char c then c # replace_invalid cs
      else CHR ''_'' # replace_invalid (drop (rune_width (c # cs) - 1) cs))"

definition SanitizeLabelName :: "string \<Rightarrow> string" where
  "SanitizeLabelName name =
     (let sanitized = replace_invalid name in
      case sanitized of
        [] \<Rightarrow> ''_'' @ sanitized
      | c # _ \<Rightarrow> (if \<not> isValidLabelStart c then ''_'' @ sanitized else sanitized))"

definition valid_label_name :: "string \<Rightarrow> bool" where
  "valid_label_name s = (case s of [] \<Rightarrow> False | c # _ \<Rightarrow> isValidLabelStart c \<and> (\<forall>d \<in> set s. label_char d))"

definition NamespacedKey :: "string \<Rightarrow> string \<Rightarrow> string" where
  "NamespacedKey ns nm = slash_key ns nm"

section \<open>Networks\<close>

definition GetBinding :: "vnic \<Rightarrow> string \<times> string" where
  "GetBinding nic =
     (if nic_masquerade nic then (BindingTypeCore, ''masquerade'')
      else if nic_bridge nic then (BindingTypeCore, ''bridge'')
      else if nic_sriov nic then (BindingTypeCore, ''sriov'')
      else case nic_binding nic of Some n \<Rightarrow> (BindingTypePlugin, n) | None \<Rightarrow> ('''', ''''))"

fun GetNetworkName :: "string \<Rightarrow> network list \<Rightarrow> string \<times> bool" where
  "GetNetworkName ifaceName [] = ('''', False)"
| "GetNetworkName ifaceName (n # ns) =
     (if net_name n = ifaceName then
        (if net_pod n then (''pod networking'', True)
         else case net_multus n of Some m \<Rightarrow> (m, True) | None \<Rightarrow> GetNetworkName ifaceName ns)
      else GetNetworkName ifaceName ns)"

section \<open>Conditions\<close>

definition transition_conditions :: "string list" where
  "transition_conditions = [''Ready'', ''Failure'', ''Paused'']"

fun last_transition_loop :: "vm_condition list \<Rightarrow> int \<Rightarrow> int" where
  "last_transition_loop [] latest = latest"
| "last_transition_loop (c # cs) latest =
     (if ContainsStatus (vmc_type c) transition_conditions \<and> latest < vmc_time c
      then last_transition_loop cs (vmc_time c) else last_transition_loop cs latest)"

definition GetLastConditionTransitionTime :: "vm \<Rightarrow> int" where
  "GetLastConditionTransitionTime v = last_transition_loop (vm_conditions v) (- 1)"

definition OutdatedLauncherImageLabel :: string where
  "OutdatedLauncherImageLabel = ''kubevirt.io/outdatedLauncherImage''"

definition IsVMIOutdated :: "vmi \<Rightarrow> bool" where
  "IsVMIOutdated v \<longleftrightarrow> map_of (om_labels (vmi_meta v)) OutdatedLauncherImageLabel \<noteq> None"

fun condition_with_status :: "vmi_condition list \<Rightarrow> string \<Rightarrow> string \<Rightarrow> bool" where
  "condition_with_status [] condType status = False"
| "condition_with_status (c # cs) condType status =
     (if vc_type c = condType then vc_status c = status else condition_with_status cs condType status)"

definition hasConditionWithStatus :: "vmi \<Rightarrow> string \<Rightarrow> string \<Rightarrow> bool" where
  "hasConditionWithStatus v condType status = condition_with_status (st_conditions (vmi_the_status v)) condType status"

definition IsVMIEvictable :: "vmi \<Rightarrow> bool" where
  "IsVMIEvictable v =
     (case spec_eviction (vmi_the_spec v) of
        None \<Rightarrow> True
      | Some s \<Rightarrow>
          (if s = ''LiveMigrate'' then hasConditionWithStatus v ''LiveMigratable'' ''True''
           else if s = ''LiveMigrateIfPossible'' then hasConditionWithStatus v ''LiveMigratable'' ''True''
           else True))"

section \<open>Stores, guest agent, migration\<close>

definition FetchResourceName :: "string \<Rightarrow> store option \<Rightarrow> string" where
  "FetchResourceName key st =
     (case st of None \<Rightarrow> Other
      | Some s \<Rightarrow>
          (case store_get s key of None \<Rightarrow> Other
           | Some obj \<Rightarrow>
               (case any_meta obj of None \<Rightarrow> Other
                | Some apiObj \<Rightarrow>
                    (let vendorName = str_at (om_labels apiObj) InstancetypeVendorLabel
                     in if vendorName \<in> set WhitelistedInstanceTypeVendors then om_name apiObj else Other))))"

definition GetGuestOSInfo :: "vmi \<Rightarrow> string \<times> string \<times> string \<times> string" where
  "GetGuestOSInfo v =
     (let g = st_guest_os (vmi_the_status v) in
      if g = zero_guest_os then ('''', '''', '''', '''')
      else (gi_kernel_release g, gi_machine g, gi_name g, gi_version_id g))"

definition CalculateMigrationStatus :: "migration_state \<Rightarrow> string" where
  "CalculateMigrationStatus ms =
     (if \<not> ms_completed ms then '''' else if ms_failed ms then ''failed'' else ''succeeded'')"

definition GetVMIPhase :: "vmi \<Rightarrow> string" where
  "GetVMIPhase v = to_lower (st_phase (vmi_the_status v))"

section \<open>Properties\<close>

lemma uint_mult_small: "uint (a::32 word) * uint b < 2 ^ 32 \<Longrightarrow> uint (a * b) = uint a * uint b"
  using uint_mult_lem [of a b] by simp

lemma uint_max_one: "max 1 (uint (w::32 word)) = (if w = 0 then 1 else uint w)"
proof (cases "w = 0")
  case False
  then have "uint w \<noteq> 0" by (simp add: uint_0_iff)
  with uint_ge_0 [of w] have "1 \<le> uint w" by linarith
  with False show ?thesis by simp
qed simp

text \<open>As long as the product of the topology factors fits 32 bits, the number of vCPUs is the
  product of cores, sockets and threads, where an unset (zero) factor counts as one.\<close>

theorem GetNumberOfVCPUs_product:
  assumes "max 1 (uint (cpu_cores c)) * max 1 (uint (cpu_sockets c)) * max 1 (uint (cpu_threads c)) < 2 ^ 32"
  shows "GetNumberOfVCPUs (Some c) =
    max 1 (uint (cpu_cores c)) * max 1 (uint (cpu_sockets c)) * max 1 (uint (cpu_threads c))"
proof -
  define x where "x = cpu_cores c"
  define y where "y = cpu_sockets c"
  define z where "z = cpu_threads c"
  note xyz = x_def [symmetric] y_def [symmetric] z_def [symmetric]
  have bound: "max 1 (uint x) * max 1 (uint y) * max 1 (uint z) < 2 ^ 32"
    using assms by (simp add: xyz)
  have xy: "uint (x * y) = uint x * uint y" if "x \<noteq> 0" "y \<noteq> 0"
  proof (rule uint_mult_small)
    have "max 1 (uint x) * max 1 (uint y) * 1 \<le> max 1 (uint x) * max 1 (uint y) * max 1 (uint z)"
      by (intro mult_left_mono) auto
    with bound that show "uint x * uint y < 2 ^ 32" by (simp add: uint_max_one)
  qed
  have xy0: "x * y \<noteq> 0" if "x \<noteq> 0" "y \<noteq> 0"
    using xy [OF that] that by (metis mult_eq_0_iff uint_0_iff)
  define p where "p = (if x = 0 then (if y = 0 then 1 else y) else (if y = 0 then x else x * y))"
  have p: "uint p = max 1 (uint x) * max 1 (uint y)" and p0: "p \<noteq> 0"
    using xy xy0 by (auto simp: p_def uint_max_one)
  have pz: "uint (p * z) = uint p * uint z" if "z \<noteq> 0"
    using bound that by (intro uint_mult_small) (simp add: p uint_max_one [of z])
  then have pz0: "p * z \<noteq> 0" if "z \<noteq> 0"
    using that p0 by (metis mult_eq_0_iff uint_0_iff)
  have "GetNumberOfVCPUs (Some c) = (if z = 0 then uint p else uint (p * z))"
    using pz0 p0 xy0
    by (auto simp: GetNumberOfVCPUs_def xyz p_def Let_def split: if_splits)
  with p pz show ?thesis by (auto simp: xyz uint_max_one [of z])
qed

theorem GetNumberOfVCPUs_product_witness:
  "GetNumberOfVCPUs (Some \<lparr>cpu_cores = 4, cpu_sockets = 2, cpu_threads = 0\<rparr>) = 8"
  using GetNumberOfVCPUs_product [of "\<lparr>cpu_cores = 4, cpu_sockets = 2, cpu_threads = 0\<rparr>"] by simp

lemma GetNumberOfVCPUs_range: "1 \<le> GetNumberOfVCPUs spec \<and> GetNumberOfVCPUs spec < 2 ^ 32"
proof -
  have "1 \<le> uint w" if "w \<noteq> 0" for w :: "32 word"
    using that uint_max_one [of w] by (simp add: max_def split: if_splits)
  moreover have "uint w < 2 ^ 32" for w :: "32 word"
    using uint_lt2p [of w] by simp
  ultimately show ?thesis by (auto simp: GetNumberOfVCPUs_def Let_def split: option.splits)
qed

lemma label_char_underscore [simp]: "label_char (CHR ''_'')" "isValidLabelStart (CHR ''_'')"
  by (simp_all add: label_char_def isValidLabelStart_def)

lemma valid_start_label_char: "isValidLabelStart c \<Longrightarrow> label_char c"
  by (auto simp: isValidLabelStart_def label_char_def)

lemma replace_invalid_chars: "d \<in> set (replace_invalid s) \<Longrightarrow> label_char d"
  by (induction s rule: replace_invalid.induct) (auto split: if_splits)

lemma replace_invalid_id: "\<forall>d \<in> set s. label_char d \<Longrightarrow> replace_invalid s = s"
  by (induction s rule: replace_invalid.induct) auto

lemma SanitizeLabelName_valid: "valid_label_name (SanitizeLabelName s)"
  using replace_invalid_chars [of _ s]
  by (auto simp: SanitizeLabelName_def valid_label_name_def Let_def split: list.splits)

lemma SanitizeLabelName_id: "valid_label_name t \<Longrightarrow> SanitizeLabelName t = t"
  by (cases t) (auto simp: SanitizeLabelName_def valid_label_name_def replace_invalid_id)


lemma Max_insert2: "finite T \<Longrightarrow> Max (insert l (insert x T)) = Max (insert (max l (x::int)) T)"
  by (cases "T = {}") (simp_all add: max.assoc)

lemma last_transition_loop_Max:
  "last_transition_loop cs l =
     Max (insert l (vmc_time ` {c \<in> set cs. vmc_type c \<in> set transition_conditions}))"
proof (induction cs arbitrary: l)
  case Nil
  show ?case by simp
next
  case (Cons c cs)
  let ?T = "vmc_time ` {c \<in> set cs. vmc_type c \<in> set transition_conditions}"
  have fin: "finite ?T" by simp
  show ?case
  proof (cases "vmc_type c \<in> set transition_conditions")
    case True
    have "vmc_time ` {d \<in> set (c # cs). vmc_type d \<in> set transition_conditions} = insert (vmc_time c) ?T"
      using True by auto
    moreover have "Max (insert l (insert (vmc_time c) ?T)) = Max (insert (max l (vmc_time c)) ?T)"
      using fin by (rule Max_insert2)
    ultimately show ?thesis using True Cons.IH [of l] Cons.IH [of "vmc_time c"]
      by (auto simp: max_def)
  next
    case False
    then have "{d \<in> set (c # cs). vmc_type d \<in> set transition_conditions} =
        {c \<in> set cs. vmc_type c \<in> set transition_conditions}" by auto
    with False Cons.IH [of l] show ?thesis by simp
  qed
qed

text \<open>The last transition time of a VM is the latest time of its Ready, Failure and Paused
  conditions, and -1 when it has none of them (or all of them are older).\<close>

theorem GetLastConditionTransitionTime_max:
  "GetLastConditionTransitionTime v =
     Max (insert (- 1) {vmc_time c |c. c \<in> set (vm_conditions v) \<and>
       (vmc_type c = ''Ready'' \<or> vmc_type c = ''Failure'' \<or> vmc_type c = ''Paused'')})"
proof -
  have "vmc_time ` {c \<in> set (vm_conditions v). vmc_type c \<in> set transition_conditions} =
     {vmc_time c |c. c \<in> set (vm_conditions v) \<and>
       (vmc_type c = ''Ready'' \<or> vmc_type c = ''Failure'' \<or> vmc_type c = ''Paused'')}"
    by (auto simp: transition_conditions_def)
  then show ?thesis by (simp add: GetLastConditionTransitionTime_def last_transition_loop_Max)
qed

text \<open>The name of an instance type or preference is exposed as a label only if the object is
  in the store and carries a whitelisted vendor label; every other case yields the constant
  \<open>Other\<close>, so names of user-defined objects never leak.\<close>

theorem FetchResourceName_whitelist:
  "FetchResourceName key st = Other \<or>
   (\<exists>s obj m. st = Some s \<and> store_get s key = Some obj \<and> any_meta obj = Some m \<and>
      map_of (om_labels m) InstancetypeVendorLabel \<in> {Some ''kubevirt.io'', Some ''redhat.com''} \<and>
      FetchResourceName key st = om_name m)"
proof (cases "FetchResourceName key st = Other")
  case False
  then obtain s obj m where st: "st = Some s" "store_get s key = Some obj" "any_meta obj = Some m"
    and w: "str_at (om_labels m) InstancetypeVendorLabel \<in> set WhitelistedInstanceTypeVendors"
    by (auto simp: FetchResourceName_def Let_def split: option.splits if_splits)
  from w have "map_of (om_labels m) InstancetypeVendorLabel \<in> {Some ''kubevirt.io'', Some ''redhat.com''}"
    by (auto simp: str_at_def WhitelistedInstanceTypeVendors_def split: option.splits)
  moreover have "FetchResourceName key st = om_name m" using st w by (simp add: FetchResourceName_def)
  ultimately show ?thesis using st by blast
qed simp

lemma GetNetworkName_find:
  "GetNetworkName nm ns =
     (case find (\<lambda>n. net_name n = nm \<and> (net_pod n \<or> net_multus n \<noteq> None)) ns of
        None \<Rightarrow> ('''', False)
      | Some n \<Rightarrow> (if net_pod n then ''pod networking'' else the (net_multus n), True))"
  by (induction ns) (auto split: option.splits)

end
