(* ===== verification/Go_Float.thy ===== *)
theory Go_Float
  imports Go_Prelude "HOL-Library.Log_Nat"
begin

text \<open>
  Go's \<open>float64\<close> arithmetic as far as the metrics use it: the finite double nearest to a rational
  (round to nearest, ties to even, 53 significant bits). Every value the code computes lies
  between \<open>1e-9\<close> and \<open>2^75\<close> in magnitude or is zero, far inside the range of normal doubles, so
  the exponent is not bounded in the model and infinities and NaN do not occur.
\<close>

type_synonym float64 = rat

section \<open>The exponent of a positive rational\<close>

definition frac_exp :: "rat \<Rightarrow> int" where
  "frac_exp x =
     (let (n, d) = quotient_of x; e = int (floorlog 2 (nat n)) - int (floorlog 2 (nat d))
      in if 2 powi e \<le> x then e else e - 1)"

lemma powi2_le [simp]: "(2::rat) powi a \<le> 2 powi b \<longleftrightarrow> a \<le> b"
  using power_int_increasing [of a b "2::rat"] power_int_strict_increasing [of b a "2::rat"]
  by (metis linorder_not_le one_le_numeral one_less_numeral_iff semiring_norm(76))

lemma powi2_less [simp]: "(2::rat) powi a < 2 powi b \<longleftrightarrow> a < b"
  by (simp add: not_le [symmetric] del: not_le)

lemma floorlog_2_bounds:
  assumes "0 < (n::nat)"
  shows "2 ^ (floorlog 2 n - 1) \<le> n" and "n < 2 ^ floorlog 2 n"
  using floorlog_bounds [of n 2] assms by auto

lemma frac_exp_bounds:
  assumes "0 < (x::rat)"
  shows "2 powi frac_exp x \<le> x" and "x < 2 powi (frac_exp x + 1)"
proof -
  obtain n d where q: "quotient_of x = (n, d)" by (cases "quotient_of x")
  have d: "0 < d" using quotient_of_denom_pos [OF q] .
  have x: "x = of_int n / of_int d" using quotient_of_div [OF q] .
  have n: "0 < n" using assms d unfolding x by (simp add: zero_less_divide_iff)
  define a where "a = floorlog 2 (nat n)"
  define b where "b = floorlog 2 (nat d)"
  have pos: "0 < nat n" "0 < nat d" using n d by auto
  have a1: "1 \<le> a" and b1: "1 \<le> b" using pos by (simp_all add: a_def b_def floorlog_def)
  have "(2::nat) ^ (a - 1) \<le> nat n" "nat n < 2 ^ a" "(2::nat) ^ (b - 1) \<le> nat d" "nat d < 2 ^ b"
    using floorlog_2_bounds [OF pos(1)] floorlog_2_bounds [OF pos(2)] by (auto simp: a_def b_def)
  then have "rat_of_nat (2 ^ (a - 1)) \<le> rat_of_nat (nat n)" "rat_of_nat (nat n) < rat_of_nat (2 ^ a)"
    "rat_of_nat (2 ^ (b - 1)) \<le> rat_of_nat (nat d)" "rat_of_nat (nat d) < rat_of_nat (2 ^ b)"
    by (simp_all only: of_nat_le_iff of_nat_less_iff)
  then have bn: "(2::rat) ^ (a - 1) \<le> of_int n" "(of_int n::rat) < 2 ^ a"
    and bd: "(2::rat) ^ (b - 1) \<le> of_int d" "(of_int d::rat) < 2 ^ b"
    using n d by (simp_all add: of_nat_nat)
  define e where "e = int a - int b"
  have dpos: "(0::rat) < of_int d" using d by simp
  have "of_int n / of_int d < (2::rat) ^ a / 2 ^ (b - 1)"
    using bn bd dpos n by (intro frac_less) auto
  also have "\<dots> = 2 powi (int a - int (b - 1))"
    by (simp add: power_int_diff)
  also have "int a - int (b - 1) = e + 1" using b1 by (simp add: e_def of_nat_diff)
  finally have up: "x < 2 powi (e + 1)" by (simp add: x)
  have "(2::rat) ^ (a - 1) / 2 ^ b < of_int n / of_int d"
    using bn bd dpos n by (intro frac_less2) auto
  moreover have "(2::rat) ^ (a - 1) / 2 ^ b = 2 powi (e - 1)"
  proof -
    have "int (a - 1) - int b = e - 1" using a1 by (simp add: e_def of_nat_diff)
    then show ?thesis by (metis power_int_diff power_int_of_nat zero_neq_numeral)
  qed
  ultimately have lo: "2 powi (e - 1) \<le> x" by (simp add: x)
  have fe: "frac_exp x = (if 2 powi e \<le> x then e else e - 1)"
    by (simp add: frac_exp_def q a_def b_def e_def Let_def)
  show "2 powi frac_exp x \<le> x" using lo by (simp add: fe)
  show "x < 2 powi (frac_exp x + 1)" using up by (auto simp: fe)
qed

lemma frac_exp_unique:
  assumes "2 powi e \<le> x" and "x < (2::rat) powi (e + 1)"
  shows "frac_exp x = e"
proof -
  have pos: "0 < x" using assms(1) by (rule less_le_trans [rotated]) simp
  note b = frac_exp_bounds [OF pos]
  have "(2::rat) powi frac_exp x < 2 powi (e + 1)" using b(1) assms(2) by (rule le_less_trans)
  then have "frac_exp x < e + 1" by simp
  moreover have "(2::rat) powi e < 2 powi (frac_exp x + 1)" using assms(1) b(2) by (rule le_less_trans)
  then have "e < frac_exp x + 1" by simp
  ultimately show ?thesis by simp
qed

lemma frac_exp_mono:
  assumes "0 < x" and "x \<le> y"
  shows "frac_exp x \<le> frac_exp y"
proof -
  have "(2::rat) powi frac_exp x \<le> x" using frac_exp_bounds(1) [OF assms(1)] .
  also have "x \<le> y" by (rule assms(2))
  also have "y < 2 powi (frac_exp y + 1)" using frac_exp_bounds(2) [of y] assms by simp
  finally have "frac_exp x < frac_exp y + 1" by simp
  then show ?thesis by simp
qed

lemma frac_exp_shift: "0 < x \<Longrightarrow> frac_exp (2 powi k * x) = k + frac_exp x"
  using frac_exp_bounds [of x]
  by (intro frac_exp_unique) (simp_all add: power_int_add add.assoc)

section \<open>Round to nearest, ties to even\<close>

definition round_even :: "rat \<Rightarrow> int" where
  "round_even r =
     (let f = \<lfloor>r\<rfloor>; d = r - of_int f
      in if d < 1 / 2 then f else if 1 / 2 < d then f + 1 else if even f then f else f + 1)"

lemma round_even_of_int [simp]: "round_even (of_int i) = i"
  by (simp add: round_even_def)

lemma round_even_near: "\<bar>of_int (round_even r) - r\<bar> \<le> 1 / 2"
proof -
  have "of_int \<lfloor>r\<rfloor> \<le> r" and "r < of_int \<lfloor>r\<rfloor> + 1" by linarith+
  then show ?thesis by (simp add: round_even_def Let_def abs_le_iff)
qed

lemma round_even_mono:
  assumes "r \<le> s"
  shows "round_even r \<le> round_even s"
proof (cases "\<lfloor>r\<rfloor> = \<lfloor>s\<rfloor>")
  case True
  with assms show ?thesis by (auto simp: round_even_def Let_def)
next
  case False
  then have "\<lfloor>r\<rfloor> + 1 \<le> \<lfloor>s\<rfloor>" using floor_mono [OF assms] by simp
  then show ?thesis by (auto simp: round_even_def Let_def)
qed

definition ulp :: "rat \<Rightarrow> rat" where
  "ulp x = 2 powi (frac_exp x - 52)"

definition rnd_pos :: "rat \<Rightarrow> float64" where
  "rnd_pos x = of_int (round_even (x / ulp x)) * ulp x"

definition rnd :: "rat \<Rightarrow> float64" where
  "rnd x = (if x = 0 then 0 else if 0 < x then rnd_pos x else - rnd_pos (- x))"

lemma ulp_pos [simp]: "0 < ulp x"
  by (simp add: ulp_def)

lemma rnd_pos_range:
  assumes "0 < x"
  shows "2 powi frac_exp x \<le> rnd_pos x" and "rnd_pos x \<le> 2 powi (frac_exp x + 1)"
proof -
  note b = frac_exp_bounds [OF assms]
  have u: "2 powi frac_exp x = of_int (2 ^ 52) * ulp x"
    by (simp add: ulp_def power_int_diff)
  have u1: "2 powi (frac_exp x + 1) = of_int (2 ^ 53) * ulp x"
    by (simp add: ulp_def power_int_diff power_int_add)
  have "of_int (2 ^ 52) \<le> x / ulp x"
    using b(1) unfolding u by (simp add: le_divide_eq)
  then have "round_even (of_int (2 ^ 52)) \<le> round_even (x / ulp x)" by (rule round_even_mono)
  then have "(of_int (2 ^ 52) :: rat) \<le> of_int (round_even (x / ulp x))"
    by (simp only: round_even_of_int of_int_le_iff)
  then show "2 powi frac_exp x \<le> rnd_pos x"
    unfolding u rnd_pos_def by (rule mult_right_mono) (simp add: less_imp_le)
  have "x / ulp x \<le> of_int (2 ^ 53)"
    using b(2) unfolding u1 by (simp add: divide_le_eq)
  then have "round_even (x / ulp x) \<le> round_even (of_int (2 ^ 53))" by (rule round_even_mono)
  then have "of_int (round_even (x / ulp x)) \<le> (of_int (2 ^ 53) :: rat)"
    by (simp only: round_even_of_int of_int_le_iff)
  then show "rnd_pos x \<le> 2 powi (frac_exp x + 1)"
    unfolding u1 rnd_pos_def by (rule mult_right_mono) (simp add: less_imp_le)
qed

lemma rnd_pos_mono:
  assumes "0 < x" and "x \<le> y"
  shows "rnd_pos x \<le> rnd_pos y"
proof (cases "frac_exp x = frac_exp y")
  case True
  then have u: "ulp x = ulp y" by (simp add: ulp_def)
  have "x / ulp x \<le> y / ulp x" using assms(2) by (simp add: divide_right_mono less_imp_le)
  then show ?thesis unfolding rnd_pos_def u
    by (intro mult_right_mono) (simp_all add: round_even_mono less_imp_le)
next
  case False
  with frac_exp_mono [OF assms] have "frac_exp x + 1 \<le> frac_exp y" by simp
  then have "(2::rat) powi (frac_exp x + 1) \<le> 2 powi frac_exp y" by simp
  with rnd_pos_range(2) [OF assms(1)] rnd_pos_range(1) [of y] assms show ?thesis
    by (meson order_trans less_le_trans)
qed

lemma rnd_pos_gt_0: "0 < x \<Longrightarrow> 0 < rnd_pos x"
  using rnd_pos_range(1) [of x] by (rule less_le_trans [rotated]) simp_all

lemma rnd_0 [simp]: "rnd 0 = 0"
  by (simp add: rnd_def)

lemma rnd_minus [simp]: "rnd (- x) = - rnd x"
  by (auto simp: rnd_def)

lemma rnd_pos_iff [simp]: "0 < rnd x \<longleftrightarrow> 0 < x"
  using rnd_pos_gt_0 [of x] rnd_pos_gt_0 [of "- x"] by (auto simp: rnd_def)

lemma rnd_nonneg [simp]: "0 \<le> x \<Longrightarrow> 0 \<le> rnd x"
  using rnd_pos_gt_0 [of x] by (auto simp: rnd_def)

lemma rnd_mono:
  assumes "x \<le> y"
  shows "rnd x \<le> rnd y"
proof (cases "0 < x \<or> y < 0")
  case True
  with assms rnd_pos_mono [of x y] rnd_pos_mono [of "- y" "- x"] show ?thesis by (auto simp: rnd_def)
next
  case False
  with rnd_pos_gt_0 [of y] rnd_pos_gt_0 [of "- x"] show ?thesis by (auto simp: rnd_def)
qed

text \<open>Scaling by a power of two is exact.\<close>

lemma ulp_shift: "0 < x \<Longrightarrow> ulp (2 powi k * x) = 2 powi k * ulp x"
  by (simp add: ulp_def frac_exp_shift power_int_diff power_int_add)

lemma rnd_pos_shift: "0 < x \<Longrightarrow> rnd_pos (2 powi k * x) = 2 powi k * rnd_pos x"
  by (simp add: rnd_pos_def ulp_shift)

lemma rnd_shift: "rnd (2 powi k * x) = 2 powi k * rnd x"
proof -
  have p: "(0::rat) < 2 powi k" by simp
  consider "x = 0" | "0 < x" | "x < 0" by linarith
  then show ?thesis
  proof cases
    case 1
    then show ?thesis by simp
  next
    case 2
    with p have "0 < 2 powi k * x" by (rule mult_pos_pos)
    with 2 show ?thesis by (simp add: rnd_def rnd_pos_shift)
  next
    case 3
    with p have "2 powi k * x < 0" by (rule mult_pos_neg)
    with 3 rnd_pos_shift [of "- x" k] show ?thesis by (simp add: rnd_def)
  qed
qed

text \<open>An integer of at most 53 bits is a double.\<close>

lemma rnd_pos_int:
  assumes "0 < i" and "i < 2 ^ 53"
  shows "rnd_pos (of_int i) = of_int i"
proof -
  have pos: "(0::rat) < of_int i" using assms by simp
  have "(2::rat) powi frac_exp (of_int i) < 2 powi 53"
    using frac_exp_bounds(1) [OF pos] assms(2)
    by (metis (mono_tags) le_less_trans of_int_less_iff of_int_numeral of_int_power power_int_numeral)
  then have "frac_exp (of_int i) < 53" by (simp only: powi2_less)
  then have "0 \<le> 52 - frac_exp (of_int i)" by simp
  then obtain k where k: "52 - frac_exp (of_int i) = int k" by (rule nonneg_int_cases)
  have q: "of_int i / ulp (of_int i) = (of_int (i * 2 ^ k) :: rat)"
  proof -
    have "of_int i / ulp (of_int i) = (of_int i * 2 powi (52 - frac_exp (of_int i)) :: rat)"
      by (simp add: ulp_def power_int_diff field_simps)
    then show ?thesis by (simp add: k)
  qed
  then have "round_even (of_int i / ulp (of_int i)) = i * 2 ^ k"
    by (simp only: round_even_of_int)
  then have "rnd_pos (of_int i) = (of_int i / ulp (of_int i)) * ulp (of_int i)"
    unfolding rnd_pos_def by (simp only: q)
  then show ?thesis using ulp_pos [of "of_int i"] by simp
qed

lemma rnd_int: "\<bar>i\<bar> < 2 ^ 53 \<Longrightarrow> rnd (of_int i) = of_int i"
  using rnd_pos_int [of i] rnd_pos_int [of "- i"] by (auto simp: rnd_def)

text \<open>The relative error of a rounding is at most \<open>2 powi (-53)\<close>.\<close>

lemma rnd_rel_error: "\<bar>rnd x - x\<bar> \<le> \<bar>x\<bar> * 2 powi (-53)"
proof -
  have "\<bar>rnd_pos y - y\<bar> \<le> y * 2 powi (-53)" if y: "0 < y" for y
  proof -
    have "rnd_pos y - y = (of_int (round_even (y / ulp y)) - y / ulp y) * ulp y"
      using ulp_pos [of y] by (simp add: rnd_pos_def left_diff_distrib less_imp_neq [symmetric])
    then have "\<bar>rnd_pos y - y\<bar> = \<bar>of_int (round_even (y / ulp y)) - y / ulp y\<bar> * ulp y"
      by (simp add: abs_mult less_imp_le)
    also have "\<dots> \<le> 1 / 2 * ulp y" by (intro mult_right_mono round_even_near) (simp add: less_imp_le)
    also have "\<dots> = 2 powi frac_exp y * 2 powi (-53)"
      by (simp add: ulp_def power_int_diff power_int_minus)
    also have "\<dots> \<le> y * 2 powi (-53)"
      by (intro mult_right_mono frac_exp_bounds(1) y) simp
    finally show ?thesis .
  qed
  note pos = this
  have "\<bar>- a - x\<bar> = \<bar>a - (- x)\<bar>" for a :: rat by linarith
  with pos [of x] pos [of "- x"] show ?thesis
    by (cases "x = 0"; cases "0 < x") (simp_all add: rnd_def)
qed

text \<open>A rounded value is a double, so rounding it again changes nothing.\<close>

lemma rnd_pos_idem:
  assumes "0 < x"
  shows "rnd (rnd_pos x) = rnd_pos x"
proof -
  define m where "m = round_even (x / ulp x)"
  have r: "rnd_pos x = ulp x * of_int m" by (simp add: rnd_pos_def m_def)
  have "of_int m * ulp x \<le> of_int (2 ^ 53) * ulp x"
    using rnd_pos_range(2) [OF assms] by (simp add: rnd_pos_def m_def ulp_def power_int_diff power_int_add)
  then have "(of_int m :: rat) \<le> of_int (2 ^ 53)" by (rule mult_right_le_imp_le) simp
  then have le: "m \<le> 2 ^ 53" by (simp only: of_int_le_iff)
  have "0 < ulp x * of_int m" using rnd_pos_gt_0 [OF assms] by (simp add: r)
  then have "0 < m" using ulp_pos [of x] by (auto simp: zero_less_mult_iff)
  have "rnd (of_int m) = of_int m"
  proof (cases "m < 2 ^ 53")
    case True
    with \<open>0 < m\<close> show ?thesis by (intro rnd_int) simp
  next
    case False
    with le have "m = 2 ^ 53" by simp
    then have m: "(of_int m :: rat) = 2 powi 53 * of_int 1" by simp
    show ?thesis unfolding m rnd_shift by (subst rnd_int) simp_all
  qed
  then show ?thesis unfolding r ulp_def by (simp add: rnd_shift)
qed

lemma rnd_idem [simp]: "rnd (rnd x) = rnd x"
  using rnd_pos_idem [of x] rnd_pos_idem [of "- x"] by (auto simp: rnd_def [of x])

section \<open>Conversions and operations of the code\<close>

definition f64_of_int :: "int \<Rightarrow> float64" where
  "f64_of_int i = rnd (of_int i)"

definition f64_div :: "float64 \<Rightarrow> float64 \<Rightarrow> float64" where
  "f64_div a b = rnd (a / b)"

definition f64_mul :: "float64 \<Rightarrow> float64 \<Rightarrow> float64" where
  "f64_mul a b = rnd (a * b)"

lemma f64_of_int_exact: "\<bar>i\<bar> < 2 ^ 53 \<Longrightarrow> f64_of_int i = of_int i"
  by (simp add: f64_of_int_def rnd_int)

lemma f64_of_int_mono: "i \<le> j \<Longrightarrow> f64_of_int i \<le> f64_of_int j"
  by (simp add: f64_of_int_def rnd_mono)

lemma f64_of_int_nonneg: "0 \<le> i \<Longrightarrow> 0 \<le> f64_of_int i"
  by (simp add: f64_of_int_def)

end
