(* ===== verification/Operator_Metrics.thy ===== *)
theory Operator_Metrics
  imports Go_Strings Go_Float
begin

text \<open>
  The metrics toolkit (\<open>operator-observability-toolkit/pkg/operatormetrics\<close>): metric descriptors,
  collector results, the conversion of a result to a Prometheus sample, and the filter that an
  allowlist puts around a collector (\<open>pkg/monitoring/metrics/metrics.go\<close> and
  \<open>pkg/monitoring/metrics/vmstats/collector.go\<close> have the same filter). The interface between a
  collector and the toolkit is the locale \<open>metric_collector\<close>: a collector only reports metrics it
  declares, with as many label values as the metric has labels.
\<close>

datatype metric_type =
    CounterType | GaugeType | CounterVecType | GaugeVecType
  | HistogramType | SummaryType | HistogramVecType | SummaryVecType

record metric =
  m_name :: string
  m_help :: string
  m_type :: metric_type
  m_labels :: "string list"
  m_const :: "string gomap"

definition NewGauge :: "string \<Rightarrow> string \<Rightarrow> metric" where
  "NewGauge n h = \<lparr>m_name = n, m_help = h, m_type = GaugeType, m_labels = [], m_const = []\<rparr>"

definition NewCounter :: "string \<Rightarrow> string \<Rightarrow> metric" where
  "NewCounter n h = \<lparr>m_name = n, m_help = h, m_type = CounterType, m_labels = [], m_const = []\<rparr>"

definition NewGaugeVec :: "string \<Rightarrow> string \<Rightarrow> string list \<Rightarrow> metric" where
  "NewGaugeVec n h ls = \<lparr>m_name = n, m_help = h, m_type = GaugeVecType, m_labels = ls, m_const = []\<rparr>"

definition NewCounterVec :: "string \<Rightarrow> string \<Rightarrow> string list \<Rightarrow> metric" where
  "NewCounterVec n h ls = \<lparr>m_name = n, m_help = h, m_type = CounterVecType, m_labels = ls, m_const = []\<rparr>"

lemma new_metric_simps [simp]:
  "m_name (NewGauge n h) = n" "m_name (NewCounter n h) = n"
  "m_name (NewGaugeVec n h ls) = n" "m_name (NewCounterVec n h ls) = n"
  "m_labels (NewGauge n h) = []" "m_labels (NewCounter n h) = []"
  "m_labels (NewGaugeVec n h ls) = ls" "m_labels (NewCounterVec n h ls) = ls"
  "m_type (NewGauge n h) = GaugeType" "m_type (NewCounter n h) = CounterType"
  "m_type (NewGaugeVec n h ls) = GaugeVecType" "m_type (NewCounterVec n h ls) = CounterVecType"
  by (simp_all add: NewGauge_def NewCounter_def NewGaugeVec_def NewCounterVec_def)

record cresult =
  r_metric :: metric
  r_labels :: "string list"
  r_const :: "string gomap"
  r_value :: float64

definition result :: "metric \<Rightarrow> string list \<Rightarrow> float64 \<Rightarrow> cresult" where
  "result m ls v = \<lparr>r_metric = m, r_labels = ls, r_const = [], r_value = v\<rparr>"

lemma result_simps [simp]:
  "r_metric (result m ls v) = m" "r_labels (result m ls v) = ls"
  "r_const (result m ls v) = []" "r_value (result m ls v) = v"
  by (simp_all add: result_def)

definition count_metric :: "metric \<Rightarrow> cresult list \<Rightarrow> nat" where
  "count_metric m rs = length (filter (\<lambda>r. r_metric r = m) rs)"

lemma count_metric_append [simp]: "count_metric m (xs @ ys) = count_metric m xs + count_metric m ys"
  by (simp add: count_metric_def)

lemma count_metric_simps [simp]:
  "count_metric m [] = 0" "count_metric m (r # rs) = (if r_metric r = m then 1 else 0) + count_metric m rs"
  by (simp_all add: count_metric_def)

lemma count_metric_none: "(\<And>r. r \<in> set rs \<Longrightarrow> r_metric r \<noteq> m) \<Longrightarrow> count_metric m rs = 0"
  by (auto simp: count_metric_def filter_empty_conv)

section \<open>From a result to a sample\<close>

record sample =
  s_name :: string
  s_counter :: bool
  s_vars :: "(string \<times> string) list"
  s_consts :: "string gomap"
  s_value :: float64

definition non_empty_labels :: "string gomap \<Rightarrow> string gomap" where
  "non_empty_labels m = filter (\<lambda>(k, v). v \<noteq> []) m"

text \<open>
  \<open>desc_ok\<close> stands for the checks of \<open>prometheus.NewDesc\<close> on the label names (the client library is
  not part of the program).
\<close>

definition collectValue :: "(string list \<Rightarrow> string list \<Rightarrow> bool) \<Rightarrow> metric \<Rightarrow> cresult \<Rightarrow> sample res" where
  "collectValue desc_ok m cr =
     (let kind = (case m_type m of CounterType \<Rightarrow> Some True | GaugeType \<Rightarrow> Some False
                   | CounterVecType \<Rightarrow> Some True | GaugeVecType \<Rightarrow> Some False | _ \<Rightarrow> None)
      in case kind of
        None \<Rightarrow> Inl (GoError ''encountered unsupported type for collector'')
      | Some counter \<Rightarrow>
          (let labels = gomap_copy (non_empty_labels (r_const cr)) (non_empty_labels (m_const m))
           in if \<not> desc_ok (m_labels m) (map fst labels) then Inl (GoError ''invalid descriptor'')
              else if length (r_labels cr) \<noteq> length (m_labels m) then
                Inl (GoError ''inconsistent label cardinality'')
              else Inr \<lparr>s_name = m_name m, s_counter = counter, s_vars = zip (m_labels m) (r_labels cr),
                        s_consts = labels, s_value = r_value cr\<rparr>))"

text \<open>
  \<open>Collector.Collect\<close>: a result whose metric is not registered, or that does not convert, is logged
  and dropped.
\<close>

fun collect_results :: "(string list \<Rightarrow> string list \<Rightarrow> bool) \<Rightarrow> metric gomap \<Rightarrow> cresult list \<Rightarrow> sample list" where
  "collect_results desc_ok reg [] = []"
| "collect_results desc_ok reg (cr # crs) =
     (case map_of reg (m_name (r_metric cr)) of
        None \<Rightarrow> collect_results desc_ok reg crs
      | Some m \<Rightarrow>
          (case collectValue desc_ok m cr of
             Inl e \<Rightarrow> collect_results desc_ok reg crs
           | Inr s \<Rightarrow> s # collect_results desc_ok reg crs))"

definition supported :: "metric \<Rightarrow> bool" where
  "supported m \<longleftrightarrow> m_type m \<in> {CounterType, GaugeType, CounterVecType, GaugeVecType}"

definition wf_result :: "metric list \<Rightarrow> cresult \<Rightarrow> bool" where
  "wf_result ms r \<longleftrightarrow> r_metric r \<in> set ms \<and> length (r_labels r) = length (m_labels (r_metric r))"

lemma wf_result_mono: "wf_result ms r \<Longrightarrow> set ms \<subseteq> set ms' \<Longrightarrow> wf_result ms' r"
  by (auto simp: wf_result_def)

lemma wf_result_result [simp]:
  "wf_result ms (result m ls v) \<longleftrightarrow> m \<in> set ms \<and> length ls = length (m_labels m)"
  by (simp add: wf_result_def)

lemma collect_results_length:
  assumes "\<And>r. r \<in> set rs \<Longrightarrow> \<exists>m s. map_of reg (m_name (r_metric r)) = Some m \<and> collectValue ok m r = Inr s"
  shows "length (collect_results ok reg rs) = length rs"
  using assms
proof (induction rs)
  case Nil
  show ?case by simp
next
  case (Cons r rs)
  from Cons.prems [of r] obtain m s where "map_of reg (m_name (r_metric r)) = Some m" "collectValue ok m r = Inr s"
    by auto
  with Cons show ?case by simp
qed

section \<open>Collectors and the allowlist filter\<close>

record 'st collector =
  c_metrics :: "metric list"
  c_callback :: "'st \<Rightarrow> cresult list res"

definition filter_results :: "metric list \<Rightarrow> cresult list \<Rightarrow> cresult list" where
  "filter_results kept rs = filter (\<lambda>r. m_name (r_metric r) \<in> set (map m_name kept)) rs"

definition filterCollector :: "'st collector \<Rightarrow> bool gomap \<Rightarrow> 'st collector option" where
  "filterCollector c allowlist =
     (let kept = filter (\<lambda>m. bool_at allowlist (m_name m)) (c_metrics c)
      in if kept = [] then None
         else Some \<lparr>c_metrics = kept,
                    c_callback = (\<lambda>st. bindR (c_callback c st) (\<lambda>rs. Inr (filter_results kept rs)))\<rparr>)"

text \<open>The \<open>name -> metric\<close> map that \<open>registerCollector\<close> leaves for one collector.\<close>

definition registered_metrics :: "metric list \<Rightarrow> metric gomap" where
  "registered_metrics ms = map (\<lambda>m. (m_name m, m)) ms"

lemma map_of_registered:
  "distinct (map m_name ms) \<Longrightarrow> m \<in> set ms \<Longrightarrow> map_of (registered_metrics ms) (m_name m) = Some m"
  by (simp add: registered_metrics_def map_of_eq_Some_iff comp_def image_iff)

section \<open>The contract of a collector\<close>

locale metric_collector =
  fixes metrics :: "metric list"
    and callback :: "'st \<Rightarrow> cresult list res"
  assumes names_distinct: "distinct (map m_name metrics)"
    and all_supported: "\<forall>m \<in> set metrics. supported m"
    and results_declared: "callback st = Inr rs \<Longrightarrow> r \<in> set rs \<Longrightarrow> wf_result metrics r"
begin

text \<open>No result of a collector that meets the contract is dropped by the toolkit.\<close>

lemma nothing_dropped:
  assumes cb: "callback st = Inr rs"
    and ok: "\<And>r. r \<in> set rs \<Longrightarrow>
      desc_ok (m_labels (r_metric r))
        (map fst (gomap_copy (non_empty_labels (r_const r)) (non_empty_labels (m_const (r_metric r)))))"
  shows "length (collect_results desc_ok (registered_metrics metrics) rs) = length rs"
proof (rule collect_results_length)
  fix r assume r: "r \<in> set rs"
  from results_declared [OF cb r] have m: "r_metric r \<in> set metrics"
    and l: "length (r_labels r) = length (m_labels (r_metric r))" by (auto simp: wf_result_def)
  have look: "map_of (registered_metrics metrics) (m_name (r_metric r)) = Some (r_metric r)"
    using names_distinct m by (rule map_of_registered)
  have "supported (r_metric r)" using all_supported m by blast
  then have "\<exists>s. collectValue desc_ok (r_metric r) r = Inr s"
    using l ok [OF r] by (auto simp: collectValue_def supported_def Let_def)
  with look show "\<exists>m s. map_of (registered_metrics metrics) (m_name (r_metric r)) = Some m \<and>
      collectValue desc_ok m r = Inr s" by blast
qed

lemma filtered_names:
  assumes "filterCollector \<lparr>c_metrics = metrics, c_callback = callback\<rparr> al = Some c"
    and "c_callback c st = Inr rs" and "r \<in> set rs"
  shows "bool_at al (m_name (r_metric r))"
  using assms by (auto simp: filterCollector_def Let_def filter_results_def go_err split: if_splits)

lemma filtered_exact:
  assumes "filterCollector \<lparr>c_metrics = metrics, c_callback = callback\<rparr> al = Some c"
    and cb: "callback st = Inr rs"
  shows "c_callback c st = Inr (filter (\<lambda>r. bool_at al (m_name (r_metric r))) rs)"
proof -
  have "filter_results (filter (\<lambda>m. bool_at al (m_name m)) metrics) rs =
      filter (\<lambda>r. bool_at al (m_name (r_metric r))) rs"
    unfolding filter_results_def
  proof (rule filter_cong [OF refl])
    fix r assume "r \<in> set rs"
    from results_declared [OF cb this] have "r_metric r \<in> set metrics" by (simp add: wf_result_def)
    then show "(m_name (r_metric r) \<in> set (map m_name (filter (\<lambda>m. bool_at al (m_name m)) metrics)))
        = bool_at al (m_name (r_metric r))" by auto
  qed
  with assms show ?thesis by (auto simp: filterCollector_def Let_def split: if_splits)
qed

text \<open>Filtering keeps the contract, so a filtered collector is again a collector.\<close>

lemma filtered_wf:
  assumes f: "filterCollector \<lparr>c_metrics = metrics, c_callback = callback\<rparr> al = Some c"
    and cb: "c_callback c st = Inr rs" and r: "r \<in> set rs"
  shows "wf_result (c_metrics c) r"
proof -
  from f cb obtain rs' where rs': "callback st = Inr rs'"
    by (auto simp: filterCollector_def Let_def go_err split: if_splits)
  from filtered_exact [OF f rs'] cb r have "r \<in> set rs'" and al: "bool_at al (m_name (r_metric r))" by auto
  from results_declared [OF rs' this(1)] al f show ?thesis
    by (auto simp: wf_result_def filterCollector_def Let_def split: if_splits)
qed

lemma filtered_collector:
  assumes f: "filterCollector \<lparr>c_metrics = metrics, c_callback = callback\<rparr> al = Some c"
  shows "metric_collector (c_metrics c) (c_callback c)"
proof
  have ms: "c_metrics c = filter (\<lambda>m. bool_at al (m_name m)) metrics"
    using f by (auto simp: filterCollector_def Let_def split: if_splits)
  show "distinct (map m_name (c_metrics c))" using names_distinct by (simp add: ms distinct_map_filter)
  show "\<forall>m \<in> set (c_metrics c). supported m" using all_supported by (simp add: ms)
  show "wf_result (c_metrics c) r" if "c_callback c st = Inr rs" "r \<in> set rs" for st rs r
    using filtered_wf [OF f that] .
qed

lemma filtered_none_iff:
  "filterCollector \<lparr>c_metrics = metrics, c_callback = callback\<rparr> al = None \<longleftrightarrow>
     (\<forall>m \<in> set metrics. \<not> bool_at al (m_name m))"
  by (auto simp: filterCollector_def Let_def filter_empty_conv)

end

end
