(* ===== verification/Migration_Stats.thy ===== *)
theory Migration_Stats
  imports Metrics_Helpers Operator_Metrics
begin

text \<open>
  The migration collector (\<open>pkg/monitoring/metrics/migrationstats_collector.go\<close>): four gauges that
  count the migrations by phase and one sample per finished migration. The lemmas give the report
  in closed form and show that the collector meets the contract \<open>metric_collector\<close>.
\<close>

section \<open>Metrics\<close>

definition PendingMigrations :: metric where
  [metric_defs]: "PendingMigrations = NewGauge ''kubevirt_vmi_migrations_in_pending_phase''
     ''Number of current pending migrations.''"

definition SchedulingMigrations :: metric where
  [metric_defs]: "SchedulingMigrations = NewGauge ''kubevirt_vmi_migrations_in_scheduling_phase''
     ''Number of current scheduling migrations.''"

definition UnsetMigration :: metric where
  [metric_defs]: "UnsetMigration = NewGauge ''kubevirt_vmi_migrations_in_unset_phase''
     ''Number of current unset migrations.''"

definition RunningMigrations :: metric where
  [metric_defs]: "RunningMigrations = NewGauge ''kubevirt_vmi_migrations_in_running_phase''
     ''Number of current running migrations.''"

definition SucceededMigration :: metric where
  [metric_defs]: "SucceededMigration = NewGaugeVec ''kubevirt_vmi_migration_succeeded''
     ''Indicates if the VMI migration succeeded.'' [''vmi'', ''vmim'', ''namespace'']"

definition FailedMigration :: metric where
  [metric_defs]: "FailedMigration = NewGaugeVec ''kubevirt_vmi_migration_failed''
     ''Indicates if the VMI migration failed.'' [''vmi'', ''vmim'', ''namespace'']"

definition MigrationStatsMetrics :: "metric list" where
  "MigrationStatsMetrics = [PendingMigrations, SchedulingMigrations, UnsetMigration, RunningMigrations,
     SucceededMigration, FailedMigration]"

section \<open>Phases\<close>

definition MigrationPhaseUnset :: string where "MigrationPhaseUnset = ''''"
definition MigrationPending :: string where "MigrationPending = ''Pending''"
definition MigrationScheduling :: string where "MigrationScheduling = ''Scheduling''"
definition MigrationScheduled :: string where "MigrationScheduled = ''Scheduled''"
definition MigrationPreparingTarget :: string where "MigrationPreparingTarget = ''PreparingTarget''"
definition MigrationTargetReady :: string where "MigrationTargetReady = ''TargetReady''"
definition MigrationRunning :: string where "MigrationRunning = ''Running''"
definition MigrationSucceeded :: string where "MigrationSucceeded = ''Succeeded''"
definition MigrationFailed :: string where "MigrationFailed = ''Failed''"

lemmas phase_defs = MigrationPhaseUnset_def MigrationPending_def MigrationScheduling_def
  MigrationScheduled_def MigrationPreparingTarget_def MigrationTargetReady_def MigrationRunning_def
  MigrationSucceeded_def MigrationFailed_def

section \<open>The report\<close>

record migration_acc =
  a_cr :: "cresult list"
  a_pending :: int
  a_scheduling :: int
  a_unset :: int
  a_running :: int

definition vmim_labels :: "vmim \<Rightarrow> string list" where
  "vmim_labels m = [vmim_vmi_name m, om_name (vmim_meta m), om_namespace (vmim_meta m)]"

definition migration_step :: "vmim \<Rightarrow> migration_acc \<Rightarrow> migration_acc" where
  "migration_step m a =
     (let p = vmim_phase m in
      if p = MigrationPending then a\<lparr>a_pending := a_pending a + 1\<rparr>
      else if p = MigrationScheduling then a\<lparr>a_scheduling := a_scheduling a + 1\<rparr>
      else if p = MigrationPhaseUnset then a\<lparr>a_unset := a_unset a + 1\<rparr>
      else if p = MigrationRunning \<or> p = MigrationScheduled \<or> p = MigrationPreparingTarget \<or>
              p = MigrationTargetReady then a\<lparr>a_running := a_running a + 1\<rparr>
      else if p = MigrationSucceeded then a\<lparr>a_cr := a_cr a @ [result SucceededMigration (vmim_labels m) 1]\<rparr>
      else if p = MigrationFailed then a\<lparr>a_cr := a_cr a @ [result FailedMigration (vmim_labels m) 1]\<rparr>
      else a)"

definition ReportMigrationStats :: "vmim list \<Rightarrow> cresult list" where
  "ReportMigrationStats vmims =
     (let a = fold migration_step vmims
                \<lparr>a_cr = [], a_pending = 0, a_scheduling = 0, a_unset = 0, a_running = 0\<rparr>
      in a_cr a @
         [result PendingMigrations [] (f64_of_int (a_pending a)),
          result SchedulingMigrations [] (f64_of_int (a_scheduling a)),
          result UnsetMigration [] (f64_of_int (a_unset a)),
          result RunningMigrations [] (f64_of_int (a_running a))])"

definition migrationStatsCollectorCallback :: "mstate \<Rightarrow> cresult list res" where
  "migrationStatsCollectorCallback st =
     (case Option.bind (getIndexers st) i_vmi_migration of
        None \<Rightarrow> Inr []
      | Some ix \<Rightarrow>
          bindR (mapR (assert_type as_vmim) (store_list (ix_items ix)))
            (\<lambda>vmims. Inr (ReportMigrationStats vmims)))"

definition MigrationStatsCollector :: "mstate collector" where
  "MigrationStatsCollector = \<lparr>c_metrics = MigrationStatsMetrics, c_callback = migrationStatsCollectorCallback\<rparr>"

section \<open>Closed form\<close>

definition phase_count :: "string list \<Rightarrow> vmim list \<Rightarrow> int" where
  "phase_count ps ms = int (length (filter (\<lambda>m. vmim_phase m \<in> set ps) ms))"

definition finished_results :: "vmim list \<Rightarrow> cresult list" where
  "finished_results ms =
     map (\<lambda>m. result (if vmim_phase m = MigrationSucceeded then SucceededMigration else FailedMigration)
                (vmim_labels m) 1)
       (filter (\<lambda>m. vmim_phase m \<in> {MigrationSucceeded, MigrationFailed}) ms)"

definition running_phases :: "string list" where
  "running_phases = [MigrationRunning, MigrationScheduled, MigrationPreparingTarget, MigrationTargetReady]"

text \<open>One step of the loop adds what the closed form has for a single migration.\<close>

definition acc_add :: "migration_acc \<Rightarrow> vmim list \<Rightarrow> migration_acc" where
  "acc_add a ms =
     \<lparr>a_cr = a_cr a @ finished_results ms, a_pending = a_pending a + phase_count [MigrationPending] ms,
      a_scheduling = a_scheduling a + phase_count [MigrationScheduling] ms,
      a_unset = a_unset a + phase_count [MigrationPhaseUnset] ms,
      a_running = a_running a + phase_count running_phases ms\<rparr>"

lemma migration_step_acc: "migration_step m a = acc_add a [m]"
  by (cases a) (simp add: acc_add_def migration_step_def Let_def phase_count_def finished_results_def
      running_phases_def phase_defs)

lemma acc_add_Cons: "acc_add (acc_add a [m]) ms = acc_add a (m # ms)"
  by (simp add: acc_add_def phase_count_def finished_results_def)

lemma migration_fold: "fold migration_step ms a = acc_add a ms"
proof (induction ms arbitrary: a)
  case Nil
  show ?case by (cases a) (simp add: acc_add_def phase_count_def finished_results_def)
next
  case (Cons m ms)
  show ?case by (simp only: fold_Cons comp_apply Cons.IH migration_step_acc [of m] acc_add_Cons)
qed

text \<open>C33: the migration report is, for every list of migrations, one sample of value 1 per succeeded
  or failed migration in store order, followed by the four gauges, whose values are the numbers of
  pending, scheduling, unset and running migrations (running covers Scheduled, PreparingTarget and
  TargetReady).\<close>

theorem ReportMigrationStats_closed:
  "ReportMigrationStats ms = finished_results ms @
     [result PendingMigrations [] (f64_of_int (phase_count [''Pending''] ms)),
      result SchedulingMigrations [] (f64_of_int (phase_count [''Scheduling''] ms)),
      result UnsetMigration [] (f64_of_int (phase_count [''''] ms)),
      result RunningMigrations [] (f64_of_int
        (phase_count [''Running'', ''Scheduled'', ''PreparingTarget'', ''TargetReady''] ms))]"
  by (simp add: ReportMigrationStats_def migration_fold acc_add_def Let_def running_phases_def phase_defs)

text \<open>A migration in one of the API's synchronisation phases (WaitingForSync, Synchronizing) is in
  no sample and no count: removing it from the store leaves the report unchanged.\<close>

theorem sync_phases_not_counted:
  "ReportMigrationStats ms =
   ReportMigrationStats (filter (\<lambda>m. vmim_phase m \<notin> {''WaitingForSync'', ''Synchronizing''}) ms)"
proof -
  have cnt: "phase_count ps (filter (\<lambda>m. vmim_phase m \<notin> {''WaitingForSync'', ''Synchronizing''}) ms) =
      phase_count ps ms" if "''WaitingForSync'' \<notin> set ps" "''Synchronizing'' \<notin> set ps" for ps
    using that by (induction ms) (auto simp: phase_count_def)
  have "finished_results (filter (\<lambda>m. vmim_phase m \<notin> {''WaitingForSync'', ''Synchronizing''}) ms) =
      finished_results ms"
    by (induction ms) (auto simp: finished_results_def phase_defs)
  with cnt show ?thesis by (simp add: ReportMigrationStats_closed)
qed

lemma ReportMigrationStats_wf: "r \<in> set (ReportMigrationStats ms) \<Longrightarrow> wf_result MigrationStatsMetrics r"
  by (auto simp: ReportMigrationStats_closed finished_results_def MigrationStatsMetrics_def vmim_labels_def
      metric_defs)

interpretation migs: metric_collector MigrationStatsMetrics migrationStatsCollectorCallback
proof unfold_locales
  show "distinct (map m_name MigrationStatsMetrics)"
    by (simp add: MigrationStatsMetrics_def metric_defs)
  show "\<forall>m \<in> set MigrationStatsMetrics. supported m"
    by (simp add: MigrationStatsMetrics_def metric_defs supported_def)
  show "wf_result MigrationStatsMetrics r"
    if "migrationStatsCollectorCallback st = Inr rs" "r \<in> set rs" for st rs r
    using that by (auto simp: migrationStatsCollectorCallback_def go_err ReportMigrationStats_wf
        split: option.splits)
qed

end
