(* ===== verification/VMI_Stats.thy ===== *)
theory VMI_Stats
  imports Metrics_Helpers Operator_Metrics
begin

text \<open>
  The VMI collector (\<open>pkg/monitoring/metrics/vmistats_collector.go\<close>): information, eviction, address,
  migration-time, vNIC and memory-overhead samples of every virtual machine instance. A callback
  fails only by a panic (a nil store reference, an object of another type in a typed store).
\<close>

section \<open>Metrics\<close>

definition vmiInfo :: metric where
  [metric_defs]: "vmiInfo = NewGaugeVec ''kubevirt_vmi_info'' ''Information about VirtualMachineInstances.''
     [''node'', ''namespace'', ''name'', ''phase'', ''os'', ''workload'', ''flavor'', ''instance_type'',
      ''preference'', ''guest_os_kernel_release'', ''guest_os_machine'', ''guest_os_arch'', ''guest_os_name'',
      ''guest_os_version_id'', ''evictable'', ''outdated'', ''vmi_pod'']"

definition vmiEvictionBlocker :: metric where
  [metric_defs]: "vmiEvictionBlocker = NewGaugeVec ''kubevirt_vmi_non_evictable''
     ''Indication for a VirtualMachine that its eviction strategy is set to Live Migration but is not migratable.''
     [''node'', ''namespace'', ''name'']"

definition vmiAddresses :: metric where
  [metric_defs]: "vmiAddresses = NewGaugeVec ''kubevirt_vmi_status_addresses''
     ''The addresses of a VirtualMachineInstance.''
     [''node'', ''namespace'', ''name'', ''vnic_name'', ''interface_name'', ''address'', ''type'']"

definition vmiMigrationStartTime :: metric where
  [metric_defs]: "vmiMigrationStartTime = NewGaugeVec ''kubevirt_vmi_migration_start_time_seconds''
     ''The time at which the migration started.'' [''node'', ''namespace'', ''name'', ''migration_name'']"

definition vmiMigrationEndTime :: metric where
  [metric_defs]: "vmiMigrationEndTime = NewGaugeVec ''kubevirt_vmi_migration_end_time_seconds''
     ''The time at which the migration ended.''
     [''node'', ''namespace'', ''name'', ''migration_name'', ''status'']"

definition vmiVnicInfo :: metric where
  [metric_defs]: "vmiVnicInfo = NewGaugeVec ''kubevirt_vmi_vnic_info''
     ''Details of VirtualMachineInstance vNIC interfaces.''
     [''name'', ''namespace'', ''vnic_name'', ''binding_type'', ''network'', ''binding_name'', ''model'']"

definition vmiLauncherMemoryOverhead :: metric where
  [metric_defs]: "vmiLauncherMemoryOverhead = NewGaugeVec ''kubevirt_vmi_launcher_memory_overhead_bytes''
     (''Estimation of the memory amount required for '' @ ''virt-launcher's infrastructure components.'')
     [''namespace'', ''name'']"

definition vmiEphemeralHotplugVolume :: metric where
  [metric_defs]: "vmiEphemeralHotplugVolume = NewGaugeVec ''kubevirt_vmi_contains_ephemeral_hotplug_volume''
     ''Reported only for VMIs that contain an ephemeral hotplug volume.''
     [''namespace'', ''name'', ''volume_name'']"

definition VMIStatsMetrics :: "metric list" where
  "VMIStatsMetrics = [vmiInfo, vmiEvictionBlocker, vmiAddresses, vmiMigrationStartTime, vmiMigrationEndTime,
     vmiVnicInfo, vmiLauncherMemoryOverhead, vmiEphemeralHotplugVolume]"

section \<open>Information\<close>

definition collectVMILauncherMemoryOverhead :: "vmi \<Rightarrow> cresult" where
  "collectVMILauncherMemoryOverhead v =
     (let memoryOverheadValue =
            (case st_memory (vmi_the_status v) of Some (Some q) \<Rightarrow> Value q | _ \<Rightarrow> 0)
      in result vmiLauncherMemoryOverhead [vmi_namespace v, vmi_name v] (f64_of_int memoryOverheadValue))"

definition getVMIMachine :: "vmi \<Rightarrow> string" where
  "getVMIMachine v = (case st_machine (vmi_the_status v) of Some t \<Rightarrow> t | None \<Rightarrow> '''')"

definition pod_of_vmi :: "vmi \<Rightarrow> pod \<Rightarrow> bool" where
  "pod_of_vmi v p \<longleftrightarrow> str_at (om_labels (pod_meta p)) ''kubevirt.io/created-by'' = om_uid (vmi_meta v) \<and>
     pod_phase p = ''Running'' \<and> vmi_node v = pod_node p"

fun find_vmi_pod :: "vmi \<Rightarrow> any list \<Rightarrow> string" where
  "find_vmi_pod v [] = NoneS"
| "find_vmi_pod v (obj # objs) =
     (case as_pod obj of
        None \<Rightarrow> find_vmi_pod v objs
      | Some p \<Rightarrow> (if pod_of_vmi v p then om_name (pod_meta p) else find_vmi_pod v objs))"

definition getVMIPod :: "mstate \<Rightarrow> vmi \<Rightarrow> string" where
  "getVMIPod st v =
     (case Option.bind (getIndexers st) i_kv_pod of
        None \<Rightarrow> NoneS
      | Some ix \<Rightarrow>
          (case by_index ix NamespaceIndex (vmi_namespace v) of
             Inl e \<Rightarrow> NoneS
           | Inr objs \<Rightarrow> find_vmi_pod v objs))"

definition InstancetypeAnnotation :: string where
  "InstancetypeAnnotation = ''kubevirt.io/instancetype-name''"
definition ClusterInstancetypeAnnotation :: string where
  "ClusterInstancetypeAnnotation = ''kubevirt.io/cluster-instancetype-name''"
definition PreferenceAnnotation :: string where
  "PreferenceAnnotation = ''kubevirt.io/preference-name''"
definition ClusterPreferenceAnnotation :: string where
  "ClusterPreferenceAnnotation = ''kubevirt.io/cluster-preference-name''"

definition getVMIInstancetype :: "mstate \<Rightarrow> vmi \<Rightarrow> string res" where
  "getVMIInstancetype st v =
     (let ann = om_annotations (vmi_meta v) in
      case map_of ann InstancetypeAnnotation of
        Some name \<Rightarrow> bindR (deref (getStores st))
          (\<lambda>s. Inr (FetchResourceName (slash_key (vmi_namespace v) name) (s_instancetype s)))
      | None \<Rightarrow>
          (case map_of ann ClusterInstancetypeAnnotation of
             Some name \<Rightarrow> bindR (deref (getStores st))
               (\<lambda>s. Inr (FetchResourceName name (s_cluster_instancetype s)))
           | None \<Rightarrow> Inr NoneS))"

definition getVMIPreference :: "mstate \<Rightarrow> vmi \<Rightarrow> string res" where
  "getVMIPreference st v =
     (let ann = om_annotations (vmi_meta v) in
      case map_of ann PreferenceAnnotation of
        Some name \<Rightarrow> bindR (deref (getStores st))
          (\<lambda>s. Inr (FetchResourceName (slash_key (vmi_namespace v) name) (s_preference s)))
      | None \<Rightarrow>
          (case map_of ann ClusterPreferenceAnnotation of
             Some name \<Rightarrow> bindR (deref (getStores st))
               (\<lambda>s. Inr (FetchResourceName name (s_cluster_preference s)))
           | None \<Rightarrow> Inr NoneS))"

definition CollectVMIInfo :: "mstate \<Rightarrow> vmi \<Rightarrow> cresult res" where
  "CollectVMIInfo st v =
     (let (os, workload, flavor) = GetSystemInfoFromAnnotations (om_annotations (vmi_meta v)) in
      bindR (getVMIInstancetype st v) (\<lambda>instanceType.
      bindR (getVMIPreference st v) (\<lambda>preference.
        (let (kernelRelease, machineArch, name, versionID) = GetGuestOSInfo v;
             machineType = getVMIMachine v;
             vmiPod = getVMIPod st v
         in Inr (result vmiInfo
              [vmi_node v, vmi_namespace v, vmi_name v, GetVMIPhase v, os, workload, flavor,
               instanceType, preference, kernelRelease, machineType, machineArch, name, versionID,
               format_bool (IsVMIEvictable v), format_bool (IsVMIOutdated v), vmiPod] 1)))))"

definition getEvictionBlocker :: "vmi \<Rightarrow> cresult" where
  "getEvictionBlocker v =
     result vmiEvictionBlocker [vmi_node v, vmi_namespace v, vmi_name v] (if IsVMIEvictable v then 0 else 1)"

section \<open>Interfaces\<close>

definition collectVMIInterfaceInfo :: "vmi \<Rightarrow> status_nic \<Rightarrow> cresult option" where
  "collectVMIInterfaceInfo v nic =
     (if sn_ip nic = '''' \<and> sn_name nic = '''' \<and> sn_ifname nic = '''' then None
      else Some (result vmiAddresses
        [vmi_node v, vmi_namespace v, vmi_name v, sn_name nic, sn_ifname nic, sn_ip nic,
         (if sn_ip nic = '''' then ''SystemInterface'' else ''ExternalInterface'')] 1))"

definition collectVMIInterfacesInfo :: "vmi \<Rightarrow> cresult list" where
  "collectVMIInterfacesInfo v = List.map_filter (collectVMIInterfaceInfo v) (st_interfaces (vmi_the_status v))"

section \<open>Migration times\<close>

definition getMigrationNameFromUID :: "mstate \<Rightarrow> string \<Rightarrow> string res" where
  "getMigrationNameFromUID st uid =
     (case Option.bind (getIndexers st) i_vmi_migration of
        None \<Rightarrow> Inr NoneS
      | Some ix \<Rightarrow>
          (case by_index ix ByMigrationUIDIndex uid of
             Inl e \<Rightarrow> Inr NoneS
           | Inr [] \<Rightarrow> Inr NoneS
           | Inr (obj # objs) \<Rightarrow> bindR (assert_type as_vmim obj) (\<lambda>m. Inr (om_name (vmim_meta m)))))"

definition CollectVMIMigrationTime :: "mstate \<Rightarrow> vmi \<Rightarrow> cresult list res" where
  "CollectVMIMigrationTime st v =
     (case st_migration (vmi_the_status v) of
        None \<Rightarrow> Inr []
      | Some ms \<Rightarrow>
          bindR (getMigrationNameFromUID st (ms_uid ms)) (\<lambda>migrationName.
            Inr ((case ms_start ms of None \<Rightarrow> []
                  | Some t \<Rightarrow> [result vmiMigrationStartTime
                      [vmi_node v, vmi_namespace v, vmi_name v, migrationName] (f64_of_int t)]) @
                 (case ms_end ms of None \<Rightarrow> []
                  | Some t \<Rightarrow> [result vmiMigrationEndTime
                      [vmi_node v, vmi_namespace v, vmi_name v, migrationName, CalculateMigrationStatus ms]
                      (f64_of_int t)]))))"

section \<open>vNICs\<close>

text \<open>The body of the vNIC loop, which the VM collector repeats with its own metric.\<close>

definition vnic_result :: "metric \<Rightarrow> string \<Rightarrow> string \<Rightarrow> network list \<Rightarrow> vnic \<Rightarrow> cresult option" where
  "vnic_result mtr nm ns networks nic =
     (let model = (if nic_model nic \<noteq> '''' then nic_model nic else ModelNone);
          (bindingType, bindingName) = GetBinding nic;
          (networkName, matchFound) = GetNetworkName (nic_name nic) networks
      in if \<not> matchFound then None
         else Some (result mtr [nm, ns, nic_name nic, bindingType, networkName, bindingName, model] 1))"

definition CollectVMIsVnicInfo :: "vmi \<Rightarrow> cresult list" where
  "CollectVMIsVnicInfo v =
     List.map_filter (vnic_result vmiVnicInfo (vmi_name v) (vmi_namespace v) (spec_networks (vmi_the_spec v)))
       (dom_interfaces (spec_domain (vmi_the_spec v)))"

section \<open>The report\<close>

definition report_vmi :: "mstate \<Rightarrow> vmi \<Rightarrow> cresult list res" where
  "report_vmi st v =
     bindR (CollectVMIInfo st v) (\<lambda>info.
     bindR (CollectVMIMigrationTime st v) (\<lambda>times.
       Inr ([info, getEvictionBlocker v] @ collectVMIInterfacesInfo v @ times @ CollectVMIsVnicInfo v @
            [collectVMILauncherMemoryOverhead v])))"

definition ReportVMIsStats :: "mstate \<Rightarrow> vmi list \<Rightarrow> cresult list res" where
  "ReportVMIsStats st vmis = concatR (report_vmi st) vmis"

definition vmiStatsCollectorCallback :: "mstate \<Rightarrow> cresult list res" where
  "vmiStatsCollectorCallback st =
     (case Option.bind (getStores st) s_vmi of
        None \<Rightarrow> Inr []
      | Some s \<Rightarrow>
          (let cachedObjs = store_list s in
           if cachedObjs = [] then Inr []
           else bindR (mapR (assert_type as_vmi) cachedObjs) (\<lambda>vmis. ReportVMIsStats st vmis)))"

definition VMIStatsCollector :: "mstate collector" where
  "VMIStatsCollector = \<lparr>c_metrics = VMIStatsMetrics, c_callback = vmiStatsCollectorCallback\<rparr>"

section \<open>The contract of the collector\<close>

definition reported_vmi_metrics :: "metric list" where
  "reported_vmi_metrics = [vmiInfo, vmiEvictionBlocker, vmiAddresses, vmiMigrationStartTime,
     vmiMigrationEndTime, vmiVnicInfo, vmiLauncherMemoryOverhead]"

lemma vnic_result_SomeD:
  "vnic_result mtr nm ns nets nic = Some r \<Longrightarrow> r_metric r = mtr \<and> length (r_labels r) = 7 \<and> r_value r = 1"
  by (auto simp: vnic_result_def Let_def split: prod.splits if_splits)

lemma CollectVMIInfo_InrD:
  assumes "CollectVMIInfo st v = Inr r"
  shows "r_metric r = vmiInfo \<and> length (r_labels r) = 17 \<and> r_value r = 1 \<and>
    r_labels r ! 14 = format_bool (IsVMIEvictable v)"
proof -
  obtain os wl fl where "GetSystemInfoFromAnnotations (om_annotations (vmi_meta v)) = (os, wl, fl)"
    by (metis prod_cases3)
  moreover obtain kr ma nm vid where "GetGuestOSInfo v = (kr, ma, nm, vid)" by (metis prod_cases4)
  ultimately show ?thesis using assms by (auto simp: CollectVMIInfo_def go_err)
qed

lemma wf_vmi_info: "CollectVMIInfo st v = Inr r \<Longrightarrow> wf_result reported_vmi_metrics r"
  by (drule CollectVMIInfo_InrD) (simp add: wf_result_def reported_vmi_metrics_def, simp add: vmiInfo_def)

lemma wf_vmi_interfaces: "r \<in> set (collectVMIInterfacesInfo v) \<Longrightarrow> wf_result reported_vmi_metrics r"
  by (auto simp: collectVMIInterfacesInfo_def collectVMIInterfaceInfo_def reported_vmi_metrics_def vmiAddresses_def
      dest!: map_filter_setD split: if_splits)

lemma wf_vmi_times: "CollectVMIMigrationTime st v = Inr rs \<Longrightarrow> r \<in> set rs \<Longrightarrow> wf_result reported_vmi_metrics r"
  by (auto simp: CollectVMIMigrationTime_def go_err reported_vmi_metrics_def vmiMigrationStartTime_def
      vmiMigrationEndTime_def split: option.splits)

lemma wf_vmi_vnics: "r \<in> set (CollectVMIsVnicInfo v) \<Longrightarrow> wf_result reported_vmi_metrics r"
  by (auto simp: CollectVMIsVnicInfo_def wf_result_def reported_vmi_metrics_def
      dest!: map_filter_setD vnic_result_SomeD) (simp add: vmiVnicInfo_def)

lemma wf_vmi_eviction: "wf_result reported_vmi_metrics (getEvictionBlocker v)"
  by (simp add: getEvictionBlocker_def reported_vmi_metrics_def vmiEvictionBlocker_def)

lemma wf_vmi_overhead: "wf_result reported_vmi_metrics (collectVMILauncherMemoryOverhead v)"
  by (simp add: collectVMILauncherMemoryOverhead_def reported_vmi_metrics_def vmiLauncherMemoryOverhead_def)

lemmas wf_vmi_parts = wf_vmi_info wf_vmi_interfaces wf_vmi_times wf_vmi_vnics wf_vmi_eviction wf_vmi_overhead

lemma report_vmi_wf: "report_vmi st v = Inr rs \<Longrightarrow> r \<in> set rs \<Longrightarrow> wf_result reported_vmi_metrics r"
  by (auto simp: report_vmi_def go_err wf_vmi_parts)

lemma vmi_callback_reports:
  assumes "vmiStatsCollectorCallback st = Inr rs" and "r \<in> set rs"
  shows "\<exists>v rs'. report_vmi st v = Inr rs' \<and> r \<in> set rs'"
  using assms
  by (auto simp: vmiStatsCollectorCallback_def Let_def go_err ReportVMIsStats_def
      split: option.splits if_splits dest!: concatR_setD)

lemma vmi_callback_wf:
  "vmiStatsCollectorCallback st = Inr rs \<Longrightarrow> r \<in> set rs \<Longrightarrow> wf_result reported_vmi_metrics r"
  using vmi_callback_reports report_vmi_wf by blast

lemma reported_subset: "set reported_vmi_metrics \<subseteq> set VMIStatsMetrics"
  by (simp add: reported_vmi_metrics_def VMIStatsMetrics_def)

lemma VMIStatsMetrics_distinct: "distinct (map m_name VMIStatsMetrics)"
  by (simp add: VMIStatsMetrics_def metric_defs)

lemma VMIStatsMetrics_supported: "\<forall>m \<in> set VMIStatsMetrics. supported m"
  by (simp add: VMIStatsMetrics_def metric_defs supported_def)

interpretation vmis: metric_collector VMIStatsMetrics vmiStatsCollectorCallback
proof (unfold_locales, rule VMIStatsMetrics_distinct, rule VMIStatsMetrics_supported)
  show "wf_result VMIStatsMetrics r" if "vmiStatsCollectorCallback st = Inr rs" "r \<in> set rs" for st rs r
    using vmi_callback_wf [OF that] reported_subset by (rule wf_result_mono)
qed

section \<open>Properties\<close>

text \<open>C36: the metric of ephemeral hotplug volumes, which the collector declares and an alert evaluates,
  is never reported, whatever the VMIs in the store contain.\<close>

theorem ephemeral_hotplug_never_reported:
  assumes "vmiStatsCollectorCallback st = Inr rs"
  shows "vmiEphemeralHotplugVolume \<in> set VMIStatsMetrics \<and>
    (\<forall>r \<in> set rs. m_name (r_metric r) \<noteq> ''kubevirt_vmi_contains_ephemeral_hotplug_volume'')"
proof -
  have "m_name m \<noteq> ''kubevirt_vmi_contains_ephemeral_hotplug_volume''" if "m \<in> set reported_vmi_metrics" for m
    using that by (auto simp: reported_vmi_metrics_def metric_defs)
  then show ?thesis using vmi_callback_wf [OF assms] by (auto simp: VMIStatsMetrics_def wf_result_def)
qed

text \<open>The stores as the informers fill them: every store holds objects of its own kind.\<close>

definition typed_stores :: "mstate \<Rightarrow> bool" where
  "typed_stores st \<longleftrightarrow>
     (\<forall>s x. Option.bind (getStores st) s_vmi = Some s \<longrightarrow> x \<in> set (store_list s) \<longrightarrow> as_vmi x \<noteq> None) \<and>
     (\<forall>ix x. Option.bind (getIndexers st) i_vmi_migration = Some ix \<longrightarrow>
        x \<in> set (store_list (ix_items ix)) \<longrightarrow> as_vmim x \<noteq> None)"

lemma assert_type_total: "as x \<noteq> None \<Longrightarrow> \<exists>y. assert_type as x = Inr y"
  by (auto simp: assert_type_def)

lemma by_index_sub: "by_index ix nm v = Inr xs \<Longrightarrow> set xs \<subseteq> set (store_list (ix_items ix))"
  by (auto simp: by_index_def split: option.splits)

lemma getMigrationNameFromUID_total:
  assumes "typed_stores st"
  shows "\<exists>n. getMigrationNameFromUID st uid = Inr n"
proof (cases "Option.bind (getIndexers st) i_vmi_migration")
  case None
  then show ?thesis by (simp add: getMigrationNameFromUID_def)
next
  case (Some ix)
  show ?thesis
  proof (cases "by_index ix ByMigrationUIDIndex uid")
    case (Inl e)
    with Some show ?thesis by (simp add: getMigrationNameFromUID_def)
  next
    case (Inr objs)
    show ?thesis
    proof (cases objs)
      case Nil
      with Some Inr show ?thesis by (simp add: getMigrationNameFromUID_def)
    next
      case (Cons obj rest)
      with by_index_sub [OF Inr] Some assms have "as_vmim obj \<noteq> None" by (auto simp: typed_stores_def)
      with Cons Some Inr show ?thesis by (auto simp: getMigrationNameFromUID_def assert_type_def)
    qed
  qed
qed

lemma instancetype_total:
  assumes "getStores st = Some s"
  shows "\<exists>x. getVMIInstancetype st v = Inr x" and "\<exists>x. getVMIPreference st v = Inr x"
  using assms by (auto simp: getVMIInstancetype_def getVMIPreference_def Let_def split: option.splits)

lemma report_vmi_total:
  assumes "getStores st = Some s" and "typed_stores st"
  shows "\<exists>rs. report_vmi st v = Inr rs"
proof -
  from instancetype_total [OF assms(1)] obtain a b where "getVMIInstancetype st v = Inr a" "getVMIPreference st v = Inr b"
    by blast
  then have "\<exists>r. CollectVMIInfo st v = Inr r"
    by (simp add: CollectVMIInfo_def split: prod.splits)
  moreover have "\<exists>ts. CollectVMIMigrationTime st v = Inr ts"
  proof (cases "st_migration (vmi_the_status v)")
    case (Some ms)
    moreover obtain n where "getMigrationNameFromUID st (ms_uid ms) = Inr n"
      using getMigrationNameFromUID_total [OF assms(2)] by blast
    ultimately show ?thesis by (simp add: CollectVMIMigrationTime_def)
  qed (simp add: CollectVMIMigrationTime_def)
  ultimately show ?thesis by (auto simp: report_vmi_def)
qed

lemma report_vmi_counts:
  assumes "report_vmi st v = Inr rs"
  shows "count_metric vmiInfo rs = 1" and "count_metric vmiEvictionBlocker rs = 1"
    and "count_metric vmiLauncherMemoryOverhead rs = 1"
proof -
  from assms obtain info times where parts: "CollectVMIInfo st v = Inr info" "CollectVMIMigrationTime st v = Inr times"
    and rs: "rs = [info, getEvictionBlocker v] @ collectVMIInterfacesInfo v @ times @ CollectVMIsVnicInfo v @
      [collectVMILauncherMemoryOverhead v]"
    by (auto simp: report_vmi_def go_err)
  have i: "r_metric r = vmiAddresses" if "r \<in> set (collectVMIInterfacesInfo v)" for r
    using that by (auto simp: collectVMIInterfacesInfo_def collectVMIInterfaceInfo_def
        dest!: map_filter_setD split: if_splits)
  have t: "r_metric r \<in> {vmiMigrationStartTime, vmiMigrationEndTime}" if "r \<in> set times" for r
    using parts(2) that by (auto simp: CollectVMIMigrationTime_def go_err split: option.splits)
  have n: "r_metric r = vmiVnicInfo" if "r \<in> set (CollectVMIsVnicInfo v)" for r
    using that by (auto simp: CollectVMIsVnicInfo_def dest!: map_filter_setD vnic_result_SomeD)
  have zero: "count_metric m (collectVMIInterfacesInfo v) = 0" "count_metric m times = 0"
      "count_metric m (CollectVMIsVnicInfo v) = 0"
    if "m_name m \<notin> m_name ` {vmiAddresses, vmiMigrationStartTime, vmiMigrationEndTime, vmiVnicInfo}" for m
    using that i t n by (force intro!: count_metric_none)+
  have m: "r_metric info = vmiInfo" "r_metric (getEvictionBlocker v) = vmiEvictionBlocker"
      "r_metric (collectVMILauncherMemoryOverhead v) = vmiLauncherMemoryOverhead"
    using CollectVMIInfo_InrD [OF parts(1)]
    by (simp_all add: getEvictionBlocker_def collectVMILauncherMemoryOverhead_def)
  have ne: "vmiInfo \<noteq> vmiEvictionBlocker" "vmiInfo \<noteq> vmiLauncherMemoryOverhead"
      "vmiEvictionBlocker \<noteq> vmiLauncherMemoryOverhead"
    by (simp_all add: metric_defs NewGaugeVec_def)
  show "count_metric vmiInfo rs = 1"
    unfolding rs using ne m by (simp add: zero metric_defs)
  show "count_metric vmiEvictionBlocker rs = 1"
    unfolding rs using ne m by (simp add: zero metric_defs)
  show "count_metric vmiLauncherMemoryOverhead rs = 1"
    unfolding rs using ne m by (simp add: zero metric_defs)
qed

lemma count_metric_concat: "count_metric m (concat rss) = sum_list (map (count_metric m) rss)"
  by (induction rss) auto

lemma concatR_count:
  assumes "concatR f xs = Inr ys" and "\<And>x zs. f x = Inr zs \<Longrightarrow> count_metric m zs = 1"
  shows "count_metric m ys = length xs"
proof -
  from assms(1) obtain zss where z: "mapR f xs = Inr zss" "ys = concat zss" by (auto simp: concatR_def go_err)
  from mapR_eq_InrD [OF z(1)] have "map (count_metric m) zss = map (\<lambda>_. 1) xs"
    by (induction rule: list_all2_induct) (auto simp: assms(2))
  then have "count_metric m ys = sum_list (map (\<lambda>_. 1) xs)" by (simp add: z(2) count_metric_concat)
  then show ?thesis by (simp add: sum_list_triv)
qed

lemma vmi_callback_total:
  assumes "getStores st = Some s" and "s_vmi s = Some c" and "typed_stores st"
  shows "\<exists>vs rs. vmiStatsCollectorCallback st = Inr rs \<and> length vs = length (store_list c) \<and>
    concatR (report_vmi st) vs = Inr rs"
proof -
  from assms have "\<And>x. x \<in> set (store_list c) \<Longrightarrow> \<exists>v. assert_type as_vmi x = Inr v"
    by (auto simp: typed_stores_def intro!: assert_type_total)
  then obtain vs where vs: "mapR (assert_type as_vmi) (store_list c) = Inr vs" using mapR_total by metis
  from report_vmi_total [OF assms(1,3)] obtain rs where rs: "concatR (report_vmi st) vs = Inr rs"
    using mapR_total [of vs "report_vmi st"] by (auto simp: concatR_def)
  with vs assms have "vmiStatsCollectorCallback st = Inr rs"
    by (cases "store_list c = []") (auto simp: vmiStatsCollectorCallback_def ReportVMIsStats_def concatR_def)
  with mapR_length [OF vs] rs show ?thesis by blast
qed


definition demo_vmi :: vmi where
  "demo_vmi = zero_vmi\<lparr>vmi_meta := zero_meta\<lparr>om_name := ''vm1'', om_namespace := ''ns''\<rparr>,
     vmi_the_spec := zero_spec\<lparr>spec_eviction := Some ''LiveMigrate''\<rparr>\<rparr>"

definition demo_state :: mstate where
  "demo_state = \<lparr>stores_ref = Some (empty_stores\<lparr>s_vmi := Some [(''ns/vm1'', AVMI demo_vmi)]\<rparr>), indexers_ref = None\<rparr>"

lemma demo_state_simps:
  "getStores demo_state = Some (empty_stores\<lparr>s_vmi := Some [(''ns/vm1'', AVMI demo_vmi)]\<rparr>)"
  "typed_stores demo_state"
  by (simp_all add: demo_state_def getStores_def getIndexers_def typed_stores_def store_list_def)


lemma demo_callback: "\<exists>rs. vmiStatsCollectorCallback demo_state = Inr rs"
  using vmi_callback_total [OF demo_state_simps(1) _ demo_state_simps(2)] by auto

theorem ephemeral_hotplug_never_reported_witness:
  "\<exists>rs. vmiStatsCollectorCallback demo_state = Inr rs \<and>
     (\<forall>r \<in> set rs. m_name (r_metric r) \<noteq> ''kubevirt_vmi_contains_ephemeral_hotplug_volume'')"
proof -
  obtain rs where "vmiStatsCollectorCallback demo_state = Inr rs" using demo_callback by blast
  with ephemeral_hotplug_never_reported [OF this] show ?thesis by blast
qed

lemma find_vmi_pod_find:
  "find_vmi_pod v objs =
     (case find (\<lambda>obj. \<exists>p. as_pod obj = Some p \<and> pod_of_vmi v p) objs of
        None \<Rightarrow> '''' | Some obj \<Rightarrow> om_name (pod_meta (the (as_pod obj))))"
  by (induction objs) (auto simp: NoneS_def split: option.splits)

text \<open>C28: the eviction sample and the \<open>evictable\<close> label of the information sample of one report agree: the
  sample is 0 exactly when the label reads \<open>true\<close>, which is exactly when the VMI's eviction strategy
  is not a live-migration strategy or its first LiveMigratable condition is True.\<close>

theorem eviction_agrees:
  assumes "report_vmi st v = Inr rs"
  shows "\<exists>info blocker rest. rs = info # blocker # rest \<and> r_metric info = vmiInfo \<and>
    r_metric blocker = vmiEvictionBlocker \<and>
    (r_labels info ! 14 = ''true'' \<longleftrightarrow> r_value blocker = 0) \<and>
    (r_value blocker = 0 \<longleftrightarrow>
       spec_eviction (vmi_the_spec v) \<notin> {Some ''LiveMigrate'', Some ''LiveMigrateIfPossible''} \<or>
       (\<exists>c. find (\<lambda>c. vc_type c = ''LiveMigratable'') (st_conditions (vmi_the_status v)) = Some c \<and>
            vc_status c = ''True''))"
proof -
  have cond: "condition_with_status cs t s \<longleftrightarrow> (\<exists>c. find (\<lambda>c. vc_type c = t) cs = Some c \<and> vc_status c = s)" for cs t s
    by (induction cs) auto
  have fb: "format_bool b = ''true'' \<longleftrightarrow> b" for b by (simp add: format_bool_def)
  from assms obtain info times where i: "CollectVMIInfo st v = Inr info"
    and rs: "rs = info # getEvictionBlocker v # (collectVMIInterfacesInfo v @ times @ CollectVMIsVnicInfo v @
      [collectVMILauncherMemoryOverhead v])"
    by (auto simp: report_vmi_def go_err)
  from CollectVMIInfo_InrD [OF i] have l: "r_labels info ! 14 = format_bool (IsVMIEvictable v)"
    and m: "r_metric info = vmiInfo" by simp_all
  have b: "r_value (getEvictionBlocker v) = 0 \<longleftrightarrow> IsVMIEvictable v" by (simp add: getEvictionBlocker_def)
  have e: "IsVMIEvictable v \<longleftrightarrow>
      spec_eviction (vmi_the_spec v) \<notin> {Some ''LiveMigrate'', Some ''LiveMigrateIfPossible''} \<or>
       (\<exists>c. find (\<lambda>c. vc_type c = ''LiveMigratable'') (st_conditions (vmi_the_status v)) = Some c \<and>
            vc_status c = ''True'')"
    by (cases "spec_eviction (vmi_the_spec v)") (auto simp: IsVMIEvictable_def hasConditionWithStatus_def cond)
  show ?thesis unfolding rs using l m b e fb by (auto simp: getEvictionBlocker_def)
qed

theorem eviction_agrees_witness:
  "\<exists>rs info blocker rest. report_vmi demo_state demo_vmi = Inr rs \<and> rs = info # blocker # rest \<and>
     r_labels info ! 14 \<noteq> ''true'' \<and> r_value blocker \<noteq> 0"
proof -
  obtain rs where rs: "report_vmi demo_state demo_vmi = Inr rs"
    using report_vmi_total [OF demo_state_simps] by blast
  from eviction_agrees [OF rs] rs show ?thesis by (fastforce simp: demo_vmi_def zero_defs)
qed

lemma find_filter_conj: "find Q (filter P xs) = find (\<lambda>x. P x \<and> Q x) xs"
  by (induction xs) auto

text \<open>When the pod informer carries the namespace index, the \<open>vmi_pod\<close> label is the name of the first
  cached pod in the VMI's namespace that was created by this VMI, is running, and is on the VMI's
  node; a label other than the empty string always names such a pod.\<close>

theorem getVMIPod_correct:
  assumes "getIndexers st = Some i" and "i_kv_pod i = Some ix"
    and "map_of (ix_funcs ix) ''namespace'' = Some namespace_index"
  shows "getVMIPod st v =
      (case find (\<lambda>obj. vmi_namespace v \<in> set (namespace_index obj) \<and>
                       (\<exists>p. as_pod obj = Some p \<and> pod_of_vmi v p)) (store_list (ix_items ix)) of
         None \<Rightarrow> '''' | Some obj \<Rightarrow> om_name (pod_meta (the (as_pod obj)))) \<and>
    (getVMIPod st v \<noteq> '''' \<longrightarrow>
      (\<exists>p. APod p \<in> set (store_list (ix_items ix)) \<and> om_name (pod_meta p) = getVMIPod st v \<and>
           om_namespace (pod_meta p) = vmi_namespace v \<and> pod_of_vmi v p))"
proof -
  define found where "found = find (\<lambda>obj. vmi_namespace v \<in> set (namespace_index obj) \<and>
      (\<exists>p. as_pod obj = Some p \<and> pod_of_vmi v p)) (store_list (ix_items ix))"
  have eq: "getVMIPod st v = (case found of None \<Rightarrow> '''' | Some obj \<Rightarrow> om_name (pod_meta (the (as_pod obj))))"
    using assms by (simp add: getVMIPod_def by_index_def NamespaceIndex_def find_vmi_pod_find find_filter_conj found_def)
  have "\<exists>p. APod p \<in> set (store_list (ix_items ix)) \<and> om_name (pod_meta p) = getVMIPod st v \<and>
      om_namespace (pod_meta p) = vmi_namespace v \<and> pod_of_vmi v p" if obj: "found = Some obj" for obj
  proof -
    from obj have mem: "obj \<in> set (store_list (ix_items ix))"
      and q: "vmi_namespace v \<in> set (namespace_index obj)" "\<exists>p. as_pod obj = Some p \<and> pod_of_vmi v p"
      by (auto simp: found_def find_Some_iff)
    from q(2) obtain p where p: "obj = APod p" "pod_of_vmi v p" by (cases obj) auto
    with q(1) have "om_namespace (pod_meta p) = vmi_namespace v" by (simp add: namespace_index_def)
    with mem p eq obj show ?thesis by auto
  qed
  with eq show ?thesis by (cases found) (simp_all add: found_def)
qed

definition demo_pod_state :: "pod \<Rightarrow> mstate" where
  "demo_pod_state p = \<lparr>stores_ref = None, indexers_ref = Some (empty_indexers\<lparr>i_kv_pod :=
     Some \<lparr>ix_items = [(''ns/p'', APod p)], ix_funcs = [(''namespace'', namespace_index)]\<rparr>\<rparr>)\<rparr>"

definition demo_pod :: pod where
  "demo_pod = \<lparr>pod_meta = zero_meta\<lparr>om_name := ''p'', om_namespace := ''ns'',
     om_labels := [(''kubevirt.io/created-by'', '''')]\<rparr>, pod_node = '''', pod_phase = ''Running'', pod_ip = ''''\<rparr>"

theorem getVMIPod_correct_witness: "getVMIPod (demo_pod_state demo_pod) demo_vmi = ''p''"
  using getVMIPod_correct [of "demo_pod_state demo_pod"
      "empty_indexers\<lparr>i_kv_pod := Some \<lparr>ix_items = [(''ns/p'', APod demo_pod)],
         ix_funcs = [(''namespace'', namespace_index)]\<rparr>\<rparr>" _ demo_vmi]
  by (simp add: demo_pod_state_def getIndexers_def store_list_def namespace_index_def demo_pod_def demo_vmi_def
      zero_defs pod_of_vmi_def str_at_def)

text \<open>After the informers are set up, the \<open>migration_name\<close> label of a VMI's migration times is the
  name of the migration whose UID the VMI's status names, provided one cached migration has it.\<close>

theorem migration_name_resolved:
  assumes "getIndexers st = Some i" and "i_vmi_migration i = Some ix"
    and "map_of (ix_funcs ix) ByMigrationUIDIndex = Some migration_uid_index"
    and "AVMIM m \<in> set (store_list (ix_items ix))"
    and "\<forall>m'. AVMIM m' \<in> set (store_list (ix_items ix)) \<longrightarrow>
           om_uid (vmim_meta m') = om_uid (vmim_meta m) \<longrightarrow> m' = m"
  shows "getMigrationNameFromUID st (om_uid (vmim_meta m)) = Inr (om_name (vmim_meta m))"
proof -
  let ?objs = "filter (\<lambda>obj. om_uid (vmim_meta m) \<in> set (migration_uid_index obj)) (store_list (ix_items ix))"
  have idx: "by_index ix ByMigrationUIDIndex (om_uid (vmim_meta m)) = Inr ?objs"
    using assms(3) by (simp add: by_index_def)
  have "AVMIM m \<in> set ?objs" using assms(4) by (simp add: migration_uid_index_def)
  then obtain obj rest where objs: "?objs = obj # rest" by (cases ?objs) auto
  then have "obj \<in> set ?objs" by simp
  then have "obj \<in> set (store_list (ix_items ix))" "om_uid (vmim_meta m) \<in> set (migration_uid_index obj)" by auto
  moreover from this(2) obtain m' where "obj = AVMIM m'" by (cases obj) (auto simp: migration_uid_index_def)
  ultimately have "obj = AVMIM m" using assms(5) by (simp add: migration_uid_index_def)
  with assms(1,2) idx objs show ?thesis by (simp add: getMigrationNameFromUID_def assert_type_def)
qed

definition demo_vmim :: vmim where
  "demo_vmim = \<lparr>vmim_meta = zero_meta\<lparr>om_name := ''mig'', om_uid := ''u1''\<rparr>, vmim_vmi_name = ''vm1'', vmim_phase = ''Running''\<rparr>"

theorem migration_name_resolved_witness:
  "getMigrationNameFromUID \<lparr>stores_ref = None, indexers_ref = Some (empty_indexers\<lparr>i_vmi_migration :=
     Some \<lparr>ix_items = [(''ns/mig'', AVMIM demo_vmim)], ix_funcs = [(ByMigrationUIDIndex, migration_uid_index)]\<rparr>\<rparr>)\<rparr>
     ''u1'' = Inr ''mig''"
proof -
  let ?ix = "\<lparr>ix_items = [(''ns/mig'', AVMIM demo_vmim)], ix_funcs = [(ByMigrationUIDIndex, migration_uid_index)]\<rparr>"
  let ?i = "empty_indexers\<lparr>i_vmi_migration := Some ?ix\<rparr>"
  have "getIndexers \<lparr>stores_ref = None, indexers_ref = Some ?i\<rparr> = Some ?i" by (simp add: getIndexers_def)
  from migration_name_resolved [OF this, of ?ix demo_vmim] show ?thesis
    by (simp add: store_list_def demo_vmim_def)
qed

end
