(* ===== verification/VM_Stats.thy ===== *)
theory VM_Stats
  imports VMI_Stats
begin

text \<open>
  The VM collector (\<open>pkg/monitoring/metrics/vmstats_collector.go\<close>): disk sizes, information, resource
  requests and limits, labels, status timestamps, creation times and vNICs of every virtual machine.
  Two things outside the program are arguments: \<open>parse_quantity\<close>, which is \<open>resource.ParseQuantity\<close>
  (\<open>None\<close> on an error), and \<open>rng\<close>, the order in which a \<open>range\<close> loop visits a Go map.
\<close>

section \<open>Metrics\<close>

definition vmLabelsSlice :: "string list" where
  [metric_defs]: "vmLabelsSlice = [''name'', ''namespace'']"

definition startingTimestamp :: metric where
  [metric_defs]: "startingTimestamp = NewCounterVec ''kubevirt_vm_starting_status_last_transition_timestamp_seconds''
     ''Virtual Machine last transition timestamp to starting status.'' vmLabelsSlice"

definition runningTimestamp :: metric where
  [metric_defs]: "runningTimestamp = NewCounterVec ''kubevirt_vm_running_status_last_transition_timestamp_seconds''
     ''Virtual Machine last transition timestamp to running status.'' vmLabelsSlice"

definition migratingTimestamp :: metric where
  [metric_defs]: "migratingTimestamp = NewCounterVec ''kubevirt_vm_migrating_status_last_transition_timestamp_seconds''
     ''Virtual Machine last transition timestamp to migrating status.'' vmLabelsSlice"

definition nonRunningTimestamp :: metric where
  [metric_defs]: "nonRunningTimestamp = NewCounterVec
     ''kubevirt_vm_non_running_status_last_transition_timestamp_seconds''
     ''Virtual Machine last transition timestamp to paused/stopped status.'' vmLabelsSlice"

definition errorTimestamp :: metric where
  [metric_defs]: "errorTimestamp = NewCounterVec ''kubevirt_vm_error_status_last_transition_timestamp_seconds''
     ''Virtual Machine last transition timestamp to error status.'' vmLabelsSlice"

definition vmResourceRequests :: metric where
  [metric_defs]: "vmResourceRequests = NewGaugeVec ''kubevirt_vm_resource_requests''
     ''Resources requested by Virtual Machine.'' [''name'', ''namespace'', ''resource'', ''unit'', ''source'']"

definition vmResourceLimits :: metric where
  [metric_defs]: "vmResourceLimits = NewGaugeVec ''kubevirt_vm_resource_limits''
     ''Resource limits set for a Virtual Machine.'' [''name'', ''namespace'', ''resource'', ''unit'']"

definition vmInfo :: metric where
  [metric_defs]: "vmInfo = NewGaugeVec ''kubevirt_vm_info'' ''Information about Virtual Machines.''
     [''name'', ''namespace'', ''os'', ''workload'', ''flavor'', ''machine_type'', ''instance_type'',
      ''preference'', ''status'', ''status_group'']"

definition vmDiskAllocatedSize :: metric where
  [metric_defs]: "vmDiskAllocatedSize = NewGaugeVec ''kubevirt_vm_disk_allocated_size_bytes''
     ''Allocated disk size of a Virtual Machine in bytes.''
     [''name'', ''namespace'', ''persistentvolumeclaim'', ''volume_mode'', ''device'']"

definition vmCreationTimestamp :: metric where
  [metric_defs]: "vmCreationTimestamp = NewGaugeVec ''kubevirt_vm_create_date_timestamp_seconds''
     ''Virtual Machine creation timestamp.'' vmLabelsSlice"

definition vmVnicInfo :: metric where
  [metric_defs]: "vmVnicInfo = NewGaugeVec ''kubevirt_vm_vnic_info''
     ''Details of Virtual Machine vNIC interfaces.''
     [''name'', ''namespace'', ''vnic_name'', ''binding_type'', ''network'', ''binding_name'', ''model'']"

definition vmLabels :: metric where
  [metric_defs]: "vmLabels = NewGaugeVec ''kubevirt_vm_labels''
     ''The metric exposes the VM labels as Prometheus labels.'' vmLabelsSlice"

definition timestampMetrics :: "metric list" where
  "timestampMetrics = [startingTimestamp, runningTimestamp, migratingTimestamp, nonRunningTimestamp, errorTimestamp]"

definition VMStatsMetrics :: "metric list" where
  "VMStatsMetrics = timestampMetrics @ [vmResourceRequests, vmResourceLimits, vmInfo, vmDiskAllocatedSize,
     vmCreationTimestamp, vmVnicInfo, vmLabels]"

section \<open>Disk sizes\<close>

definition getPVCAndDiskName :: "volume \<Rightarrow> string \<times> string \<times> bool" where
  "getPVCAndDiskName vol =
     (case vol_pvc vol of Some claim \<Rightarrow> (claim, vol_name vol, False)
      | None \<Rightarrow> (case vol_dv vol of Some dv \<Rightarrow> (dv, vol_name vol, True) | None \<Rightarrow> ('''', '''', False)))"

fun dv_template_size :: "dv_template list \<Rightarrow> string \<Rightarrow> quantity option" where
  "dv_template_size [] dvName = None"
| "dv_template_size (t # ts) dvName =
     (if dvt_name t = dvName then
        (case dvt_pvc t of Some rl \<Rightarrow> Some (rl_get rl ResourceStorage)
         | None \<Rightarrow> (case dvt_storage t of Some rl \<Rightarrow> Some (rl_get rl ResourceStorage)
                     | None \<Rightarrow> dv_template_size ts dvName))
      else dv_template_size ts dvName)"

definition getSizeFromDataVolumeTemplates :: "vm \<Rightarrow> string \<Rightarrow> quantity option" where
  "getSizeFromDataVolumeTemplates v dvName = dv_template_size (vm_dv_templates v) dvName"

definition getDiskSizeResult :: "vm \<Rightarrow> pvc \<Rightarrow> string \<Rightarrow> bool \<Rightarrow> cresult" where
  "getDiskSizeResult v p diskName isDataVolume =
     (let pvcSize = (if isDataVolume then getSizeFromDataVolumeTemplates v (om_name (pvc_meta p)) else None);
          size = (case pvcSize of Some q \<Rightarrow> q | None \<Rightarrow> rl_get (pvc_requests p) ResourceStorage);
          volumeMode = (case pvc_volume_mode p of Some md \<Rightarrow> md | None \<Rightarrow> '''')
      in result vmDiskAllocatedSize [vm_name v, vm_namespace v, om_name (pvc_meta p), volumeMode, diskName]
           (f64_of_int (Value size)))"

definition disk_metric :: "store \<Rightarrow> vm \<Rightarrow> volume \<Rightarrow> cresult option" where
  "disk_metric pvcs v vol =
     (let (pvcName, diskName, isDataVolume) = getPVCAndDiskName vol in
      if pvcName = '''' then None
      else case store_get pvcs (NamespacedKey (vm_namespace v) pvcName) of
             None \<Rightarrow> None
           | Some obj \<Rightarrow>
               (case as_pvc obj of None \<Rightarrow> None
                | Some p \<Rightarrow> Some (getDiskSizeResult v p diskName isDataVolume)))"

definition collectDiskMetricsFromPVC :: "mstate \<Rightarrow> vm \<Rightarrow> template \<Rightarrow> cresult list" where
  "collectDiskMetricsFromPVC st v t =
     (case Option.bind (getStores st) s_pvc of
        None \<Rightarrow> []
      | Some pvcs \<Rightarrow> List.map_filter (disk_metric pvcs v) (spec_volumes (tpl_spec t)))"

definition CollectDiskAllocatedSize :: "mstate \<Rightarrow> vm list \<Rightarrow> cresult list" where
  "CollectDiskAllocatedSize st vms =
     concat (map (\<lambda>v. case vm_template v of None \<Rightarrow> [] | Some t \<Rightarrow> collectDiskMetricsFromPVC st v t) vms)"

section \<open>Information\<close>

definition SingularResourceName :: string where
  "SingularResourceName = ''virtualmachineinstancetype''"
definition ClusterSingularResourceName :: string where
  "ClusterSingularResourceName = ''virtualmachineclusterinstancetype''"
definition SingularPreferenceResourceName :: string where
  "SingularPreferenceResourceName = ''virtualmachinepreference''"
definition ClusterSingularPreferenceResourceName :: string where
  "ClusterSingularPreferenceResourceName = ''virtualmachineclusterpreference''"

definition getVMInstancetype :: "mstate \<Rightarrow> vm \<Rightarrow> string res" where
  "getVMInstancetype st v =
     (case vm_instancetype v of
        None \<Rightarrow> Inr NoneS
      | Some it \<Rightarrow>
          (if equal_fold (mt_kind it) SingularResourceName then
             bindR (deref (getStores st))
               (\<lambda>s. Inr (FetchResourceName (slash_key (vm_namespace v) (mt_name it)) (s_instancetype s)))
           else if equal_fold (mt_kind it) ClusterSingularResourceName then
             bindR (deref (getStores st)) (\<lambda>s. Inr (FetchResourceName (mt_name it) (s_cluster_instancetype s)))
           else Inr NoneS))"

definition getVMPreference :: "mstate \<Rightarrow> vm \<Rightarrow> string res" where
  "getVMPreference st v =
     (case vm_preference v of
        None \<Rightarrow> Inr NoneS
      | Some pref \<Rightarrow>
          (if equal_fold (mt_kind pref) SingularPreferenceResourceName then
             bindR (deref (getStores st))
               (\<lambda>s. Inr (FetchResourceName (slash_key (vm_namespace v) (mt_name pref)) (s_preference s)))
           else if equal_fold (mt_kind pref) ClusterSingularPreferenceResourceName then
             bindR (deref (getStores st)) (\<lambda>s. Inr (FetchResourceName (mt_name pref) (s_cluster_preference s)))
           else Inr NoneS))"

definition vm_info :: "mstate \<Rightarrow> vm \<Rightarrow> cresult res" where
  "vm_info st v =
     (let (os, workload, flavor) =
            (case vm_template v of None \<Rightarrow> (NoneS, NoneS, NoneS)
             | Some t \<Rightarrow> GetSystemInfoFromAnnotations (om_annotations (tpl_meta t)));
          machineType =
            (case vm_template v of None \<Rightarrow> NoneS
             | Some t \<Rightarrow> (case dom_machine (spec_domain (tpl_spec t)) of Some m \<Rightarrow> m | None \<Rightarrow> NoneS))
      in bindR (getVMInstancetype st v) (\<lambda>instanceType.
         bindR (getVMPreference st v) (\<lambda>preference.
           Inr (result vmInfo
             [vm_name v, vm_namespace v, os, workload, flavor, machineType, instanceType, preference,
              to_lower (vm_printable v), GetVMStatusGroup (vm_printable v)] 1))))"

definition CollectVMsInfo :: "mstate \<Rightarrow> vm list \<Rightarrow> cresult list res" where
  "CollectVMsInfo st vms = mapR (vm_info st) vms"

section \<open>Resource requests and limits\<close>

definition memory_request :: "vm \<Rightarrow> string \<Rightarrow> quantity \<Rightarrow> cresult" where
  "memory_request v source q =
     result vmResourceRequests [vm_name v, vm_namespace v, ''memory'', ''bytes'', source] (f64_of_int (Value q))"

definition cpu_request :: "vm \<Rightarrow> string \<Rightarrow> string \<Rightarrow> float64 \<Rightarrow> cresult" where
  "cpu_request v unit source x =
     result vmResourceRequests [vm_name v, vm_namespace v, ''cpu'', unit, source] x"

definition milli_cores :: "quantity \<Rightarrow> float64" where
  "milli_cores q = f64_div (f64_of_int (ScaledValue q milli)) 1000"

definition collectMemoryRequests :: "(string \<Rightarrow> quantity option) \<Rightarrow> vm \<Rightarrow> cresult list" where
  "collectMemoryRequests parse_quantity v =
     (case vm_template v of
        None \<Rightarrow> []
      | Some t \<Rightarrow>
          (let d = spec_domain (tpl_spec t);
               memRequested = rl_get (dom_requests d) ResourceMemory;
               cr = (if \<not> IsZero memRequested then [memory_request v ''domain'' memRequested] else [])
           in case dom_memory d of
                None \<Rightarrow> cr
              | Some mem \<Rightarrow>
                  cr @
                  (case mem_guest mem of
                     Some guestMem \<Rightarrow> (if \<not> IsZero guestMem then [memory_request v ''guest'' guestMem] else [])
                   | None \<Rightarrow> []) @
                  (case mem_hugepages mem of
                     Some pageSize \<Rightarrow>
                       (case parse_quantity pageSize of
                          Some q \<Rightarrow> [memory_request v ''hugepages'' q] | None \<Rightarrow> [])
                   | None \<Rightarrow> [])))"

definition collectMemoryLimits :: "vm \<Rightarrow> cresult list" where
  "collectMemoryLimits v =
     (case vm_template v of
        None \<Rightarrow> []
      | Some t \<Rightarrow>
          (let memLimit = rl_get (dom_limits (spec_domain (tpl_spec t))) ResourceMemory
           in if IsZero memLimit then []
              else [result vmResourceLimits [vm_name v, vm_namespace v, ''memory'', ''bytes'']
                      (f64_of_int (Value memLimit))]))"

definition collectAllocatedMemory :: "vm \<Rightarrow> cresult list" where
  "collectAllocatedMemory v =
     (case vm_template v of
        None \<Rightarrow> []
      | Some t \<Rightarrow>
          (let allocatedMem = GetVirtualMemory (tpl_spec t)
           in if \<not> IsZero allocatedMem then [memory_request v ''guest_effective'' allocatedMem] else []))"

definition collectCPURequestsFromDomainCPU :: "vm \<Rightarrow> cresult list" where
  "collectCPURequestsFromDomainCPU v =
     (case Option.bind (vm_template v) (\<lambda>t. dom_cpu (spec_domain (tpl_spec t))) of
        None \<Rightarrow> []
      | Some cpu \<Rightarrow>
          (if cpu_cores cpu \<noteq> 0 then [cpu_request v ''cores'' ''domain'' (f64_of_int (uint (cpu_cores cpu)))] else []) @
          (if cpu_threads cpu \<noteq> 0 then [cpu_request v ''threads'' ''domain'' (f64_of_int (uint (cpu_threads cpu)))] else []) @
          (if cpu_sockets cpu \<noteq> 0 then [cpu_request v ''sockets'' ''domain'' (f64_of_int (uint (cpu_sockets cpu)))] else []))"

definition collectCPURequestsFromResources :: "vm \<Rightarrow> cresult list" where
  "collectCPURequestsFromResources v =
     (case vm_template v of
        None \<Rightarrow> []
      | Some t \<Rightarrow>
          (let cpuReq = rl_get (dom_requests (spec_domain (tpl_spec t))) ResourceCPU
           in if IsZero cpuReq then
                (if dom_cpu (spec_domain (tpl_spec t)) = None
                 then [cpu_request v ''cores'' ''default'' 1, cpu_request v ''threads'' ''default'' 1,
                       cpu_request v ''sockets'' ''default'' 1]
                 else [])
              else [cpu_request v ''cores'' ''requests'' (milli_cores cpuReq)]))"

definition collectCPULimits :: "vm \<Rightarrow> cresult list" where
  "collectCPULimits v =
     (case vm_template v of
        None \<Rightarrow> []
      | Some t \<Rightarrow>
          (let cpuLimits = rl_get (dom_limits (spec_domain (tpl_spec t))) ResourceCPU
           in if IsZero cpuLimits then []
              else [result vmResourceLimits [vm_name v, vm_namespace v, ''cpu'', ''cores''] (milli_cores cpuLimits)]))"

definition collectAllocatedCPU :: "vm \<Rightarrow> cresult list" where
  "collectAllocatedCPU v =
     (case vm_template v of
        None \<Rightarrow> []
      | Some t \<Rightarrow>
          (case dom_cpu (spec_domain (tpl_spec t)) of
             Some cpu \<Rightarrow> [cpu_request v ''cores'' ''guest_effective'' (f64_of_int (GetNumberOfVCPUs (Some cpu)))]
           | None \<Rightarrow> [cpu_request v ''cores'' ''guest_effective'' 1]))"

definition collectVMResourceRequestsAndLimits :: "(string \<Rightarrow> quantity option) \<Rightarrow> vm \<Rightarrow> cresult list" where
  "collectVMResourceRequestsAndLimits parse_quantity v =
     collectMemoryRequests parse_quantity v @ collectMemoryLimits v @ collectCPURequestsFromDomainCPU v @
     collectCPURequestsFromResources v @ collectCPULimits v @ collectAllocatedCPU v @ collectAllocatedMemory v"

definition CollectResourceRequestsAndLimits :: "(string \<Rightarrow> quantity option) \<Rightarrow> vm list \<Rightarrow> cresult list" where
  "CollectResourceRequestsAndLimits parse_quantity vms =
     concat (map (collectVMResourceRequestsAndLimits parse_quantity) vms)"

section \<open>Labels and timestamps\<close>

definition label_name :: "string \<Rightarrow> string" where
  "label_name k = ''label_'' @ SanitizeLabelName k"

definition merged_labels :: "vm \<Rightarrow> string gomap" where
  "merged_labels v =
     (let mergedLabels = gomap_copy [] (om_labels (vm_meta v)) in
      case vm_template v of None \<Rightarrow> mergedLabels
      | Some t \<Rightarrow> gomap_copy mergedLabels (om_labels (tpl_meta t)))"

definition ReportVMLabels :: "(string gomap \<Rightarrow> string gomap) \<Rightarrow> vm \<Rightarrow> cresult list" where
  "ReportVMLabels rng v =
     (let mergedLabels = merged_labels v in
      if mergedLabels = [] then []
      else (let constLabels = gomap_rename label_name (rng mergedLabels) [] in
            if constLabels = [] then []
            else [\<lparr>r_metric = vmLabels, r_labels = [vm_name v, vm_namespace v], r_const = constLabels, r_value = 1\<rparr>]))"

definition getTimestampMetric :: "string \<Rightarrow> metric" where
  "getTimestampMetric status =
     (if ContainsStatus status StartingStatuses then startingTimestamp
      else if ContainsStatus status RunningStatuses then runningTimestamp
      else if ContainsStatus status MigratingStatuses then migratingTimestamp
      else if ContainsStatus status NonRunningStatuses then nonRunningTimestamp
      else errorTimestamp)"

definition reportVMTimestamps :: "vm \<Rightarrow> cresult list" where
  "reportVMTimestamps v =
     (let currentMetric = getTimestampMetric (vm_printable v);
          lastTransition = GetLastConditionTransitionTime v
      in map (\<lambda>m. result m [vm_name v, vm_namespace v]
                (if m = currentMetric then f64_of_int lastTransition else 0)) timestampMetrics)"

definition ReportVMStats :: "(string gomap \<Rightarrow> string gomap) \<Rightarrow> vm list \<Rightarrow> cresult list" where
  "ReportVMStats rng vms = concat (map (\<lambda>v. ReportVMLabels rng v @ reportVMTimestamps v) vms)"

section \<open>Creation times and vNICs\<close>

definition collectVMCreationTimestamp :: "vm list \<Rightarrow> cresult list" where
  "collectVMCreationTimestamp vms =
     List.map_filter (\<lambda>v. map_option (\<lambda>t. result vmCreationTimestamp [vm_name v, vm_namespace v] (f64_of_int t))
                       (om_creation (vm_meta v))) vms"

definition CollectVmsVnicInfo :: "vm list \<Rightarrow> cresult list" where
  "CollectVmsVnicInfo vms =
     concat (map (\<lambda>v. case vm_template v of None \<Rightarrow> []
       | Some t \<Rightarrow> List.map_filter (vnic_result vmVnicInfo (vm_name v) (vm_namespace v) (spec_networks (tpl_spec t)))
                     (dom_interfaces (spec_domain (tpl_spec t)))) vms)"

section \<open>The callback\<close>

definition vmStatsCollectorCallback ::
  "(string \<Rightarrow> quantity option) \<Rightarrow> (string gomap \<Rightarrow> string gomap) \<Rightarrow> mstate \<Rightarrow> cresult list res" where
  "vmStatsCollectorCallback parse_quantity rng st =
     (case Option.bind (getStores st) s_vm of
        None \<Rightarrow> Inr []
      | Some s \<Rightarrow>
          (let cachedObjs = store_list s in
           if cachedObjs = [] then Inr []
           else bindR (mapR (assert_type as_vm) cachedObjs) (\<lambda>vms.
                bindR (CollectVMsInfo st vms) (\<lambda>infos.
                  Inr (CollectDiskAllocatedSize st vms @ infos @
                       CollectResourceRequestsAndLimits parse_quantity vms @ ReportVMStats rng vms @
                       collectVMCreationTimestamp vms @ CollectVmsVnicInfo vms)))))"

definition VMStatsCollector ::
  "(string \<Rightarrow> quantity option) \<Rightarrow> (string gomap \<Rightarrow> string gomap) \<Rightarrow> mstate collector" where
  "VMStatsCollector parse_quantity rng =
     \<lparr>c_metrics = VMStatsMetrics, c_callback = vmStatsCollectorCallback parse_quantity rng\<rparr>"

section \<open>The contract of the collector\<close>

lemma VMStatsMetrics_distinct: "distinct (map m_name VMStatsMetrics)"
  by (simp add: VMStatsMetrics_def timestampMetrics_def metric_defs)

lemma VMStatsMetrics_supported: "\<forall>m \<in> set VMStatsMetrics. supported m"
  by (simp add: VMStatsMetrics_def timestampMetrics_def metric_defs supported_def)

lemma VMStatsMetrics_mem [simp]:
  "vmResourceRequests \<in> set VMStatsMetrics" "vmResourceLimits \<in> set VMStatsMetrics"
  "vmInfo \<in> set VMStatsMetrics" "vmDiskAllocatedSize \<in> set VMStatsMetrics"
  "vmCreationTimestamp \<in> set VMStatsMetrics" "vmVnicInfo \<in> set VMStatsMetrics" "vmLabels \<in> set VMStatsMetrics"
  "set timestampMetrics \<subseteq> set VMStatsMetrics"
  by (auto simp: VMStatsMetrics_def)

lemma vm_metric_arity [simp]:
  "length (m_labels vmResourceRequests) = 5" "length (m_labels vmResourceLimits) = 4"
  "length (m_labels vmInfo) = 10" "length (m_labels vmDiskAllocatedSize) = 5"
  "length (m_labels vmCreationTimestamp) = 2" "length (m_labels vmVnicInfo) = 7" "length (m_labels vmLabels) = 2"
  by (simp_all add: metric_defs)

lemma timestamp_arity: "m \<in> set timestampMetrics \<Longrightarrow> length (m_labels m) = 2"
  by (auto simp: timestampMetrics_def metric_defs)

lemma vm_disk_wf: "r \<in> set (CollectDiskAllocatedSize st vms) \<Longrightarrow> wf_result VMStatsMetrics r"
  by (auto simp: CollectDiskAllocatedSize_def collectDiskMetricsFromPVC_def disk_metric_def getDiskSizeResult_def
      Let_def dest!: map_filter_setD split: option.splits prod.splits if_splits)

lemma vm_info_InrD:
  assumes "vm_info st v = Inr r"
  shows "r_metric r = vmInfo \<and> length (r_labels r) = 10 \<and> take 2 (r_labels r) = [vm_name v, vm_namespace v] \<and>
    drop 8 (r_labels r) = [to_lower (vm_printable v), GetVMStatusGroup (vm_printable v)] \<and> r_value r = 1"
  using assms by (auto simp: vm_info_def go_err Let_def split: option.splits prod.splits)

lemma vm_infos_wf: "CollectVMsInfo st vms = Inr rs \<Longrightarrow> r \<in> set rs \<Longrightarrow> wf_result VMStatsMetrics r"
  by (auto simp: CollectVMsInfo_def wf_result_def dest!: mapR_set vm_info_InrD)

lemma wf_memory_request [simp]: "wf_result VMStatsMetrics (memory_request v src q)"
  by (simp add: memory_request_def)

lemma wf_cpu_request [simp]: "wf_result VMStatsMetrics (cpu_request v unit src x)"
  by (simp add: cpu_request_def)

lemma vm_memory_wf:
  "r \<in> set (collectMemoryRequests pq v) \<Longrightarrow> wf_result VMStatsMetrics r"
  "r \<in> set (collectMemoryLimits v) \<Longrightarrow> wf_result VMStatsMetrics r"
  "r \<in> set (collectAllocatedMemory v) \<Longrightarrow> wf_result VMStatsMetrics r"
  by (auto simp: collectMemoryRequests_def collectMemoryLimits_def collectAllocatedMemory_def Let_def
      split: option.splits if_splits)

lemma vm_cpu_wf:
  "r \<in> set (collectCPURequestsFromDomainCPU v) \<Longrightarrow> wf_result VMStatsMetrics r"
  "r \<in> set (collectCPURequestsFromResources v) \<Longrightarrow> wf_result VMStatsMetrics r"
  "r \<in> set (collectCPULimits v) \<Longrightarrow> wf_result VMStatsMetrics r"
  "r \<in> set (collectAllocatedCPU v) \<Longrightarrow> wf_result VMStatsMetrics r"
  by (auto simp: collectCPURequestsFromDomainCPU_def collectCPURequestsFromResources_def
      collectCPULimits_def collectAllocatedCPU_def Let_def split: option.splits if_splits)

lemma vm_resources_wf: "r \<in> set (CollectResourceRequestsAndLimits pq vms) \<Longrightarrow> wf_result VMStatsMetrics r"
  unfolding CollectResourceRequestsAndLimits_def collectVMResourceRequestsAndLimits_def
  by (auto intro: vm_memory_wf vm_cpu_wf)

lemma vm_stats_wf: "r \<in> set (ReportVMStats rng vms) \<Longrightarrow> wf_result VMStatsMetrics r"
  using timestamp_arity
  by (auto simp: ReportVMStats_def ReportVMLabels_def reportVMTimestamps_def Let_def wf_result_def
      split: if_splits intro: subsetD [OF VMStatsMetrics_mem(8)])

lemma vm_creation_wf: "r \<in> set (collectVMCreationTimestamp vms) \<Longrightarrow> wf_result VMStatsMetrics r"
  by (auto simp: collectVMCreationTimestamp_def dest!: map_filter_setD)

lemma vm_vnic_wf: "r \<in> set (CollectVmsVnicInfo vms) \<Longrightarrow> wf_result VMStatsMetrics r"
  by (auto simp: CollectVmsVnicInfo_def wf_result_def split: option.splits dest!: map_filter_setD vnic_result_SomeD)

lemmas vm_parts_wf = vm_disk_wf vm_infos_wf vm_resources_wf vm_stats_wf vm_creation_wf vm_vnic_wf

lemma vm_callback_wf:
  "vmStatsCollectorCallback pq rng st = Inr rs \<Longrightarrow> r \<in> set rs \<Longrightarrow> wf_result VMStatsMetrics r"
  by (auto simp: vmStatsCollectorCallback_def Let_def go_err vm_parts_wf split: option.splits if_splits)

interpretation vms: metric_collector VMStatsMetrics "vmStatsCollectorCallback pq rng" for pq rng
  by (unfold_locales, rule VMStatsMetrics_distinct, rule VMStatsMetrics_supported, rule vm_callback_wf)

section \<open>Properties\<close>

lemma status_lists_disjoint:
  "ContainsStatus s RunningStatuses \<Longrightarrow> \<not> ContainsStatus s StartingStatuses"
  "ContainsStatus s MigratingStatuses \<Longrightarrow> \<not> ContainsStatus s StartingStatuses \<and> \<not> ContainsStatus s RunningStatuses"
  by (auto simp: status_lists)

lemma timestamp_name_of_group:
  "m_name (getTimestampMetric s) =
     ''kubevirt_vm_'' @ (if GetVMStatusGroup s = ''<unknown>'' then ''error'' else GetVMStatusGroup s) @
     ''_status_last_transition_timestamp_seconds''"
  by (simp add: getTimestampMetric_def GetVMStatusGroup_def metric_defs del: ContainsStatus_iff)

lemma getTimestampMetric_mem: "getTimestampMetric s \<in> set timestampMetrics"
  by (simp add: getTimestampMetric_def timestampMetrics_def)

lemma timestamps_distinct: "distinct (map m_name timestampMetrics)"
  by (simp add: timestampMetrics_def metric_defs)

lemma timestamp_name_eq: "m \<in> set timestampMetrics \<Longrightarrow> m = getTimestampMetric s \<longleftrightarrow> m_name m = m_name (getTimestampMetric s)"
  using timestamps_distinct getTimestampMetric_mem [of s] by (auto simp: distinct_map inj_on_def)

text \<open>C27: every VM gets one sample of each of the five status timestamps; the one named after the VM's
  status group carries the last transition time and the other four are zero. The metric and the
  \<open>status_group\<close> label of the information sample agree, except that a status in none of the five
  lists is counted as an error by the timestamps.\<close>

theorem timestamps_one_active:
  "map (\<lambda>r. (r_metric r, r_labels r, r_value r)) (reportVMTimestamps v) =
     map (\<lambda>m. (m, [vm_name v, vm_namespace v],
       if m_name m = ''kubevirt_vm_'' @
            (if GetVMStatusGroup (vm_printable v) = ''<unknown>'' then ''error'' else GetVMStatusGroup (vm_printable v)) @
            ''_status_last_transition_timestamp_seconds''
       then f64_of_int (GetLastConditionTransitionTime v) else 0)) timestampMetrics"
  using timestamp_name_eq [of _ "vm_printable v"]
  by (simp add: reportVMTimestamps_def Let_def timestamp_name_of_group)

text \<open>A VM that waits for the receiver of a decentralised migration (printable status
  \<open>WaitingForReceiver\<close>) is in the group \<open><unknown>\<close> of the information sample but is the only
  status of the API reported by the error timestamp without being an error status.\<close>

theorem waiting_for_receiver_is_error:
  "GetVMStatusGroup ''WaitingForReceiver'' = ''<unknown>'' \<and>
   getTimestampMetric ''WaitingForReceiver'' = errorTimestamp \<and>
   [s \<leftarrow> [''Stopped'', ''Provisioning'', ''Starting'', ''Running'', ''Paused'', ''Stopping'', ''Terminating'',
         ''CrashLoopBackOff'', ''Migrating'', ''Unknown'', ''ErrorUnschedulable'', ''ErrImagePull'',
         ''ImagePullBackOff'', ''ErrorPvcNotFound'', ''DataVolumeError'', ''WaitingForVolumeBinding'',
         ''WaitingForReceiver''].
      getTimestampMetric s = errorTimestamp \<and> GetVMStatusGroup s \<noteq> ''error''] = [''WaitingForReceiver'']"
  by (simp add: GetVMStatusGroup_def getTimestampMetric_def status_lists metric_defs NewCounterVec_def)

lemma dv_template_size_find:
  "dv_template_size ts n =
     (case find (\<lambda>t. dvt_name t = n \<and> (dvt_pvc t \<noteq> None \<or> dvt_storage t \<noteq> None)) ts of
        None \<Rightarrow> None
      | Some t \<Rightarrow> Some (rl_get (case dvt_pvc t of Some rl \<Rightarrow> rl | None \<Rightarrow> the (dvt_storage t)) ResourceStorage))"
  by (induction ts) (auto split: option.splits)

text \<open>The allocated size of a disk is the storage request of the first data-volume template of that
  name that has a PVC or storage spec, when the volume is a data volume and there is one, and
  otherwise the storage request of the claim in the cache; the template wins over the claim even
  when it asks for no storage (the sample is then 0).\<close>

theorem disk_size_precedence:
  "r_value (getDiskSizeResult v p disk isDV) = f64_of_int (Value (
     if isDV then
       (case find (\<lambda>t. dvt_name t = om_name (pvc_meta p) \<and> \<not> (dvt_pvc t = None \<and> dvt_storage t = None))
               (vm_dv_templates v) of
          Some t \<Rightarrow> rl_get (case dvt_pvc t of Some rl \<Rightarrow> rl | None \<Rightarrow> the (dvt_storage t)) ''storage''
        | None \<Rightarrow> rl_get (pvc_requests p) ''storage'')
     else rl_get (pvc_requests p) ''storage''))"
  by (simp add: getDiskSizeResult_def Let_def getSizeFromDataVolumeTemplates_def dv_template_size_find
      ResourceStorage_def de_Morgan_conj split: option.splits)



subsection \<open>The label sample\<close>

lemma merged_labels_lookup:
  assumes "gomap_ok (om_labels (vm_meta v))" and "\<forall>t. vm_template v = Some t \<longrightarrow> gomap_ok (om_labels (tpl_meta t))"
  shows "gomap_ok (merged_labels v)"
    and "map_of (merged_labels v) k =
      (case Option.bind (vm_template v) (\<lambda>t. map_of (om_labels (tpl_meta t)) k) of
         Some x \<Rightarrow> Some x | None \<Rightarrow> map_of (om_labels (vm_meta v)) k)"
  using assms
  by (auto simp: merged_labels_def Let_def gomap_ok_copy map_of_gomap_copy map_add_def split: option.splits)


definition demo_vm :: vm where
  "demo_vm = zero_vm\<lparr>vm_meta := zero_meta\<lparr>om_name := ''vm1'', om_namespace := ''ns'',
     om_labels := [(''a.b'', ''1''), (''c'', ''2'')]\<rparr>,
     vm_template := Some \<lparr>tpl_meta = zero_meta\<lparr>om_labels := [(''c'', ''3'')]\<rparr>, tpl_spec = zero_spec\<rparr>\<rparr>"




subsection \<open>CPU and memory\<close>

lemma milli_cores_near:
  assumes "0 \<le> m" and "m < 2 ^ 53"
  shows "\<bar>milli_cores (mk_quantity m (- 3)) - of_int m / 1000\<bar> \<le> of_int m / 1000 * 2 powi (- 53)"
proof -
  have "ScaledValue (mk_quantity m (- 3)) milli = m"
    by (simp add: ScaledValue_def mk_quantity_def AsScaledInt64_def milli_def positiveScaleInt64_def)
  then have "milli_cores (mk_quantity m (- 3)) = rnd (of_int m / 1000)"
    using assms by (simp add: milli_cores_def f64_div_def f64_of_int_exact)
  then show ?thesis using rnd_rel_error [of "of_int m / 1000"] assms(1) by simp
qed

text \<open>A CPU request given in millicores is reported in cores with a relative error of at most
  2^-53 (one rounding), and whole cores given as millicores are reported exactly.\<close>

theorem cpu_request_accuracy:
  assumes "vm_template v = Some t" and "0 < m" and "m < 2 ^ 53"
    and "rl_get (dom_requests (spec_domain (tpl_spec t))) ''cpu'' = mk_quantity m (- 3)"
  shows "\<exists>r. collectCPURequestsFromResources v = [r] \<and>
    r_labels r = [vm_name v, vm_namespace v, ''cpu'', ''cores'', ''requests''] \<and>
    \<bar>r_value r - of_int m / 1000\<bar> \<le> of_int m / 1000 * 2 powi (- 53) \<and>
    (m mod 1000 = 0 \<longrightarrow> r_value r = of_int (m div 1000))"
proof -
  have nz: "\<not> IsZero (mk_quantity m (- 3))" using assms(2) by (simp add: IsZero_def mk_quantity_def)
  have exact: "milli_cores (mk_quantity m (- 3)) = of_int (m div 1000)" if "m mod 1000 = 0"
  proof -
    from that have "1000 dvd m" by presburger
    then obtain k where k: "m = 1000 * k" by (rule dvdE)
    have "ScaledValue (mk_quantity m (- 3)) milli = m"
      by (simp add: ScaledValue_def mk_quantity_def AsScaledInt64_def milli_def positiveScaleInt64_def)
    then have "milli_cores (mk_quantity m (- 3)) = rnd (of_int m / 1000)"
      using assms(2,3) by (simp add: milli_cores_def f64_div_def f64_of_int_exact)
    also have "of_int m / 1000 = rat_of_int k" by (simp add: k)
    also have "rnd (rat_of_int k) = of_int k" using assms(2,3) k by (intro rnd_int) simp
    finally show ?thesis by (simp add: k)
  qed
  show ?thesis
    using assms(1,4) nz exact milli_cores_near [of m] assms(2,3)
    by (simp add: collectCPURequestsFromResources_def ResourceCPU_def cpu_request_def)
qed

definition cpu_vm :: "int \<Rightarrow> vm" where
  "cpu_vm m = zero_vm\<lparr>vm_template := Some \<lparr>tpl_meta = zero_meta,
     tpl_spec = zero_spec\<lparr>spec_domain := zero_domain\<lparr>dom_requests := [(''cpu'', mk_quantity m (- 3))]\<rparr>\<rparr>\<rparr>\<rparr>"

theorem cpu_request_accuracy_witness:
  "\<exists>r. collectCPURequestsFromResources (cpu_vm 2000) = [r] \<and> r_value r = 2"
proof -
  have t: "vm_template (cpu_vm 2000) = Some \<lparr>tpl_meta = zero_meta,
     tpl_spec = zero_spec\<lparr>spec_domain := zero_domain\<lparr>dom_requests := [(''cpu'', mk_quantity 2000 (- 3))]\<rparr>\<rparr>\<rparr>"
    by (simp add: cpu_vm_def)
  from cpu_request_accuracy [OF t, of 2000] show ?thesis
    by (auto simp: rl_get_def)
qed



lemma vm_info_total:
  assumes "getStores st = Some s"
  shows "\<exists>r. vm_info st v = Inr r"
proof -
  have "\<exists>a. getVMInstancetype st v = Inr a" "\<exists>b. getVMPreference st v = Inr b"
    using assms by (auto simp: getVMInstancetype_def getVMPreference_def split: option.splits)
  then show ?thesis by (auto simp: vm_info_def Let_def split: prod.splits)
qed

lemma count_metric_zero_wf:
  "(\<And>r. r \<in> set rs \<Longrightarrow> m_name (r_metric r) \<noteq> m_name m) \<Longrightarrow> count_metric m rs = 0"
  by (rule count_metric_none) metis

lemma vm_disk_metric: "r \<in> set (CollectDiskAllocatedSize st vms) \<Longrightarrow> r_metric r = vmDiskAllocatedSize"
  by (auto simp: CollectDiskAllocatedSize_def collectDiskMetricsFromPVC_def disk_metric_def getDiskSizeResult_def
      Let_def dest!: map_filter_setD split: option.splits prod.splits if_splits)

lemma memory_request_metric [simp]: "r_metric (memory_request v src q) = vmResourceRequests"
  by (simp add: memory_request_def)

lemma cpu_request_metric [simp]: "r_metric (cpu_request v unit src x) = vmResourceRequests"
  by (simp add: cpu_request_def)

lemma vm_memory_metrics:
  "r \<in> set (collectMemoryRequests pq v) \<Longrightarrow> r_metric r = vmResourceRequests"
  "r \<in> set (collectMemoryLimits v) \<Longrightarrow> r_metric r = vmResourceLimits"
  "r \<in> set (collectAllocatedMemory v) \<Longrightarrow> r_metric r = vmResourceRequests"
  by (auto simp: collectMemoryRequests_def collectMemoryLimits_def collectAllocatedMemory_def Let_def
      split: option.splits if_splits)

lemma vm_cpu_metrics:
  "r \<in> set (collectCPURequestsFromDomainCPU v) \<Longrightarrow> r_metric r = vmResourceRequests"
  "r \<in> set (collectCPURequestsFromResources v) \<Longrightarrow> r_metric r = vmResourceRequests"
  "r \<in> set (collectCPULimits v) \<Longrightarrow> r_metric r = vmResourceLimits"
  "r \<in> set (collectAllocatedCPU v) \<Longrightarrow> r_metric r = vmResourceRequests"
  by (auto simp: collectCPURequestsFromDomainCPU_def collectCPURequestsFromResources_def
      collectCPULimits_def collectAllocatedCPU_def Let_def split: option.splits if_splits)

lemma vm_resources_metric:
  "r \<in> set (CollectResourceRequestsAndLimits pq vms) \<Longrightarrow> r_metric r \<in> {vmResourceRequests, vmResourceLimits}"
  unfolding CollectResourceRequestsAndLimits_def collectVMResourceRequestsAndLimits_def
  by (auto dest: vm_memory_metrics vm_cpu_metrics)

lemma vm_label_metric: "r \<in> set (ReportVMLabels rng v) \<Longrightarrow> r_metric r = vmLabels"
  by (simp add: ReportVMLabels_def Let_def split: if_splits)

lemma vm_timestamp_metric: "r \<in> set (reportVMTimestamps v) \<Longrightarrow> r_metric r \<in> set timestampMetrics"
  by (auto simp only: reportVMTimestamps_def Let_def set_map result_simps)

lemma vm_stats_metric: "r \<in> set (ReportVMStats rng vms) \<Longrightarrow> r_metric r \<in> insert vmLabels (set timestampMetrics)"
  unfolding ReportVMStats_def by (auto dest: vm_label_metric vm_timestamp_metric)

lemma vm_creation_metric: "r \<in> set (collectVMCreationTimestamp vms) \<Longrightarrow> r_metric r = vmCreationTimestamp"
  by (auto simp: collectVMCreationTimestamp_def dest!: map_filter_setD)

lemma vm_vnic_metric: "r \<in> set (CollectVmsVnicInfo vms) \<Longrightarrow> r_metric r = vmVnicInfo"
  by (auto simp: CollectVmsVnicInfo_def split: option.splits dest!: map_filter_setD vnic_result_SomeD)

lemmas vm_part_metrics = vm_disk_metric vm_resources_metric vm_stats_metric vm_creation_metric vm_vnic_metric

text \<open>C13: with caches filled by the informers the VM callback never panics, whatever the VMs hold, and
  every VM of the cache gets exactly one information sample, in store order.\<close>

theorem vm_callback_complete:
  assumes "getStores st = Some s" and "s_vm s = Some c" and "\<forall>x \<in> set (store_list c). as_vm x \<noteq> None"
  shows "\<exists>rs. vmStatsCollectorCallback pq rng st = Inr rs \<and>
    map (\<lambda>r. take 2 (r_labels r)) (filter (\<lambda>r. r_metric r = vmInfo) rs) =
    map (\<lambda>x. case as_vm x of Some v \<Rightarrow> [vm_name v, vm_namespace v] | None \<Rightarrow> []) (store_list c)"
proof -
  define vs where "vs = map (\<lambda>x. the (as_vm x)) (store_list c)"
  have "mapR (assert_type as_vm) (store_list c) = Inr vs"
    unfolding vs_def using assms(3) by (intro mapR_Inr) (auto simp: assert_type_def)
  moreover obtain infos where infos: "mapR (vm_info st) vs = Inr infos"
    using mapR_total [of vs "vm_info st"] vm_info_total [OF assms(1)] by blast
  ultimately have cb: "vmStatsCollectorCallback pq rng st = Inr
      (CollectDiskAllocatedSize st vs @ infos @ CollectResourceRequestsAndLimits pq vs @ ReportVMStats rng vs @
       collectVMCreationTimestamp vs @ CollectVmsVnicInfo vs)"
    using assms(1,2) by (cases "store_list c = []")
      (auto simp: vmStatsCollectorCallback_def Let_def CollectVMsInfo_def vs_def CollectDiskAllocatedSize_def
        CollectResourceRequestsAndLimits_def ReportVMStats_def collectVMCreationTimestamp_def
        CollectVmsVnicInfo_def map_filter_def)
  have ne: "vmInfo \<noteq> m" if "m \<in> {vmDiskAllocatedSize, vmResourceRequests, vmResourceLimits, vmLabels,
      vmCreationTimestamp, vmVnicInfo} \<union> set timestampMetrics" for m
  proof
    assume "vmInfo = m"
    then have "m_name m = ''kubevirt_vm_info''" by (metis vmInfo_def new_metric_simps(3))
    with that show False by (auto simp: timestampMetrics_def metric_defs)
  qed
  have none: "filter (\<lambda>r. r_metric r = vmInfo) (CollectDiskAllocatedSize st vs) = []"
     "filter (\<lambda>r. r_metric r = vmInfo) (CollectResourceRequestsAndLimits pq vs) = []"
     "filter (\<lambda>r. r_metric r = vmInfo) (ReportVMStats rng vs) = []"
     "filter (\<lambda>r. r_metric r = vmInfo) (collectVMCreationTimestamp vs) = []"
     "filter (\<lambda>r. r_metric r = vmInfo) (CollectVmsVnicInfo vs) = []"
    using ne by (fastforce simp: filter_empty_conv dest: vm_part_metrics)+
  have all: "filter (\<lambda>r. r_metric r = vmInfo) infos = infos"
    using infos by (auto intro!: filter_True dest!: mapR_set vm_info_InrD)
  have "map (\<lambda>r. take 2 (r_labels r)) infos = map (\<lambda>v. [vm_name v, vm_namespace v]) vs"
    using mapR_eq_InrD [OF infos] by (induction rule: list_all2_induct) (auto dest: vm_info_InrD)
  also have "\<dots> = map (\<lambda>x. case as_vm x of Some v \<Rightarrow> [vm_name v, vm_namespace v] | None \<Rightarrow> []) (store_list c)"
    using assms(3) by (auto simp: vs_def)
  finally show ?thesis by (simp add: cb none all)
qed

theorem vm_callback_complete_witness:
  "\<exists>rs. vmStatsCollectorCallback (\<lambda>_. None) id
       \<lparr>stores_ref = Some (empty_stores\<lparr>s_vm := Some [(''ns/vm1'', AVM demo_vm)]\<rparr>), indexers_ref = None\<rparr> = Inr rs \<and>
     map (\<lambda>r. take 2 (r_labels r)) (filter (\<lambda>r. r_metric r = vmInfo) rs) = [[''vm1'', ''ns'']]"
proof -
  let ?st = "\<lparr>stores_ref = Some (empty_stores\<lparr>s_vm := Some [(''ns/vm1'', AVM demo_vm)]\<rparr>), indexers_ref = None\<rparr>"
  have "getStores ?st = Some (empty_stores\<lparr>s_vm := Some [(''ns/vm1'', AVM demo_vm)]\<rparr>)" by (simp add: getStores_def)
  from vm_callback_complete [OF this, of "[(''ns/vm1'', AVM demo_vm)]" "\<lambda>_. None" id]
  show ?thesis by (simp add: store_list_def demo_vm_def)
qed

end
