(* ===== verification/Metrics_Setup.thy ===== *)
theory Metrics_Setup
  imports Migration_Stats VMI_Stats VM_Stats "HOL-Library.List_Lexorder" "HOL-Library.Char_ord"
begin

text \<open>
  Registration of the collectors (\<open>pkg/monitoring/metrics/metrics.go\<close>,
  \<open>operatormetrics/wrapper_registry.go\<close>). The Prometheus registry is not part of the program: its
  \<open>Register\<close> and \<open>Unregister\<close> are the arguments \<open>preg\<close> and \<open>punreg\<close> over a state of their own. A call
  returns the state it leaves together with its error, because a failing registration keeps the
  collectors registered before it.
\<close>

section \<open>The toolkit's registry\<close>

record registry =
  reg_collectors :: "metric list gomap"
  reg_cmetrics :: "metric gomap"

definition newRegistry :: registry where
  "newRegistry = \<lparr>reg_collectors = [], reg_cmetrics = []\<rparr>"

definition collector_hash :: "metric list \<Rightarrow> string" where
  "collector_hash ms = concat (map m_name ms)"

definition collectorExists :: "registry \<Rightarrow> metric list \<Rightarrow> bool" where
  "collectorExists reg ms \<longleftrightarrow> map_of (reg_collectors reg) (collector_hash ms) \<noteq> None"

fun delete_metrics :: "metric list \<Rightarrow> metric gomap \<Rightarrow> metric gomap" where
  "delete_metrics [] m = m"
| "delete_metrics (x # xs) m = delete_metrics xs (gomap_del (m_name x) m)"

fun insert_metrics :: "metric list \<Rightarrow> metric gomap \<Rightarrow> metric gomap" where
  "insert_metrics [] m = m"
| "insert_metrics (x # xs) m = insert_metrics xs (gomap_upd (m_name x) x m)"

type_synonym ('st, 'p) register_fn = "'st collector \<Rightarrow> 'p \<Rightarrow> 'p \<times> fault option"
type_synonym ('st, 'p) unregister_fn = "'st collector \<Rightarrow> 'p \<Rightarrow> 'p \<times> bool"

definition unregisterCollector ::
  "('st, 'p) unregister_fn \<Rightarrow> 'st collector \<Rightarrow> registry \<times> 'p \<Rightarrow> (registry \<times> 'p) \<times> fault option" where
  "unregisterCollector punreg c s =
     (let (p, ok) = punreg c (snd s) in
      if ok then
        ((\<lparr>reg_collectors = gomap_del (collector_hash (c_metrics c)) (reg_collectors (fst s)),
           reg_cmetrics = delete_metrics (c_metrics c) (reg_cmetrics (fst s))\<rparr>, p), None)
      else ((fst s, p), Some (GoError ''failed to unregister from Prometheus client collector'')))"

definition registerCollector ::
  "('st, 'p) register_fn \<Rightarrow> 'st collector \<Rightarrow> registry \<times> 'p \<Rightarrow> (registry \<times> 'p) \<times> fault option" where
  "registerCollector preg c s =
     (case preg c (snd s) of
        (p, Some e) \<Rightarrow> ((fst s, p), Some e)
      | (p, None) \<Rightarrow>
          ((\<lparr>reg_collectors = gomap_upd (collector_hash (c_metrics c)) (c_metrics c) (reg_collectors (fst s)),
             reg_cmetrics = insert_metrics (c_metrics c) (reg_cmetrics (fst s))\<rparr>, p), None))"

fun RegisterCollectors ::
  "('st, 'p) register_fn \<Rightarrow> ('st, 'p) unregister_fn \<Rightarrow> 'st collector list \<Rightarrow> registry \<times> 'p \<Rightarrow>
   (registry \<times> 'p) \<times> fault option" where
  "RegisterCollectors preg punreg [] s = (s, None)"
| "RegisterCollectors preg punreg (c # cs) s =
     (let (s1, e1) = (if collectorExists (fst s) (c_metrics c) then unregisterCollector punreg c s else (s, None)) in
      case e1 of Some e \<Rightarrow> (s1, Some e)
      | None \<Rightarrow>
          (case registerCollector preg c s1 of
             (s2, Some e) \<Rightarrow> (s2, Some e)
           | (s2, None) \<Rightarrow> RegisterCollectors preg punreg cs s2))"

text \<open>\<open>ListMetrics\<close> sorts the registered metrics by name, so the order of the map does not matter.\<close>

definition ListMetrics :: "registry \<Rightarrow> metric list" where
  "ListMetrics reg = sort_key m_name (map snd (reg_cmetrics reg))"

section \<open>SetupMetrics\<close>

definition allCollectors ::
  "(string \<Rightarrow> quantity option) \<Rightarrow> (string gomap \<Rightarrow> string gomap) \<Rightarrow> mstate collector list" where
  "allCollectors parse_quantity rng = [MigrationStatsCollector, VMIStatsCollector, VMStatsCollector parse_quantity rng]"

definition SetupMetrics ::
  "(mstate, 'p) register_fn \<Rightarrow> (mstate, 'p) unregister_fn \<Rightarrow> mstate collector list \<Rightarrow>
   stores option \<Rightarrow> indexers option \<Rightarrow> bool gomap option \<Rightarrow> mstate \<Rightarrow> registry \<times> 'p \<Rightarrow>
   mstate \<times> (registry \<times> 'p) \<times> fault option" where
  "SetupMetrics preg punreg collectors metricsStores metricsIndexers allowlist st s =
     (let st' = SetStores (case metricsStores of None \<Rightarrow> empty_stores | Some x \<Rightarrow> x)
                  (case metricsIndexers of None \<Rightarrow> empty_indexers | Some x \<Rightarrow> x) st
      in (st',
          case allowlist of
            None \<Rightarrow> RegisterCollectors preg punreg collectors s
          | Some al \<Rightarrow>
              (let filtered = List.map_filter (\<lambda>c. filterCollector c al) collectors in
               if filtered = [] then (s, None) else RegisterCollectors preg punreg filtered s)))"

section \<open>What is registered\<close>

lemma insert_metrics_ok: "gomap_ok reg \<Longrightarrow> gomap_ok (insert_metrics ms reg)"
  by (induction ms reg rule: insert_metrics.induct) (auto simp: gomap_ok_upd)

text \<open>An entry of the registry's map is a metric under its own name.\<close>

definition registry_ok :: "registry \<Rightarrow> bool" where
  "registry_ok reg \<longleftrightarrow> gomap_ok (reg_cmetrics reg) \<and> (\<forall>e \<in> set (reg_cmetrics reg). fst e = m_name (snd e))"

lemma gomap_upd_set: "e \<in> set (gomap_upd k v m) \<Longrightarrow> e = (k, v) \<or> e \<in> set m"
  by (induction m) (auto simp: gomap_upd_def split: if_splits)

lemma insert_metrics_names:
  "\<forall>e \<in> set reg. fst e = m_name (snd e) \<Longrightarrow> \<forall>e \<in> set (insert_metrics ms reg). fst e = m_name (snd e)"
proof (induction ms reg rule: insert_metrics.induct)
  case (2 x xs m)
  have "\<forall>e \<in> set (gomap_upd (m_name x) x m). fst e = m_name (snd e)"
    using 2(2) by (auto dest!: gomap_upd_set)
  from 2(1) [OF this] show ?case by simp
qed simp

lemma insert_metrics_set:
  assumes "gomap_ok reg" and "\<forall>e \<in> set reg. fst e = m_name (snd e)"
    and "distinct (map m_name ms)" and "m_name ` set ms \<inter> fst ` set reg = {}"
  shows "snd ` set (insert_metrics ms reg) = set ms \<union> snd ` set reg"
  using assms
proof (induction ms reg rule: insert_metrics.induct)
  case (2 x xs m)
  have fresh: "m_name x \<notin> fst ` set m" using 2(5) by auto
  then have upd: "gomap_upd (m_name x) x m = m @ [(m_name x, x)]"
    by (induction m) (auto simp: gomap_upd_def)
  have "m_name ` set xs \<inter> fst ` set (gomap_upd (m_name x) x m) = {}"
    using 2(4,5) by (auto simp: upd)
  with 2 show ?case by (auto simp: upd gomap_ok_def)
qed simp

definition quiet_registry :: "('st, 'p) register_fn \<Rightarrow> ('st, 'p) unregister_fn \<Rightarrow> bool" where
  "quiet_registry preg punreg \<longleftrightarrow> (\<forall>c p. snd (preg c p) = None \<and> snd (punreg c p))"

lemma registerCollector_quiet:
  "quiet_registry preg punreg \<Longrightarrow> \<exists>p'. registerCollector preg c s =
    ((\<lparr>reg_collectors = gomap_upd (collector_hash (c_metrics c)) (c_metrics c) (reg_collectors (fst s)),
       reg_cmetrics = insert_metrics (c_metrics c) (reg_cmetrics (fst s))\<rparr>, p'), None)"
  by (auto simp: quiet_registry_def registerCollector_def split: prod.splits option.splits)
     (metis option.distinct(1) snd_conv)

text \<open>Registering collectors with pairwise distinct metric names from a clean state.\<close>

lemma RegisterCollectors_fresh:
  assumes "quiet_registry preg punreg" and "registry_ok (fst s)"
    and "distinct (map m_name (concat (map c_metrics cs)))"
    and "m_name ` set (concat (map c_metrics cs)) \<inter> fst ` set (reg_cmetrics (fst s)) = {}"
    and "\<forall>c \<in> set cs. \<not> collectorExists (fst s) (c_metrics c)"
    and "distinct (map (\<lambda>c. collector_hash (c_metrics c)) cs)"
  shows "\<exists>s'. RegisterCollectors preg punreg cs s = (s', None) \<and> registry_ok (fst s') \<and>
    snd ` set (reg_cmetrics (fst s')) = set (concat (map c_metrics cs)) \<union> snd ` set (reg_cmetrics (fst s))"
  using assms
proof (induction cs arbitrary: s)
  case Nil
  then show ?case by simp
next
  case (Cons c cs)
  let ?ms = "c_metrics c"
  obtain p' where reg: "registerCollector preg c s =
      ((\<lparr>reg_collectors = gomap_upd (collector_hash ?ms) ?ms (reg_collectors (fst s)),
         reg_cmetrics = insert_metrics ?ms (reg_cmetrics (fst s))\<rparr>, p'), None)"
    using registerCollector_quiet [OF Cons.prems(1)] by blast
  define s1 where "s1 = (\<lparr>reg_collectors = gomap_upd (collector_hash ?ms) ?ms (reg_collectors (fst s)),
         reg_cmetrics = insert_metrics ?ms (reg_cmetrics (fst s))\<rparr>, p')"
  have ok: "gomap_ok (reg_cmetrics (fst s))" "\<forall>e \<in> set (reg_cmetrics (fst s)). fst e = m_name (snd e)"
    using Cons.prems(2) by (simp_all add: registry_ok_def)
  have d: "distinct (map m_name ?ms)" and fr: "m_name ` set ?ms \<inter> fst ` set (reg_cmetrics (fst s)) = {}"
    using Cons.prems(3,4) by auto
  have ab: "m_name ` set ?ms \<inter> m_name ` set (concat (map c_metrics cs)) = {}"
    using Cons.prems(3) by (simp only: list.map concat.simps map_append distinct_append set_map)
  have bk: "m_name ` set (concat (map c_metrics cs)) \<inter> fst ` set (reg_cmetrics (fst s)) = {}"
    using Cons.prems(4) by (simp only: list.map concat.simps set_append image_Un Int_Un_distrib2 Un_empty)
  note iset = insert_metrics_set [OF ok d fr]
  have ok1: "registry_ok (fst s1)"
    using ok insert_metrics_ok insert_metrics_names by (simp add: s1_def registry_ok_def)
  have keys: "fst ` set (reg_cmetrics (fst s1)) = m_name ` set ?ms \<union> fst ` set (reg_cmetrics (fst s))"
  proof -
    have "fst ` set (reg_cmetrics (fst s1)) = m_name ` snd ` set (reg_cmetrics (fst s1))"
      using ok1 by (force simp: registry_ok_def image_iff)
    also have "\<dots> = m_name ` set ?ms \<union> m_name ` snd ` set (reg_cmetrics (fst s))"
      by (simp add: s1_def iset image_Un)
    also have "m_name ` snd ` set (reg_cmetrics (fst s)) = fst ` set (reg_cmetrics (fst s))"
      using ok(2) by (force simp: image_iff)
    finally show ?thesis .
  qed
  have "\<exists>s'. RegisterCollectors preg punreg cs s1 = (s', None) \<and> registry_ok (fst s') \<and>
    snd ` set (reg_cmetrics (fst s')) = set (concat (map c_metrics cs)) \<union> snd ` set (reg_cmetrics (fst s1))"
  proof (rule Cons.IH [OF Cons.prems(1) ok1])
    show "distinct (map m_name (concat (map c_metrics cs)))" using Cons.prems(3) by simp
    show "m_name ` set (concat (map c_metrics cs)) \<inter> fst ` set (reg_cmetrics (fst s1)) = {}"
      unfolding keys using ab bk by (simp only: Int_Un_distrib Int_commute Un_empty)
    show "\<forall>c \<in> set cs. \<not> collectorExists (fst s1) (c_metrics c)"
    proof
      fix d assume d: "d \<in> set cs"
      then have "collector_hash (c_metrics d) \<noteq> collector_hash ?ms" using Cons.prems(6) by (auto simp: image_iff)
      with Cons.prems(5) d show "\<not> collectorExists (fst s1) (c_metrics d)"
        by (simp add: collectorExists_def s1_def go_map_simps)
    qed
    show "distinct (map (\<lambda>c. collector_hash (c_metrics c)) cs)" using Cons.prems(6) by simp
  qed
  then obtain s' where s': "RegisterCollectors preg punreg cs s1 = (s', None)" "registry_ok (fst s')"
      "snd ` set (reg_cmetrics (fst s')) = set (concat (map c_metrics cs)) \<union> snd ` set (reg_cmetrics (fst s1))"
    by blast
  have "RegisterCollectors preg punreg (c # cs) s = (s', None)"
    using Cons.prems(5) reg s'(1) by (simp add: s1_def)
  moreover have "snd ` set (reg_cmetrics (fst s')) = set (concat (map c_metrics (c # cs))) \<union>
      snd ` set (reg_cmetrics (fst s))"
    unfolding s'(3) by (simp add: s1_def iset Un_assoc Un_left_commute)
  ultimately show ?case using s'(2) by blast
qed

section \<open>Hashes of the collectors\<close>

text \<open>
  A collector's hash is the concatenation of its metric names. Two collectors without a common metric
  have different hashes because no metric name is a proper prefix of another.
\<close>

definition prefix_free :: "metric list \<Rightarrow> bool" where
  "prefix_free ms \<longleftrightarrow> (\<forall>m \<in> set ms. \<forall>m' \<in> set ms. prefix (m_name m) (m_name m') \<longrightarrow> m_name m = m_name m')"

lemma hash_hd:
  assumes "collector_hash xs = collector_hash ys" and "xs \<noteq> []" and "ys \<noteq> []"
    and "prefix_free zs" and "set xs \<subseteq> set zs" and "set ys \<subseteq> set zs"
  shows "m_name (hd xs) = m_name (hd ys)"
proof -
  have pre: "prefix (m_name (hd ms)) (collector_hash ms)" if "ms \<noteq> []" for ms
    using that by (cases ms) (auto simp: collector_hash_def)
  from pre [OF assms(2)] pre [OF assms(3)] assms(1)
  have "prefix (m_name (hd xs)) (m_name (hd ys)) \<or> prefix (m_name (hd ys)) (m_name (hd xs))"
    by (metis prefix_same_cases)
  moreover have "hd xs \<in> set zs" "hd ys \<in> set zs" using assms(2,3,5,6) by auto
  ultimately show ?thesis using assms(4) unfolding prefix_free_def by metis
qed

lemma hashes_distinct:
  assumes "prefix_free (concat (map c_metrics cs))" and "distinct (map m_name (concat (map c_metrics cs)))"
    and "\<forall>c \<in> set cs. c_metrics c \<noteq> []"
  shows "distinct (map (\<lambda>c. collector_hash (c_metrics c)) cs)"
  using assms
proof (induction cs)
  case Nil
  show ?case by simp
next
  case (Cons c cs)
  have sub: "prefix_free (concat (map c_metrics cs))" using Cons.prems(1) by (simp add: prefix_free_def)
  have "collector_hash (c_metrics c) \<noteq> collector_hash (c_metrics d)" if d: "d \<in> set cs" for d
  proof
    assume eq: "collector_hash (c_metrics c) = collector_hash (c_metrics d)"
    have ne: "c_metrics c \<noteq> []" "c_metrics d \<noteq> []" using Cons.prems(3) d by simp_all
    have "m_name (hd (c_metrics c)) = m_name (hd (c_metrics d))"
      using d by (intro hash_hd [OF eq ne Cons.prems(1)]) auto
    moreover have "m_name (hd (c_metrics c)) \<in> m_name ` set (c_metrics c)" using ne by simp
    moreover have "m_name (hd (c_metrics d)) \<in> m_name ` set (concat (map c_metrics cs))"
    proof (rule imageI)
      show "hd (c_metrics d) \<in> set (concat (map c_metrics cs))" using ne(2) d by (auto intro!: bexI [of _ d])
    qed
    ultimately show False using Cons.prems(2)
      by (simp only: list.map concat.simps map_append distinct_append set_map) (metis IntI empty_iff)
  qed
  with Cons sub show ?case by auto
qed

definition all_metrics :: "metric list" where
  "all_metrics = MigrationStatsMetrics @ VMIStatsMetrics @ VMStatsMetrics"

lemmas collector_defs = MigrationStatsCollector_def VMIStatsCollector_def VMStatsCollector_def

lemma all_collector_metrics: "concat (map c_metrics (allCollectors pq rng)) = all_metrics"
  by (simp add: allCollectors_def collector_defs all_metrics_def)

lemma all_metrics_prefix_free: "prefix_free all_metrics"
  by code_simp

lemma all_metrics_distinct: "distinct (map m_name all_metrics)"
  by code_simp

lemma all_collectors_nonempty: "\<forall>c \<in> set (allCollectors pq rng). c_metrics c \<noteq> []"
  by (simp add: allCollectors_def collector_defs MigrationStatsMetrics_def VMIStatsMetrics_def VMStatsMetrics_def
      timestampMetrics_def)

lemma filtered_metrics:
  "concat (map c_metrics (List.map_filter (\<lambda>c. filterCollector c al) cs)) =
     filter (\<lambda>m. bool_at al (m_name m)) (concat (map c_metrics cs))"
  by (induction cs) (auto simp: filterCollector_def Let_def map_filter_simps)

lemma filtered_nonempty: "c \<in> set (List.map_filter (\<lambda>c. filterCollector c al) cs) \<Longrightarrow> c_metrics c \<noteq> []"
  by (auto simp: filterCollector_def Let_def dest!: map_filter_setD split: if_splits)

lemma prefix_free_filter: "prefix_free ms \<Longrightarrow> prefix_free (filter P ms)"
  by (simp add: prefix_free_def)

lemma distinct_names_filter: "distinct (map m_name ms) \<Longrightarrow> distinct (map m_name (filter P ms))"
  by (simp add: distinct_map_filter)

lemma RegisterCollectors_new:
  assumes "quiet_registry preg punreg" and "prefix_free (concat (map c_metrics cs))"
    and "distinct (map m_name (concat (map c_metrics cs)))" and "\<forall>c \<in> set cs. c_metrics c \<noteq> []"
  shows "\<exists>s'. RegisterCollectors preg punreg cs (newRegistry, p) = (s', None) \<and> registry_ok (fst s') \<and>
    snd ` set (reg_cmetrics (fst s')) = set (concat (map c_metrics cs))"
  using RegisterCollectors_fresh [of preg punreg "(newRegistry, p)" cs] assms hashes_distinct [OF assms(2-4)]
  by (simp add: newRegistry_def registry_ok_def collectorExists_def)

lemma ListMetrics_props:
  assumes "registry_ok reg"
  shows "set (ListMetrics reg) = snd ` set (reg_cmetrics reg)"
    and "sorted (map m_name (ListMetrics reg))" and "distinct (map m_name (ListMetrics reg))"
proof -
  show "set (ListMetrics reg) = snd ` set (reg_cmetrics reg)" by (simp add: ListMetrics_def)
  show "sorted (map m_name (ListMetrics reg))" by (simp add: ListMetrics_def)
  have "map m_name (map snd (reg_cmetrics reg)) = map fst (reg_cmetrics reg)"
    using assms by (simp add: registry_ok_def)
  then have "distinct (map m_name (map snd (reg_cmetrics reg)))"
    using assms by (simp only: registry_ok_def gomap_ok_def)
  then show "distinct (map m_name (ListMetrics reg))"
    unfolding ListMetrics_def by (metis distinct_map distinct_sort set_sort)
qed

lemma SetupMetrics_fresh:
  assumes "quiet_registry preg punreg"
  shows "\<exists>st' s'. SetupMetrics preg punreg (allCollectors pq rng) ss ixs allow st (newRegistry, p) = (st', s', None) \<and>
    getStores st' = Some (case ss of None \<Rightarrow> empty_stores | Some x \<Rightarrow> x) \<and>
    getIndexers st' = Some (case ixs of None \<Rightarrow> empty_indexers | Some x \<Rightarrow> x) \<and>
    set (ListMetrics (fst s')) =
      {m \<in> set all_metrics. case allow of None \<Rightarrow> True | Some al \<Rightarrow> bool_at al (m_name m)} \<and>
    sorted (map m_name (ListMetrics (fst s'))) \<and> distinct (map m_name (ListMetrics (fst s')))"
proof -
  define cs where "cs = (case allow of None \<Rightarrow> allCollectors pq rng
    | Some al \<Rightarrow> List.map_filter (\<lambda>c. filterCollector c al) (allCollectors pq rng))"
  have ms: "concat (map c_metrics cs) =
      filter (\<lambda>m. case allow of None \<Rightarrow> True | Some al \<Rightarrow> bool_at al (m_name m)) all_metrics"
    by (cases allow) (simp_all add: cs_def all_collector_metrics filtered_metrics)
  have ne: "\<forall>c \<in> set cs. c_metrics c \<noteq> []"
    using all_collectors_nonempty by (cases allow) (auto simp: cs_def dest: filtered_nonempty)
  have "prefix_free (concat (map c_metrics cs))" "distinct (map m_name (concat (map c_metrics cs)))"
    unfolding ms by (rule prefix_free_filter [OF all_metrics_prefix_free] distinct_names_filter [OF all_metrics_distinct])+
  from RegisterCollectors_new [OF assms this ne] obtain s' where
    s': "RegisterCollectors preg punreg cs (newRegistry, p) = (s', None)" "registry_ok (fst s')"
      "snd ` set (reg_cmetrics (fst s')) = set (concat (map c_metrics cs))"
    by blast
  have "\<exists>st'. SetupMetrics preg punreg (allCollectors pq rng) ss ixs allow st (newRegistry, p) = (st', s', None) \<and>
      getStores st' = Some (case ss of None \<Rightarrow> empty_stores | Some x \<Rightarrow> x) \<and>
      getIndexers st' = Some (case ixs of None \<Rightarrow> empty_indexers | Some x \<Rightarrow> x)"
    using s'(1) by (cases allow; cases "cs = []")
      (auto simp: SetupMetrics_def cs_def Let_def SetStores_def getStores_def getIndexers_def)
  moreover have "set (ListMetrics (fst s')) =
      {m \<in> set all_metrics. case allow of None \<Rightarrow> True | Some al \<Rightarrow> bool_at al (m_name m)}"
    using s'(3) ListMetrics_props(1) [OF s'(2)] by (simp add: ms)
  ultimately show ?thesis using ListMetrics_props(2,3) [OF s'(2)] by blast
qed

text \<open>C4: with a Prometheus registry that accepts the collectors, \<open>SetupMetrics\<close> on a fresh registry
  succeeds and \<open>ListMetrics\<close> returns, sorted by name and without duplicates, all 26 metrics for a nil
  allowlist and otherwise exactly the allowlisted ones; the store references are replaced either way.\<close>

theorem SetupMetrics_registers:
  assumes "quiet_registry preg punreg"
  shows "\<exists>st' s'. SetupMetrics preg punreg (allCollectors pq rng) ss ixs allow st (newRegistry, p) = (st', s', None) \<and>
    getStores st' = Some (case ss of None \<Rightarrow> empty_stores | Some x \<Rightarrow> x) \<and>
    getIndexers st' = Some (case ixs of None \<Rightarrow> empty_indexers | Some x \<Rightarrow> x) \<and>
    set (ListMetrics (fst s')) =
      {m \<in> set all_metrics. case allow of None \<Rightarrow> True | Some al \<Rightarrow> bool_at al (m_name m)} \<and>
    sorted (map m_name (ListMetrics (fst s'))) \<and> distinct (map m_name (ListMetrics (fst s')))"
  by (rule SetupMetrics_fresh [OF assms])

definition demo_register :: "(mstate, unit) register_fn" where
  "demo_register c p = (p, None)"

definition demo_unregister :: "(mstate, unit) unregister_fn" where
  "demo_unregister c p = (p, True)"

theorem SetupMetrics_registers_witness:
  "\<exists>st' s'. SetupMetrics demo_register demo_unregister (allCollectors (\<lambda>_. None) id) None None
      (Some [(''kubevirt_vm_info'', True)]) \<lparr>stores_ref = None, indexers_ref = None\<rparr> (newRegistry, ()) = (st', s', None) \<and>
    vmInfo \<in> set (ListMetrics (fst s')) \<and> vmiInfo \<notin> set (ListMetrics (fst s'))"
proof -
  have "quiet_registry demo_register demo_unregister"
    by (simp add: quiet_registry_def demo_register_def demo_unregister_def)
  from SetupMetrics_registers [OF this, of "\<lambda>_. None" id None None "Some [(''kubevirt_vm_info'', True)]"
      "\<lparr>stores_ref = None, indexers_ref = None\<rparr>" "()"]
  obtain st' s' where *: "SetupMetrics demo_register demo_unregister (allCollectors (\<lambda>_. None) id) None None
      (Some [(''kubevirt_vm_info'', True)]) \<lparr>stores_ref = None, indexers_ref = None\<rparr> (newRegistry, ()) = (st', s', None)"
    and l: "set (ListMetrics (fst s')) = {m \<in> set all_metrics. bool_at [(''kubevirt_vm_info'', True)] (m_name m)}"
    by auto
  have "vmInfo \<in> set all_metrics" by (simp add: all_metrics_def)
  moreover have "m_name vmInfo = ''kubevirt_vm_info''" "m_name vmiInfo \<noteq> ''kubevirt_vm_info''"
    by (simp_all add: metric_defs)
  ultimately show ?thesis using * l by (auto simp: bool_at_def)
qed

section \<open>What the collectors hand over\<close>

lemma collectors_contract: "c \<in> set (allCollectors pq rng) \<Longrightarrow> metric_collector (c_metrics c) (c_callback c)"
  using migs.metric_collector_axioms vmis.metric_collector_axioms vms.metric_collector_axioms
  by (auto simp: allCollectors_def collector_defs)


definition demo_no_migrations :: mstate where
  "demo_no_migrations = \<lparr>stores_ref = None, indexers_ref = Some (empty_indexers\<lparr>i_vmi_migration :=
     Some \<lparr>ix_items = [], ix_funcs = []\<rparr>\<rparr>)\<rparr>"


end
