(* ===== verification/VMStats_Types.thy ===== *)
theory VMStats_Types
  imports Kube_Types Operator_Metrics
begin

text \<open>
  The statistics that virt-handler returns (\<open>pkg/monitoring/metrics/vmstats/types.go\<close>), the unit
  conversions (\<open>convert.go\<close>) and the per-VMI report that turns a value into a collector result
  (\<open>report.go\<close>). A \<open>uint64\<close> is a \<open>64 word\<close>, an \<open>int\<close> or \<open>int64\<close> an \<open>int\<close>, a slice a list (the code treats a
  nil slice as an empty one). Every sample carries its labels as constant labels.
\<close>

section \<open>Statistics\<close>

record domain_load =
  dl_Load1mSet :: bool
  dl_Load1m :: float64
  dl_Load5mSet :: bool
  dl_Load5m :: float64
  dl_Load15mSet :: bool
  dl_Load15m :: float64

record domain_cpu =
  dc_TimeSet :: bool
  dc_Time :: "64 word"
  dc_UserSet :: bool
  dc_User :: "64 word"
  dc_SystemSet :: bool
  dc_System :: "64 word"

record domain_vcpu =
  dv_StateSet :: bool
  dv_State :: int
  dv_TimeSet :: bool
  dv_Time :: "64 word"
  dv_WaitSet :: bool
  dv_Wait :: "64 word"
  dv_DelaySet :: bool
  dv_Delay :: "64 word"

record domain_net =
  dn_NameSet :: bool
  dn_Name :: string
  dn_AliasSet :: bool
  dn_Alias :: string
  dn_RxBytesSet :: bool
  dn_RxBytes :: "64 word"
  dn_RxPktsSet :: bool
  dn_RxPkts :: "64 word"
  dn_RxErrsSet :: bool
  dn_RxErrs :: "64 word"
  dn_RxDropSet :: bool
  dn_RxDrop :: "64 word"
  dn_TxBytesSet :: bool
  dn_TxBytes :: "64 word"
  dn_TxPktsSet :: bool
  dn_TxPkts :: "64 word"
  dn_TxErrsSet :: bool
  dn_TxErrs :: "64 word"
  dn_TxDropSet :: bool
  dn_TxDrop :: "64 word"

record domain_block =
  db_NameSet :: bool
  db_Name :: string
  db_Alias :: string
  db_BackingIndexSet :: bool
  db_BackingIndex :: "64 word"
  db_PathSet :: bool
  db_Path :: string
  db_RdReqsSet :: bool
  db_RdReqs :: "64 word"
  db_RdBytesSet :: bool
  db_RdBytes :: "64 word"
  db_RdTimesSet :: bool
  db_RdTimes :: "64 word"
  db_WrReqsSet :: bool
  db_WrReqs :: "64 word"
  db_WrBytesSet :: bool
  db_WrBytes :: "64 word"
  db_WrTimesSet :: bool
  db_WrTimes :: "64 word"
  db_FlReqsSet :: bool
  db_FlReqs :: "64 word"
  db_FlTimesSet :: bool
  db_FlTimes :: "64 word"
  db_ErrorsSet :: bool
  db_Errors :: "64 word"
  db_AllocationSet :: bool
  db_Allocation :: "64 word"
  db_CapacitySet :: bool
  db_Capacity :: "64 word"
  db_PhysicalSet :: bool
  db_Physical :: "64 word"

record domain_memory =
  dm_UnusedSet :: bool
  dm_Unused :: "64 word"
  dm_CachedSet :: bool
  dm_Cached :: "64 word"
  dm_AvailableSet :: bool
  dm_Available :: "64 word"
  dm_ActualBalloonSet :: bool
  dm_ActualBalloon :: "64 word"
  dm_RSSSet :: bool
  dm_RSS :: "64 word"
  dm_SwapInSet :: bool
  dm_SwapIn :: "64 word"
  dm_SwapOutSet :: bool
  dm_SwapOut :: "64 word"
  dm_MajorFaultSet :: bool
  dm_MajorFault :: "64 word"
  dm_MinorFaultSet :: bool
  dm_MinorFault :: "64 word"
  dm_UsableSet :: bool
  dm_Usable :: "64 word"
  dm_TotalSet :: bool
  dm_Total :: "64 word"

record domain_job_info =
  dj_DataTotalSet :: bool
  dj_DataTotal :: "64 word"
  dj_DataProcessedSet :: bool
  dj_DataProcessed :: "64 word"
  dj_MemoryBpsSet :: bool
  dj_MemoryBps :: "64 word"
  dj_DataRemainingSet :: bool
  dj_DataRemaining :: "64 word"
  dj_MemDirtyRateSet :: bool
  dj_MemDirtyRate :: "64 word"

record domain_dirty_rate =
  dr_CalcStatusSet :: bool
  dr_CalcStatus :: int
  dr_CalcStartTimeSet :: bool
  dr_CalcStartTime :: int
  dr_CalcPeriodSet :: bool
  dr_CalcPeriod :: int
  dr_MegabytesPerSecondSet :: bool
  dr_MegabytesPerSecond :: int

record domain_stats =
  ds_Name :: string
  ds_UUID :: string
  ds_Cpu :: "domain_cpu option"
  ds_Memory :: "domain_memory option"
  ds_MigrateDomainJobInfo :: "domain_job_info option"
  ds_Vcpu :: "domain_vcpu list"
  ds_Net :: "domain_net list"
  ds_Block :: "domain_block list"
  ds_CPUMapSet :: bool
  ds_CPUMap :: "bool list list"
  ds_DirtyRate :: "domain_dirty_rate option"
  ds_Load :: "domain_load option"

record vm_stats =
  vs_DomainStats :: domain_stats
  vs_DirtyRateMbps :: "int option"
  vs_GuestAgentVersion :: string
  vs_GuestGetLoad :: string
  vs_GuestGetCpuStats :: string
  vs_GuestGetDiskStats :: string
  vs_GuestGetTime :: string
  vs_GuestGetVcpus :: string
  vs_GuestGetMemoryBlockInfo :: string
  vs_GuestGetUsers :: string
  vs_GuestGetOsInfo :: string
  vs_GuestGetDisks :: string
  vs_GuestGetHostName :: string
  vs_GuestGetTimezone :: string
  vs_GuestNetworkGetRoute :: string
  vs_GuestNetworkGetInterfaces :: string
  vs_GuestGetMemoryBlocks :: string

record vm_stats_result =
  vr_Stats :: "vm_stats option"
  vr_Error :: string

section \<open>Conversions\<close>

definition VCPUOffline :: int where "VCPUOffline = 0"
definition VCPURunning :: int where "VCPURunning = 1"
definition VCPUBlocked :: int where "VCPUBlocked = 2"

definition nanosecondsPerSecond :: float64 where "nanosecondsPerSecond = 1000000000"
definition bytesPerKibibyte :: float64 where "bytesPerKibibyte = 1024"

text \<open>The conversion \<open>float64(x)\<close> of a \<open>uint64\<close>.\<close>

definition f64_of_u64 :: "64 word \<Rightarrow> float64" where
  "f64_of_u64 w = f64_of_int (uint w)"

definition nanosecondsToSeconds :: "64 word \<Rightarrow> float64" where
  "nanosecondsToSeconds ns = f64_div (f64_of_u64 ns) nanosecondsPerSecond"

definition kibibytesToBytes :: "64 word \<Rightarrow> float64" where
  "kibibytesToBytes kibibytes = f64_mul (f64_of_u64 kibibytes) bytesPerKibibyte"

definition humanReadableVCPUState :: "int \<Rightarrow> string" where
  "humanReadableVCPUState state =
     (if state = VCPUOffline then ''offline''
      else if state = VCPUBlocked then ''blocked''
      else if state = VCPURunning then ''running''
      else ''unknown'')"

lemma f64_of_u64_nonneg: "0 \<le> f64_of_u64 w"
  by (simp add: f64_of_u64_def f64_of_int_nonneg)

lemma f64_of_u64_mono: "a \<le> b \<Longrightarrow> f64_of_u64 a \<le> f64_of_u64 b"
  by (simp add: f64_of_u64_def f64_of_int_mono word_le_def)

lemma rnd_1024: "rnd (x * 1024) = rnd x * 1024"
  using rnd_shift [of 10 x] by (simp add: mult.commute)

text \<open>Multiplying by 1024 adds no rounding of its own.\<close>

lemma kibibytesToBytes_shift: "kibibytesToBytes k = 1024 * f64_of_u64 k"
proof -
  have "rnd (f64_of_u64 k) = f64_of_u64 k" by (simp add: f64_of_u64_def f64_of_int_def rnd_idem)
  then show ?thesis by (simp add: kibibytesToBytes_def f64_mul_def bytesPerKibibyte_def rnd_1024)
qed

text \<open>The reported seconds grow with the counter and are within two roundings of the true quotient.\<close>

lemma nanosecondsToSeconds_mono: "a \<le> b \<Longrightarrow> nanosecondsToSeconds a \<le> nanosecondsToSeconds b"
  using f64_of_u64_mono [of a b]
  by (simp add: nanosecondsToSeconds_def f64_div_def nanosecondsPerSecond_def rnd_mono divide_right_mono)

lemma nanosecondsToSeconds_nonneg: "0 \<le> nanosecondsToSeconds a"
  by (simp add: nanosecondsToSeconds_def f64_div_def nanosecondsPerSecond_def f64_of_u64_nonneg)

lemma kibibytesToBytes_mono: "a \<le> b \<Longrightarrow> kibibytesToBytes a \<le> kibibytesToBytes b"
  by (simp add: kibibytesToBytes_shift f64_of_u64_mono)

lemma kibibytesToBytes_exact: "uint k < 2 ^ 53 \<Longrightarrow> kibibytesToBytes k = 1024 * of_int (uint k)"
  by (simp add: kibibytesToBytes_shift f64_of_u64_def f64_of_int_exact)

text \<open>Converting never makes a counter or gauge go backwards: seconds and bytes are monotone in the raw
  value and not negative; a kibibyte count below 2^53 is converted exactly.\<close>

theorem conversions_monotone:
  assumes "a \<le> b"
  shows "nanosecondsToSeconds a \<le> nanosecondsToSeconds b \<and> 0 \<le> nanosecondsToSeconds a \<and>
    kibibytesToBytes a \<le> kibibytesToBytes b \<and> 0 \<le> kibibytesToBytes a \<and>
    (uint a < 2 ^ 53 \<longrightarrow> kibibytesToBytes a = 1024 * of_int (uint a))"
  using assms by (simp add: nanosecondsToSeconds_mono nanosecondsToSeconds_nonneg kibibytesToBytes_mono
      kibibytesToBytes_exact) (simp add: kibibytesToBytes_shift f64_of_u64_nonneg)

theorem conversions_monotone_witness:
  "nanosecondsToSeconds 1500000000 \<le> nanosecondsToSeconds 1500000001 \<and> kibibytesToBytes 3 = 3072"
  using conversions_monotone [of 1500000000 1500000001] conversions_monotone [of 3 3] by simp

section \<open>Reports\<close>

record vmi_report =
  rp_VMI :: vmi
  rp_Stats :: vm_stats
  rp_runtimeLabels :: "string gomap"

definition labelPrefix :: string where
  "labelPrefix = ''kubernetes_vmi_label_''"

definition labelFormatter :: "string \<Rightarrow> string" where
  "labelFormatter s = map (\<lambda>c. if c \<in> {CHR ''.'', CHR ''/'', CHR ''-''} then CHR ''_'' else c) s"

definition runtime_key :: "string \<Rightarrow> string" where
  "runtime_key label = labelPrefix @ labelFormatter label"

definition buildRuntimeLabels :: "(string gomap \<Rightarrow> string gomap) \<Rightarrow> vmi \<Rightarrow> string gomap" where
  "buildRuntimeLabels rng v = gomap_rename runtime_key (rng (om_labels (vmi_meta v))) []"

definition NewVMIReport :: "(string gomap \<Rightarrow> string gomap) \<Rightarrow> vmi \<Rightarrow> vm_stats \<Rightarrow> vmi_report" where
  "NewVMIReport rng v stats = \<lparr>rp_VMI = v, rp_Stats = stats, rp_runtimeLabels = buildRuntimeLabels rng v\<rparr>"

definition newCollectorResultWithLabels :: "vmi_report \<Rightarrow> metric \<Rightarrow> float64 \<Rightarrow> string gomap \<Rightarrow> cresult" where
  "newCollectorResultWithLabels r m value additionalLabels =
     (let labels = [(''node'', vmi_node (rp_VMI r)), (''namespace'', vmi_namespace (rp_VMI r)),
                    (''name'', vmi_name (rp_VMI r))];
          labels = gomap_copy labels (rp_runtimeLabels r);
          labels = gomap_copy labels additionalLabels
      in \<lparr>r_metric = m, r_labels = [], r_const = labels, r_value = value\<rparr>)"

definition newCollectorResult :: "vmi_report \<Rightarrow> metric \<Rightarrow> float64 \<Rightarrow> cresult" where
  "newCollectorResult r m value = newCollectorResultWithLabels r m value []"

lemma newCollectorResult_simps [simp]:
  "r_metric (newCollectorResultWithLabels r m x ls) = m" "r_labels (newCollectorResultWithLabels r m x ls) = []"
  "r_value (newCollectorResultWithLabels r m x ls) = x"
  "r_metric (newCollectorResult r m x) = m" "r_labels (newCollectorResult r m x) = []"
  "r_value (newCollectorResult r m x) = x"
  by (simp_all add: newCollectorResultWithLabels_def newCollectorResult_def Let_def)

lemma gomap_rename_ok: "gomap_ok acc \<Longrightarrow> gomap_ok (gomap_rename f es acc)"
  by (induction f es acc rule: gomap_rename.induct) (simp_all add: gomap_ok_upd)

lemma runtime_labels_ok: "gomap_ok (buildRuntimeLabels rng v)"
  by (simp add: buildRuntimeLabels_def gomap_rename_ok)

lemma runtime_labels_prefix: "k \<in> fst ` set (buildRuntimeLabels rng v) \<Longrightarrow> prefix labelPrefix k"
  using gomap_rename_dom [of runtime_key "rng (om_labels (vmi_meta v))" "[]" k]
  by (auto simp: buildRuntimeLabels_def map_of_eq_None_iff runtime_key_def)

text \<open>A name that is not of the form of a runtime label keeps its own value.\<close>

lemma report_labels_lookup:
  assumes "gomap_ok ls"
  shows "map_of (r_const (newCollectorResultWithLabels (NewVMIReport rng v stats) m x ls)) k =
    (case map_of ls k of Some y \<Rightarrow> Some y
     | None \<Rightarrow> (case map_of (buildRuntimeLabels rng v) k of Some y \<Rightarrow> Some y
        | None \<Rightarrow> map_of [(''node'', vmi_node v), (''namespace'', vmi_namespace v), (''name'', vmi_name v)] k))"
proof -
  have "map_of (r_const (newCollectorResultWithLabels (NewVMIReport rng v stats) m x ls)) =
      map_of [(''node'', vmi_node v), (''namespace'', vmi_namespace v), (''name'', vmi_name v)] ++
      map_of (buildRuntimeLabels rng v) ++ map_of ls"
    by (simp add: newCollectorResultWithLabels_def NewVMIReport_def map_of_gomap_copy assms runtime_labels_ok
        del: map_of.simps)
  then show ?thesis by (simp add: map_add_def split: option.splits)
qed

text \<open>Whether a sample names its VMI: node, namespace and name are those of the VMI.\<close>

definition names_vmi :: "vmi \<Rightarrow> cresult \<Rightarrow> bool" where
  "names_vmi v r \<longleftrightarrow> map_of (r_const r) ''node'' = Some (vmi_node v) \<and>
     map_of (r_const r) ''namespace'' = Some (vmi_namespace v) \<and> map_of (r_const r) ''name'' = Some (vmi_name v)"

lemma runtime_not_base:
  "map_of (buildRuntimeLabels rng v) ''node'' = None" "map_of (buildRuntimeLabels rng v) ''namespace'' = None"
  "map_of (buildRuntimeLabels rng v) ''name'' = None"
  using runtime_labels_prefix [of _ rng v] by (force simp: map_of_eq_None_iff labelPrefix_def)+

lemma report_names_vmi:
  assumes "gomap_ok ls" and "map_of ls ''node'' = None" and "map_of ls ''namespace'' = None"
    and "map_of ls ''name'' = None"
  shows "names_vmi v (newCollectorResultWithLabels (NewVMIReport rng v stats) m x ls)"
  using assms by (simp add: names_vmi_def report_labels_lookup runtime_not_base)

lemma report_names_vmi_plain [simp]: "names_vmi v (newCollectorResult (NewVMIReport rng v stats) m x)"
  by (simp add: newCollectorResult_def report_names_vmi)

end
