(* ===== verification/VMStats_Metrics.thy ===== *)
theory VMStats_Metrics
  imports VMStats_Types
begin

text \<open>
  The collectors of the polled statistics (\<open>pkg/monitoring/metrics/vmstats/metrics_*.go\<close>): CPU, memory,
  vCPU, network, block, dirty-rate and guest-agent samples of one report. A sample is produced only
  for a value whose \<open>...Set\<close> flag is true. The JSON decoding of the guest-agent strings is not part of
  the program: it is an argument, a record of decoders that return \<open>None\<close> for an error.
\<close>

section \<open>CPU\<close>

definition cpuUsageSeconds :: metric where
  [metric_defs]: "cpuUsageSeconds = NewCounter ''kubevirt_vmi_cpu_usage_seconds_total''
     ''Total CPU time spent in all modes (sum of both vcpu and hypervisor usage).''"

definition cpuUserUsageSeconds :: metric where
  [metric_defs]: "cpuUserUsageSeconds = NewCounter ''kubevirt_vmi_cpu_user_usage_seconds_total''
     ''Total CPU time spent in user mode.''"

definition cpuSystemUsageSeconds :: metric where
  [metric_defs]: "cpuSystemUsageSeconds = NewCounter ''kubevirt_vmi_cpu_system_usage_seconds_total''
     ''Total CPU time spent in system mode.''"

definition guestLoad1m :: metric where
  [metric_defs]: "guestLoad1m = NewGauge ''kubevirt_vmi_guest_load_1m''
     ''Guest system load average over 1 minute.''"

definition guestLoad5m :: metric where
  [metric_defs]: "guestLoad5m = NewGauge ''kubevirt_vmi_guest_load_5m''
     ''Guest system load average over 5 minutes.''"

definition guestLoad15m :: metric where
  [metric_defs]: "guestLoad15m = NewGauge ''kubevirt_vmi_guest_load_15m''
     ''Guest system load average over 15 minutes.''"

definition cpuMetricsList :: "metric list" where
  "cpuMetricsList = [cpuUsageSeconds, cpuUserUsageSeconds, cpuSystemUsageSeconds, guestLoad1m, guestLoad5m,
     guestLoad15m]"

definition opt_sample :: "bool \<Rightarrow> cresult \<Rightarrow> cresult list" where
  "opt_sample isSet r = (if isSet then [r] else [])"

definition collectCPUMetrics :: "vmi_report \<Rightarrow> cresult list" where
  "collectCPUMetrics report =
     (let d = vs_DomainStats (rp_Stats report) in
      (case ds_Cpu d of None \<Rightarrow> []
       | Some cpu \<Rightarrow>
           opt_sample (dc_TimeSet cpu) (newCollectorResult report cpuUsageSeconds (nanosecondsToSeconds (dc_Time cpu))) @
           opt_sample (dc_UserSet cpu) (newCollectorResult report cpuUserUsageSeconds (nanosecondsToSeconds (dc_User cpu))) @
           opt_sample (dc_SystemSet cpu)
             (newCollectorResult report cpuSystemUsageSeconds (nanosecondsToSeconds (dc_System cpu)))) @
      (case ds_Load d of None \<Rightarrow> []
       | Some load \<Rightarrow>
           opt_sample (dl_Load1mSet load) (newCollectorResult report guestLoad1m (dl_Load1m load)) @
           opt_sample (dl_Load5mSet load) (newCollectorResult report guestLoad5m (dl_Load5m load)) @
           opt_sample (dl_Load15mSet load) (newCollectorResult report guestLoad15m (dl_Load15m load))))"

section \<open>Memory\<close>

definition memoryResident :: metric where
  [metric_defs]: "memoryResident = NewGauge ''kubevirt_vmi_memory_resident_bytes''
     ''Resident set size of the process running the domain.''"

definition memoryAvailable :: metric where
  [metric_defs]: "memoryAvailable = NewGauge ''kubevirt_vmi_memory_available_bytes''
     ''Amount of usable memory as seen by the domain.''"

definition memoryUnused :: metric where
  [metric_defs]: "memoryUnused = NewGauge ''kubevirt_vmi_memory_unused_bytes''
     ''The amount of memory left completely unused by the system.''"

definition memoryCached :: metric where
  [metric_defs]: "memoryCached = NewGauge ''kubevirt_vmi_memory_cached_bytes''
     ''The amount of memory that is being used to cache I/O and is available to be reclaimed.''"

definition memorySwapInTrafficBytes :: metric where
  [metric_defs]: "memorySwapInTrafficBytes = NewGauge ''kubevirt_vmi_memory_swap_in_traffic_bytes''
     ''The total amount of data read from swap space of the guest in bytes.''"

definition memorySwapOutTrafficBytes :: metric where
  [metric_defs]: "memorySwapOutTrafficBytes = NewGauge ''kubevirt_vmi_memory_swap_out_traffic_bytes''
     ''The total amount of memory written out to swap space of the guest in bytes.''"

definition memoryPgmajfaultTotal :: metric where
  [metric_defs]: "memoryPgmajfaultTotal = NewCounter ''kubevirt_vmi_memory_pgmajfault_total''
     ''The number of page faults when disk IO was required.''"

definition memoryPgminfaultTotal :: metric where
  [metric_defs]: "memoryPgminfaultTotal = NewCounter ''kubevirt_vmi_memory_pgminfault_total''
     ''The number of other page faults, when disk IO was not required.''"

definition memoryActualBalloon :: metric where
  [metric_defs]: "memoryActualBalloon = NewGauge ''kubevirt_vmi_memory_actual_balloon_bytes''
     ''Current balloon size in bytes.''"

definition memoryUsableBytes :: metric where
  [metric_defs]: "memoryUsableBytes = NewGauge ''kubevirt_vmi_memory_usable_bytes''
     ''The amount of memory which can be reclaimed by balloon without pushing the guest system to swap.''"

definition memoryDomainBytes :: metric where
  [metric_defs]: "memoryDomainBytes = NewGauge ''kubevirt_vmi_memory_domain_bytes''
     ''The amount of memory in bytes allocated to the domain.''"

definition memoryMetricsList :: "metric list" where
  "memoryMetricsList = [memoryResident, memoryAvailable, memoryUnused, memoryCached, memorySwapInTrafficBytes,
     memorySwapOutTrafficBytes, memoryPgmajfaultTotal, memoryPgminfaultTotal, memoryActualBalloon,
     memoryUsableBytes, memoryDomainBytes]"

definition collectMemoryMetrics :: "vmi_report \<Rightarrow> cresult list" where
  "collectMemoryMetrics report =
     (case ds_Memory (vs_DomainStats (rp_Stats report)) of
        None \<Rightarrow> []
      | Some mem \<Rightarrow>
          opt_sample (dm_RSSSet mem) (newCollectorResult report memoryResident (kibibytesToBytes (dm_RSS mem))) @
          opt_sample (dm_AvailableSet mem)
            (newCollectorResult report memoryAvailable (kibibytesToBytes (dm_Available mem))) @
          opt_sample (dm_UnusedSet mem) (newCollectorResult report memoryUnused (kibibytesToBytes (dm_Unused mem))) @
          opt_sample (dm_CachedSet mem) (newCollectorResult report memoryCached (kibibytesToBytes (dm_Cached mem))) @
          opt_sample (dm_SwapInSet mem)
            (newCollectorResult report memorySwapInTrafficBytes (kibibytesToBytes (dm_SwapIn mem))) @
          opt_sample (dm_SwapOutSet mem)
            (newCollectorResult report memorySwapOutTrafficBytes (kibibytesToBytes (dm_SwapOut mem))) @
          opt_sample (dm_MajorFaultSet mem) (newCollectorResult report memoryPgmajfaultTotal (f64_of_u64 (dm_MajorFault mem))) @
          opt_sample (dm_MinorFaultSet mem) (newCollectorResult report memoryPgminfaultTotal (f64_of_u64 (dm_MinorFault mem))) @
          opt_sample (dm_ActualBalloonSet mem)
            (newCollectorResult report memoryActualBalloon (kibibytesToBytes (dm_ActualBalloon mem))) @
          opt_sample (dm_UsableSet mem) (newCollectorResult report memoryUsableBytes (kibibytesToBytes (dm_Usable mem))) @
          opt_sample (dm_TotalSet mem) (newCollectorResult report memoryDomainBytes (kibibytesToBytes (dm_Total mem))))"

section \<open>vCPU\<close>

definition vcpuSeconds :: metric where
  [metric_defs]: "vcpuSeconds = NewCounter ''kubevirt_vmi_vcpu_seconds_total''
     ''Total amount of time spent in each state by each vcpu.''"

definition vcpuWaitSeconds :: metric where
  [metric_defs]: "vcpuWaitSeconds = NewCounter ''kubevirt_vmi_vcpu_wait_seconds_total''
     ''Amount of time spent by each vcpu while waiting on I/O.''"

definition vcpuDelaySeconds :: metric where
  [metric_defs]: "vcpuDelaySeconds = NewCounter ''kubevirt_vmi_vcpu_delay_seconds_total''
     ''Amount of time spent by each vcpu waiting in the queue instead of running.''"

definition vcpuMetricsList :: "metric list" where
  "vcpuMetricsList = [vcpuSeconds, vcpuWaitSeconds, vcpuDelaySeconds]"

definition vcpu_samples :: "vmi_report \<Rightarrow> nat \<Rightarrow> domain_vcpu \<Rightarrow> cresult list" where
  "vcpu_samples report vcpuIdx vcpu =
     (let id = show_nat vcpuIdx in
      opt_sample (dv_TimeSet vcpu)
        (newCollectorResultWithLabels report vcpuSeconds (nanosecondsToSeconds (dv_Time vcpu))
           [(''id'', id), (''state'', humanReadableVCPUState (dv_State vcpu))]) @
      opt_sample (dv_WaitSet vcpu)
        (newCollectorResultWithLabels report vcpuWaitSeconds (nanosecondsToSeconds (dv_Wait vcpu)) [(''id'', id)]) @
      opt_sample (dv_DelaySet vcpu)
        (newCollectorResultWithLabels report vcpuDelaySeconds (nanosecondsToSeconds (dv_Delay vcpu)) [(''id'', id)]))"

fun vcpu_loop :: "vmi_report \<Rightarrow> nat \<Rightarrow> domain_vcpu list \<Rightarrow> cresult list" where
  "vcpu_loop report i [] = []"
| "vcpu_loop report i (v # vs) = vcpu_samples report i v @ vcpu_loop report (i + 1) vs"

definition collectVCPUMetrics :: "vmi_report \<Rightarrow> cresult list" where
  "collectVCPUMetrics report = vcpu_loop report 0 (ds_Vcpu (vs_DomainStats (rp_Stats report)))"

section \<open>Network\<close>

definition networkReceiveBytes :: metric where
  [metric_defs]: "networkReceiveBytes = NewCounter ''kubevirt_vmi_network_receive_bytes_total''
     ''Total network traffic received in bytes.''"

definition networkTransmitBytes :: metric where
  [metric_defs]: "networkTransmitBytes = NewCounter ''kubevirt_vmi_network_transmit_bytes_total''
     ''Total network traffic transmitted in bytes.''"

definition networkReceivePackets :: metric where
  [metric_defs]: "networkReceivePackets = NewCounter ''kubevirt_vmi_network_receive_packets_total''
     ''Total network traffic received packets.''"

definition networkTransmitPackets :: metric where
  [metric_defs]: "networkTransmitPackets = NewCounter ''kubevirt_vmi_network_transmit_packets_total''
     ''Total network traffic transmitted packets.''"

definition networkReceiveErrors :: metric where
  [metric_defs]: "networkReceiveErrors = NewCounter ''kubevirt_vmi_network_receive_errors_total''
     ''Total network received error packets.''"

definition networkTransmitErrors :: metric where
  [metric_defs]: "networkTransmitErrors = NewCounter ''kubevirt_vmi_network_transmit_errors_total''
     ''Total network transmitted error packets.''"

definition networkReceivePacketsDropped :: metric where
  [metric_defs]: "networkReceivePacketsDropped = NewCounter ''kubevirt_vmi_network_receive_packets_dropped_total''
     ''The total number of rx packets dropped on vNIC interfaces.''"

definition networkTransmitPacketsDropped :: metric where
  [metric_defs]: "networkTransmitPacketsDropped = NewCounter ''kubevirt_vmi_network_transmit_packets_dropped_total''
     ''The total number of tx packets dropped on vNIC interfaces.''"

definition networkMetricsList :: "metric list" where
  "networkMetricsList = [networkReceiveBytes, networkTransmitBytes, networkReceivePackets, networkTransmitPackets,
     networkReceiveErrors, networkTransmitErrors, networkReceivePacketsDropped,
     networkTransmitPacketsDropped]"

definition net_samples :: "vmi_report \<Rightarrow> domain_net \<Rightarrow> cresult list" where
  "net_samples report net =
     (let iface = (if dn_AliasSet net then dn_Alias net else dn_Name net);
          netLabels = [(''interface'', iface)]
      in if \<not> dn_NameSet net then [] else
      opt_sample (dn_RxBytesSet net)
        (newCollectorResultWithLabels report networkReceiveBytes (f64_of_u64 (dn_RxBytes net)) netLabels) @
      opt_sample (dn_TxBytesSet net)
        (newCollectorResultWithLabels report networkTransmitBytes (f64_of_u64 (dn_TxBytes net)) netLabels) @
      opt_sample (dn_RxPktsSet net)
        (newCollectorResultWithLabels report networkReceivePackets (f64_of_u64 (dn_RxPkts net)) netLabels) @
      opt_sample (dn_TxPktsSet net)
        (newCollectorResultWithLabels report networkTransmitPackets (f64_of_u64 (dn_TxPkts net)) netLabels) @
      opt_sample (dn_RxErrsSet net)
        (newCollectorResultWithLabels report networkReceiveErrors (f64_of_u64 (dn_RxErrs net)) netLabels) @
      opt_sample (dn_TxErrsSet net)
        (newCollectorResultWithLabels report networkTransmitErrors (f64_of_u64 (dn_TxErrs net)) netLabels) @
      opt_sample (dn_RxDropSet net)
        (newCollectorResultWithLabels report networkReceivePacketsDropped (f64_of_u64 (dn_RxDrop net)) netLabels) @
      opt_sample (dn_TxDropSet net)
        (newCollectorResultWithLabels report networkTransmitPacketsDropped (f64_of_u64 (dn_TxDrop net)) netLabels))"

definition collectNetworkMetrics :: "vmi_report \<Rightarrow> cresult list" where
  "collectNetworkMetrics report = concat (map (net_samples report) (ds_Net (vs_DomainStats (rp_Stats report))))"

section \<open>Block\<close>

definition storageIopsRead :: metric where
  [metric_defs]: "storageIopsRead = NewCounter ''kubevirt_vmi_storage_iops_read_total''
     ''Total number of I/O read operations.''"

definition storageIopsWrite :: metric where
  [metric_defs]: "storageIopsWrite = NewCounter ''kubevirt_vmi_storage_iops_write_total''
     ''Total number of I/O write operations.''"

definition storageReadTrafficBytes :: metric where
  [metric_defs]: "storageReadTrafficBytes = NewCounter ''kubevirt_vmi_storage_read_traffic_bytes_total''
     ''Total number of bytes read from storage.''"

definition storageWriteTrafficBytes :: metric where
  [metric_defs]: "storageWriteTrafficBytes = NewCounter ''kubevirt_vmi_storage_write_traffic_bytes_total''
     ''Total number of written bytes.''"

definition storageReadTimesSeconds :: metric where
  [metric_defs]: "storageReadTimesSeconds = NewCounter ''kubevirt_vmi_storage_read_times_seconds_total''
     ''Total time spent on read operations.''"

definition storageWriteTimesSeconds :: metric where
  [metric_defs]: "storageWriteTimesSeconds = NewCounter ''kubevirt_vmi_storage_write_times_seconds_total''
     ''Total time spent on write operations.''"

definition storageFlushRequests :: metric where
  [metric_defs]: "storageFlushRequests = NewCounter ''kubevirt_vmi_storage_flush_requests_total''
     ''Total storage flush requests.''"

definition storageFlushTimesSeconds :: metric where
  [metric_defs]: "storageFlushTimesSeconds = NewCounter ''kubevirt_vmi_storage_flush_times_seconds_total''
     ''Total time spent on cache flushing.''"

definition blockMetricsList :: "metric list" where
  "blockMetricsList = [storageIopsRead, storageIopsWrite, storageReadTrafficBytes, storageWriteTrafficBytes,
     storageReadTimesSeconds, storageWriteTimesSeconds, storageFlushRequests, storageFlushTimesSeconds]"

definition block_samples :: "vmi_report \<Rightarrow> domain_block \<Rightarrow> cresult list" where
  "block_samples report blk =
     (let drive = (if db_Alias blk \<noteq> '''' then db_Alias blk else db_Name blk);
          blkLabels = [(''drive'', drive)]
      in if \<not> db_NameSet blk then [] else
      opt_sample (db_RdReqsSet blk)
        (newCollectorResultWithLabels report storageIopsRead (f64_of_u64 (db_RdReqs blk)) blkLabels) @
      opt_sample (db_WrReqsSet blk)
        (newCollectorResultWithLabels report storageIopsWrite (f64_of_u64 (db_WrReqs blk)) blkLabels) @
      opt_sample (db_RdBytesSet blk)
        (newCollectorResultWithLabels report storageReadTrafficBytes (f64_of_u64 (db_RdBytes blk)) blkLabels) @
      opt_sample (db_WrBytesSet blk)
        (newCollectorResultWithLabels report storageWriteTrafficBytes (f64_of_u64 (db_WrBytes blk)) blkLabels) @
      opt_sample (db_RdTimesSet blk)
        (newCollectorResultWithLabels report storageReadTimesSeconds (nanosecondsToSeconds (db_RdTimes blk)) blkLabels) @
      opt_sample (db_WrTimesSet blk)
        (newCollectorResultWithLabels report storageWriteTimesSeconds (nanosecondsToSeconds (db_WrTimes blk)) blkLabels) @
      opt_sample (db_FlReqsSet blk)
        (newCollectorResultWithLabels report storageFlushRequests (f64_of_u64 (db_FlReqs blk)) blkLabels) @
      opt_sample (db_FlTimesSet blk)
        (newCollectorResultWithLabels report storageFlushTimesSeconds (nanosecondsToSeconds (db_FlTimes blk)) blkLabels))"

definition collectBlockMetrics :: "vmi_report \<Rightarrow> cresult list" where
  "collectBlockMetrics report = concat (map (block_samples report) (ds_Block (vs_DomainStats (rp_Stats report))))"

section \<open>Dirty rate\<close>

definition dirtyRateBytesPerSecond :: metric where
  [metric_defs]: "dirtyRateBytesPerSecond = NewGauge ''kubevirt_vmi_dirty_rate_bytes_per_second''
     ''Guest dirty-rate in bytes per second.''"

definition dirtyRateMetricsList :: "metric list" where
  "dirtyRateMetricsList = [dirtyRateBytesPerSecond]"

definition collectDirtyRateMetrics :: "vmi_report \<Rightarrow> cresult list" where
  "collectDirtyRateMetrics report =
     (case ds_DirtyRate (vs_DomainStats (rp_Stats report)) of
        None \<Rightarrow> []
      | Some dr \<Rightarrow>
          (if \<not> dr_MegabytesPerSecondSet dr then []
           else (let dirtyRateInBytesPerSecond = i64 (i64 (dr_MegabytesPerSecond dr * 1024) * 1024)
                 in [newCollectorResult report dirtyRateBytesPerSecond (f64_of_int dirtyRateInBytesPerSecond)])))"

section \<open>Guest agent\<close>

definition guestOsInfo :: metric where
  [metric_defs]: "guestOsInfo = NewGauge ''kubevirt_vmi_guest_os_info''
     ''Guest OS information from the guest agent.''"

definition guestHostname :: metric where
  [metric_defs]: "guestHostname = NewGauge ''kubevirt_vmi_guest_hostname''
     ''Guest hostname from the guest agent.''"

definition guestTimezone :: metric where
  [metric_defs]: "guestTimezone = NewGauge ''kubevirt_vmi_guest_timezone''
     ''Guest timezone from the guest agent.''"

definition guestUserCount :: metric where
  [metric_defs]: "guestUserCount = NewGauge ''kubevirt_vmi_guest_user_count''
     ''Number of logged-in users in the guest.''"

definition guestDiskTotalBytes :: metric where
  [metric_defs]: "guestDiskTotalBytes = NewGauge ''kubevirt_vmi_guest_disk_total_bytes''
     ''Total disk size in bytes as reported by the guest agent.''"

definition guestDiskUsedBytes :: metric where
  [metric_defs]: "guestDiskUsedBytes = NewGauge ''kubevirt_vmi_guest_disk_used_bytes''
     ''Used disk size in bytes as reported by the guest agent.''"

definition guestInterfaceInfo :: metric where
  [metric_defs]: "guestInterfaceInfo = NewGauge ''kubevirt_vmi_guest_interface_info''
     ''Guest network interface information from the guest agent.''"

definition guestMetricsList :: "metric list" where
  "guestMetricsList = [guestOsInfo, guestHostname, guestTimezone, guestUserCount, guestDiskTotalBytes, guestDiskUsedBytes,
     guestInterfaceInfo]"

record guest_os_json =
  oj_id :: string
  oj_name :: string
  oj_version :: string
  oj_kernel_release :: string
  oj_machine :: string

record guest_disk_json =
  gj_name :: string
  gj_mountpoint :: string
  gj_total :: "64 word"
  gj_used :: "64 word"

record guest_iface_json =
  ij_name :: string
  ij_mac :: string
  ij_addresses :: "string list"

record guest_decoders =
  gd_os_info :: "string \<Rightarrow> guest_os_json option"
  gd_host_name :: "string \<Rightarrow> string option"
  gd_timezone :: "string \<Rightarrow> (string \<times> int) option"
  gd_users :: "string \<Rightarrow> string list option"
  gd_disks :: "string \<Rightarrow> guest_disk_json list option"
  gd_ifaces :: "string \<Rightarrow> guest_iface_json list option"

definition collectGuestOsInfo :: "guest_decoders \<Rightarrow> vmi_report \<Rightarrow> cresult list" where
  "collectGuestOsInfo gd report =
     (if vs_GuestGetOsInfo (rp_Stats report) = '''' then []
      else case gd_os_info gd (vs_GuestGetOsInfo (rp_Stats report)) of
        None \<Rightarrow> []
      | Some info \<Rightarrow> [newCollectorResultWithLabels report guestOsInfo 1
          [(''os_name'', oj_name info), (''os_version'', oj_version info), (''os_id'', oj_id info),
           (''kernel_release'', oj_kernel_release info), (''machine'', oj_machine info)]])"

definition collectGuestHostname :: "guest_decoders \<Rightarrow> vmi_report \<Rightarrow> cresult list" where
  "collectGuestHostname gd report =
     (if vs_GuestGetHostName (rp_Stats report) = '''' then []
      else case gd_host_name gd (vs_GuestGetHostName (rp_Stats report)) of
        None \<Rightarrow> []
      | Some h \<Rightarrow> [newCollectorResultWithLabels report guestHostname 1 [(''hostname'', h)]])"

definition collectGuestTimezone :: "guest_decoders \<Rightarrow> vmi_report \<Rightarrow> cresult list" where
  "collectGuestTimezone gd report =
     (if vs_GuestGetTimezone (rp_Stats report) = '''' then []
      else case gd_timezone gd (vs_GuestGetTimezone (rp_Stats report)) of
        None \<Rightarrow> []
      | Some (zone, offset) \<Rightarrow> [newCollectorResultWithLabels report guestTimezone 1
          [(''timezone'', zone), (''offset'', show_int offset)]])"

definition collectGuestUsers :: "guest_decoders \<Rightarrow> vmi_report \<Rightarrow> cresult list" where
  "collectGuestUsers gd report =
     (if vs_GuestGetUsers (rp_Stats report) = '''' then []
      else case gd_users gd (vs_GuestGetUsers (rp_Stats report)) of
        None \<Rightarrow> []
      | Some users \<Rightarrow> [newCollectorResult report guestUserCount (f64_of_int (int (length users)))])"

definition disk_samples :: "vmi_report \<Rightarrow> guest_disk_json \<Rightarrow> cresult list" where
  "disk_samples report d =
     (let labels = [(''disk_name'', gj_name d), (''mountpoint'', gj_mountpoint d)] in
      [newCollectorResultWithLabels report guestDiskTotalBytes (f64_of_u64 (gj_total d)) labels,
       newCollectorResultWithLabels report guestDiskUsedBytes (f64_of_u64 (gj_used d)) labels])"

definition collectGuestDiskStats :: "guest_decoders \<Rightarrow> vmi_report \<Rightarrow> cresult list" where
  "collectGuestDiskStats gd report =
     (if vs_GuestGetDiskStats (rp_Stats report) = '''' then []
      else case gd_disks gd (vs_GuestGetDiskStats (rp_Stats report)) of
        None \<Rightarrow> []
      | Some disks \<Rightarrow> concat (map (disk_samples report) disks))"

definition iface_sample :: "vmi_report \<Rightarrow> guest_iface_json \<Rightarrow> cresult" where
  "iface_sample report i =
     (let ipAddr = (case ij_addresses i of [] \<Rightarrow> '''' | a # _ \<Rightarrow> a) in
      newCollectorResultWithLabels report guestInterfaceInfo 1
        [(''interface_name'', ij_name i), (''mac'', ij_mac i), (''ip_address'', ipAddr)])"

definition collectGuestInterfaces :: "guest_decoders \<Rightarrow> vmi_report \<Rightarrow> cresult list" where
  "collectGuestInterfaces gd report =
     (if vs_GuestNetworkGetInterfaces (rp_Stats report) = '''' then []
      else case gd_ifaces gd (vs_GuestNetworkGetInterfaces (rp_Stats report)) of
        None \<Rightarrow> []
      | Some ifaces \<Rightarrow> map (iface_sample report) ifaces)"

definition collectGuestMetrics :: "guest_decoders \<Rightarrow> vmi_report \<Rightarrow> cresult list" where
  "collectGuestMetrics gd report =
     collectGuestOsInfo gd report @ collectGuestHostname gd report @ collectGuestTimezone gd report @
     collectGuestUsers gd report @ collectGuestDiskStats gd report @ collectGuestInterfaces gd report"

section \<open>Which metrics a collector reports\<close>

lemma opt_sample_iff [simp]: "r \<in> set (opt_sample b x) \<longleftrightarrow> b \<and> r = x"
  by (cases b) (auto simp: opt_sample_def)

text \<open>The metrics of a list of optional samples are a subsequence of the declared ones.\<close>

lemma subseq_opt_sample:
  "subseq (map r_metric xs) ms \<Longrightarrow> r_metric r = m \<Longrightarrow> subseq (map r_metric (opt_sample b r @ xs)) (m # ms)"
  by (auto simp: opt_sample_def)

lemma subseq_opt_sample_last: "r_metric r = m \<Longrightarrow> subseq (map r_metric (opt_sample b r)) [m]"
  by (simp add: opt_sample_def)

lemmas subseq_samples = subseq_opt_sample subseq_opt_sample_last newCollectorResult_simps

lemma subseq_distinct: "subseq xs ys \<Longrightarrow> distinct ys \<Longrightarrow> distinct xs"
  by (metis subseq_conv_nths distinct_nthsI)

lemma subseq_set: "subseq xs ys \<Longrightarrow> set xs \<subseteq> set ys"
  by (metis notin_set_nthsI subseq_conv_nths subsetI)

lemma memory_subseq: "subseq (map r_metric (collectMemoryMetrics rp)) memoryMetricsList"
  unfolding collectMemoryMetrics_def memoryMetricsList_def
  by (cases "ds_Memory (vs_DomainStats (rp_Stats rp))")
     (simp, simp only: option.simps, (rule subseq_samples)+)

lemma cpu_subseq: "subseq (map r_metric (collectCPUMetrics rp)) cpuMetricsList"
proof -
  let ?d = "vs_DomainStats (rp_Stats rp)"
  define c where "c = (case ds_Cpu ?d of None \<Rightarrow> []
       | Some cpu \<Rightarrow>
           opt_sample (dc_TimeSet cpu) (newCollectorResult rp cpuUsageSeconds (nanosecondsToSeconds (dc_Time cpu))) @
           opt_sample (dc_UserSet cpu) (newCollectorResult rp cpuUserUsageSeconds (nanosecondsToSeconds (dc_User cpu))) @
           opt_sample (dc_SystemSet cpu)
             (newCollectorResult rp cpuSystemUsageSeconds (nanosecondsToSeconds (dc_System cpu))))"
  define l where "l = (case ds_Load ?d of None \<Rightarrow> []
       | Some load \<Rightarrow>
           opt_sample (dl_Load1mSet load) (newCollectorResult rp guestLoad1m (dl_Load1m load)) @
           opt_sample (dl_Load5mSet load) (newCollectorResult rp guestLoad5m (dl_Load5m load)) @
           opt_sample (dl_Load15mSet load) (newCollectorResult rp guestLoad15m (dl_Load15m load)))"
  have "subseq (map r_metric c) [cpuUsageSeconds, cpuUserUsageSeconds, cpuSystemUsageSeconds]"
    unfolding c_def by (cases "ds_Cpu ?d") (simp, simp only: option.simps, (rule subseq_samples)+)
  moreover have "subseq (map r_metric l) [guestLoad1m, guestLoad5m, guestLoad15m]"
    unfolding l_def by (cases "ds_Load ?d") (simp, simp only: option.simps, (rule subseq_samples)+)
  ultimately have "subseq (map r_metric c @ map r_metric l)
      ([cpuUsageSeconds, cpuUserUsageSeconds, cpuSystemUsageSeconds] @ [guestLoad1m, guestLoad5m, guestLoad15m])"
    by (rule list_emb_append_mono)
  then show ?thesis by (simp add: collectCPUMetrics_def Let_def c_def l_def cpuMetricsList_def)
qed

lemma dirty_subseq: "subseq (map r_metric (collectDirtyRateMetrics rp)) dirtyRateMetricsList"
  by (auto simp: collectDirtyRateMetrics_def dirtyRateMetricsList_def Let_def split: option.splits)

lemma vcpu_samples_subseq: "subseq (map r_metric (vcpu_samples rp i v)) vcpuMetricsList"
  unfolding vcpu_samples_def vcpuMetricsList_def Let_def by (rule subseq_samples)+

lemma net_samples_subseq: "subseq (map r_metric (net_samples rp n)) networkMetricsList"
  unfolding net_samples_def networkMetricsList_def Let_def
  by (cases "dn_NameSet n") (simp only: if_True if_False not_True_eq_False, (rule subseq_samples)+, simp)

lemma block_samples_subseq: "subseq (map r_metric (block_samples rp b)) blockMetricsList"
  unfolding block_samples_def blockMetricsList_def Let_def
  by (cases "db_NameSet b") (simp only: if_True if_False not_True_eq_False, (rule subseq_samples)+, simp)

definition vmstatsMetrics :: "metric list" where
  "vmstatsMetrics = cpuMetricsList @ memoryMetricsList @ vcpuMetricsList @ networkMetricsList @
     blockMetricsList @ dirtyRateMetricsList @ guestMetricsList"

lemma vmstatsMetrics_distinct: "distinct (map m_name vmstatsMetrics)"
  by code_simp

lemma vmstatsMetrics_plain: "m \<in> set vmstatsMetrics \<Longrightarrow> supported m \<and> m_labels m = []"
  by (auto simp: vmstatsMetrics_def cpuMetricsList_def memoryMetricsList_def vcpuMetricsList_def
      networkMetricsList_def blockMetricsList_def dirtyRateMetricsList_def guestMetricsList_def metric_defs supported_def)

lemma vcpu_loop_set:
  assumes "r \<in> set (vcpu_loop rp i vs)"
  shows "\<exists>j v. i \<le> j \<and> v \<in> set vs \<and> r \<in> set (vcpu_samples rp j v)"
  using assms
proof (induction rp i vs rule: vcpu_loop.induct)
  case (2 rp i v vs)
  show ?case
  proof (cases "r \<in> set (vcpu_samples rp i v)")
    case True
    then show ?thesis by (intro exI [of _ i] exI [of _ v]) simp
  next
    case False
    with 2 obtain j w where "i + 1 \<le> j" "w \<in> set vs" "r \<in> set (vcpu_samples rp j w)" by auto
    then show ?thesis by (intro exI [of _ j] exI [of _ w]) simp
  qed
qed simp

lemma vcpu_metric: "r \<in> set (collectVCPUMetrics rp) \<Longrightarrow> r_metric r \<in> set vcpuMetricsList"
  using subseq_set [OF vcpu_samples_subseq] by (fastforce simp: collectVCPUMetrics_def dest: vcpu_loop_set)

lemma net_metric: "r \<in> set (collectNetworkMetrics rp) \<Longrightarrow> r_metric r \<in> set networkMetricsList"
  using subseq_set [OF net_samples_subseq] by (fastforce simp: collectNetworkMetrics_def)

lemma block_metric: "r \<in> set (collectBlockMetrics rp) \<Longrightarrow> r_metric r \<in> set blockMetricsList"
  using subseq_set [OF block_samples_subseq] by (fastforce simp: collectBlockMetrics_def)

lemma cpu_metric: "r \<in> set (collectCPUMetrics rp) \<Longrightarrow> r_metric r \<in> set cpuMetricsList"
  using subseq_set [OF cpu_subseq] by fastforce

lemma memory_metric: "r \<in> set (collectMemoryMetrics rp) \<Longrightarrow> r_metric r \<in> set memoryMetricsList"
  using subseq_set [OF memory_subseq] by fastforce

lemma dirty_metric: "r \<in> set (collectDirtyRateMetrics rp) \<Longrightarrow> r_metric r \<in> set dirtyRateMetricsList"
  using subseq_set [OF dirty_subseq] by fastforce

lemma iface_sample_metric: "r_metric (iface_sample rp i) = guestInterfaceInfo"
  by (simp add: iface_sample_def Let_def)

lemma os_info_metric: "r \<in> set (collectGuestOsInfo gd rp) \<Longrightarrow> r_metric r = guestOsInfo"
  by (auto simp: collectGuestOsInfo_def split: if_splits option.splits)

lemma host_name_metric: "r \<in> set (collectGuestHostname gd rp) \<Longrightarrow> r_metric r = guestHostname"
  by (auto simp: collectGuestHostname_def split: if_splits option.splits)

lemma timezone_metric: "r \<in> set (collectGuestTimezone gd rp) \<Longrightarrow> r_metric r = guestTimezone"
  by (auto simp: collectGuestTimezone_def split: if_splits option.splits)

lemma users_metric: "r \<in> set (collectGuestUsers gd rp) \<Longrightarrow> r_metric r = guestUserCount"
  by (auto simp: collectGuestUsers_def split: if_splits option.splits)

lemma ifaces_metric: "r \<in> set (collectGuestInterfaces gd rp) \<Longrightarrow> r_metric r = guestInterfaceInfo"
  by (auto simp: collectGuestInterfaces_def iface_sample_metric split: if_splits option.splits)

lemmas guest_single_metrics = os_info_metric host_name_metric timezone_metric users_metric ifaces_metric

lemma disk_samples_metric: "r \<in> set (disk_samples rp d) \<Longrightarrow> r_metric r \<in> {guestDiskTotalBytes, guestDiskUsedBytes}"
  by (auto simp: disk_samples_def Let_def)

lemma disk_metric:
  "r \<in> set (collectGuestDiskStats gd rp) \<Longrightarrow> r_metric r \<in> {guestDiskTotalBytes, guestDiskUsedBytes}"
  using disk_samples_metric by (fastforce simp: collectGuestDiskStats_def split: if_splits option.splits)

lemma guest_metric: "r \<in> set (collectGuestMetrics gd rp) \<Longrightarrow> r_metric r \<in> set guestMetricsList"
  by (auto simp: collectGuestMetrics_def guestMetricsList_def dest: guest_single_metrics disk_metric)

lemmas part_metrics = cpu_metric memory_metric vcpu_metric net_metric block_metric dirty_metric guest_metric

section \<open>The samples of one report\<close>

definition report_samples :: "guest_decoders \<Rightarrow> vmi_report \<Rightarrow> cresult list" where
  "report_samples gd report =
     collectCPUMetrics report @ collectMemoryMetrics report @ collectVCPUMetrics report @
     collectNetworkMetrics report @ collectBlockMetrics report @ collectDirtyRateMetrics report @
     collectGuestMetrics gd report"

lemma report_samples_metric: "r \<in> set (report_samples gd rp) \<Longrightarrow> r_metric r \<in> set vmstatsMetrics"
  by (auto simp: report_samples_def vmstatsMetrics_def dest: part_metrics)

text \<open>Every sample is built by \<open>newCollectorResultWithLabels\<close> with device labels that do not hide the VMI's.\<close>

definition from_report :: "vmi_report \<Rightarrow> cresult \<Rightarrow> bool" where
  "from_report rp r \<longleftrightarrow> (\<exists>m x ls. r = newCollectorResultWithLabels rp m x ls \<and> gomap_ok ls \<and>
     map_of ls ''node'' = None \<and> map_of ls ''namespace'' = None \<and> map_of ls ''name'' = None)"

lemma from_report_plain [simp]: "from_report rp (newCollectorResult rp m x)"
  unfolding from_report_def newCollectorResult_def by (intro exI conjI, rule refl) simp_all

lemma from_report_labels [simp]:
  "gomap_ok ls \<Longrightarrow> map_of ls ''node'' = None \<Longrightarrow> map_of ls ''namespace'' = None \<Longrightarrow> map_of ls ''name'' = None \<Longrightarrow>
   from_report rp (newCollectorResultWithLabels rp m x ls)"
  by (auto simp: from_report_def)

lemma from_report_parts:
  "r \<in> set (collectCPUMetrics rp) \<Longrightarrow> from_report rp r"
  "r \<in> set (collectMemoryMetrics rp) \<Longrightarrow> from_report rp r"
  "r \<in> set (collectDirtyRateMetrics rp) \<Longrightarrow> from_report rp r"
  by (auto simp: collectCPUMetrics_def collectMemoryMetrics_def collectDirtyRateMetrics_def Let_def
      split: option.splits if_splits)

lemma from_report_vcpu: "r \<in> set (vcpu_samples rp i v) \<Longrightarrow> from_report rp r"
  by (auto simp: vcpu_samples_def Let_def)

lemma from_report_net: "r \<in> set (net_samples rp n) \<Longrightarrow> from_report rp r"
  by (auto simp: net_samples_def Let_def split: if_splits)

lemma from_report_block: "r \<in> set (block_samples rp b) \<Longrightarrow> from_report rp r"
  by (auto simp: block_samples_def Let_def split: if_splits)

lemma from_report_disk: "r \<in> set (disk_samples rp d) \<Longrightarrow> from_report rp r"
  by (auto simp: disk_samples_def Let_def)

lemma from_report_iface: "from_report rp (iface_sample rp i)"
  by (simp add: iface_sample_def Let_def)

lemma from_report_os_info: "r \<in> set (collectGuestOsInfo gd rp) \<Longrightarrow> from_report rp r"
  by (auto simp: collectGuestOsInfo_def split: if_splits option.splits)

lemma from_report_host_name: "r \<in> set (collectGuestHostname gd rp) \<Longrightarrow> from_report rp r"
  by (auto simp: collectGuestHostname_def split: if_splits option.splits)

lemma from_report_timezone: "r \<in> set (collectGuestTimezone gd rp) \<Longrightarrow> from_report rp r"
  by (auto simp: collectGuestTimezone_def split: if_splits option.splits)

lemma from_report_users: "r \<in> set (collectGuestUsers gd rp) \<Longrightarrow> from_report rp r"
  by (auto simp: collectGuestUsers_def split: if_splits option.splits)

lemma from_report_disks: "r \<in> set (collectGuestDiskStats gd rp) \<Longrightarrow> from_report rp r"
  by (auto simp: collectGuestDiskStats_def split: if_splits option.splits dest: from_report_disk)

lemma from_report_ifaces: "r \<in> set (collectGuestInterfaces gd rp) \<Longrightarrow> from_report rp r"
  by (auto simp: collectGuestInterfaces_def from_report_iface split: if_splits option.splits)

lemma from_report_guest: "r \<in> set (collectGuestMetrics gd rp) \<Longrightarrow> from_report rp r"
  unfolding collectGuestMetrics_def
  by (auto intro: from_report_os_info from_report_host_name from_report_timezone from_report_users
      from_report_disks from_report_ifaces)

lemma from_report_samples: "r \<in> set (report_samples gd rp) \<Longrightarrow> from_report rp r"
  unfolding report_samples_def collectVCPUMetrics_def collectNetworkMetrics_def collectBlockMetrics_def
  by (auto dest: from_report_parts from_report_guest from_report_net from_report_block from_report_vcpu vcpu_loop_set)

lemma from_report_names: "from_report (NewVMIReport rng v stats) r \<Longrightarrow> names_vmi v r"
  by (auto simp: from_report_def report_names_vmi)

section \<open>No duplicate series\<close>

text \<open>
  The Prometheus gatherer rejects a scrape with two samples of the same metric and the same labels.
  \<open>series\<close> identifies a sample in that sense.
\<close>

definition series :: "cresult \<Rightarrow> metric \<times> (string \<Rightarrow> string option)" where
  "series r = (r_metric r, map_of (r_const r))"

definition net_iface :: "domain_net \<Rightarrow> string" where
  "net_iface n = (if dn_AliasSet n then dn_Alias n else dn_Name n)"

definition block_drive :: "domain_block \<Rightarrow> string" where
  "block_drive b = (if db_Alias b \<noteq> '''' then db_Alias b else db_Name b)"

text \<open>The devices of one VM have names of their own.\<close>

definition unique_devices :: "guest_decoders \<Rightarrow> vm_stats \<Rightarrow> bool" where
  "unique_devices gd stats \<longleftrightarrow>
     distinct (map net_iface (filter dn_NameSet (ds_Net (vs_DomainStats stats)))) \<and>
     distinct (map block_drive (filter db_NameSet (ds_Block (vs_DomainStats stats)))) \<and>
     (case gd_disks gd (vs_GuestGetDiskStats stats) of None \<Rightarrow> True
      | Some ds \<Rightarrow> distinct (map (\<lambda>d. (gj_name d, gj_mountpoint d)) ds)) \<and>
     (case gd_ifaces gd (vs_GuestNetworkGetInterfaces stats) of None \<Rightarrow> True
      | Some is \<Rightarrow> distinct (map ij_name is))"

lemma label_kept:
  "gomap_ok ls \<Longrightarrow> map_of ls k = Some y \<Longrightarrow>
   map_of (r_const (newCollectorResultWithLabels (NewVMIReport rng v stats) m x ls)) k = Some y"
  by (simp add: report_labels_lookup)

lemma series_eqD: "series r = series r' \<Longrightarrow> r_metric r = r_metric r' \<and> map_of (r_const r) k = map_of (r_const r') k"
  by (simp add: series_def)

lemma distinct_metric_series: "distinct (map r_metric xs) \<Longrightarrow> distinct (map series xs)"
  by (auto simp: distinct_map series_def inj_on_def)

lemma concat_map_filter_nil:
  "(\<And>x. x \<in> set xs \<Longrightarrow> \<not> P x \<Longrightarrow> f x = []) \<Longrightarrow> concat (map f xs) = concat (map f (filter P xs))"
  by (induction xs) auto

lemma part_distinct:
  "distinct cpuMetricsList" "distinct memoryMetricsList" "distinct vcpuMetricsList" "distinct networkMetricsList"
  "distinct blockMetricsList" "distinct dirtyRateMetricsList" "distinct guestMetricsList"
  using vmstatsMetrics_distinct unfolding distinct_map by (simp_all add: vmstatsMetrics_def)

lemma vcpu_loop_concat: "vcpu_loop rp i vs = concat (map (\<lambda>(j, v). vcpu_samples rp j v) (enumerate i vs))"
  by (induction rp i vs rule: vcpu_loop.induct) simp_all

lemma vcpu_id: "r \<in> set (vcpu_samples (NewVMIReport rng v stats) i vc) \<Longrightarrow> map_of (r_const r) ''id'' = Some (show_nat i)"
  by (auto simp: vcpu_samples_def Let_def label_kept)

lemma vcpu_series:
  "distinct (map series (collectVCPUMetrics (NewVMIReport rng v stats)))"
  unfolding collectVCPUMetrics_def vcpu_loop_concat
proof (rule distinct_by_tag [where tag = "\<lambda>(j, v). Some (show_nat j)" and h = "\<lambda>r. map_of (r_const r) ''id''"])
  let ?vs = "ds_Vcpu (vs_DomainStats (rp_Stats (NewVMIReport rng v stats)))"
  have "inj_on (\<lambda>(j, v). Some (show_nat j)) (set (enumerate 0 ?vs))"
    by (auto simp: inj_on_def in_set_enumerate_eq)
  then show "distinct (map (\<lambda>(j, v). Some (show_nat j)) (enumerate 0 ?vs))"
    by (simp add: distinct_map)
  show "distinct (map series (case x of (j, vc) \<Rightarrow> vcpu_samples (NewVMIReport rng v stats) j vc))" for x
    using subseq_distinct [OF vcpu_samples_subseq part_distinct(3)]
    by (cases x) (simp add: distinct_metric_series)
  show "map_of (r_const r) ''id'' = (case x of (j, v) \<Rightarrow> Some (show_nat j))"
    if "r \<in> set (case x of (j, vc) \<Rightarrow> vcpu_samples (NewVMIReport rng v stats) j vc)" for x r
    using that by (cases x) (simp add: vcpu_id)
  show "map_of (r_const r) ''id'' = map_of (r_const r') ''id''" if "series r = series r'" for r r'
    using series_eqD [OF that] by simp
qed

lemma net_label: "r \<in> set (net_samples (NewVMIReport rng v stats) n) \<Longrightarrow> map_of (r_const r) ''interface'' = Some (net_iface n)"
  by (auto simp: net_samples_def Let_def label_kept net_iface_def split: if_splits)

lemma net_series:
  assumes "distinct (map net_iface (filter dn_NameSet (ds_Net (vs_DomainStats stats))))"
  shows "distinct (map series (collectNetworkMetrics (NewVMIReport rng v stats)))"
proof -
  let ?ns = "ds_Net (vs_DomainStats stats)"
  have eq: "collectNetworkMetrics (NewVMIReport rng v stats) =
      concat (map (net_samples (NewVMIReport rng v stats)) (filter dn_NameSet ?ns))"
    unfolding collectNetworkMetrics_def
    by (subst concat_map_filter_nil [where P = dn_NameSet]) (simp_all add: net_samples_def Let_def NewVMIReport_def)
  show ?thesis unfolding eq
  proof (rule distinct_by_tag [where tag = "\<lambda>n. Some (net_iface n)" and h = "\<lambda>r. map_of (r_const r) ''interface''"])
    show "distinct (map (\<lambda>n. Some (net_iface n)) (filter dn_NameSet ?ns))"
      using assms by (simp add: distinct_map inj_on_def)
    show "distinct (map series (net_samples (NewVMIReport rng v stats) n))" for n
      by (rule distinct_metric_series [OF subseq_distinct [OF net_samples_subseq part_distinct(4)]])
  qed (auto simp: net_label dest: series_eqD)
qed

lemma block_label: "r \<in> set (block_samples (NewVMIReport rng v stats) b) \<Longrightarrow> map_of (r_const r) ''drive'' = Some (block_drive b)"
  by (auto simp: block_samples_def Let_def label_kept block_drive_def split: if_splits)

lemma block_series:
  assumes "distinct (map block_drive (filter db_NameSet (ds_Block (vs_DomainStats stats))))"
  shows "distinct (map series (collectBlockMetrics (NewVMIReport rng v stats)))"
proof -
  let ?bs = "ds_Block (vs_DomainStats stats)"
  have eq: "collectBlockMetrics (NewVMIReport rng v stats) =
      concat (map (block_samples (NewVMIReport rng v stats)) (filter db_NameSet ?bs))"
    unfolding collectBlockMetrics_def
    by (subst concat_map_filter_nil [where P = db_NameSet]) (simp_all add: block_samples_def Let_def NewVMIReport_def)
  show ?thesis unfolding eq
  proof (rule distinct_by_tag [where tag = "\<lambda>b. Some (block_drive b)" and h = "\<lambda>r. map_of (r_const r) ''drive''"])
    show "distinct (map (\<lambda>b. Some (block_drive b)) (filter db_NameSet ?bs))"
      using assms by (simp add: distinct_map inj_on_def)
    show "distinct (map series (block_samples (NewVMIReport rng v stats) b))" for b
      by (rule distinct_metric_series [OF subseq_distinct [OF block_samples_subseq part_distinct(5)]])
  qed (auto simp: block_label dest: series_eqD)
qed

lemma disk_label:
  "r \<in> set (disk_samples (NewVMIReport rng v stats) d) \<Longrightarrow>
   (map_of (r_const r) ''disk_name'', map_of (r_const r) ''mountpoint'') = (Some (gj_name d), Some (gj_mountpoint d))"
  by (auto simp: disk_samples_def Let_def label_kept)

lemma disk_samples_series: "distinct (map series (disk_samples rp d))"
proof (rule distinct_metric_series)
  have "guestDiskTotalBytes \<noteq> guestDiskUsedBytes" using part_distinct(7) by (auto simp: guestMetricsList_def)
  then show "distinct (map r_metric (disk_samples rp d))" by (simp add: disk_samples_def Let_def)
qed

lemma disk_series:
  assumes "case gd_disks gd (vs_GuestGetDiskStats stats) of None \<Rightarrow> True
    | Some ds \<Rightarrow> distinct (map (\<lambda>d. (gj_name d, gj_mountpoint d)) ds)"
  shows "distinct (map series (collectGuestDiskStats gd (NewVMIReport rng v stats)))"
proof (cases "gd_disks gd (vs_GuestGetDiskStats stats)")
  case None
  then show ?thesis by (simp add: collectGuestDiskStats_def NewVMIReport_def)
next
  case (Some ds)
  have "distinct (map series (concat (map (disk_samples (NewVMIReport rng v stats)) ds)))"
  proof (rule distinct_by_tag [where tag = "\<lambda>d. (Some (gj_name d), Some (gj_mountpoint d))"
        and h = "\<lambda>r. (map_of (r_const r) ''disk_name'', map_of (r_const r) ''mountpoint'')"])
    show "distinct (map (\<lambda>d. (Some (gj_name d), Some (gj_mountpoint d))) ds)"
      using assms Some by (auto simp: distinct_map inj_on_def)
    show "distinct (map series (disk_samples (NewVMIReport rng v stats) d))" for d by (rule disk_samples_series)
    show "(map_of (r_const r) ''disk_name'', map_of (r_const r) ''mountpoint'') =
        (Some (gj_name d), Some (gj_mountpoint d))" if "r \<in> set (disk_samples (NewVMIReport rng v stats) d)" for d r
      using that by (rule disk_label)
    show "(map_of (r_const r) ''disk_name'', map_of (r_const r) ''mountpoint'') =
        (map_of (r_const r') ''disk_name'', map_of (r_const r') ''mountpoint'')" if "series r = series r'" for r r'
      using series_eqD [OF that] by simp
  qed
  with Some show ?thesis by (simp add: collectGuestDiskStats_def NewVMIReport_def)
qed

lemma iface_label: "map_of (r_const (iface_sample (NewVMIReport rng v stats) i)) ''interface_name'' = Some (ij_name i)"
  by (simp add: iface_sample_def Let_def label_kept)

lemma iface_series:
  assumes "case gd_ifaces gd (vs_GuestNetworkGetInterfaces stats) of None \<Rightarrow> True
    | Some js \<Rightarrow> distinct (map ij_name js)"
  shows "distinct (map series (collectGuestInterfaces gd (NewVMIReport rng v stats)))"
proof (cases "gd_ifaces gd (vs_GuestNetworkGetInterfaces stats)")
  case None
  then show ?thesis by (simp add: collectGuestInterfaces_def NewVMIReport_def)
next
  case (Some js)
  let ?f = "iface_sample (NewVMIReport rng v stats)"
  have "inj_on (\<lambda>j. series (?f j)) (set js)"
  proof (rule inj_onI)
    fix i j assume ij: "i \<in> set js" "j \<in> set js" "series (?f i) = series (?f j)"
    from series_eqD [OF this(3), of "''interface_name''"] have "ij_name i = ij_name j" by (simp add: iface_label)
    with ij(1,2) assms Some show "i = j" by (simp add: distinct_map inj_on_def)
  qed
  moreover have "distinct js" using assms Some by (simp add: distinct_map)
  ultimately have "distinct (map series (map ?f js))" by (simp add: distinct_map comp_def)
  with Some show ?thesis by (simp add: collectGuestInterfaces_def NewVMIReport_def)
qed

lemma guest_single_series:
  "distinct (map series (collectGuestOsInfo gd rp))" "distinct (map series (collectGuestHostname gd rp))"
  "distinct (map series (collectGuestTimezone gd rp))" "distinct (map series (collectGuestUsers gd rp))"
  by (auto simp: collectGuestOsInfo_def collectGuestHostname_def collectGuestTimezone_def collectGuestUsers_def
      split: option.splits)

lemma series_disjoint: "r_metric x \<noteq> r_metric y \<Longrightarrow> series x \<noteq> series y"
  by (auto simp: series_def)

lemma guest_series:
  assumes "unique_devices gd stats"
  shows "distinct (map series (collectGuestMetrics gd (NewVMIReport rng v stats)))"
proof -
  have ne: "distinct [guestOsInfo, guestHostname, guestTimezone, guestUserCount, guestDiskTotalBytes,
      guestDiskUsedBytes, guestInterfaceInfo]"
    using part_distinct(7) by (simp add: guestMetricsList_def)
  show ?thesis
    unfolding collectGuestMetrics_def
    using assms ne
    by (intro distinct_map_append guest_single_series disk_series iface_series series_disjoint)
       (fastforce simp: unique_devices_def dest: guest_single_metrics disk_metric)+
qed

lemma report_series:
  assumes "unique_devices gd stats"
  shows "distinct (map series (report_samples gd (NewVMIReport rng v stats)))"
proof -
  let ?rp = "NewVMIReport rng v stats"
  have d: "distinct vmstatsMetrics" using vmstatsMetrics_distinct by (simp add: distinct_map)
  have "distinct (map series (collectCPUMetrics ?rp))" "distinct (map series (collectMemoryMetrics ?rp))"
    "distinct (map series (collectDirtyRateMetrics ?rp))"
    by (rule distinct_metric_series [OF subseq_distinct [OF cpu_subseq part_distinct(1)]]
        distinct_metric_series [OF subseq_distinct [OF memory_subseq part_distinct(2)]]
        distinct_metric_series [OF subseq_distinct [OF dirty_subseq part_distinct(6)]])+
  moreover have "distinct (map series (collectNetworkMetrics ?rp))" "distinct (map series (collectBlockMetrics ?rp))"
    using assms by (auto simp: unique_devices_def intro: net_series block_series)
  ultimately show ?thesis
    unfolding report_samples_def
    using d vcpu_series guest_series [OF assms]
    by (intro distinct_map_append series_disjoint)
       (auto simp: vmstatsMetrics_def dest!: part_metrics)
qed

end
