(* ===== verification/VMStats_Cache.thy ===== *)
theory VMStats_Cache
  imports VMStats_Metrics Metrics_Setup
begin

text \<open>
  The cache between the poller and the scrape (\<open>pkg/monitoring/metrics/vmstats/cache.go\<close>) and the
  collector that reads it (\<open>collector.go\<close>). The mutex makes every operation atomic, so an operation is a
  function on the map. The cache provides the contract \<open>object_store\<close>, extended with pruning. The
  poller, the only caller of \<open>Store\<close>, always passes a VMI and statistics.
\<close>

record cached_stats =
  cs_VMI :: vmi
  cs_Stats :: vm_stats

type_synonym stats_cache = "cached_stats gomap"

definition NewStatsCache :: stats_cache where
  "NewStatsCache = []"

definition CacheStore :: "string \<Rightarrow> cached_stats \<Rightarrow> stats_cache \<Rightarrow> stats_cache" where
  "CacheStore key e c = gomap_upd key e c"

definition CacheList :: "stats_cache \<Rightarrow> cached_stats list" where
  "CacheList c = map snd c"

fun CachePrune :: "bool gomap \<Rightarrow> stats_cache \<Rightarrow> stats_cache" where
  "CachePrune activeKeys [] = []"
| "CachePrune activeKeys ((k, v) # c) =
     (if \<not> bool_at activeKeys k then CachePrune activeKeys c else (k, v) # CachePrune activeKeys c)"

definition CacheRemove :: "string \<Rightarrow> stats_cache \<Rightarrow> stats_cache" where
  "CacheRemove key c = gomap_del key c"

definition cache_get :: "stats_cache \<Rightarrow> string \<Rightarrow> cached_stats option" where
  "cache_get c key = map_of c key"

section \<open>The contract\<close>

locale prunable_store = object_store +
  fixes prune :: "bool gomap \<Rightarrow> 's \<Rightarrow> 's"
  assumes get_prune: "inv s \<Longrightarrow> get (prune keep s) key = (if bool_at keep key then get s key else None)"
    and inv_prune: "inv s \<Longrightarrow> inv (prune keep s)"
begin

lemma listed_after_prune:
  "inv s \<Longrightarrow> x \<in> set (lst (prune keep s)) \<longleftrightarrow> (\<exists>key. bool_at keep key \<and> get s key = Some x)"
  by (auto simp: lst_get inv_prune get_prune split: if_splits)

lemma prune_add_commute:
  assumes "inv s" and "bool_at keep key"
  shows "get (prune keep (add key x s)) = get (add key x (prune keep s))"
  using assms by (auto simp: fun_eq_iff get_prune get_add inv_add inv_prune)

text \<open>After a list of writes the last write of a key wins; pruning then leaves the kept keys.\<close>

lemma get_fold_add:
  "inv s \<Longrightarrow> inv (fold (\<lambda>(k, x). add k x) ws s) \<and>
     get (fold (\<lambda>(k, x). add k x) ws s) = get s ++ map_of (rev ws)"
proof (induction ws arbitrary: s)
  case Nil
  then show ?case by simp
next
  case (Cons w ws)
  obtain k x where w: "w = (k, x)" by (cases w)
  from Cons.prems have "inv (add k x s)" by (rule inv_add)
  from Cons.IH [OF this] show ?case using Cons.prems by (auto simp: w get_add map_add_def fun_eq_iff split: option.splits)
qed

end

lemma CachePrune_filter: "CachePrune keep c = filter (\<lambda>e. bool_at keep (fst e)) c"
  by (induction keep c rule: CachePrune.induct) auto

lemma map_of_filter_key: "map_of (filter (\<lambda>e. P (fst e)) c) k = (if P k then map_of c k else None)"
  by (induction c) auto

interpretation sc: prunable_store CacheStore CacheRemove cache_get CacheList NewStatsCache gomap_ok CachePrune
proof unfold_locales
  show "gomap_ok c \<Longrightarrow> x \<in> set (CacheList c) \<longleftrightarrow> (\<exists>key. cache_get c key = Some x)" for c x
    by (force simp: CacheList_def cache_get_def gomap_mem_iff [symmetric])
  show "cache_get (CachePrune keep c) key = (if bool_at keep key then cache_get c key else None)" for c keep key
    by (simp add: cache_get_def CachePrune_filter map_of_filter_key)
qed (simp_all add: fun_eq_iff cache_get_def CacheStore_def CacheRemove_def NewStatsCache_def go_map_simps
      gomap_ok_upd gomap_ok_del CachePrune_filter gomap_ok_filter)

section \<open>The collector\<close>

definition vmStatsCollector ::
  "guest_decoders \<Rightarrow> (string gomap \<Rightarrow> string gomap) \<Rightarrow> stats_cache collector" where
  "vmStatsCollector gd rng =
     \<lparr>c_metrics = vmstatsMetrics,
      c_callback = (\<lambda>cache.
        (let entries = CacheList cache in
         if entries = [] then Inr []
         else Inr (concat (map (\<lambda>entry. report_samples gd (NewVMIReport rng (cs_VMI entry) (cs_Stats entry))) entries))))\<rparr>"

definition filterVMStatsCollector :: "stats_cache collector \<Rightarrow> bool gomap \<Rightarrow> stats_cache collector option" where
  "filterVMStatsCollector c allowlist =
     (let kept = filter (\<lambda>m. bool_at allowlist (m_name m)) (c_metrics c) in
      if kept = [] then None
      else (let allowedSet = map (\<lambda>m. (m_name m, True)) kept in
            Some \<lparr>c_metrics = kept,
                  c_callback = (\<lambda>cache. bindR (c_callback c cache)
                    (\<lambda>results. Inr (filter (\<lambda>r. bool_at allowedSet (m_name (r_metric r))) results)))\<rparr>))"

text \<open>It is the same filter as the one of \<open>metrics.go\<close>.\<close>

lemma filterVMStatsCollector_eq: "filterVMStatsCollector c al = filterCollector c al"
proof -
  have "map_of (map (\<lambda>m. (m_name m, True)) ms) n = Some True \<longleftrightarrow> n \<in> set (map m_name ms)" for ms :: "metric list" and n
    by (induction ms) auto
  then show ?thesis by (simp add: filterVMStatsCollector_def filterCollector_def filter_results_def bool_at_def Let_def)
qed

definition RegisterVMStatsCollector ::
  "(stats_cache, 'p) register_fn \<Rightarrow> (stats_cache, 'p) unregister_fn \<Rightarrow> stats_cache collector \<Rightarrow>
   bool gomap option \<Rightarrow> registry \<times> 'p \<Rightarrow> (registry \<times> 'p) \<times> fault option" where
  "RegisterVMStatsCollector preg punreg collector allowlist s =
     (case allowlist of
        None \<Rightarrow> RegisterCollectors preg punreg [collector] s
      | Some al \<Rightarrow>
          (case filterVMStatsCollector collector al of
             None \<Rightarrow> (s, None)
           | Some filtered \<Rightarrow> RegisterCollectors preg punreg [filtered] s))"

lemma vmstats_callback:
  "c_callback (vmStatsCollector gd rng) cache =
     Inr (concat (map (\<lambda>e. report_samples gd (NewVMIReport rng (cs_VMI e) (cs_Stats e))) (CacheList cache)))"
  by (simp add: vmStatsCollector_def Let_def)

lemma from_report_no_labels: "from_report rp r \<Longrightarrow> r_labels r = []"
  by (auto simp: from_report_def)

interpretation vmstats: metric_collector vmstatsMetrics "c_callback (vmStatsCollector gd rng)" for gd rng
proof unfold_locales
  show "distinct (map m_name vmstatsMetrics)" by (rule vmstatsMetrics_distinct)
  show "\<forall>m \<in> set vmstatsMetrics. supported m" using vmstatsMetrics_plain by blast
  show "wf_result vmstatsMetrics r"
    if "c_callback (vmStatsCollector gd rng) cache = Inr rs" "r \<in> set rs" for cache rs r
    using that report_samples_metric from_report_no_labels [OF from_report_samples] vmstatsMetrics_plain
    by (fastforce simp: vmstats_callback wf_result_def)
qed

text \<open>The cache as the poller fills it: an entry is stored under the key of its VMI.\<close>

definition cache_keyed :: "stats_cache \<Rightarrow> bool" where
  "cache_keyed c \<longleftrightarrow> gomap_ok c \<and> (\<forall>e \<in> set c. fst e = slash_key (vmi_namespace (cs_VMI (snd e))) (vmi_name (cs_VMI (snd e))))"

lemma scrape_unique:
  assumes "cache_keyed cache" and "\<forall>e \<in> set (CacheList cache). unique_devices gd (cs_Stats e)"
    and "c_callback (vmStatsCollector gd rng) cache = Inr rs"
  shows "distinct (map series rs) \<and> (\<forall>r \<in> set rs. \<exists>e \<in> set (CacheList cache). names_vmi (cs_VMI e) r)"
proof -
  let ?f = "\<lambda>e. report_samples gd (NewVMIReport rng (cs_VMI e) (cs_Stats e))"
  have rs: "rs = concat (map ?f (CacheList cache))" using assms(3) by (simp add: vmstats_callback)
  have names: "names_vmi (cs_VMI e) r" if "r \<in> set (?f e)" for e r
    using from_report_names [OF from_report_samples [OF that]] .
  have "distinct (map series (concat (map ?f (CacheList cache))))"
  proof (rule distinct_by_tag [where tag = "\<lambda>e. (Some (vmi_namespace (cs_VMI e)), Some (vmi_name (cs_VMI e)))"
        and h = "\<lambda>r. (map_of (r_const r) ''namespace'', map_of (r_const r) ''name'')"])
    have key: "slash_key (vmi_namespace (cs_VMI (snd e))) (vmi_name (cs_VMI (snd e))) = fst e" if "e \<in> set cache" for e
      using assms(1) that by (simp add: cache_keyed_def)
    let ?tag = "\<lambda>e. (Some (vmi_namespace (cs_VMI e)), Some (vmi_name (cs_VMI e)))"
    have inj: "inj_on fst (set cache)" and d: "distinct cache"
      using assms(1) by (simp_all add: cache_keyed_def gomap_ok_def distinct_map)
    have "inj_on (\<lambda>e. ?tag (snd e)) (set cache)"
    proof (rule inj_onI)
      fix x y assume x: "x \<in> set cache" and y: "y \<in> set cache" and eq: "?tag (snd x) = ?tag (snd y)"
      from eq have "fst x = fst y" using key [OF x] key [OF y] by simp
      with inj x y show "x = y" by (simp add: inj_on_def)
    qed
    with d have "distinct (map (\<lambda>e. ?tag (snd e)) cache)" by (simp add: distinct_map)
    then show "distinct (map ?tag (CacheList cache))" by (simp add: CacheList_def comp_def)
    show "distinct (map series (?f e))" if "e \<in> set (CacheList cache)" for e
      using assms(2) that by (simp add: report_series)
    show "(map_of (r_const r) ''namespace'', map_of (r_const r) ''name'') =
        (Some (vmi_namespace (cs_VMI e)), Some (vmi_name (cs_VMI e)))" if "r \<in> set (?f e)" for e r
      using names [OF that] by (simp add: names_vmi_def)
    show "(map_of (r_const r) ''namespace'', map_of (r_const r) ''name'') =
        (map_of (r_const r') ''namespace'', map_of (r_const r') ''name'')" if "series r = series r'" for r r'
      using series_eqD [OF that] by simp
  qed
  with rs names show ?thesis by auto
qed

text \<open>C10: a scrape of the polled statistics never has two samples with the same metric and labels, so the
  Prometheus gatherer accepts it, as long as the cache holds entries under their own VMI's key and the
  devices of each VM have distinct names; and every sample names the node, namespace and name of a
  cached VMI, whatever labels the VMI carries.\<close>

theorem vmstats_scrape_unique:
  assumes "cache_keyed cache" and "\<forall>e \<in> set (CacheList cache). unique_devices gd (cs_Stats e)"
    and "c_callback (vmStatsCollector gd rng) cache = Inr rs"
  shows "distinct (map series rs) \<and> (\<forall>r \<in> set rs. \<exists>e \<in> set (CacheList cache). names_vmi (cs_VMI e) r)"
  by (rule scrape_unique [OF assms])

definition zero_domain_stats :: domain_stats where
  "zero_domain_stats = \<lparr>ds_Name = [], ds_UUID = [], ds_Cpu = None, ds_Memory = None, ds_MigrateDomainJobInfo = None,
     ds_Vcpu = [], ds_Net = [], ds_Block = [], ds_CPUMapSet = False, ds_CPUMap = [], ds_DirtyRate = None, ds_Load = None\<rparr>"

definition zero_vm_stats :: vm_stats where
  "zero_vm_stats = \<lparr>vs_DomainStats = zero_domain_stats, vs_DirtyRateMbps = None, vs_GuestAgentVersion = [],
     vs_GuestGetLoad = [], vs_GuestGetCpuStats = [], vs_GuestGetDiskStats = [], vs_GuestGetTime = [],
     vs_GuestGetVcpus = [], vs_GuestGetMemoryBlockInfo = [], vs_GuestGetUsers = [], vs_GuestGetOsInfo = [],
     vs_GuestGetDisks = [], vs_GuestGetHostName = [], vs_GuestGetTimezone = [], vs_GuestNetworkGetRoute = [],
     vs_GuestNetworkGetInterfaces = [], vs_GuestGetMemoryBlocks = []\<rparr>"

definition no_decoders :: guest_decoders where
  "no_decoders = \<lparr>gd_os_info = (\<lambda>_. None), gd_host_name = (\<lambda>_. None), gd_timezone = (\<lambda>_. None),
     gd_users = (\<lambda>_. None), gd_disks = (\<lambda>_. None), gd_ifaces = (\<lambda>_. None)\<rparr>"

definition demo_cached :: cached_stats where
  "demo_cached = \<lparr>cs_VMI = zero_vmi\<lparr>vmi_meta := zero_meta\<lparr>om_name := ''vm1'', om_namespace := ''ns'',
       om_labels := [(''name'', ''x'')]\<rparr>\<rparr>,
     cs_Stats = zero_vm_stats\<lparr>vs_DomainStats := zero_domain_stats\<lparr>ds_DirtyRate := Some
       \<lparr>dr_CalcStatusSet = False, dr_CalcStatus = 0, dr_CalcStartTimeSet = False, dr_CalcStartTime = 0,
        dr_CalcPeriodSet = False, dr_CalcPeriod = 0, dr_MegabytesPerSecondSet = True, dr_MegabytesPerSecond = 1\<rparr>\<rparr>\<rparr>\<rparr>"

theorem vmstats_scrape_unique_witness:
  "\<exists>rs. c_callback (vmStatsCollector no_decoders id) [(''ns/vm1'', demo_cached)] = Inr rs \<and> distinct (map series rs) \<and>
     (\<forall>r \<in> set rs. names_vmi (cs_VMI demo_cached) r)"
proof -
  have k: "cache_keyed [(''ns/vm1'', demo_cached)]"
    by (simp add: cache_keyed_def demo_cached_def zero_vmi_def slash_key_def)
  have u: "\<forall>e \<in> set (CacheList [(''ns/vm1'', demo_cached)]). unique_devices no_decoders (cs_Stats e)"
    by (simp add: CacheList_def unique_devices_def no_decoders_def demo_cached_def zero_domain_stats_def)
  obtain rs where cb: "c_callback (vmStatsCollector no_decoders id) [(''ns/vm1'', demo_cached)] = Inr rs"
    by (simp add: vmstats_callback)
  from vmstats_scrape_unique [OF k u cb] cb show ?thesis by (simp add: CacheList_def)
qed

text \<open>As long as the rate in MB/s is below 2^43, the dirty rate is reported exactly, as the rate times
  2^20; at 2^43 the 64-bit product overflows and the sample is negative.\<close>

theorem dirty_rate_exact:
  assumes "ds_DirtyRate (vs_DomainStats (rp_Stats rp)) = Some d" and "dr_MegabytesPerSecondSet d"
    and "0 \<le> dr_MegabytesPerSecond d" and "dr_MegabytesPerSecond d \<le> 2 ^ 43"
  shows "\<exists>r. collectDirtyRateMetrics rp = [r] \<and> r_metric r = dirtyRateBytesPerSecond \<and>
    r_value r = (if dr_MegabytesPerSecond d < 2 ^ 43 then of_int (dr_MegabytesPerSecond d) * 2 ^ 20 else - (2 ^ 63))"
proof -
  define m where "m = dr_MegabytesPerSecond d"
  have m: "0 \<le> m" "m \<le> 2 ^ 43" using assms(3,4) by (simp_all add: m_def)
  have e: "rnd (of_int (k * 2 ^ 20)) = of_int k * 2 ^ 20" if "\<bar>k\<bar> < 2 ^ 53" for k :: int
  proof -
    have "rat_of_int (k * 2 ^ 20) = 2 powi 20 * of_int k" by simp
    then have "rnd (of_int (k * 2 ^ 20)) = 2 powi 20 * rnd (of_int k)" by (simp only: rnd_shift)
    then show ?thesis using that by (simp add: rnd_int)
  qed
  have i: "i64 (i64 (m * 1024) * 1024) = (if m < 2 ^ 43 then m * 2 ^ 20 else - (2 ^ 63))"
  proof (cases "m < 2 ^ 43")
    case True
    with m have "in_i64 (m * 1024)" "in_i64 (m * 1024 * 1024)" by (simp_all add: in_i64_def)
    with True show ?thesis by simp
  next
    case False
    with m have "m = 2 ^ 43" by simp
    then show ?thesis by (simp add: i64_def)
  qed
  have "f64_of_int (i64 (i64 (m * 1024) * 1024)) = (if m < 2 ^ 43 then of_int m * 2 ^ 20 else - (2 ^ 63))"
  proof (cases "m < 2 ^ 43")
    case True
    with m e [of m] i show ?thesis by (simp add: f64_of_int_def)
  next
    case False
    with i e [of "- (2 ^ 43)"] show ?thesis by (simp add: f64_of_int_def)
  qed
  with assms(1,2) show ?thesis by (simp add: collectDirtyRateMetrics_def m_def)
qed

theorem dirty_rate_exact_witness:
  "\<exists>r. collectDirtyRateMetrics (NewVMIReport id zero_vmi (cs_Stats demo_cached)) = [r] \<and> r_value r = 1048576"
  using dirty_rate_exact [of "NewVMIReport id zero_vmi (cs_Stats demo_cached)"]
  by (auto simp: NewVMIReport_def demo_cached_def)

end
