(* ===== verification/VMStats_Poller.thy ===== *)
theory VMStats_Poller
  imports VMStats_Cache
begin

text \<open>
  The client and the poller (\<open>pkg/monitoring/metrics/vmstats/client.go\<close>, \<open>poller.go\<close>). One poll groups
  the VMIs by node, asks the virt-handler of every node, stores what it answers and prunes the cache.
  The HTTP transport and the JSON decoder are arguments. \<open>pollOnce\<close> runs the nodes one after the
  other; the code runs one goroutine per node under a semaphore, which is the step relation
  \<open>poll_step\<close>: its lemmas show that every schedule ends, respects the bound and leaves the cache that
  the sequential run leaves.
\<close>

section \<open>Client\<close>

type_synonym node_results = "(string \<times> vm_stats_result option) list"

text \<open>
  \<open>he_request\<close> is \<open>http.NewRequestWithContext\<close> (an error or none), \<open>he_do\<close> the round trip with the status
  and the body, \<open>he_decode\<close> the JSON decoder, where a \<open>null\<close> value of the map is \<open>None\<close>.
\<close>

record http_env =
  he_request :: "string \<Rightarrow> fault option"
  he_do :: "string \<Rightarrow> (int \<times> string) res"
  he_decode :: "string \<Rightarrow> node_results res"

record client =
  cl_port :: int
  cl_baseURLOverride :: string

definition NewVMStatsClient :: "int \<Rightarrow> client" where
  "NewVMStatsClient port = \<lparr>cl_port = port, cl_baseURLOverride = ''''\<rparr>"

definition defaultQueryParams :: "string list" where
  "defaultQueryParams = [''domainStats'', ''dirtyRate'', ''guestGetOsInfo'', ''guestGetHostName'',
     ''guestGetTimezone'', ''guestGetUsers'', ''guestGetDiskStats'', ''guestNetworkGetInterfaces'']"

definition buildQueryString :: "string list \<Rightarrow> string" where
  "buildQueryString params = join_with ''&'' (map (\<lambda>p. p @ ''=true'') params)"

definition FetchNodeVMStats :: "http_env \<Rightarrow> client \<Rightarrow> string \<Rightarrow> node_results res" where
  "FetchNodeVMStats env c podIP =
     (let baseURL = (if cl_baseURLOverride c = '''' then ''https://'' @ podIP @ '':'' @ show_int (cl_port c)
                     else cl_baseURLOverride c);
          url = baseURL @ ''/v1/vmstats?'' @ buildQueryString defaultQueryParams
      in case he_request env url of
           Some e \<Rightarrow> wrap_err ''building request'' (Inl e)
         | None \<Rightarrow>
             bindR (wrap_err ''HTTP request'' (he_do env url)) (\<lambda>(status, body).
               if status \<noteq> 200 then Inl (GoError (''unexpected status '' @ show_int status @ '' from '' @ podIP))
               else wrap_err ''decoding response'' (he_decode env body)))"

section \<open>One poll\<close>

definition group_add :: "vmi \<Rightarrow> vmi list gomap \<Rightarrow> vmi list gomap" where
  "group_add v acc =
     (let old = (case map_of acc (vmi_node v) of None \<Rightarrow> [] | Some vs \<Rightarrow> vs)
      in gomap_upd (vmi_node v) (old @ [v]) acc)"

fun group_loop :: "any list \<Rightarrow> vmi list gomap \<Rightarrow> vmi list gomap" where
  "group_loop [] acc = acc"
| "group_loop (obj # objs) acc =
     (case as_vmi obj of
        None \<Rightarrow> group_loop objs acc
      | Some v \<Rightarrow> (if vmi_node v = '''' then group_loop objs acc else group_loop objs (group_add v acc)))"

definition groupVMIsByNode :: "any list \<Rightarrow> vmi list gomap" where
  "groupVMIsByNode objs = group_loop objs []"

definition handler_pod :: "string \<Rightarrow> pod \<Rightarrow> bool" where
  "handler_pod nodeName p \<longleftrightarrow> str_at (om_labels (pod_meta p)) ''kubevirt.io'' = ''virt-handler'' \<and>
     pod_node p = nodeName \<and> pod_phase p = ''Running'' \<and> pod_ip p \<noteq> ''''"

fun find_handler :: "any list \<Rightarrow> string \<Rightarrow> string res" where
  "find_handler [] nodeName = Inl (GoError (''no running virt-handler pod found for node '' @ nodeName))"
| "find_handler (obj # objs) nodeName =
     (case as_pod obj of
        None \<Rightarrow> find_handler objs nodeName
      | Some p \<Rightarrow> (if handler_pod nodeName p then Inr (pod_ip p) else find_handler objs nodeName))"

definition findVirtHandlerPodIP :: "store \<Rightarrow> string \<Rightarrow> string res" where
  "findVirtHandlerPodIP podStore nodeName = find_handler (store_list podStore) nodeName"

definition vmi_key :: "vmi \<Rightarrow> string" where
  "vmi_key v = vmi_namespace v @ ''/'' @ vmi_name v"

definition build_lookup :: "vmi list \<Rightarrow> vmi gomap" where
  "build_lookup vmis = fold (\<lambda>v m. gomap_upd (vmi_key v) v m) vmis []"

type_synonym writes = "(string \<times> cached_stats) list"

text \<open>The loop over the results of a node; a \<open>null\<close> result is a nil pointer and panics.\<close>

fun result_writes :: "vmi gomap \<Rightarrow> node_results \<Rightarrow> writes res" where
  "result_writes lookup [] = Inr []"
| "result_writes lookup ((key, rp) # rest) =
     (case rp of
        None \<Rightarrow> Inl (GoPanic ''nil pointer dereference'')
      | Some r \<Rightarrow>
          (if vr_Error r \<noteq> '''' then result_writes lookup rest
           else case vr_Stats r of
             None \<Rightarrow> result_writes lookup rest
           | Some s \<Rightarrow>
               (case map_of lookup key of
                  None \<Rightarrow> result_writes lookup rest
                | Some v \<Rightarrow> bindR (result_writes lookup rest)
                    (\<lambda>ws. Inr ((key, \<lparr>cs_VMI = v, cs_Stats = s\<rparr>) # ws)))))"

text \<open>What the goroutine of a node stores; a failed request stores nothing.\<close>

definition node_writes :: "http_env \<Rightarrow> client \<Rightarrow> string \<Rightarrow> vmi gomap \<Rightarrow> writes res" where
  "node_writes env c podIP lookup =
     (case FetchNodeVMStats env c podIP of Inl e \<Rightarrow> Inr [] | Inr results \<Rightarrow> result_writes lookup results)"

text \<open>The goroutines a poll starts: one per node that has a virt-handler pod.\<close>

definition node_job :: "http_env \<Rightarrow> client \<Rightarrow> store \<Rightarrow> string \<times> vmi list \<Rightarrow> (string \<times> writes) list res" where
  "node_job env c podStore g =
     (case findVirtHandlerPodIP podStore (fst g) of
        Inl e \<Rightarrow> Inr []
      | Inr podIP \<Rightarrow> bindR (node_writes env c podIP (build_lookup (snd g))) (\<lambda>ws. Inr [(fst g, ws)]))"

definition poll_jobs :: "http_env \<Rightarrow> client \<Rightarrow> store \<Rightarrow> vmi list gomap \<Rightarrow> (string \<times> writes) list res" where
  "poll_jobs env c podStore groups = concatR (node_job env c podStore) groups"

definition active_keys :: "vmi list gomap \<Rightarrow> bool gomap" where
  "active_keys groups = fold (\<lambda>v m. gomap_upd (vmi_key v) True m) (concat (map snd groups)) []"

definition apply_writes :: "writes \<Rightarrow> stats_cache \<Rightarrow> stats_cache" where
  "apply_writes ws cache = fold (\<lambda>(k, e). CacheStore k e) ws cache"

definition pollOnce :: "http_env \<Rightarrow> client \<Rightarrow> store option \<Rightarrow> store option \<Rightarrow> stats_cache \<Rightarrow> stats_cache res" where
  "pollOnce env c vmiStore podStore cache =
     (case (vmiStore, podStore) of
        (Some vs, Some ps) \<Rightarrow>
          (let nodeVMIs = groupVMIsByNode (store_list vs) in
           if nodeVMIs = [] then Inr cache
           else bindR (poll_jobs env c ps nodeVMIs)
             (\<lambda>jobs. Inr (CachePrune (active_keys nodeVMIs) (apply_writes (concat (map snd jobs)) cache))))
      | _ \<Rightarrow> Inr cache)"

section \<open>Grouping by node\<close>

definition node_vmis :: "any list \<Rightarrow> string \<Rightarrow> vmi list" where
  "node_vmis objs n = filter (\<lambda>v. vmi_node v = n) (List.map_filter as_vmi objs)"

lemma node_vmis_Cons [simp]:
  "node_vmis [] n = []"
  "node_vmis (obj # objs) n = (case as_vmi obj of None \<Rightarrow> node_vmis objs n
     | Some v \<Rightarrow> (if vmi_node v = n then v # node_vmis objs n else node_vmis objs n))"
  by (auto simp: node_vmis_def map_filter_simps split: option.splits)

lemma group_loop_lookup:
  "map_of (group_loop objs acc) n =
     (if n = '''' \<or> node_vmis objs n = [] then map_of acc n
      else Some ((case map_of acc n of None \<Rightarrow> [] | Some vs \<Rightarrow> vs) @ node_vmis objs n))"
  by (induction objs acc rule: group_loop.induct)
     (auto simp: group_add_def go_map_simps Let_def split: option.splits)

lemma group_loop_ok: "gomap_ok acc \<Longrightarrow> gomap_ok (group_loop objs acc)"
  by (induction objs acc rule: group_loop.induct)
     (auto simp: group_add_def gomap_ok_upd Let_def split: option.splits)

lemma groupVMIsByNode_lookup:
  "map_of (groupVMIsByNode objs) n =
     (if n = '''' \<or> node_vmis objs n = [] then None else Some (node_vmis objs n))"
  by (simp add: groupVMIsByNode_def group_loop_lookup)

lemma groupVMIsByNode_ok: "gomap_ok (groupVMIsByNode objs)"
  by (simp add: groupVMIsByNode_def group_loop_ok)

lemma group_member:
  "(n, vs) \<in> set (groupVMIsByNode objs) \<longleftrightarrow> n \<noteq> '''' \<and> vs \<noteq> [] \<and> vs = node_vmis objs n"
  by (auto simp: gomap_mem_iff groupVMIsByNode_ok groupVMIsByNode_lookup)

lemma node_vmis_set: "v \<in> set (node_vmis objs n) \<longleftrightarrow> AVMI v \<in> set objs \<and> vmi_node v = n"
proof -
  have "v \<in> set (List.map_filter as_vmi objs) \<longleftrightarrow> AVMI v \<in> set objs"
  proof (induction objs)
    case (Cons x xs)
    then show ?case by (cases x) (auto simp: map_filter_simps)
  qed (simp add: map_filter_simps)
  then show ?thesis by (auto simp: node_vmis_def)
qed

lemma node_vmis_nonempty: "AVMI v \<in> set objs \<Longrightarrow> node_vmis objs (vmi_node v) \<noteq> []"
  by (metis empty_iff empty_set node_vmis_set)

text \<open>The VMIs of a poll: those of the cache that are scheduled on a node.\<close>

definition scheduled :: "any list \<Rightarrow> vmi set" where
  "scheduled objs = {v. AVMI v \<in> set objs \<and> vmi_node v \<noteq> ''''}"

lemma groups_scheduled: "set (concat (map snd (groupVMIsByNode objs))) = scheduled objs"
proof (rule set_eqI)
  fix v
  have "v \<in> set (concat (map snd (groupVMIsByNode objs))) \<longleftrightarrow>
      (\<exists>n vs. (n, vs) \<in> set (groupVMIsByNode objs) \<and> v \<in> set vs)" by force
  also have "\<dots> \<longleftrightarrow> v \<in> scheduled objs"
    using node_vmis_nonempty by (auto simp: group_member node_vmis_set scheduled_def)
  finally show "v \<in> set (concat (map snd (groupVMIsByNode objs))) \<longleftrightarrow> v \<in> scheduled objs" .
qed

lemma groups_empty_iff: "groupVMIsByNode objs = [] \<longleftrightarrow> scheduled objs = {}"
proof
  assume "scheduled objs = {}"
  then have "snd e = []" if "e \<in> set (groupVMIsByNode objs)" for e
    using groups_scheduled [of objs] that by (cases "snd e") force+
  moreover have "snd e \<noteq> []" if "e \<in> set (groupVMIsByNode objs)" for e
    using that group_member [of "fst e" "snd e" objs] by (metis prod.collapse)
  ultimately show "groupVMIsByNode objs = []" by (cases "groupVMIsByNode objs") auto
qed (use groups_scheduled [of objs] in simp)

lemma bool_at_fold: "bool_at (fold (\<lambda>v m. gomap_upd (vmi_key v) True m) vs m) k \<longleftrightarrow> k \<in> vmi_key ` set vs \<or> bool_at m k"
  by (induction vs arbitrary: m) (auto simp: bool_at_def go_map_simps)

lemma active_keys_iff: "bool_at (active_keys (groupVMIsByNode objs)) k \<longleftrightarrow> k \<in> vmi_key ` scheduled objs"
  unfolding active_keys_def bool_at_fold groups_scheduled by (simp add: bool_at_def)

lemma fold_lookup_set:
  "map_of (fold (\<lambda>v m. gomap_upd (vmi_key v) v m) vs m) k = Some v \<Longrightarrow>
   (v \<in> set vs \<and> vmi_key v = k) \<or> map_of m k = Some v"
  by (induction vs arbitrary: m) (force simp: go_map_simps split: if_splits)+

lemma build_lookup_Some: "map_of (build_lookup vs) k = Some v \<Longrightarrow> v \<in> set vs \<and> vmi_key v = k"
  using fold_lookup_set [of vs "[]" k v] by (simp add: build_lookup_def)

section \<open>Goroutines and the semaphore\<close>

text \<open>
  A poll in progress: the nodes the loop has not reached, the goroutines that hold a slot of the
  semaphore with the writes they still have to make, and the cache. \<open>poll_step\<close> is one atomic step:
  the loop takes a slot and starts the next goroutine, a goroutine makes its next write, or a
  goroutine that is done returns its slot.
\<close>

record poll_state =
  ps_pending :: "(string \<times> writes) list"
  ps_running :: "(string \<times> writes) list"
  ps_cache :: stats_cache

inductive poll_step :: "nat \<Rightarrow> poll_state \<Rightarrow> poll_state \<Rightarrow> bool" for maxConcurrent :: nat where
  spawn: "length r < maxConcurrent \<Longrightarrow>
    poll_step maxConcurrent \<lparr>ps_pending = j # p, ps_running = r, ps_cache = c\<rparr>
      \<lparr>ps_pending = p, ps_running = j # r, ps_cache = c\<rparr>"
| put: "poll_step maxConcurrent \<lparr>ps_pending = p, ps_running = xs @ (n, (k, e) # ws) # ys, ps_cache = c\<rparr>
      \<lparr>ps_pending = p, ps_running = xs @ (n, ws) # ys, ps_cache = CacheStore k e c\<rparr>"
| release: "poll_step maxConcurrent \<lparr>ps_pending = p, ps_running = xs @ (n, []) # ys, ps_cache = c\<rparr>
      \<lparr>ps_pending = p, ps_running = xs @ ys, ps_cache = c\<rparr>"

inductive_cases poll_stepE: "poll_step m s s'"

definition poll_init :: "(string \<times> writes) list \<Rightarrow> stats_cache \<Rightarrow> poll_state" where
  "poll_init jobs cache = \<lparr>ps_pending = jobs, ps_running = [], ps_cache = cache\<rparr>"

definition poll_done :: "poll_state \<Rightarrow> bool" where
  "poll_done s \<longleftrightarrow> ps_pending s = [] \<and> ps_running s = []"

definition poll_work :: "poll_state \<Rightarrow> nat" where
  "poll_work s = sum_list (map (\<lambda>j. 2 + length (snd j)) (ps_pending s)) +
     sum_list (map (\<lambda>j. 1 + length (snd j)) (ps_running s))"

text \<open>Each step does one unit of work, so no schedule is infinite.\<close>

lemma poll_step_work: "poll_step m s s' \<Longrightarrow> poll_work s = Suc (poll_work s')"
  by (induction rule: poll_step.induct) (auto simp: poll_work_def)

lemma poll_step_bound: "poll_step m s s' \<Longrightarrow> length (ps_running s) \<le> m \<Longrightarrow> length (ps_running s') \<le> m"
  by (induction rule: poll_step.induct) auto

text \<open>With at least one slot the poll is never stuck before it is done.\<close>

lemma poll_progress:
  assumes "0 < m" and "\<not> poll_done s"
  shows "\<exists>s'. poll_step m s s'"
proof (cases s)
  case (fields p r c)
  show ?thesis
  proof (cases r)
    case Nil
    with assms(2) fields obtain j p' where "p = j # p'" by (cases p) (auto simp: poll_done_def)
    with spawn [of "[]" m j p' c] assms(1) Nil fields show ?thesis by auto
  next
    case (Cons j r')
    obtain n ws where j: "j = (n, ws)" by (cases j)
    show ?thesis
    proof (cases ws)
      case Nil
      with release [of m p "[]" n r' c] j Cons fields show ?thesis by auto
    next
      case (Cons w ws')
      obtain k e where "w = (k, e)" by (cases w)
      with put [of m p "[]" n k e ws' r' c] j Cons \<open>r = j # r'\<close> fields show ?thesis by auto
    qed
  qed
qed

subsection \<open>Every schedule leaves the same cache\<close>

text \<open>The goroutines write disjoint keys: \<open>owner\<close> is the node of the VMI with that key.\<close>

definition jobs_ok :: "(string \<Rightarrow> string) \<Rightarrow> (string \<times> writes) list \<Rightarrow> bool" where
  "jobs_ok owner jobs \<longleftrightarrow> distinct (map fst jobs) \<and> (\<forall>j \<in> set jobs. \<forall>w \<in> set (snd j). owner (fst w) = fst j)"

definition outcome :: "(string \<Rightarrow> string) \<Rightarrow> (string \<times> writes) list \<Rightarrow> stats_cache \<Rightarrow> string \<Rightarrow> cached_stats option" where
  "outcome owner jobs cache k =
     (case map_of jobs (owner k) of None \<Rightarrow> cache_get cache k
      | Some ws \<Rightarrow> (case map_of (rev ws) k of None \<Rightarrow> cache_get cache k | Some e \<Rightarrow> Some e))"

abbreviation all_jobs :: "poll_state \<Rightarrow> (string \<times> writes) list" where
  "all_jobs s \<equiv> ps_running s @ ps_pending s"

definition poll_inv :: "(string \<Rightarrow> string) \<Rightarrow> poll_state \<Rightarrow> bool" where
  "poll_inv owner s \<longleftrightarrow> jobs_ok owner (all_jobs s) \<and> gomap_ok (ps_cache s)"

lemma map_of_middle:
  "distinct (map fst (xs @ (n, w) # ys)) \<Longrightarrow> map_of (xs @ (n, w) # ys) = (map_of (xs @ ys))(n \<mapsto> w)"
proof -
  assume "distinct (map fst (xs @ (n, w) # ys))"
  then have "map_of xs n = None" by (auto simp: map_of_eq_None_iff)
  then show ?thesis by (auto simp: fun_eq_iff map_add_def split: option.splits)
qed

lemma poll_step_inv:
  assumes "poll_step m s s'" and "poll_inv owner s"
  shows "poll_inv owner s' \<and> outcome owner (all_jobs s') (ps_cache s') = outcome owner (all_jobs s) (ps_cache s)"
  using assms
proof (induction rule: poll_step.induct)
  case (spawn r j p c)
  obtain n w where j: "j = (n, w)" by (cases j)
  have d: "distinct (map fst (r @ (n, w) # p))" using spawn(2) by (simp add: poll_inv_def jobs_ok_def j)
  then have "map_of (j # r @ p) = map_of (r @ j # p)" by (simp add: map_of_middle [OF d] j del: map_of_append)
  moreover have "jobs_ok owner (j # r @ p)" using spawn(2) by (auto simp: poll_inv_def jobs_ok_def)
  ultimately show ?case using spawn(2) by (simp add: poll_inv_def outcome_def fun_eq_iff)
next
  case (put p xs n k e ws ys c)
  have d: "distinct (map fst (xs @ (n, (k, e) # ws) # ys @ p))" and own: "owner k = n" and ok: "gomap_ok c"
    using put by (auto simp: poll_inv_def jobs_ok_def)
  then have d': "distinct (map fst (xs @ (n, ws) # ys @ p))" by simp
  have inv: "poll_inv owner \<lparr>ps_pending = p, ps_running = xs @ (n, ws) # ys, ps_cache = CacheStore k e c\<rparr>"
    using put sc.inv_add [OF ok] by (auto simp: poll_inv_def jobs_ok_def)
  have "outcome owner (xs @ (n, ws) # ys @ p) (CacheStore k e c) l =
      outcome owner (xs @ (n, (k, e) # ws) # ys @ p) c l" for l
    using own unfolding outcome_def map_of_middle [OF d] map_of_middle [OF d']
    by (auto simp: sc.get_add [OF ok] map_add_def split: option.splits)
  with inv show ?case by (simp add: fun_eq_iff)
next
  case (release p xs n ys c)
  have d: "distinct (map fst (xs @ (n, []) # ys @ p))" using release by (auto simp: poll_inv_def jobs_ok_def)
  then have none: "map_of (xs @ ys @ p) n = None" by (auto simp: map_of_eq_None_iff)
  have inv: "poll_inv owner \<lparr>ps_pending = p, ps_running = xs @ ys, ps_cache = c\<rparr>"
    using release by (auto simp: poll_inv_def jobs_ok_def)
  have "outcome owner (xs @ ys @ p) c l = outcome owner (xs @ (n, []) # ys @ p) c l" for l
    using none unfolding outcome_def map_of_middle [OF d] by (auto split: option.splits)
  with inv show ?case by (simp add: fun_eq_iff)
qed

lemma poll_steps_inv:
  assumes "(poll_step m)\<^sup>*\<^sup>* s s'" and "poll_inv owner s" and "length (ps_running s) \<le> m"
  shows "poll_inv owner s' \<and> outcome owner (all_jobs s') (ps_cache s') = outcome owner (all_jobs s) (ps_cache s) \<and>
    length (ps_running s') \<le> m"
  using assms
proof (induction rule: rtranclp_induct)
  case (step t u)
  then show ?case using poll_step_inv [OF step(2)] poll_step_bound [OF step(2)] by simp
qed simp

text \<open>What the sequential run stores is the outcome of the initial state.\<close>

lemma apply_writes_get:
  "gomap_ok c \<Longrightarrow> gomap_ok (apply_writes ws c) \<and> cache_get (apply_writes ws c) = cache_get c ++ map_of (rev ws)"
  unfolding apply_writes_def by (rule sc.get_fold_add)

lemma jobs_ok_ConsD: "jobs_ok owner (j # js) \<Longrightarrow> jobs_ok owner js"
  by (simp add: jobs_ok_def)

lemma sequential_lookup:
  "jobs_ok owner jobs \<Longrightarrow>
   map_of (rev (concat (map snd jobs))) k =
     (case map_of jobs (owner k) of None \<Rightarrow> None | Some ws \<Rightarrow> map_of (rev ws) k)"
proof (induction jobs)
  case (Cons j js)
  obtain n ws where j: "j = (n, ws)" by (cases j)
  have own: "owner k = n" if "k \<in> fst ` set ws" using Cons.prems that by (auto simp: jobs_ok_def j)
  have fresh: "map_of js n = None" using Cons.prems by (auto simp: jobs_ok_def j map_of_eq_None_iff)
  have "map_of (rev ws) k = None" if "owner k \<noteq> n" using own that by (auto simp: map_of_eq_None_iff)
  then show ?case using Cons.IH [OF jobs_ok_ConsD [OF Cons.prems]] fresh
    by (auto simp: j map_add_def split: option.splits)
qed simp

lemma sequential_outcome:
  assumes "jobs_ok owner jobs" and "gomap_ok cache"
  shows "cache_get (apply_writes (concat (map snd jobs)) cache) = outcome owner jobs cache"
  using apply_writes_get [OF assms(2)] sequential_lookup [OF assms(1)]
  by (auto simp: fun_eq_iff outcome_def map_add_def split: option.splits)

section \<open>The jobs of a poll\<close>

text \<open>The VMI store as the informer keeps it: a VMI is stored under its own key.\<close>

definition store_keyed :: "store \<Rightarrow> bool" where
  "store_keyed vs \<longleftrightarrow> gomap_ok vs \<and> (\<forall>k v. (k, AVMI v) \<in> set vs \<longrightarrow> k = vmi_key v)"

lemma store_keyed_unique:
  assumes "store_keyed vs" and "AVMI v \<in> set (store_list vs)" and "AVMI w \<in> set (store_list vs)"
    and "vmi_key v = vmi_key w"
  shows "v = w"
proof -
  from assms(2,3) obtain k l where kl: "(k, AVMI v) \<in> set vs" "(l, AVMI w) \<in> set vs" by (auto simp: store_list_def)
  with assms(1,4) have "k = l" unfolding store_keyed_def by metis
  with kl assms(1) have "Some (AVMI v) = Some (AVMI w)" by (metis gomap_mem_iff store_keyed_def)
  then show ?thesis by simp
qed

definition store_owner :: "any list \<Rightarrow> string \<Rightarrow> string" where
  "store_owner objs k = (case find (\<lambda>v. vmi_key v = k) (List.map_filter as_vmi objs) of
     None \<Rightarrow> '''' | Some v \<Rightarrow> vmi_node v)"

lemma store_owner_node:
  assumes "store_keyed vs" and "AVMI v \<in> set (store_list vs)"
  shows "store_owner (store_list vs) (vmi_key v) = vmi_node v"
proof -
  let ?vmis = "List.map_filter as_vmi (store_list vs)"
  have mem: "w \<in> set ?vmis \<longleftrightarrow> AVMI w \<in> set (store_list vs)" for w
    using node_vmis_set [of w "store_list vs" "vmi_node w"] by (simp add: node_vmis_def)
  from assms(2) have "find (\<lambda>w. vmi_key w = vmi_key v) ?vmis \<noteq> None" by (auto simp: find_None_iff mem)
  then obtain w where w: "find (\<lambda>w. vmi_key w = vmi_key v) ?vmis = Some w" by blast
  then have "w \<in> set ?vmis" "vmi_key w = vmi_key v" by (auto simp: find_Some_iff)
  with assms store_keyed_unique have "w = v" by (simp add: mem)
  with w show ?thesis by (simp add: store_owner_def)
qed

lemma result_writes_keys:
  "result_writes lookup rs = Inr ws \<Longrightarrow> (k, e) \<in> set ws \<Longrightarrow>
   map_of lookup k = Some (cs_VMI e) \<and> (\<exists>r. (k, Some r) \<in> set rs \<and> vr_Error r = '''' \<and> vr_Stats r = Some (cs_Stats e))"
proof (induction lookup rs arbitrary: ws rule: result_writes.induct)
  case (2 lookup key rp rest)
  then show ?case by (fastforce simp: go_err split: option.splits if_splits)
qed simp

lemma node_writes_keys:
  assumes "node_writes env c ip (build_lookup vs) = Inr ws" and "w \<in> set ws"
  shows "cs_VMI (snd w) \<in> set vs \<and> vmi_key (cs_VMI (snd w)) = fst w"
proof (cases "FetchNodeVMStats env c ip")
  case (Inl e)
  with assms show ?thesis by (simp add: node_writes_def)
next
  case (Inr rs)
  with assms(1) have r: "result_writes (build_lookup vs) rs = Inr ws" by (simp add: node_writes_def)
  have "(fst w, snd w) \<in> set ws" using assms(2) by simp
  from result_writes_keys [OF r this] have "map_of (build_lookup vs) (fst w) = Some (cs_VMI (snd w))" by blast
  then show ?thesis by (rule build_lookup_Some)
qed

lemma node_job_Inr:
  assumes "node_job env c ps (n, vs) = Inr js" and "j \<in> set js"
  shows "fst j = n \<and> (\<forall>w \<in> set (snd j). cs_VMI (snd w) \<in> set vs \<and> vmi_key (cs_VMI (snd w)) = fst w)"
proof (cases "findVirtHandlerPodIP ps n")
  case (Inl e)
  with assms show ?thesis by (simp add: node_job_def)
next
  case (Inr ip)
  with assms obtain ws where "node_writes env c ip (build_lookup vs) = Inr ws" "j = (n, ws)"
    by (auto simp: node_job_def go_err)
  with node_writes_keys show ?thesis by simp
qed

lemma concatR_Cons: "concatR f (x # xs) = bindR (f x) (\<lambda>y. bindR (concatR f xs) (\<lambda>ys. Inr (y @ ys)))"
  by (cases "f x"; cases "mapR f xs") (simp_all add: concatR_def)

lemma concatR_Nil [simp]: "concatR f [] = Inr []"
  by (simp add: concatR_def)

lemma node_job_subseq: "node_job env c ps g = Inr js \<Longrightarrow> js = [] \<or> (\<exists>ws. js = [(fst g, ws)])"
  by (auto simp: node_job_def go_err split: sum.splits)

lemma poll_jobs_subseq: "poll_jobs env c ps gs = Inr jobs \<Longrightarrow> subseq (map fst jobs) (map fst gs)"
proof (induction gs arbitrary: jobs)
  case (Cons g gs)
  then obtain js rest where js: "node_job env c ps g = Inr js" and rest: "poll_jobs env c ps gs = Inr rest"
    and jobs: "jobs = js @ rest"
    by (auto simp: poll_jobs_def concatR_Cons go_err)
  from node_job_subseq [OF js] show ?case
  proof
    assume "js = []"
    with Cons.IH [OF rest] show ?thesis by (simp add: jobs list_emb_Cons)
  next
    assume "\<exists>ws. js = [(fst g, ws)]"
    with Cons.IH [OF rest] show ?thesis by (auto simp: jobs)
  qed
qed (simp add: poll_jobs_def)

lemma poll_jobs_member:
  assumes "poll_jobs env c ps gs = Inr jobs" and "j \<in> set jobs"
  shows "\<exists>vs. (fst j, vs) \<in> set gs \<and> (\<forall>w \<in> set (snd j). cs_VMI (snd w) \<in> set vs \<and> vmi_key (cs_VMI (snd w)) = fst w)"
proof -
  from concatR_setD [OF assms(1) [unfolded poll_jobs_def] assms(2)] obtain g js where
    g: "g \<in> set gs" "node_job env c ps g = Inr js" "j \<in> set js" by blast
  obtain n vs where nvs: "g = (n, vs)" by (cases g)
  from node_job_Inr [of env c ps n vs js j] g nvs show ?thesis by auto
qed

lemma poll_jobs_ok:
  assumes "store_keyed vs" and "poll_jobs env c ps (groupVMIsByNode (store_list vs)) = Inr jobs"
  shows "jobs_ok (store_owner (store_list vs)) jobs"
proof -
  have "distinct (map fst (groupVMIsByNode (store_list vs)))"
    using groupVMIsByNode_ok by (simp add: gomap_ok_def)
  with poll_jobs_subseq [OF assms(2)] have d: "distinct (map fst jobs)" by (rule subseq_distinct)
  have "store_owner (store_list vs) (fst w) = fst j" if j: "j \<in> set jobs" and w: "w \<in> set (snd j)" for j w
  proof -
    from poll_jobs_member [OF assms(2) j] w obtain gvs where
      g: "(fst j, gvs) \<in> set (groupVMIsByNode (store_list vs))" and
      e: "cs_VMI (snd w) \<in> set gvs" "vmi_key (cs_VMI (snd w)) = fst w" by blast
    from g have "gvs = node_vmis (store_list vs) (fst j)" by (simp add: group_member)
    with e(1) have "AVMI (cs_VMI (snd w)) \<in> set (store_list vs)" "vmi_node (cs_VMI (snd w)) = fst j"
      by (auto simp: node_vmis_set)
    with store_owner_node [OF assms(1) this(1)] e(2) show ?thesis by simp
  qed
  with d show ?thesis by (simp add: jobs_ok_def)
qed

lemma poll_init_inv:
  assumes "jobs_ok owner jobs" and "gomap_ok cache"
  shows "poll_inv owner (poll_init jobs cache)"
  using assms by (simp add: poll_inv_def poll_init_def)

section \<open>Properties\<close>

text \<open>C1: however the goroutines of a poll interleave, a poll that has finished leaves, after pruning, the
  same cache as running the nodes one after the other.\<close>

theorem poll_schedule_independent:
  assumes "store_keyed vs" and "gomap_ok cache" and "scheduled (store_list vs) \<noteq> {}"
    and "pollOnce env c (Some vs) (Some ps) cache = Inr cache'"
    and "poll_jobs env c ps (groupVMIsByNode (store_list vs)) = Inr jobs"
    and "(poll_step m)\<^sup>*\<^sup>* (poll_init jobs cache) s" and "poll_done s"
  shows "cache_get (CachePrune (active_keys (groupVMIsByNode (store_list vs))) (ps_cache s)) = cache_get cache'"
proof -
  let ?o = "store_owner (store_list vs)" and ?keep = "active_keys (groupVMIsByNode (store_list vs))"
  have ok: "jobs_ok ?o jobs" using assms(1,5) by (rule poll_jobs_ok)
  from poll_steps_inv [OF assms(6) poll_init_inv [OF ok assms(2)]]
  have inv: "poll_inv ?o s" and out: "outcome ?o (all_jobs s) (ps_cache s) = outcome ?o jobs cache"
    by (simp_all add: poll_init_def)
  have "outcome ?o (all_jobs s) (ps_cache s) = cache_get (ps_cache s)"
    using assms(7) by (simp add: poll_done_def outcome_def fun_eq_iff)
  with out sequential_outcome [OF ok assms(2)]
  have eq: "cache_get (ps_cache s) = cache_get (apply_writes (concat (map snd jobs)) cache)" by simp
  have oks: "gomap_ok (ps_cache s)" "gomap_ok (apply_writes (concat (map snd jobs)) cache)"
    using inv apply_writes_get [OF assms(2)] by (simp_all add: poll_inv_def)
  have "groupVMIsByNode (store_list vs) \<noteq> []" using assms(3) groups_empty_iff by simp
  with assms(4,5) have c': "cache' = CachePrune ?keep (apply_writes (concat (map snd jobs)) cache)"
    by (simp add: pollOnce_def Let_def)
  show ?thesis unfolding c' by (rule ext) (simp add: sc.get_prune oks eq)
qed

lemma poll_completes:
  "0 < m \<Longrightarrow> \<exists>s'. (poll_step m ^^ poll_work s) s s' \<and> poll_done s'"
proof (induction "poll_work s" arbitrary: s)
  case 0
  then have "poll_done s" by (cases "ps_pending s"; cases "ps_running s") (simp_all add: poll_work_def poll_done_def)
  with 0 show ?case by (intro exI [of _ s]) simp
next
  case (Suc n)
  have "\<not> poll_done s" using Suc(2) by (auto simp: poll_done_def poll_work_def)
  from poll_progress [OF Suc(3) this] obtain t where t: "poll_step m s t" by blast
  with Suc(2) poll_step_work [OF t] have n: "n = poll_work t" by simp
  from Suc(1) [OF n Suc(3)] obtain s' where "(poll_step m ^^ n) t s'" "poll_done s'" by (auto simp: n)
  with t Suc(2) show ?case by (metis relpowp_Suc_I2)
qed

text \<open>C5: a poll in any reachable state has at most \<open>MaxConcurrent\<close> goroutines running, and if the
  bound is positive it can always be completed from there, in exactly as many steps as work is left;
  with a bound of zero the first goroutine never gets a slot.\<close>

theorem poll_bounded_and_completes:
  assumes "(poll_step m)\<^sup>*\<^sup>* (poll_init jobs cache) s"
  shows "length (ps_running s) \<le> m \<and>
    (0 < m \<longrightarrow> (\<exists>s'. (poll_step m ^^ poll_work s) s s' \<and> poll_done s')) \<and>
    (m = 0 \<longrightarrow> s = poll_init jobs cache \<and> (\<forall>s'. \<not> poll_step 0 s s'))"
proof -
  have "length (ps_running s) \<le> m"
    using assms by (induction rule: rtranclp_induct) (auto simp: poll_init_def dest: poll_step_bound)
  moreover have stuck: "\<not> poll_step 0 (poll_init jobs cache) s'" for s'
    by (auto simp: poll_init_def elim: poll_stepE)
  have "s = poll_init jobs cache" if "m = 0"
    using assms unfolding that by (induction rule: rtranclp_induct) (auto simp: stuck)
  ultimately show ?thesis using poll_completes stuck by auto
qed

definition demo_env :: http_env where
  "demo_env = \<lparr>he_request = (\<lambda>_. None), he_do = (\<lambda>_. Inr (200, '''')),
     he_decode = (\<lambda>_. Inr [(''ns/vm1'', Some \<lparr>vr_Stats = Some zero_vm_stats, vr_Error = ''''\<rparr>)])\<rparr>"

definition demo_poll_vmi :: vmi where
  "demo_poll_vmi = zero_vmi\<lparr>vmi_meta := zero_meta\<lparr>om_name := ''vm1'', om_namespace := ''ns''\<rparr>,
     vmi_the_status := zero_status\<lparr>st_node := ''n1''\<rparr>\<rparr>"

definition demo_vmis :: store where
  "demo_vmis = [(''ns/vm1'', AVMI demo_poll_vmi)]"

definition demo_handlers :: store where
  "demo_handlers = [(''kubevirt/vh'', APod \<lparr>pod_meta = zero_meta\<lparr>om_labels := [(''kubevirt.io'', ''virt-handler'')]\<rparr>,
     pod_node = ''n1'', pod_phase = ''Running'', pod_ip = ''10.0.0.1''\<rparr>)]"

definition demo_client :: client where
  "demo_client = NewVMStatsClient 8187"

lemma demo_poll_simps:
  "vmi_key demo_poll_vmi = ''ns/vm1''" "vmi_node demo_poll_vmi = ''n1''"
  "store_list demo_vmis = [AVMI demo_poll_vmi]" "store_keyed demo_vmis"
  "scheduled [AVMI demo_poll_vmi] = {demo_poll_vmi}"
  "findVirtHandlerPodIP demo_handlers ''n1'' = Inr ''10.0.0.1''"
  "groupVMIsByNode [AVMI demo_poll_vmi] = [(''n1'', [demo_poll_vmi])]"
  "FetchNodeVMStats demo_env demo_client ip = Inr [(''ns/vm1'', Some \<lparr>vr_Stats = Some zero_vm_stats, vr_Error = ''''\<rparr>)]"
  by (auto simp: demo_vmis_def store_list_def store_keyed_def vmi_key_def demo_poll_vmi_def scheduled_def zero_defs
      findVirtHandlerPodIP_def demo_handlers_def handler_pod_def str_at_def groupVMIsByNode_def group_add_def
      gomap_upd_def FetchNodeVMStats_def demo_env_def demo_client_def NewVMStatsClient_def Let_def)

lemma demo_jobs:
  "poll_jobs demo_env demo_client demo_handlers (groupVMIsByNode (store_list demo_vmis)) =
     Inr [(''n1'', [(''ns/vm1'', \<lparr>cs_VMI = demo_poll_vmi, cs_Stats = zero_vm_stats\<rparr>)])]"
  by (simp add: demo_poll_simps poll_jobs_def concatR_Cons node_job_def node_writes_def build_lookup_def gomap_upd_def)

theorem poll_bounded_and_completes_witness:
  "\<exists>s'. (poll_step 1 ^^ 3) (poll_init [(''n1'', [(''ns/vm1'', \<lparr>cs_VMI = demo_poll_vmi, cs_Stats = zero_vm_stats\<rparr>)])] [])
     s' \<and> poll_done s'"
proof -
  let ?s = "poll_init [(''n1'', [(''ns/vm1'', \<lparr>cs_VMI = demo_poll_vmi, cs_Stats = zero_vm_stats\<rparr>)])] []"
  have "poll_work ?s = 3" by (simp add: poll_work_def poll_init_def)
  with poll_bounded_and_completes [of 1 "[(''n1'', [(''ns/vm1'', \<lparr>cs_VMI = demo_poll_vmi, cs_Stats = zero_vm_stats\<rparr>)])]"
      "[]" ?s] show ?thesis by simp
qed

lemma demo_pollOnce:
  "\<exists>c'. pollOnce demo_env demo_client (Some demo_vmis) (Some demo_handlers) [] = Inr c'"
  using demo_jobs by (simp add: pollOnce_def Let_def demo_poll_simps)

theorem poll_schedule_independent_witness:
  "\<exists>c' s. pollOnce demo_env demo_client (Some demo_vmis) (Some demo_handlers) [] = Inr c' \<and>
     poll_done s \<and> cache_get (CachePrune (active_keys (groupVMIsByNode (store_list demo_vmis))) (ps_cache s)) = cache_get c'"
proof -
  let ?jobs = "[(''n1'', [(''ns/vm1'', \<lparr>cs_VMI = demo_poll_vmi, cs_Stats = zero_vm_stats\<rparr>)])]"
  obtain c' where c': "pollOnce demo_env demo_client (Some demo_vmis) (Some demo_handlers) [] = Inr c'"
    using demo_pollOnce by blast
  obtain s where s: "(poll_step 1)\<^sup>*\<^sup>* (poll_init ?jobs []) s" "poll_done s"
    using poll_completes [of 1 "poll_init ?jobs []"] by (auto dest: relpowp_imp_rtranclp)
  from poll_schedule_independent [OF _ _ _ c' demo_jobs s] show ?thesis
    using c' s(2) by (auto simp: demo_poll_simps)
qed

lemma pollOnce_Inr:
  assumes "pollOnce env c (Some vs) (Some ps) cache = Inr cache'" and "scheduled (store_list vs) \<noteq> {}"
  shows "\<exists>jobs. poll_jobs env c ps (groupVMIsByNode (store_list vs)) = Inr jobs \<and>
    cache' = CachePrune (active_keys (groupVMIsByNode (store_list vs))) (apply_writes (concat (map snd jobs)) cache)"
proof -
  have "groupVMIsByNode (store_list vs) \<noteq> []" using assms(2) groups_empty_iff by simp
  with assms(1) show ?thesis by (auto simp: pollOnce_def Let_def go_err)
qed

text \<open>A write of the poll comes from a job and names a scheduled VMI under its own key.\<close>

lemma poll_write_origin:
  assumes "poll_jobs env c ps (groupVMIsByNode (store_list vs)) = Inr jobs"
    and "map_of (rev (concat (map snd jobs))) k = Some e"
  shows "vmi_key (cs_VMI e) = k \<and> cs_VMI e \<in> scheduled (store_list vs)"
proof -
  from map_of_SomeD [OF assms(2)] obtain j where j: "j \<in> set jobs" "(k, e) \<in> set (snd j)" by auto
  from poll_jobs_member [OF assms(1) j(1)] obtain gvs where
    g: "(fst j, gvs) \<in> set (groupVMIsByNode (store_list vs))" and
    w: "cs_VMI e \<in> set gvs" "vmi_key (cs_VMI e) = k" using j(2) by fastforce
  from g w(1) have "cs_VMI e \<in> set (concat (map snd (groupVMIsByNode (store_list vs))))" by force
  with groups_scheduled w(2) show ?thesis by metis
qed

lemma pollOnce_lookup:
  assumes "poll_jobs env c ps (groupVMIsByNode (store_list vs)) = Inr jobs" and "gomap_ok cache"
  shows "cache_get (CachePrune (active_keys (groupVMIsByNode (store_list vs))) (apply_writes (concat (map snd jobs)) cache)) k =
    (if k \<in> vmi_key ` scheduled (store_list vs)
     then (case map_of (rev (concat (map snd jobs))) k of Some e \<Rightarrow> Some e | None \<Rightarrow> cache_get cache k) else None)"
  using apply_writes_get [OF assms(2)]
  by (auto simp: sc.get_prune active_keys_iff map_add_def split: option.splits)

lemma pollOnce_keyed:
  assumes "pollOnce env c vmiStore podStore cache = Inr cache'" and "cache_keyed cache"
  shows "cache_keyed cache' \<and>
    (\<forall>vs ps. vmiStore = Some vs \<longrightarrow> podStore = Some ps \<longrightarrow> scheduled (store_list vs) \<noteq> {} \<longrightarrow>
       fst ` set cache' \<subseteq> vmi_key ` scheduled (store_list vs))"
proof -
  have keyed_iff: "cache_keyed x \<longleftrightarrow> gomap_ok x \<and> (\<forall>k e. cache_get x k = Some e \<longrightarrow> k = vmi_key (cs_VMI e))" for x
    by (force simp: cache_keyed_def cache_get_def gomap_mem_iff [symmetric] slash_key_def vmi_key_def)
  show ?thesis
  proof (cases "\<exists>vs ps. vmiStore = Some vs \<and> podStore = Some ps \<and> scheduled (store_list vs) \<noteq> {}")
    case False
    then have "cache' = cache"
      using assms(1) by (auto simp: pollOnce_def Let_def groups_empty_iff split: option.splits)
    with False assms(2) show ?thesis by auto
  next
    case True
    then obtain vs ps where st: "vmiStore = Some vs" "podStore = Some ps" "scheduled (store_list vs) \<noteq> {}" by blast
    from pollOnce_Inr [OF assms(1) [unfolded st(1,2)] st(3)] obtain jobs where
      jobs: "poll_jobs env c ps (groupVMIsByNode (store_list vs)) = Inr jobs" and
      c': "cache' = CachePrune (active_keys (groupVMIsByNode (store_list vs))) (apply_writes (concat (map snd jobs)) cache)"
      by blast
    have ok: "gomap_ok cache" using assms(2) by (simp add: cache_keyed_def)
    note look = pollOnce_lookup [OF jobs ok, folded c']
    have okc': "gomap_ok cache'" using apply_writes_get [OF ok] by (simp add: c' sc.inv_prune)
    have "k = vmi_key (cs_VMI e)" if "cache_get cache' k = Some e" for k e
      using that poll_write_origin [OF jobs, of k e] assms(2)
      by (auto simp: look keyed_iff split: if_splits option.splits)
    with okc' have "cache_keyed cache'" by (simp add: keyed_iff)
    moreover have "fst ` set cache' \<subseteq> vmi_key ` scheduled (store_list vs)"
    proof
      fix k assume "k \<in> fst ` set cache'"
      then obtain e where "(k, e) \<in> set cache'" by auto
      with okc' have "cache_get cache' k = Some e" by (simp add: cache_get_def gomap_mem_iff)
      then show "k \<in> vmi_key ` scheduled (store_list vs)" by (simp add: look split: if_splits)
    qed
    ultimately show ?thesis using st by simp
  qed
qed

text \<open>C9: a poll keeps the cache well formed (one entry per key, each under its own VMI's key) and, when at
  least one VMI is scheduled on a node, leaves entries for scheduled VMIs only.\<close>

theorem poll_keeps_cache_keyed:
  assumes "pollOnce env c vmiStore podStore cache = Inr cache'" and "cache_keyed cache"
  shows "cache_keyed cache' \<and>
    (\<forall>vs ps. vmiStore = Some vs \<longrightarrow> podStore = Some ps \<longrightarrow> scheduled (store_list vs) \<noteq> {} \<longrightarrow>
       fst ` set cache' \<subseteq> vmi_key ` scheduled (store_list vs))"
  by (rule pollOnce_keyed [OF assms])

theorem poll_keeps_cache_keyed_witness:
  "\<exists>c'. pollOnce demo_env demo_client (Some demo_vmis) (Some demo_handlers) [(''old/vm'', demo_cached\<lparr>cs_VMI :=
       zero_vmi\<lparr>vmi_meta := zero_meta\<lparr>om_name := ''vm'', om_namespace := ''old''\<rparr>\<rparr>\<rparr>)] = Inr c' \<and>
     fst ` set c' \<subseteq> {''ns/vm1''}"
proof -
  let ?cache = "[(''old/vm'', demo_cached\<lparr>cs_VMI :=
       zero_vmi\<lparr>vmi_meta := zero_meta\<lparr>om_name := ''vm'', om_namespace := ''old''\<rparr>\<rparr>\<rparr>)]"
  obtain c' where c': "pollOnce demo_env demo_client (Some demo_vmis) (Some demo_handlers) ?cache = Inr c'"
    using demo_jobs by (simp add: pollOnce_def Let_def demo_poll_simps)
  have "cache_keyed ?cache" by (simp add: cache_keyed_def zero_vmi_def slash_key_def)
  from poll_keeps_cache_keyed [OF c' this] c' show ?thesis by (simp add: demo_poll_simps)
qed

lemma result_writes_hit:
  assumes "result_writes lookup rs = Inr ws" and "distinct (map fst rs)" and "(k, Some r) \<in> set rs"
    and "vr_Error r = ''''" and "vr_Stats r = Some s" and "map_of lookup k = Some v"
  shows "map_of (rev ws) k = Some \<lparr>cs_VMI = v, cs_Stats = s\<rparr>"
  using assms
proof (induction rs arbitrary: ws)
  case (Cons x rest)
  obtain key rp where x: "x = (key, rp)" by (cases x)
  from Cons.prems(1) obtain ws' where ws': "result_writes lookup rest = Inr ws'"
    by (auto simp: x go_err split: option.splits if_splits)
  show ?case
  proof (cases "key = k")
    case True
    with Cons.prems(2,3) have rp: "rp = Some r" by (force simp: x image_iff)
    with Cons.prems(1,4-6) True ws' have ws: "ws = (k, \<lparr>cs_VMI = v, cs_Stats = s\<rparr>) # ws'"
      by (auto simp: x go_err)
    have "map_of (rev ws') k = None"
      using result_writes_keys [OF ws'] Cons.prems(2) True by (force simp: x map_of_eq_None_iff)
    with ws show ?thesis by (simp add: map_add_def)
  next
    case False
    with Cons.prems have "map_of (rev ws') k = Some \<lparr>cs_VMI = v, cs_Stats = s\<rparr>"
      by (intro Cons.IH [OF ws']) (auto simp: x)
    moreover have "ws = ws' \<or> (\<exists>e. ws = (key, e) # ws')"
      using Cons.prems(1) ws' by (auto simp: x go_err split: option.splits if_splits)
    ultimately show ?thesis using False by (auto simp: map_add_def)
  qed
qed simp

lemma fold_lookup_unique:
  assumes "v \<in> set vs" and "\<forall>w \<in> set vs. vmi_key w = vmi_key v \<longrightarrow> w = v"
  shows "map_of (build_lookup vs) (vmi_key v) = Some v"
proof -
  have "map_of (fold (\<lambda>v m. gomap_upd (vmi_key v) v m) ws m) (vmi_key v) = Some v"
    if "v \<in> set ws \<or> map_of m (vmi_key v) = Some v" "\<forall>w \<in> set ws. vmi_key w = vmi_key v \<longrightarrow> w = v" for ws m
    using that by (induction ws arbitrary: m) (auto simp: go_map_simps split: if_splits)
  with assms show ?thesis by (simp add: build_lookup_def)
qed

text \<open>The writes of the node that owns a key are the only ones of that key.\<close>

lemma poll_jobs_node:
  assumes "poll_jobs env c ps gs = Inr jobs" and "gomap_ok gs" and "(n, vs) \<in> set gs"
    and "findVirtHandlerPodIP ps n = Inr ip" and "node_writes env c ip (build_lookup vs) = Inr ws"
  shows "(n, ws) \<in> set jobs"
  using assms
proof (induction gs arbitrary: jobs)
  case (Cons g gs)
  then obtain js rest where js: "node_job env c ps g = Inr js" and rest: "poll_jobs env c ps gs = Inr rest"
    and jobs: "jobs = js @ rest"
    by (auto simp: poll_jobs_def concatR_Cons go_err)
  show ?case
  proof (cases "g = (n, vs)")
    case True
    with js Cons.prems(4,5) show ?thesis by (auto simp: jobs node_job_def)
  next
    case False
    with Cons.prems(2,3) have "gomap_ok gs" "(n, vs) \<in> set gs" by (cases g; auto)+
    from Cons.IH [OF rest this Cons.prems(4,5)] show ?thesis by (simp add: jobs)
  qed
qed simp

text \<open>Conversely, a node without a running virt-handler pod has no goroutine, and one that has one has run it.\<close>

lemma poll_jobs_no_handler:
  assumes "poll_jobs env c ps gs = Inr jobs" and "findVirtHandlerPodIP ps n = Inl e"
  shows "map_of jobs n = None"
proof (rule ccontr)
  assume "map_of jobs n \<noteq> None"
  then obtain ws where "(n, ws) \<in> set jobs" by (auto dest: map_of_SomeD)
  from concatR_setD [OF assms(1) [unfolded poll_jobs_def] this] obtain g js where
    "node_job env c ps g = Inr js" "(n, ws) \<in> set js" by blast
  with assms(2) show False by (auto simp: node_job_def go_err split: sum.splits)
qed

lemma poll_jobs_ran:
  assumes "poll_jobs env c ps gs = Inr jobs" and "(n, vs) \<in> set gs" and "findVirtHandlerPodIP ps n = Inr ip"
  shows "\<exists>ws. node_writes env c ip (build_lookup vs) = Inr ws"
proof -
  obtain yss where "mapR (node_job env c ps) gs = Inr yss"
    using assms(1) by (auto simp: poll_jobs_def concatR_def go_err)
  then have "\<exists>js. node_job env c ps (n, vs) = Inr js"
    using assms(2) by (auto dest!: mapR_eq_InrD simp: list_all2_conv_all_nth in_set_conv_nth) metis
  then show ?thesis using assms(3) by (auto simp: node_job_def go_err)
qed

text \<open>C8: after a poll in which the virt-handler of a VMI's node answered with statistics for the VMI, the
  cache holds exactly that answer for it; a VMI whose node has no running virt-handler pod, or whose
  request failed, keeps the entry it had.\<close>

theorem poll_stores_answer:
  assumes "store_keyed vs" and "gomap_ok cache"
    and "pollOnce env c (Some vs) (Some ps) cache = Inr cache'"
    and "AVMI v \<in> set (store_list vs)" and "vmi_node v \<noteq> ''''"
  shows "case findVirtHandlerPodIP ps (vmi_node v) of
      Inl e \<Rightarrow> cache_get cache' (vmi_key v) = cache_get cache (vmi_key v)
    | Inr ip \<Rightarrow>
       (case FetchNodeVMStats env c ip of
          Inl e \<Rightarrow> cache_get cache' (vmi_key v) = cache_get cache (vmi_key v)
        | Inr rs \<Rightarrow> (\<forall>r s. distinct (map fst rs) \<longrightarrow> (vmi_key v, Some r) \<in> set rs \<longrightarrow> vr_Error r = '''' \<longrightarrow>
            vr_Stats r = Some s \<longrightarrow> cache_get cache' (vmi_key v) = Some \<lparr>cs_VMI = v, cs_Stats = s\<rparr>))"
proof -
  let ?objs = "store_list vs" and ?n = "vmi_node v" and ?gs = "groupVMIsByNode (store_list vs)"
  have sched: "v \<in> scheduled ?objs" using assms(4,5) by (simp add: scheduled_def)
  with pollOnce_Inr [OF assms(3)] obtain jobs where
    jobs: "poll_jobs env c ps ?gs = Inr jobs" and
    c': "cache' = CachePrune (active_keys ?gs) (apply_writes (concat (map snd jobs)) cache)" by blast
  have grp: "(?n, node_vmis ?objs ?n) \<in> set ?gs"
    using assms(4,5) node_vmis_nonempty by (simp add: group_member)
  have ok: "jobs_ok (store_owner ?objs) jobs" using assms(1) jobs by (rule poll_jobs_ok)
  have own: "store_owner ?objs (vmi_key v) = ?n" using assms(1,4) by (rule store_owner_node)
  have get: "cache_get cache' (vmi_key v) =
      (case map_of jobs ?n of None \<Rightarrow> cache_get cache (vmi_key v)
       | Some ws \<Rightarrow> (case map_of (rev ws) (vmi_key v) of Some e \<Rightarrow> Some e | None \<Rightarrow> cache_get cache (vmi_key v)))"
    using pollOnce_lookup [OF jobs assms(2), folded c', of "vmi_key v"] sched sequential_lookup [OF ok, of "vmi_key v"]
    by (auto simp: own split: option.splits)
  show ?thesis
  proof (cases "findVirtHandlerPodIP ps ?n")
    case (Inl e)
    with poll_jobs_no_handler [OF jobs Inl] get show ?thesis by simp
  next
    case (Inr ip)
    have job: "map_of jobs ?n = Some ws" if "node_writes env c ip (build_lookup (node_vmis ?objs ?n)) = Inr ws" for ws
      using poll_jobs_node [OF jobs groupVMIsByNode_ok grp Inr that] ok by (simp add: jobs_ok_def)
    show ?thesis
    proof (cases "FetchNodeVMStats env c ip")
      case (Inl e)
      with Inr job [of "[]"] get show ?thesis by (simp add: node_writes_def)
    next
      case (Inr rs)
      have look: "map_of (build_lookup (node_vmis ?objs ?n)) (vmi_key v) = Some v"
        using assms(1,4) store_keyed_unique by (intro fold_lookup_unique) (auto simp: node_vmis_set)
      obtain ws where ws: "node_writes env c ip (build_lookup (node_vmis ?objs ?n)) = Inr ws"
        using poll_jobs_ran [OF jobs grp \<open>findVirtHandlerPodIP ps ?n = Inr ip\<close>] by blast
      with Inr have rw: "result_writes (build_lookup (node_vmis ?objs ?n)) rs = Inr ws" by (simp add: node_writes_def)
      show ?thesis
        using \<open>findVirtHandlerPodIP ps ?n = Inr ip\<close> Inr job [OF ws] get result_writes_hit [OF rw _ _ _ _ look] by simp
    qed
  qed
qed

theorem poll_stores_answer_witness:
  "\<exists>c'. pollOnce demo_env demo_client (Some demo_vmis) (Some demo_handlers) [] = Inr c' \<and>
     cache_get c' ''ns/vm1'' = Some \<lparr>cs_VMI = demo_poll_vmi, cs_Stats = zero_vm_stats\<rparr>"
proof -
  obtain c' where c': "pollOnce demo_env demo_client (Some demo_vmis) (Some demo_handlers) [] = Inr c'"
    using demo_pollOnce by blast
  from poll_stores_answer [OF demo_poll_simps(4) _ c', of demo_poll_vmi] c' show ?thesis
    by (simp add: demo_poll_simps)
qed

text \<open>C38: when no VMI is scheduled on a node the poll returns before pruning, so the entries of VMIs that
  are gone stay in the cache and are reported for as long as no VMI is scheduled.\<close>

theorem poll_without_vmis_keeps_stale:
  assumes "scheduled (store_list vs) = {}"
  shows "pollOnce env c (Some vs) (Some ps) cache = Inr cache \<and>
    CachePrune (active_keys (groupVMIsByNode (store_list vs))) cache = []"
proof -
  have "\<not> bool_at (active_keys (groupVMIsByNode (store_list vs))) k" for k
    using assms by (simp add: active_keys_iff)
  then show ?thesis using assms groups_empty_iff by (simp add: pollOnce_def CachePrune_filter)
qed

theorem poll_without_vmis_keeps_stale_witness:
  "pollOnce demo_env demo_client (Some []) (Some demo_handlers) [(''ns/vm1'', demo_cached)] =
     Inr [(''ns/vm1'', demo_cached)]"
  using poll_without_vmis_keeps_stale [of "[]"] by (simp add: scheduled_def store_list_def)

text \<open>C39: a virt-handler that answers \<open>null\<close> for some VMI takes the process down: the loop dereferences the
  nil result, whether or not the VMI is known.\<close>

theorem null_result_panics:
  assumes "findVirtHandlerPodIP ps n = Inr ip" and "FetchNodeVMStats env c ip = Inr rs"
    and "(key, None) \<in> set rs"
  shows "\<exists>msg. node_job env c ps (n, vmis) = Inl (GoPanic msg)"
proof -
  have "result_writes lookup rs = Inl (GoPanic ''nil pointer dereference'')" for lookup
    using assms(3) by (induction lookup rs rule: result_writes.induct) (auto split: option.splits)
  with assms(1,2) show ?thesis by (simp add: node_job_def node_writes_def)
qed

theorem null_result_panics_witness:
  "\<exists>msg. node_job (demo_env\<lparr>he_decode := (\<lambda>_. Inr [(''ns/vm1'', None)])\<rparr>) demo_client demo_handlers
     (''n1'', []) = Inl (GoPanic msg)"
proof (rule null_result_panics [OF demo_poll_simps(6), where rs = "[(''ns/vm1'', None)]" and key = "''ns/vm1''"])
  show "FetchNodeVMStats (demo_env\<lparr>he_decode := (\<lambda>_. Inr [(''ns/vm1'', None)])\<rparr>) demo_client ''10.0.0.1'' =
      Inr [(''ns/vm1'', None)]"
    by (simp add: FetchNodeVMStats_def demo_env_def Let_def)
qed simp

text \<open>The request of a poll goes to \<open>https://<pod IP>:<port>/v1/vmstats\<close> with the eight statistics
  switched on, unless a base URL is configured; any status but 200 is an error, and no answer is used
  unless the body decodes.\<close>

theorem FetchNodeVMStats_spec:
  "FetchNodeVMStats env (NewVMStatsClient port) ip = Inr rs \<longleftrightarrow>
   (\<exists>body. he_request env (''https://'' @ ip @ '':'' @ show_int port @ ''/v1/vmstats?domainStats=true&dirtyRate=true&'' @
       ''guestGetOsInfo=true&guestGetHostName=true&guestGetTimezone=true&guestGetUsers=true&'' @
       ''guestGetDiskStats=true&guestNetworkGetInterfaces=true'') = None \<and>
     he_do env (''https://'' @ ip @ '':'' @ show_int port @ ''/v1/vmstats?domainStats=true&dirtyRate=true&'' @
       ''guestGetOsInfo=true&guestGetHostName=true&guestGetTimezone=true&guestGetUsers=true&'' @
       ''guestGetDiskStats=true&guestNetworkGetInterfaces=true'') = Inr (200, body) \<and>
     he_decode env body = Inr rs)"
proof -
  have q: "buildQueryString defaultQueryParams = ''domainStats=true&dirtyRate=true&'' @
       ''guestGetOsInfo=true&guestGetHostName=true&guestGetTimezone=true&guestGetUsers=true&'' @
       ''guestGetDiskStats=true&guestNetworkGetInterfaces=true''" by code_simp
  show ?thesis
    by (simp add: FetchNodeVMStats_def NewVMStatsClient_def q Let_def go_err split: option.splits)
qed

end
