(* ===== verification/VMStats_Run.thy ===== *)
theory VMStats_Run
  imports VMStats_Poller
begin

text \<open>
  The life of the poller: \<open>pkg/monitoring/metrics/vmstats/poller.go\<close> (\<open>Start\<close>) over \<open>pollOnce\<close>, and what
  a scrape of the statistics collector shows between two polls. Also \<open>NewTLSConfigFromCA\<close> of
  \<open>client.go\<close>.

  The loop selects between the ticker and the end of the context. An event list is the order in which
  these fire; a tick carries what the poll finds at that moment: the HTTP environment and the contents of
  the two stores, which the informers change between ticks. The loop's answer is the cache and whether it
  has returned; a panic of a poll ends the process.
\<close>

section \<open>Start\<close>

record tick_view =
  tv_http :: http_env
  tv_vmis :: "store option"
  tv_pods :: "store option"

datatype poller_event = Tick tick_view | CtxDone

fun poller_Start :: "client \<Rightarrow> poller_event list \<Rightarrow> stats_cache \<Rightarrow> (stats_cache \<times> bool) res" where
  "poller_Start c [] cache = Inr (cache, False)"
| "poller_Start c (CtxDone # evs) cache = Inr (cache, True)"
| "poller_Start c (Tick w # evs) cache =
     bindR (pollOnce (tv_http w) c (tv_vmis w) (tv_pods w) cache) (poller_Start c evs)"

text \<open>The CA pool: appending PEM data to an empty pool is an argument, \<open>None\<close> when no certificate is found.\<close>

record 'pool ca_config =
  ca_RootCAs :: 'pool
  ca_MinVersion :: int

definition NewTLSConfigFromCA :: "(string \<Rightarrow> 'pool option) \<Rightarrow> string \<Rightarrow> 'pool ca_config res" where
  "NewTLSConfigFromCA append_certs caData =
     (case append_certs caData of
        None \<Rightarrow> Inl (GoError ''failed to parse CA certificate'')
      | Some pool \<Rightarrow> Inr \<lparr>ca_RootCAs = pool, ca_MinVersion = 0x0303\<rparr>)"

section \<open>What the cache may hold\<close>

text \<open>The keys that may be cached after a run: those scheduled at the last tick that found both stores and a
  scheduled VMI, or those held before when there was none.\<close>

definition tick_keys :: "tick_view \<Rightarrow> string set" where
  "tick_keys w = (case (tv_vmis w, tv_pods w) of
     (Some vs, Some _) \<Rightarrow> vmi_key ` scheduled (store_list vs) | _ \<Rightarrow> {})"

fun current_keys :: "poller_event list \<Rightarrow> string set \<Rightarrow> string set" where
  "current_keys [] ks = ks"
| "current_keys (CtxDone # evs) ks = ks"
| "current_keys (Tick w # evs) ks = current_keys evs (if tick_keys w = {} then ks else tick_keys w)"

lemma tick_keyed:
  assumes "pollOnce (tv_http w) c (tv_vmis w) (tv_pods w) cache = Inr cache'"
    and "cache_keyed cache" and "fst ` set cache \<subseteq> ks"
  shows "cache_keyed cache' \<and> fst ` set cache' \<subseteq> (if tick_keys w = {} then ks else tick_keys w)"
proof (cases "tick_keys w = {}")
  case True
  then have "cache' = cache"
    using assms(1) by (auto simp: pollOnce_def tick_keys_def Let_def groups_empty_iff split: option.splits)
  with True assms show ?thesis by simp
next
  case False
  then obtain vs ps where "tv_vmis w = Some vs" "tv_pods w = Some ps" "scheduled (store_list vs) \<noteq> {}"
    by (auto simp: tick_keys_def split: option.splits)
  with pollOnce_keyed [OF assms(1,2)] False show ?thesis by (simp add: tick_keys_def)
qed

lemma run_keyed:
  "poller_Start c evs cache = Inr (cache', fin) \<Longrightarrow> cache_keyed cache \<Longrightarrow> fst ` set cache \<subseteq> ks \<Longrightarrow>
   cache_keyed cache' \<and> fst ` set cache' \<subseteq> current_keys evs ks"
proof (induction c evs cache arbitrary: ks rule: poller_Start.induct)
  case (3 c w evs cache)
  then obtain mid where mid: "pollOnce (tv_http w) c (tv_vmis w) (tv_pods w) cache = Inr mid"
      "poller_Start c evs mid = Inr (cache', fin)"
    by (auto simp: go_err simp del: bindR_simps)
  from tick_keyed [OF mid(1) 3(3,4)] have
    "cache_keyed mid" "fst ` set mid \<subseteq> (if tick_keys w = {} then ks else tick_keys w)" by simp_all
  from 3(1) [OF mid this] show ?case unfolding current_keys.simps .
qed auto

lemma run_append:
  "CtxDone \<notin> set evs \<Longrightarrow>
   poller_Start c (evs @ rest) cache = bindR (poller_Start c evs cache) (\<lambda>(cache', _). poller_Start c rest cache')"
proof (induction c evs cache rule: poller_Start.induct)
  case (3 c w evs cache)
  then show ?case by (cases "pollOnce (tv_http w) c (tv_vmis w) (tv_pods w) cache") auto
qed auto

lemma run_not_finished: "CtxDone \<notin> set evs \<Longrightarrow> poller_Start c evs cache = Inr (cache', fin) \<Longrightarrow> \<not> fin"
  by (induction c evs cache rule: poller_Start.induct) (auto simp: go_err simp del: bindR_simps)

section \<open>What can stop it\<close>

lemma result_writes_fault:
  "result_writes lookup rs = Inl e \<Longrightarrow> e = GoPanic ''nil pointer dereference'' \<and> None \<in> snd ` set rs"
  by (induction lookup rs rule: result_writes.induct)
     (auto simp: go_err simp del: bindR_simps split: option.splits if_splits)

lemma mapR_fault: "mapR f xs = Inl e \<Longrightarrow> \<exists>x \<in> set xs. f x = Inl e"
  by (induction xs) (auto simp: go_err simp del: bindR_simps)

lemma pollOnce_fault:
  assumes "pollOnce env c vmiStore podStore cache = Inl e"
  shows "e = GoPanic ''nil pointer dereference'' \<and>
    (\<exists>ip rs. FetchNodeVMStats env c ip = Inr rs \<and> None \<in> snd ` set rs)"
proof -
  obtain ps g where "node_job env c ps g = Inl e"
    using assms mapR_fault
    by (fastforce simp: pollOnce_def poll_jobs_def concatR_def go_err Let_def simp del: bindR_simps
        split: option.splits if_splits)
  then obtain ip lookup where "node_writes env c ip lookup = Inl e"
    by (auto simp: node_job_def go_err simp del: bindR_simps split: sum.splits)
  then show ?thesis
    using result_writes_fault by (fastforce simp: node_writes_def split: sum.splits)
qed

lemma run_fault:
  "poller_Start c evs cache = Inl e \<Longrightarrow> e = GoPanic ''nil pointer dereference'' \<and>
    (\<exists>w ip rs. Tick w \<in> set evs \<and> FetchNodeVMStats (tv_http w) c ip = Inr rs \<and> None \<in> snd ` set rs)"
proof (induction c evs cache rule: poller_Start.induct)
  case (3 c w evs cache)
  then consider "pollOnce (tv_http w) c (tv_vmis w) (tv_pods w) cache = Inl e"
    | mid where "pollOnce (tv_http w) c (tv_vmis w) (tv_pods w) cache = Inr mid" "poller_Start c evs mid = Inl e"
    by (auto simp: go_err simp del: bindR_simps)
  then show ?case
  proof cases
    case 1
    from pollOnce_fault [OF this] show ?thesis by auto
  next
    case 2
    from 3(1) [OF 2] show ?thesis by auto
  qed
qed simp_all

text \<open>C7: The loop runs until the context is done and returns then, with the cache the polls have left, whatever
  fires afterwards. No failing request, bad status or undecodable answer ends it: the only way out before
  that is the panic on a handler's answer with a null result.\<close>

theorem poller_ends_with_context:
  assumes "CtxDone \<notin> set evs"
  shows "(\<exists>cache'. poller_Start c evs cache = Inr (cache', False) \<and>
      poller_Start c (evs @ CtxDone # rest) cache = Inr (cache', True)) \<or>
    (poller_Start c (evs @ CtxDone # rest) cache = Inl (GoPanic ''nil pointer dereference'') \<and>
      (\<exists>w ip rs. Tick w \<in> set evs \<and> FetchNodeVMStats (tv_http w) c ip = Inr rs \<and> None \<in> snd ` set rs))"
proof (cases "poller_Start c evs cache")
  case (Inl e)
  with run_fault [OF Inl] show ?thesis by (simp add: run_append [OF assms])
next
  case (Inr r)
  then obtain cache' fin where r: "poller_Start c evs cache = Inr (cache', fin)" by (cases r) auto
  with run_not_finished [OF assms r] show ?thesis by (simp add: run_append [OF assms])
qed

definition demo_tick :: tick_view where
  "demo_tick = \<lparr>tv_http = demo_env, tv_vmis = Some demo_vmis, tv_pods = Some demo_handlers\<rparr>"

lemma demo_tick_poll:
  "poller_Start demo_client [Tick demo_tick] [] =
     Inr ([(''ns/vm1'', \<lparr>cs_VMI = demo_poll_vmi, cs_Stats = zero_vm_stats\<rparr>)], False)"
proof -
  have "CachePrune (active_keys [(''n1'', [demo_poll_vmi])])
      (apply_writes [(''ns/vm1'', \<lparr>cs_VMI = demo_poll_vmi, cs_Stats = zero_vm_stats\<rparr>)] []) =
      [(''ns/vm1'', \<lparr>cs_VMI = demo_poll_vmi, cs_Stats = zero_vm_stats\<rparr>)]"
    by (simp add: CachePrune_filter active_keys_def apply_writes_def CacheStore_def gomap_upd_def bool_at_def demo_poll_simps)
  then show ?thesis
    using demo_jobs by (simp add: demo_tick_def pollOnce_def Let_def demo_poll_simps)
qed

theorem poller_ends_with_context_witness:
  "\<exists>c'. poller_Start demo_client ([Tick demo_tick] @ [CtxDone, Tick demo_tick]) [] = Inr (c', True)"
proof -
  have "CtxDone \<notin> set [Tick demo_tick]" by simp
  from poller_ends_with_context [OF this, of demo_client "[]" "[Tick demo_tick]"] demo_tick_poll show ?thesis
    unfolding run_append [OF \<open>CtxDone \<notin> set [Tick demo_tick]\<close>] by auto
qed



section \<open>A scrape in the middle of a poll\<close>

text \<open>Where an entry may come from while a poll is running: the cache before it, or an answer for a VMI it polls.\<close>

definition entry_from :: "stats_cache \<Rightarrow> vmi set \<Rightarrow> string \<times> cached_stats \<Rightarrow> bool" where
  "entry_from before polled x \<longleftrightarrow>
     x \<in> set before \<or> fst x = vmi_key (cs_VMI (snd x)) \<and> cs_VMI (snd x) \<in> polled"

definition mid_poll :: "stats_cache \<Rightarrow> vmi set \<Rightarrow> poll_state \<Rightarrow> bool" where
  "mid_poll before polled s \<longleftrightarrow> gomap_ok (ps_cache s) \<and> (\<forall>x \<in> set (ps_cache s). entry_from before polled x) \<and>
     (\<forall>j \<in> set (ps_pending s) \<union> set (ps_running s). \<forall>x \<in> set (snd j). entry_from before polled x)"

lemma mid_poll_step: "poll_step m s s' \<Longrightarrow> mid_poll before polled s \<Longrightarrow> mid_poll before polled s'"
proof (induction rule: poll_step.induct)
  case (put p xs n k e ws ys c)
  then have "entry_from before polled (k, e)" "gomap_ok c" "\<forall>x \<in> set c. entry_from before polled x"
    by (auto simp: mid_poll_def)
  then have "\<forall>x \<in> set (CacheStore k e c). entry_from before polled x"
    unfolding CacheStore_def using gomap_upd_set by metis
  with put sc.inv_add [OF \<open>gomap_ok c\<close>] show ?case by (auto simp: mid_poll_def)
qed (auto simp: mid_poll_def)

lemma mid_poll_steps: "(poll_step m)\<^sup>*\<^sup>* s s' \<Longrightarrow> mid_poll before polled s \<Longrightarrow> mid_poll before polled s'"
  by (induction rule: rtranclp_induct) (auto dest: mid_poll_step)

lemma mid_poll_init:
  assumes "poll_jobs env c ps (groupVMIsByNode (store_list vs)) = Inr jobs" and "gomap_ok cache"
  shows "mid_poll cache (scheduled (store_list vs)) (poll_init jobs cache)"
proof -
  have "entry_from cache (scheduled (store_list vs)) x" if "j \<in> set jobs" "x \<in> set (snd j)" for j x
  proof -
    from poll_jobs_member [OF assms(1) that(1)] that(2) obtain gvs where
      "(fst j, gvs) \<in> set (groupVMIsByNode (store_list vs))" "cs_VMI (snd x) \<in> set gvs" "vmi_key (cs_VMI (snd x)) = fst x"
      by blast
    moreover from this have "cs_VMI (snd x) \<in> set (concat (map snd (groupVMIsByNode (store_list vs))))" by force
    ultimately show ?thesis unfolding groups_scheduled by (simp add: entry_from_def)
  qed
  with assms(2) show ?thesis by (simp add: mid_poll_def poll_init_def entry_from_def)
qed

lemma mid_poll_keyed:
  assumes "mid_poll before polled s" and "cache_keyed before"
  shows "cache_keyed (ps_cache s)"
  using assms by (auto simp: mid_poll_def entry_from_def cache_keyed_def vmi_key_def slash_key_def)



end
