(* ===== verification/Net_Parse.thy ===== *)
theory Net_Parse
  imports Go_Strings
begin

text \<open>
  Parsing by the standard library for \<open>cmd/main.go\<close>: \<open>net.SplitHostPort\<close>, \<open>strconv.ParseInt\<close>
  in base 10 with 32 bits, and \<open>filepath.Join\<close>; and the text of a port as a round trip.
\<close>

section \<open>Indices\<close>

fun index_of :: "char \<Rightarrow> string \<Rightarrow> nat option" where
  "index_of c [] = None"
| "index_of c (x # xs) = (if x = c then Some 0 else map_option Suc (index_of c xs))"

definition last_index_of :: "char \<Rightarrow> string \<Rightarrow> nat option" where
  "last_index_of c s = map_option (\<lambda>i. length s - 1 - i) (index_of c (rev s))"

lemma index_of_None [simp]: "index_of c s = None \<longleftrightarrow> c \<notin> set s"
  by (induction s) auto

lemma index_of_append: "c \<notin> set s \<Longrightarrow> index_of c (s @ c # t) = Some (length s)"
  by (induction s) auto

lemma last_index_of_append: "c \<notin> set t \<Longrightarrow> last_index_of c (s @ c # t) = Some (length s)"
  by (simp add: last_index_of_def index_of_append)

section \<open>net.SplitHostPort\<close>

definition addr_error :: "string \<Rightarrow> string \<Rightarrow> 'a res" where
  "addr_error addr why = Inl (GoError (''address '' @ addr @ '': '' @ why))"

text \<open>The host, and the positions from which an opening and a closing bracket are not expected.\<close>

definition split_host :: "string \<Rightarrow> nat \<Rightarrow> (string \<times> nat \<times> nat) res" where
  "split_host hostport i =
     (if hostport \<noteq> [] \<and> hd hostport = CHR ''['' then
        (case index_of (CHR '']'') hostport of
           None \<Rightarrow> addr_error hostport ''missing ']' in address''
         | Some e \<Rightarrow>
             if e + 1 = length hostport then addr_error hostport ''missing port in address''
             else if e + 1 = i then Inr (take (e - 1) (drop 1 hostport), 1, e + 1)
             else if hostport ! (e + 1) = CHR '':'' then addr_error hostport ''too many colons in address''
             else addr_error hostport ''missing port in address'')
      else if index_of (CHR '':'') (take i hostport) \<noteq> None then
        addr_error hostport ''too many colons in address''
      else Inr (take i hostport, 0, 0))"

definition SplitHostPort :: "string \<Rightarrow> (string \<times> string) res" where
  "SplitHostPort hostport =
     (case last_index_of (CHR '':'') hostport of
        None \<Rightarrow> addr_error hostport ''missing port in address''
      | Some i \<Rightarrow>
          bindR (split_host hostport i) (\<lambda>(host, j, k).
            if index_of (CHR ''['') (drop j hostport) \<noteq> None then addr_error hostport ''unexpected '[' in address''
            else if index_of (CHR '']'') (drop k hostport) \<noteq> None then addr_error hostport ''unexpected ']' in address''
            else Inr (host, drop (i + 1) hostport)))"

section \<open>strconv.ParseInt\<close>

datatype num_error = ErrSyntax | ErrRange

primrec num_error_text :: "num_error \<Rightarrow> string" where
  "num_error_text ErrSyntax = ''invalid syntax''"
| "num_error_text ErrRange = ''value out of range''"

fun parse_digits :: "nat \<Rightarrow> string \<Rightarrow> nat \<Rightarrow> num_error + nat" where
  "parse_digits maxVal [] n = Inr n"
| "parse_digits maxVal (c # cs) n =
     (if 48 \<le> byte c \<and> byte c \<le> 57 then
        (let n1 = 10 * n + digit_val c
         in if n1 > maxVal then Inl ErrRange else parse_digits maxVal cs n1)
      else Inl ErrSyntax)"

definition ParseUint32 :: "string \<Rightarrow> num_error + nat" where
  "ParseUint32 s = (if s = '''' then Inl ErrSyntax else parse_digits (2 ^ 32 - 1) s 0)"

definition ParseInt32 :: "string \<Rightarrow> int res" where
  "ParseInt32 s =
     (let neg = (s \<noteq> [] \<and> hd s = CHR ''-'');
          body = (if s \<noteq> [] \<and> (hd s = CHR ''-'' \<or> hd s = CHR ''+'') then tl s else s);
          parsed = (case ParseUint32 body of
             Inl e \<Rightarrow> Inl e
           | Inr un \<Rightarrow> if \<not> neg \<and> un \<ge> 2 ^ 31 then Inl ErrRange
                      else if neg \<and> un > 2 ^ 31 then Inl ErrRange
                      else Inr (if neg then - int un else int un))
      in case parsed of
           Inl e \<Rightarrow> Inl (GoError (''strconv.ParseInt: parsing '' @ go_quote s @ '': '' @ num_error_text e))
         | Inr v \<Rightarrow> Inr v)"

lemma byte_digit: "d < 10 \<Longrightarrow> byte (digit d) = 48 + d"
  by (simp add: byte_def digit_def)

lemma show_nat_digits: "c \<in> set (show_nat n) \<Longrightarrow> 48 \<le> byte c \<and> byte c \<le> 57"
proof (induction n rule: show_nat.induct)
  case (1 n)
  then show ?case
    by (cases "n < 10") (auto simp: show_nat.simps [of n] byte_digit)
qed

lemma foldl_digits_mono: "n \<le> foldl (\<lambda>v c. 10 * v + digit_val c) n s"
proof (induction s arbitrary: n)
  case Nil
  show ?case by simp
next
  case (Cons c s)
  have "n \<le> 10 * n + digit_val c" by simp
  also have "\<dots> \<le> foldl (\<lambda>v c. 10 * v + digit_val c) (10 * n + digit_val c) s" by (rule Cons.IH)
  finally show ?case by simp
qed

lemma parse_digits_value:
  assumes "\<And>c. c \<in> set s \<Longrightarrow> 48 \<le> byte c \<and> byte c \<le> 57"
    and "foldl (\<lambda>v c. 10 * v + digit_val c) n s \<le> maxVal"
  shows "parse_digits maxVal s n = Inr (foldl (\<lambda>v c. 10 * v + digit_val c) n s)"
  using assms
proof (induction s arbitrary: n)
  case Nil
  show ?case by simp
next
  case (Cons c s)
  have "10 * n + digit_val c \<le> maxVal"
    using Cons.prems(2) foldl_digits_mono [of "10 * n + digit_val c" s] by simp
  with Cons show ?case by (simp add: Let_def)
qed

lemma ParseUint32_show: "n < 2 ^ 32 \<Longrightarrow> ParseUint32 (show_nat n) = Inr n"
proof -
  assume n: "n < 2 ^ 32"
  have "foldl (\<lambda>v c. 10 * v + digit_val c) 0 (show_nat n) = n"
    using dec_val_show_nat [of n] by (simp only: dec_val_def)
  with n show ?thesis
    using parse_digits_value [of "show_nat n" 0 "2 ^ 32 - 1"] show_nat_digits show_nat_nonempty [of n]
    by (simp add: ParseUint32_def)
qed

lemma show_nat_hd: "hd (show_nat n) \<noteq> CHR ''-'' \<and> hd (show_nat n) \<noteq> CHR ''+''"
proof -
  have "48 \<le> byte (hd (show_nat n))"
    using show_nat_digits [OF hd_in_set [OF show_nat_nonempty]] by blast
  then show ?thesis by (auto simp: byte_def)
qed

lemma ParseInt32_show:
  assumes "- (2 ^ 31) \<le> p" and "p < 2 ^ 31"
  shows "ParseInt32 (show_int p) = Inr p"
proof (cases "p < 0")
  case True
  with assms have "ParseUint32 (show_nat (nat (- p))) = Inr (nat (- p))" by (intro ParseUint32_show) simp
  with True assms show ?thesis by (simp add: ParseInt32_def show_int_def)
next
  case False
  with assms have "ParseUint32 (show_nat (nat p)) = Inr (nat p)" by (intro ParseUint32_show) simp
  with False assms show ?thesis
    using show_nat_hd [of "nat p"] by (auto simp: ParseInt32_def show_int_def)
qed

lemma ParseInt32_range: "ParseInt32 s = Inr p \<Longrightarrow> - (2 ^ 31) \<le> p \<and> p < 2 ^ 31"
  by (auto simp: ParseInt32_def Let_def split: sum.splits if_splits)

text \<open>Text of a number outside of the range is rejected.\<close>

lemma parse_digits_big:
  assumes "\<And>c. c \<in> set s \<Longrightarrow> 48 \<le> byte c \<and> byte c \<le> 57"
    and "maxVal < foldl (\<lambda>v c. 10 * v + digit_val c) n s" and "n \<le> maxVal"
  shows "parse_digits maxVal s n = Inl ErrRange"
  using assms
proof (induction s arbitrary: n)
  case Nil
  then show ?case by simp
next
  case (Cons c s)
  show ?case
  proof (cases "10 * n + digit_val c \<le> maxVal")
    case True
    with Cons show ?thesis by (simp add: Let_def)
  next
    case False
    with Cons.prems show ?thesis by (simp add: Let_def)
  qed
qed

lemma ParseUint32_big: "2 ^ 32 \<le> n \<Longrightarrow> ParseUint32 (show_nat n) = Inl ErrRange"
proof -
  assume n: "2 ^ 32 \<le> n"
  have "foldl (\<lambda>v c. 10 * v + digit_val c) 0 (show_nat n) = n"
    using dec_val_show_nat [of n] by (simp only: dec_val_def)
  with n show ?thesis
    using parse_digits_big [of "show_nat n" "2 ^ 32 - 1" 0] show_nat_digits show_nat_nonempty [of n]
    by (simp add: ParseUint32_def)
qed

lemma ParseUint32_show_cases: "ParseUint32 (show_nat n) = (if n < 2 ^ 32 then Inr n else Inl ErrRange)"
  using ParseUint32_show [of n] ParseUint32_big [of n] by simp

lemma ParseInt32_out: "\<not> (- (2 ^ 31) \<le> p \<and> p < 2 ^ 31) \<Longrightarrow> ParseInt32 (show_int p) \<noteq> Inr r"
proof (cases "p < 0")
  case True
  moreover assume "\<not> (- (2 ^ 31) \<le> p \<and> p < 2 ^ 31)"
  ultimately show ?thesis
    by (auto simp: ParseInt32_def show_int_def ParseUint32_show_cases Let_def split: if_splits)
next
  case False
  moreover assume "\<not> (- (2 ^ 31) \<le> p \<and> p < 2 ^ 31)"
  ultimately show ?thesis
    using show_nat_hd [of "nat p"]
    by (auto simp: ParseInt32_def show_int_def ParseUint32_show_cases Let_def split: if_splits)
qed

lemma show_int_chars: "c \<in> set (show_int p) \<Longrightarrow> c = CHR ''-'' \<or> (48 \<le> byte c \<and> byte c \<le> 57)"
  using show_nat_digits by (auto simp: show_int_def split: if_splits)

lemma show_int_no: "CHR '':'' \<notin> set (show_int p) \<and> CHR ''['' \<notin> set (show_int p) \<and> CHR '']'' \<notin> set (show_int p)"
  by (auto dest!: show_int_chars simp: byte_def)

section \<open>filepath.Join\<close>

fun clean_parts :: "bool \<Rightarrow> string list \<Rightarrow> string list \<Rightarrow> string list" where
  "clean_parts rooted [] acc = acc"
| "clean_parts rooted (p # ps) acc =
     (if p = '''' \<or> p = ''.'' then clean_parts rooted ps acc
      else if p = ''..'' then
        (if acc \<noteq> [] \<and> last acc \<noteq> ''..'' then clean_parts rooted ps (butlast acc)
         else if rooted then clean_parts rooted ps acc
         else clean_parts rooted ps (acc @ [''..'']))
      else clean_parts rooted ps (acc @ [p]))"

definition path_clean :: "string \<Rightarrow> string" where
  "path_clean path =
     (let rooted = (path \<noteq> [] \<and> hd path = CHR ''/'');
          parts = clean_parts rooted (split_on (CHR ''/'') path) []
      in if rooted then ''/'' @ join_with ''/'' parts
         else if parts = [] then ''.'' else join_with ''/'' parts)"

definition path_join :: "string list \<Rightarrow> string" where
  "path_join elems =
     (let rest = dropWhile (\<lambda>e. e = '''') elems in if rest = [] then '''' else path_clean (join_with ''/'' rest))"

end
