(* ===== verification/TLS_Util.thy ===== *)
theory TLS_Util
  imports Go_Strings
begin

text \<open>
  \<open>pkg/tlsutil/tlsutil.go\<close> with the two libraries it calls: the profile table of the OpenShift API
  and the name tables of \<open>library-go/pkg/crypto\<close>. Versions, cipher suites and groups are 16-bit words.
  \<open>crypto/tls\<close> is part of the standard library: its two suite lists are written out. A nil slice of
  suites, which \<open>crypto/tls\<close> reads as its own default, is the empty list.
\<close>

type_synonym tls_id = "16 word"

section \<open>Tables\<close>

definition tls_CipherSuites :: "(string \<times> tls_id) list" where
  "tls_CipherSuites =
     [(''TLS_AES_128_GCM_SHA256'', 0x1301),
      (''TLS_AES_256_GCM_SHA384'', 0x1302),
      (''TLS_CHACHA20_POLY1305_SHA256'', 0x1303),
      (''TLS_ECDHE_ECDSA_WITH_AES_128_CBC_SHA'', 0xC009),
      (''TLS_ECDHE_ECDSA_WITH_AES_256_CBC_SHA'', 0xC00A),
      (''TLS_ECDHE_RSA_WITH_AES_128_CBC_SHA'', 0xC013),
      (''TLS_ECDHE_RSA_WITH_AES_256_CBC_SHA'', 0xC014),
      (''TLS_ECDHE_ECDSA_WITH_AES_128_GCM_SHA256'', 0xC02B),
      (''TLS_ECDHE_ECDSA_WITH_AES_256_GCM_SHA384'', 0xC02C),
      (''TLS_ECDHE_RSA_WITH_AES_128_GCM_SHA256'', 0xC02F),
      (''TLS_ECDHE_RSA_WITH_AES_256_GCM_SHA384'', 0xC030),
      (''TLS_ECDHE_RSA_WITH_CHACHA20_POLY1305_SHA256'', 0xCCA8),
      (''TLS_ECDHE_ECDSA_WITH_CHACHA20_POLY1305_SHA256'', 0xCCA9)]"

definition tls_InsecureCipherSuites :: "(string \<times> tls_id) list" where
  "tls_InsecureCipherSuites =
     [(''TLS_RSA_WITH_RC4_128_SHA'', 0x0005),
      (''TLS_RSA_WITH_3DES_EDE_CBC_SHA'', 0x000A),
      (''TLS_RSA_WITH_AES_128_CBC_SHA'', 0x002F),
      (''TLS_RSA_WITH_AES_256_CBC_SHA'', 0x0035),
      (''TLS_RSA_WITH_AES_128_CBC_SHA256'', 0x003C),
      (''TLS_RSA_WITH_AES_128_GCM_SHA256'', 0x009C),
      (''TLS_RSA_WITH_AES_256_GCM_SHA384'', 0x009D),
      (''TLS_ECDHE_ECDSA_WITH_RC4_128_SHA'', 0xC007),
      (''TLS_ECDHE_RSA_WITH_RC4_128_SHA'', 0xC011),
      (''TLS_ECDHE_RSA_WITH_3DES_EDE_CBC_SHA'', 0xC012),
      (''TLS_ECDHE_ECDSA_WITH_AES_128_CBC_SHA256'', 0xC023),
      (''TLS_ECDHE_RSA_WITH_AES_128_CBC_SHA256'', 0xC027)]"

definition goTLSVersions :: "tls_id gomap" where
  "goTLSVersions = [(''VersionTLS10'', 0x0301), (''VersionTLS11'', 0x0302), (''VersionTLS12'', 0x0303),
     (''VersionTLS13'', 0x0304)]"

definition openSSLToIANACiphers :: "string gomap" where
  "openSSLToIANACiphers =
     [(''TLS_AES_128_GCM_SHA256'', ''TLS_AES_128_GCM_SHA256''),
      (''TLS_AES_256_GCM_SHA384'', ''TLS_AES_256_GCM_SHA384''),
      (''TLS_CHACHA20_POLY1305_SHA256'', ''TLS_CHACHA20_POLY1305_SHA256''),
      (''ECDHE-ECDSA-AES128-GCM-SHA256'', ''TLS_ECDHE_ECDSA_WITH_AES_128_GCM_SHA256''),
      (''ECDHE-RSA-AES128-GCM-SHA256'', ''TLS_ECDHE_RSA_WITH_AES_128_GCM_SHA256''),
      (''ECDHE-ECDSA-AES256-GCM-SHA384'', ''TLS_ECDHE_ECDSA_WITH_AES_256_GCM_SHA384''),
      (''ECDHE-RSA-AES256-GCM-SHA384'', ''TLS_ECDHE_RSA_WITH_AES_256_GCM_SHA384''),
      (''ECDHE-ECDSA-CHACHA20-POLY1305'', ''TLS_ECDHE_ECDSA_WITH_CHACHA20_POLY1305_SHA256''),
      (''ECDHE-RSA-CHACHA20-POLY1305'', ''TLS_ECDHE_RSA_WITH_CHACHA20_POLY1305_SHA256''),
      (''ECDHE-ECDSA-AES128-SHA256'', ''TLS_ECDHE_ECDSA_WITH_AES_128_CBC_SHA256''),
      (''ECDHE-RSA-AES128-SHA256'', ''TLS_ECDHE_RSA_WITH_AES_128_CBC_SHA256''),
      (''AES128-GCM-SHA256'', ''TLS_RSA_WITH_AES_128_GCM_SHA256''),
      (''AES256-GCM-SHA384'', ''TLS_RSA_WITH_AES_256_GCM_SHA384''),
      (''AES128-SHA256'', ''TLS_RSA_WITH_AES_128_CBC_SHA256''),
      (''ECDHE-ECDSA-AES128-SHA'', ''TLS_ECDHE_ECDSA_WITH_AES_128_CBC_SHA''),
      (''ECDHE-RSA-AES128-SHA'', ''TLS_ECDHE_RSA_WITH_AES_128_CBC_SHA''),
      (''ECDHE-ECDSA-AES256-SHA'', ''TLS_ECDHE_ECDSA_WITH_AES_256_CBC_SHA''),
      (''ECDHE-RSA-AES256-SHA'', ''TLS_ECDHE_RSA_WITH_AES_256_CBC_SHA''),
      (''AES128-SHA'', ''TLS_RSA_WITH_AES_128_CBC_SHA''),
      (''AES256-SHA'', ''TLS_RSA_WITH_AES_256_CBC_SHA''),
      (''DES-CBC3-SHA'', ''TLS_RSA_WITH_3DES_EDE_CBC_SHA''),
      (''ECDHE-RSA-DES-CBC3-SHA'', ''TLS_ECDHE_RSA_WITH_3DES_EDE_CBC_SHA'')]"

definition tlsGroupToCurveID :: "tls_id gomap" where
  "tlsGroupToCurveID = [(''X25519'', 29), (''secp256r1'', 23), (''secp384r1'', 24), (''secp521r1'', 25),
     (''X25519MLKEM768'', 4588), (''SecP256r1MLKEM768'', 4587), (''SecP384r1MLKEM1024'', 4589)]"

record tls_profile_spec =
  p_ciphers :: "string list"
  p_groups :: "string list"
  p_min :: string

definition TLSProfiles :: "tls_profile_spec gomap" where
  "TLSProfiles =
     [(''Old'', \<lparr>p_ciphers = [''TLS_AES_128_GCM_SHA256'', ''TLS_AES_256_GCM_SHA384'',
          ''TLS_CHACHA20_POLY1305_SHA256'', ''ECDHE-ECDSA-AES128-GCM-SHA256'',
          ''ECDHE-RSA-AES128-GCM-SHA256'', ''ECDHE-ECDSA-AES256-GCM-SHA384'',
          ''ECDHE-RSA-AES256-GCM-SHA384'', ''ECDHE-ECDSA-CHACHA20-POLY1305'',
          ''ECDHE-RSA-CHACHA20-POLY1305'', ''ECDHE-ECDSA-AES128-SHA256'',
          ''ECDHE-RSA-AES128-SHA256'', ''ECDHE-ECDSA-AES128-SHA'', ''ECDHE-RSA-AES128-SHA'',
          ''ECDHE-ECDSA-AES256-SHA384'', ''ECDHE-RSA-AES256-SHA384'',
          ''ECDHE-ECDSA-AES256-SHA'', ''ECDHE-RSA-AES256-SHA'', ''AES128-GCM-SHA256'',
          ''AES256-GCM-SHA384'', ''AES128-SHA256'', ''AES256-SHA256'', ''AES128-SHA'',
          ''AES256-SHA'', ''DES-CBC3-SHA''],
        p_groups = [''X25519MLKEM768'', ''X25519'', ''secp256r1'', ''secp384r1''],
        p_min = ''VersionTLS10''\<rparr>),
      (''Intermediate'', \<lparr>p_ciphers = [''TLS_AES_128_GCM_SHA256'', ''TLS_AES_256_GCM_SHA384'',
          ''TLS_CHACHA20_POLY1305_SHA256'', ''ECDHE-ECDSA-AES128-GCM-SHA256'',
          ''ECDHE-RSA-AES128-GCM-SHA256'', ''ECDHE-ECDSA-AES256-GCM-SHA384'',
          ''ECDHE-RSA-AES256-GCM-SHA384'', ''ECDHE-ECDSA-CHACHA20-POLY1305'',
          ''ECDHE-RSA-CHACHA20-POLY1305''],
        p_groups = [''X25519MLKEM768'', ''X25519'', ''secp256r1'', ''secp384r1''],
        p_min = ''VersionTLS12''\<rparr>),
      (''Modern'', \<lparr>p_ciphers = [''TLS_AES_128_GCM_SHA256'', ''TLS_AES_256_GCM_SHA384'',
          ''TLS_CHACHA20_POLY1305_SHA256''],
        p_groups = [''X25519MLKEM768'', ''X25519'', ''secp256r1'', ''secp384r1''],
        p_min = ''VersionTLS13''\<rparr>)]"

section \<open>Translations\<close>

definition TLSVersion :: "string \<Rightarrow> tls_id res" where
  "TLSVersion versionName =
     (if versionName = '''' then Inr 0x0303
      else (case map_of goTLSVersions versionName of
              Some version \<Rightarrow> Inr version
            | None \<Rightarrow> Inl (GoError (''unknown tls version '' @ go_quote versionName))))"

fun OpenSSLToIANACipherSuites :: "string list \<Rightarrow> string list" where
  "OpenSSLToIANACipherSuites [] = []"
| "OpenSSLToIANACipherSuites (c # cs) =
     (case map_of openSSLToIANACiphers c of
        Some ianaCipher \<Rightarrow> ianaCipher # OpenSSLToIANACipherSuites cs
      | None \<Rightarrow> OpenSSLToIANACipherSuites cs)"

text \<open>The curves of the known groups and the unknown ones, each in the order given.\<close>

fun TLSGroupsToCurveIDs :: "string list \<Rightarrow> tls_id list \<times> string list" where
  "TLSGroupsToCurveIDs [] = ([], [])"
| "TLSGroupsToCurveIDs (g # gs) =
     (let (curves, unrecognized) = TLSGroupsToCurveIDs gs
      in case map_of tlsGroupToCurveID g of
           None \<Rightarrow> (curves, g # unrecognized)
         | Some i \<Rightarrow> (i # curves, unrecognized))"

text \<open>\<open>init\<close> fills the map from the two lists of the standard library.\<close>

definition ianaToID :: "tls_id gomap" where
  "ianaToID = gomap_copy (gomap_copy [] tls_CipherSuites) tls_InsecureCipherSuites"

text \<open>No name is in both lists, so the map is their concatenation; evaluation uses it in this form.\<close>

lemma ianaToID_list [code]: "ianaToID = tls_CipherSuites @ tls_InsecureCipherSuites"
proof -
  have "gomap_copy (gomap_copy [] tls_CipherSuites) tls_InsecureCipherSuites =
      tls_CipherSuites @ tls_InsecureCipherSuites"
    by code_simp
  then show ?thesis by (simp only: ianaToID_def)
qed

definition tls13Ciphers :: "string list" where
  "tls13Ciphers = [''TLS_AES_128_GCM_SHA256'', ''TLS_AES_256_GCM_SHA384'', ''TLS_CHACHA20_POLY1305_SHA256'']"

fun ianaCiphersToTLSIDs :: "string list \<Rightarrow> tls_id list" where
  "ianaCiphersToTLSIDs [] = []"
| "ianaCiphersToTLSIDs (name # ianaNames) =
     (case map_of ianaToID name of
        Some i \<Rightarrow> i # ianaCiphersToTLSIDs ianaNames
      | None \<Rightarrow> ianaCiphersToTLSIDs ianaNames)"

fun isTLS13Only :: "string list \<Rightarrow> bool" where
  "isTLS13Only [] = True"
| "isTLS13Only (cipher # ciphers) = (if cipher \<notin> set tls13Ciphers then False else isTLS13Only ciphers)"

definition openSSLCiphersToIDs :: "string list \<Rightarrow> tls_id list res" where
  "openSSLCiphersToIDs opensslCiphers =
     (let ianaNames = OpenSSLToIANACipherSuites opensslCiphers;
          hasTLS13Only = isTLS13Only opensslCiphers;
          ids = ianaCiphersToTLSIDs ianaNames
      in if length ids = 0 \<and> \<not> hasTLS13Only
         then Inl (GoError ''no valid ciphers resolved from the provided list'')
         else Inr ids)"

section \<open>The profile\<close>

text \<open>A comma-separated flag: the parts are trimmed, empty ones are skipped.\<close>

definition comma_list :: "string \<Rightarrow> string list" where
  "comma_list raw = filter (\<lambda>s. s \<noteq> '''') (map trim_space (split_on (CHR '','') raw))"

definition custom_only_msg :: string where
  "custom_only_msg = ''--tls-min-version, --tls-ciphers and --tls-groups are only valid '' @
     ''with --tls-security-profile=Custom''"

text \<open>The \<open>switch\<close> on the profile type: minimum version, ciphers and groups, by name.\<close>

definition profile_settings :: "string \<Rightarrow> string \<Rightarrow> string \<Rightarrow> string \<Rightarrow> (string \<times> string list \<times> string list) res" where
  "profile_settings profileType minVersion ciphers groups =
     (if profileType \<in> {''Old'', ''Intermediate'', ''Modern''} then
        (if minVersion \<noteq> '''' \<or> ciphers \<noteq> '''' \<or> groups \<noteq> '''' then Inl (GoError custom_only_msg)
         else (case map_of TLSProfiles profileType of
                 None \<Rightarrow> Inl (GoPanic ''invalid memory address or nil pointer dereference'')
               | Some spec \<Rightarrow> Inr (p_min spec, p_ciphers spec, p_groups spec)))
      else if profileType = ''Custom'' then
        (if minVersion = '''' then
           Inl (GoError ''--tls-min-version is required when --tls-security-profile=Custom'')
         else if ciphers = '''' \<and> minVersion \<noteq> ''VersionTLS13'' then
           Inl (GoError ''--tls-ciphers is required when --tls-security-profile=Custom'')
         else
           (let profileCiphers = (if ciphers = '''' then [] else comma_list ciphers)
            in if length profileCiphers = 0 \<and> minVersion \<noteq> ''VersionTLS13'' then
                 Inl (GoError ''--tls-ciphers is required when --tls-security-profile=Custom'')
               else Inr (minVersion, profileCiphers, comma_list groups)))
      else Inl (GoError (''unknown TLS security profile '' @ go_quote profileType @
             '', valid values are: Old, Intermediate, Modern, Custom'')))"

record tls_config =
  MinVersion :: tls_id
  CipherSuites :: "tls_id list"
  CurvePreferences :: "tls_id list"
  NextProtos :: "string list"
  GetCertificate :: "string option"

definition TLSSecurityProfileToTLSConfig ::
  "string \<Rightarrow> string \<Rightarrow> string \<Rightarrow> string \<Rightarrow> (tls_config \<Rightarrow> tls_config) res" where
  "TLSSecurityProfileToTLSConfig profileType minVersion ciphers groups =
     bindR (profile_settings profileType minVersion ciphers groups)
       (\<lambda>(profileMinVersion, profileCiphers, profileGroups).
     bindR (case TLSVersion profileMinVersion of
              Inl e \<Rightarrow> Inl (GoError (''converting TLS min version '' @ go_quote profileMinVersion @ '': '' @ fault_text e))
            | Inr v \<Rightarrow> Inr v) (\<lambda>goMinVersion.
     bindR (openSSLCiphersToIDs profileCiphers) (\<lambda>cipherSuiteIDs.
     (let (curveIDs, unsupported) = TLSGroupsToCurveIDs profileGroups
      in if length curveIDs = 0 then Inl (GoError ''no valid groups resolved from the provided list'')
         else Inr (\<lambda>cfg. cfg\<lparr>MinVersion := goMinVersion, CipherSuites := cipherSuiteIDs,
                        CurvePreferences := curveIDs\<rparr>)))))"

section \<open>The named profiles, from the most permissive to the strictest\<close>

datatype named_profile = Old | Intermediate | Modern

primrec profile_name :: "named_profile \<Rightarrow> string" where
  "profile_name Old = ''Old''"
| "profile_name Intermediate = ''Intermediate''"
| "profile_name Modern = ''Modern''"

primrec strictness :: "named_profile \<Rightarrow> nat" where
  "strictness Old = 0"
| "strictness Intermediate = 1"
| "strictness Modern = 2"

lemma strictness_inject: "strictness p = strictness q \<longleftrightarrow> p = q"
  by (cases p; cases q) simp_all

instantiation named_profile :: linorder
begin

definition less_eq_named_profile :: "named_profile \<Rightarrow> named_profile \<Rightarrow> bool" where
  "p \<le> q \<longleftrightarrow> strictness p \<le> strictness q"

definition less_named_profile :: "named_profile \<Rightarrow> named_profile \<Rightarrow> bool" where
  "p < q \<longleftrightarrow> strictness p < strictness q"

instance
  by standard (auto simp: less_eq_named_profile_def less_named_profile_def strictness_inject)

end

primrec profile_suites :: "named_profile \<Rightarrow> tls_id list" where
  "profile_suites Old = [0x1301, 0x1302, 0x1303, 0xC02B, 0xC02F, 0xC02C, 0xC030, 0xCCA9, 0xCCA8, 0xC023,
     0xC027, 0xC009, 0xC013, 0xC00A, 0xC014, 0x009C, 0x009D, 0x003C, 0x002F, 0x0035, 0x000A]"
| "profile_suites Intermediate = [0x1301, 0x1302, 0x1303, 0xC02B, 0xC02F, 0xC02C, 0xC030, 0xCCA9, 0xCCA8]"
| "profile_suites Modern = [0x1301, 0x1302, 0x1303]"

primrec profile_min :: "named_profile \<Rightarrow> tls_id" where
  "profile_min Old = 0x0301"
| "profile_min Intermediate = 0x0303"
| "profile_min Modern = 0x0304"

definition named_groups :: "string list" where
  "named_groups = [''X25519MLKEM768'', ''X25519'', ''secp256r1'', ''secp384r1'']"

text \<open>The table entry of a profile, translated; each line is a closed computation.\<close>

lemma named_entry:
  "map_option (\<lambda>s. (TLSVersion (p_min s), openSSLCiphersToIDs (p_ciphers s), p_groups s))
     (map_of TLSProfiles (profile_name p)) =
   Some (Inr (profile_min p), Inr (profile_suites p), named_groups)"
proof (cases p)
  case Old
  show ?thesis unfolding Old by code_simp
next
  case Intermediate
  show ?thesis unfolding Intermediate by code_simp
next
  case Modern
  show ?thesis unfolding Modern by code_simp
qed

lemma profile_settings_named:
  "\<exists>mv cs. profile_settings (profile_name p) '''' '''' '''' = Inr (mv, cs, named_groups) \<and>
    TLSVersion mv = Inr (profile_min p) \<and> openSSLCiphersToIDs cs = Inr (profile_suites p)"
proof -
  obtain spec where spec: "map_of TLSProfiles (profile_name p) = Some spec" "p_groups spec = named_groups"
      "TLSVersion (p_min spec) = Inr (profile_min p)" "openSSLCiphersToIDs (p_ciphers spec) = Inr (profile_suites p)"
    using named_entry [of p] by auto
  have "profile_name p \<in> {''Old'', ''Intermediate'', ''Modern''}"
    by (cases p) simp_all
  with spec show ?thesis by (simp add: profile_settings_def)
qed

lemma named_profile_config:
  "TLSSecurityProfileToTLSConfig (profile_name p) '''' '''' '''' =
     Inr (\<lambda>cfg. cfg\<lparr>MinVersion := profile_min p, CipherSuites := profile_suites p,
               CurvePreferences := [4588, 29, 23, 24]\<rparr>)"
proof -
  obtain mv cs where s: "profile_settings (profile_name p) '''' '''' '''' =
      Inr (mv, cs, named_groups)"
    and v: "TLSVersion mv = Inr (profile_min p)" and c: "openSSLCiphersToIDs cs = Inr (profile_suites p)"
    using profile_settings_named [of p] by blast
  have "TLSGroupsToCurveIDs named_groups = ([4588, 29, 23, 24], [])"
    by code_simp
  with s v c show ?thesis by (simp add: TLSSecurityProfileToTLSConfig_def)
qed

lemma profiles_ordered:
  "p \<le> q \<Longrightarrow> profile_min p \<le> profile_min q \<and> set (profile_suites q) \<subseteq> set (profile_suites p) \<and> profile_suites q \<noteq> []"
  by (cases p; cases q) (simp_all add: less_eq_named_profile_def)



section \<open>The custom profile\<close>

lemma tls13_translates:
  "c \<in> set tls13Ciphers \<Longrightarrow> map_of openSSLToIANACiphers c = Some c \<and> map_of ianaToID c \<noteq> None"
proof -
  have "list_all (\<lambda>c. map_of openSSLToIANACiphers c = Some c \<and> map_of ianaToID c \<noteq> None) tls13Ciphers"
    by code_simp
  then show "c \<in> set tls13Ciphers \<Longrightarrow> map_of openSSLToIANACiphers c = Some c \<and> map_of ianaToID c \<noteq> None"
    by (simp add: list_all_iff)
qed

lemma tls13_only_nonempty:
  "isTLS13Only cs \<Longrightarrow> cs \<noteq> [] \<Longrightarrow> ianaCiphersToTLSIDs (OpenSSLToIANACipherSuites cs) \<noteq> []"
  by (cases cs) (auto simp: tls13_translates split: if_splits option.splits dest: tls13_translates)

lemma openSSLCiphersToIDs_nonempty: "openSSLCiphersToIDs cs = Inr ids \<Longrightarrow> cs \<noteq> [] \<Longrightarrow> ids \<noteq> []"
  using tls13_only_nonempty [of cs] by (auto simp: openSSLCiphersToIDs_def Let_def split: if_splits)

lemma TLSGroupsToCurveIDs_eq:
  "TLSGroupsToCurveIDs gs =
     (List.map_filter (map_of tlsGroupToCurveID) gs, filter (\<lambda>g. map_of tlsGroupToCurveID g = None) gs)"
  by (induction gs) (auto simp: map_filter_simps split: option.splits)

text \<open>C16: A Custom profile that is accepted sets the requested minimum version and only groups that were
  requested, at least one of them; it leaves the cipher suites to the library's default only for
  TLS 1.3 with no cipher named.\<close>

theorem custom_profile_sound:
  assumes "TLSSecurityProfileToTLSConfig ''Custom'' minVersion ciphers groups = Inr f"
  shows "map_of goTLSVersions minVersion = Some (MinVersion (f cfg)) \<and>
    CurvePreferences (f cfg) \<noteq> [] \<and>
    CurvePreferences (f cfg) = List.map_filter (map_of tlsGroupToCurveID) (comma_list groups) \<and>
    (CipherSuites (f cfg) = [] \<longrightarrow> minVersion = ''VersionTLS13'' \<and> comma_list ciphers = []) \<and>
    NextProtos (f cfg) = NextProtos cfg \<and> GetCertificate (f cfg) = GetCertificate cfg"
proof -
  let ?cs = "if ciphers = '''' then [] else comma_list ciphers"
  have empty: "comma_list '''' = []" by code_simp
  have mv: "minVersion \<noteq> ''''" and cs: "?cs = [] \<Longrightarrow> minVersion = ''VersionTLS13''"
    and set: "profile_settings ''Custom'' minVersion ciphers groups = Inr (minVersion, ?cs, comma_list groups)"
    using assms by (auto simp: TLSSecurityProfileToTLSConfig_def profile_settings_def Let_def split: if_splits)
  obtain v ids where v: "TLSVersion minVersion = Inr v" and ids: "openSSLCiphersToIDs ?cs = Inr ids"
    and gs: "List.map_filter (map_of tlsGroupToCurveID) (comma_list groups) \<noteq> []"
    and f: "f = (\<lambda>cfg. cfg\<lparr>MinVersion := v, CipherSuites := ids,
        CurvePreferences := List.map_filter (map_of tlsGroupToCurveID) (comma_list groups)\<rparr>)"
    using assms unfolding TLSSecurityProfileToTLSConfig_def set
    by (auto simp: go_err TLSGroupsToCurveIDs_eq Let_def simp del: bindR_simps split: sum.splits if_splits)
  have "map_of goTLSVersions minVersion = Some v"
    using v mv by (auto simp: TLSVersion_def split: option.splits)
  moreover have "minVersion = ''VersionTLS13'' \<and> comma_list ciphers = []" if "ids = []"
  proof -
    from that ids openSSLCiphersToIDs_nonempty have "?cs = []" by blast
    with cs empty show ?thesis by (auto split: if_splits)
  qed
  ultimately show ?thesis using gs f by simp
qed

theorem custom_profile_sound_witness:
  "\<exists>f. TLSSecurityProfileToTLSConfig ''Custom'' ''VersionTLS12'' ''ECDHE-RSA-AES128-GCM-SHA256'' '' X25519, nope'' = Inr f \<and>
    CurvePreferences (f \<lparr>MinVersion = 0, CipherSuites = [], CurvePreferences = [], NextProtos = [], GetCertificate = None\<rparr>) =
      [29]"
proof -
  have "profile_settings ''Custom'' ''VersionTLS12'' ''ECDHE-RSA-AES128-GCM-SHA256'' '' X25519, nope'' =
      Inr (''VersionTLS12'', [''ECDHE-RSA-AES128-GCM-SHA256''], [''X25519'', ''nope''])"
    and "TLSVersion ''VersionTLS12'' = Inr 0x0303"
    and "openSSLCiphersToIDs [''ECDHE-RSA-AES128-GCM-SHA256''] = Inr [0xC02F]"
    and "TLSGroupsToCurveIDs [''X25519'', ''nope''] = ([29], [''nope''])"
    by code_simp+
  then have "\<exists>f. TLSSecurityProfileToTLSConfig ''Custom'' ''VersionTLS12'' ''ECDHE-RSA-AES128-GCM-SHA256''
      '' X25519, nope'' = Inr f"
    by (simp add: TLSSecurityProfileToTLSConfig_def)
  then obtain f where f: "TLSSecurityProfileToTLSConfig ''Custom'' ''VersionTLS12'' ''ECDHE-RSA-AES128-GCM-SHA256''
      '' X25519, nope'' = Inr f" ..
  moreover have "List.map_filter (map_of tlsGroupToCurveID) (comma_list '' X25519, nope'') = [29]" by code_simp
  ultimately show ?thesis using custom_profile_sound [OF f] by simp
qed

text \<open>C35: A Custom profile without a group is always rejected, although the groups flag reads as optional.\<close>

theorem custom_needs_groups:
  assumes "comma_list groups = []"
  shows "\<exists>m. TLSSecurityProfileToTLSConfig ''Custom'' minVersion ciphers groups = Inl (GoError m)"
proof -
  have fault: "\<exists>m. profile_settings ''Custom'' minVersion ciphers groups = Inl (GoError m) \<or>
      (\<exists>mv cs. profile_settings ''Custom'' minVersion ciphers groups = Inr (mv, cs, []))"
    using assms by (auto simp: profile_settings_def Let_def)
  have "openSSLCiphersToIDs cs = Inl e \<Longrightarrow> \<exists>m. e = GoError m" for cs e
    by (auto simp: openSSLCiphersToIDs_def Let_def split: if_splits)
  with fault show ?thesis
    by (fastforce simp: TLSSecurityProfileToTLSConfig_def bindR_def Let_def split: sum.splits)
qed

theorem custom_needs_groups_witness:
  "\<exists>m. TLSSecurityProfileToTLSConfig ''Custom'' ''VersionTLS13'' '''' '' , '' = Inl (GoError m)"
  by (rule custom_needs_groups) code_simp

text \<open>What an accepted profile does to a configuration: it sets three fields.\<close>

lemma tls_config_fn_shape:
  assumes "TLSSecurityProfileToTLSConfig p m c g = Inr f"
  shows "\<exists>v ids curves. f = (\<lambda>cfg. cfg\<lparr>MinVersion := v, CipherSuites := ids, CurvePreferences := curves\<rparr>)"
  using assms
  by (auto simp: TLSSecurityProfileToTLSConfig_def bindR_def Let_def split: sum.splits if_splits prod.splits)

end
