(* ===== verification/Flag_Parse.thy ===== *)
theory Flag_Parse
  imports Net_Parse TLS_Util
begin

text \<open>
  The three parsers of \<open>cmd/main.go\<close>: the allowlist flags, the port of the metrics address and the
  namespace of the pod. A nil allowlist is None; an allowlist is a map of the selected names.
\<close>

section \<open>Parsing\<close>

fun add_names :: "string list \<Rightarrow> bool gomap \<Rightarrow> bool gomap" where
  "add_names [] allowlist = allowlist"
| "add_names (p # parts) allowlist =
     (let name = trim_space p
      in if name \<noteq> '''' then add_names parts (gomap_upd name True allowlist) else add_names parts allowlist)"

definition parseAllowlist :: "string \<Rightarrow> bool gomap option" where
  "parseAllowlist raw =
     (if raw = '''' then None
      else if raw = ''none'' then Some []
      else Some (add_names (split_on (CHR '','') raw) []))"

definition parseMetricsPort :: "string \<Rightarrow> int res" where
  "parseMetricsPort addr =
     (case SplitHostPort addr of
        Inl err \<Rightarrow> Inl (GoError (''parsing metrics-bind-address '' @ go_quote addr @ '': '' @ fault_text err))
      | Inr (host, portStr) \<Rightarrow>
          (case ParseInt32 portStr of
             Inl err \<Rightarrow> Inl (GoError (''parsing metrics port '' @ go_quote portStr @ '': '' @ fault_text err))
           | Inr port \<Rightarrow> Inr port))"

text \<open>\<open>os.Getenv\<close> yields the empty string for an unset variable; the file is read only without it.\<close>

definition getPodNamespace :: "string \<Rightarrow> string option \<Rightarrow> string" where
  "getPodNamespace env file =
     (if env \<noteq> '''' then env else (case file of Some content \<Rightarrow> trim_space content | None \<Rightarrow> ''''))"

section \<open>Allowlists\<close>

lemma add_names_eq:
  "add_names parts m = foldl (\<lambda>m name. gomap_upd name True m) m (filter (\<lambda>s. s \<noteq> '''') (map trim_space parts))"
  by (induction parts m rule: add_names.induct) (simp_all add: Let_def)

lemma foldl_upd_ok: "gomap_ok m \<Longrightarrow> gomap_ok (foldl (\<lambda>m name. gomap_upd name True m) m names)"
  by (induction names arbitrary: m) (simp_all add: gomap_ok_upd)

lemma foldl_upd_lookup:
  "map_of (foldl (\<lambda>m name. gomap_upd name True m) m names) n = (if n \<in> set names then Some True else map_of m n)"
  by (induction names arbitrary: m) (simp_all add: go_map_simps)

lemma add_names_ok: "gomap_ok (add_names parts [])"
  by (simp add: add_names_eq foldl_upd_ok)

lemma bool_at_names:
  "bool_at (add_names (split_on (CHR '','') raw) []) n \<longleftrightarrow> n \<in> set (comma_list raw)"
  by (simp add: bool_at_def add_names_eq foldl_upd_lookup comma_list_def)

text \<open>An empty flag selects everything (nil map); any other value selects exactly the trimmed, non-empty
  parts between commas, except that the value none selects nothing. The map has no duplicate key, so
  neither order nor repetition in the flag matters.\<close>

theorem parseAllowlist_exact:
  "(case parseAllowlist raw of
      None \<Rightarrow> raw = ''''
    | Some allow \<Rightarrow> raw \<noteq> '''' \<and> gomap_ok allow \<and> set (map fst allow) = {n. bool_at allow n} \<and>
        {n. bool_at allow n} = (if raw = ''none'' then {} else set (comma_list raw)))"
proof -
  let ?m = "add_names (split_on (CHR '','') raw) []"
  have "map_of ?m n = (if n \<in> set (comma_list raw) then Some True else None)" for n
    by (simp add: add_names_eq foldl_upd_lookup comma_list_def)
  then have "fst ` set ?m = set (comma_list raw)"
    unfolding dom_map_of_conv_image_fst [symmetric] by (auto simp: dom_def)
  then show ?thesis
    by (auto simp: parseAllowlist_def bool_at_names add_names_ok bool_at_def [of "[]"])
qed

text \<open>C31: Joining names with commas and parsing the flag gives these names back, for names that are already
  trimmed, not empty and without a comma; a single name must not be the word none.\<close>

theorem parseAllowlist_roundtrip:
  assumes "names \<noteq> []" and "names \<noteq> [''none'']"
    and "\<forall>n \<in> set names. trim_space n = n \<and> n \<noteq> '''' \<and> CHR '','' \<notin> set n"
  shows "\<exists>allow. parseAllowlist (join_with '','' names) = Some allow \<and> gomap_ok allow \<and>
    {n. bool_at allow n} = set names"
proof -
  let ?raw = "join_with '','' names"
  have split: "split_on (CHR '','') ?raw = names"
    using split_join [OF assms(1), of "CHR '',''"] assms(3) by simp
  have "?raw \<noteq> ''''" and "?raw \<noteq> ''none''"
  proof -
    show "?raw \<noteq> ''''"
    proof
      assume "?raw = ''''"
      with split have "names = ['''']" by simp
      with assms(3) show False by simp
    qed
    show "?raw \<noteq> ''none''"
    proof
      assume "?raw = ''none''"
      with split have "names = [''none'']" by simp
      with assms(2) show False by simp
    qed
  qed
  moreover have "filter (\<lambda>s. s \<noteq> '''') (map trim_space names) = names"
    using assms(3) by (simp add: map_idI)
  then have "set (comma_list ?raw) = set names"
    by (simp only: comma_list_def split)
  moreover have "{n. bool_at (add_names (split_on (CHR '','') ?raw) []) n} = set (comma_list ?raw)"
    unfolding bool_at_names by simp
  ultimately show ?thesis
    by (simp add: parseAllowlist_def add_names_ok)
qed

theorem parseAllowlist_roundtrip_witness:
  "\<exists>allow. parseAllowlist (join_with '','' [''kubevirt_vm_info'', ''none'']) = Some allow \<and> gomap_ok allow \<and>
    {n. bool_at allow n} = set [''kubevirt_vm_info'', ''none'']"
  by (rule parseAllowlist_roundtrip; code_simp)

section \<open>The metrics port\<close>

lemma plain_host_split:
  assumes "CHR '':'' \<notin> set host" and "CHR ''['' \<notin> set host" and "CHR '']'' \<notin> set host"
    and "CHR '':'' \<notin> set port" and "CHR ''['' \<notin> set port" and "CHR '']'' \<notin> set port"
  shows "SplitHostPort (host @ '':'' @ port) = Inr (host, port)"
proof -
  have "last_index_of (CHR '':'') (host @ '':'' @ port) = Some (length host)"
    using last_index_of_append [OF assms(4), of host] by simp
  moreover have "hd (host @ '':'' @ port) \<noteq> CHR ''[''"
    using assms(2) by (cases host) auto
  ultimately show ?thesis
    using assms by (simp add: SplitHostPort_def split_host_def)
qed

text \<open>C32: The port of an address is read back from its decimal text for every 32-bit integer, and only
  32-bit integers are accepted. The port is not checked to be a TCP port: a negative number or one
  above 65535 passes.\<close>

theorem parseMetricsPort_roundtrip:
  assumes "CHR '':'' \<notin> set host" and "CHR ''['' \<notin> set host" and "CHR '']'' \<notin> set host"
  shows "parseMetricsPort (host @ '':'' @ show_int p) = Inr q \<longleftrightarrow> q = p \<and> - (2 ^ 31) \<le> p \<and> p < 2 ^ 31"
proof -
  have split: "SplitHostPort (host @ '':'' @ show_int p) = Inr (host, show_int p)"
    using show_int_no [of p] by (intro plain_host_split assms) simp_all
  show ?thesis
  proof (cases "- (2 ^ 31) \<le> p \<and> p < 2 ^ 31")
    case True
    then show ?thesis unfolding parseMetricsPort_def split by (auto simp: ParseInt32_show)
  next
    case False
    then have "ParseInt32 (show_int p) \<noteq> Inr r" for r
      using ParseInt32_out by blast
    then show ?thesis
      using False unfolding parseMetricsPort_def split by (auto split: sum.splits)
  qed
qed

theorem parseMetricsPort_roundtrip_witness: "parseMetricsPort '':-1'' = Inr (- 1)"
proof -
  have "'''' @ '':'' @ show_int (- 1) = '':-1''" by code_simp
  with parseMetricsPort_roundtrip [of "''''" "- 1" "- 1"] show ?thesis by simp
qed

end
