(* ===== verification/Rules_Registry.thy ===== *)
theory Rules_Registry
  imports Operator_Metrics "HOL-Library.Char_ord" "HOL-Library.List_Lexorder"
begin

text \<open>
  The rules toolkit (\<open>operator-observability-toolkit/pkg/operatorrules\<close>): the two maps of a registry,
  registration, the sorted listings and the PrometheusRule built from them. A \<open>promv1.Rule\<close> is a
  record with the fields the program sets; a Go map that may be nil is an option of a map, because a
  write to a nil map panics. Strings are compared byte by byte, as \<open>cmp.Compare\<close> does.
\<close>

section \<open>Rules\<close>

datatype IntOrString = FromInt int | FromString string

primrec expr_string :: "IntOrString \<Rightarrow> string" where
  "expr_string (FromInt i) = show_int i"
| "expr_string (FromString s) = s"

record rule =
  Record :: string
  Alert :: string
  Expr :: IntOrString
  For :: "string option"
  Labels :: "string gomap option"
  Annotations :: "string gomap option"

record recording_rule =
  rr_Name :: string
  rr_Help :: string
  rr_ConstLabels :: "string gomap option"
  rr_Type :: metric_type
  rr_Expr :: IntOrString

text \<open>\<open>m[k] = v\<close> on a map that may be nil.\<close>

definition nilmap_set :: "string \<Rightarrow> string \<Rightarrow> string gomap option \<Rightarrow> string gomap option res" where
  "nilmap_set k v m =
     (case m of None \<Rightarrow> Inl (GoPanic ''assignment to entry in nil map'')
      | Some m' \<Rightarrow> Inr (Some (gomap_upd k v m')))"

definition nilmap_at :: "string gomap option \<Rightarrow> string \<Rightarrow> string" where
  "nilmap_at m k = (case m of None \<Rightarrow> '''' | Some m' \<Rightarrow> str_at m' k)"

lemma nilmap_at_simps [simp]:
  "nilmap_at (Some m) k = str_at m k" "nilmap_at None k = ''''"
  by (simp_all add: nilmap_at_def)

lemma str_at_upd: "str_at (gomap_upd k v m) k' = (if k' = k then v else str_at m k')"
  by (simp add: str_at_def go_map_simps)

section \<open>The registry\<close>

record rules_registry =
  registeredRecordingRules :: "recording_rule gomap"
  registeredAlerts :: "rule gomap"

definition NewRegistry :: rules_registry where
  "NewRegistry = \<lparr>registeredRecordingRules = [], registeredAlerts = []\<rparr>"

definition recording_key :: "recording_rule \<Rightarrow> string" where
  "recording_key r = rr_Name r @ '':'' @ expr_string (rr_Expr r)"

definition alert_key :: "rule \<Rightarrow> string" where
  "alert_key r = Alert r @ '':'' @ expr_string (Expr r)"

definition record_key :: "rule \<Rightarrow> string" where
  "record_key r = Record r @ '':'' @ expr_string (Expr r)"

text \<open>The body of both registration loops: every rule is stored under its key, a later one wins.\<close>

fun put_all :: "('r \<Rightarrow> string) \<Rightarrow> 'r list \<Rightarrow> 'r gomap \<Rightarrow> 'r gomap" where
  "put_all key [] m = m"
| "put_all key (r # rs) m = put_all key rs (gomap_upd (key r) r m)"

definition RegisterRecordingRules :: "recording_rule list list \<Rightarrow> rules_registry \<Rightarrow> rules_registry" where
  "RegisterRecordingRules rs reg =
     reg\<lparr>registeredRecordingRules := put_all recording_key (concat rs) (registeredRecordingRules reg)\<rparr>"

definition RegisterAlerts :: "rule list list \<Rightarrow> rules_registry \<Rightarrow> rules_registry" where
  "RegisterAlerts as reg =
     reg\<lparr>registeredAlerts := put_all alert_key (concat as) (registeredAlerts reg)\<rparr>"

definition ListRecordingRules :: "rules_registry \<Rightarrow> recording_rule list" where
  "ListRecordingRules reg = sort_key recording_key (map snd (registeredRecordingRules reg))"

definition ListAlerts :: "rules_registry \<Rightarrow> rule list" where
  "ListAlerts reg = sort_key alert_key (map snd (registeredAlerts reg))"

section \<open>The PrometheusRule object\<close>

record rule_group =
  g_Name :: string
  g_Rules :: "rule list"

record prometheus_rule =
  pr_Name :: string
  pr_Namespace :: string
  pr_Labels :: "string gomap option"
  pr_Annotations :: "string gomap option"
  pr_Groups :: "rule_group list"

definition recording_to_rule :: "recording_rule \<Rightarrow> rule" where
  "recording_to_rule r =
     \<lparr>Record = rr_Name r, Alert = '''', Expr = rr_Expr r, For = None, Labels = rr_ConstLabels r,
      Annotations = None\<rparr>"

definition buildRecordingRulesRules :: "rules_registry \<Rightarrow> rule list" where
  "buildRecordingRulesRules reg =
     sort_key record_key (map (\<lambda>e. recording_to_rule (snd e)) (registeredRecordingRules reg))"

definition buildPrometheusRuleSpec :: "rules_registry \<Rightarrow> rule_group list res" where
  "buildPrometheusRuleSpec reg =
     (let recs = (if length (registeredRecordingRules reg) \<noteq> 0
                  then [\<lparr>g_Name = ''recordingRules.rules'', g_Rules = buildRecordingRulesRules reg\<rparr>] else []);
          groups = recs @ (if length (registeredAlerts reg) \<noteq> 0
                  then [\<lparr>g_Name = ''alerts.rules'', g_Rules = ListAlerts reg\<rparr>] else [])
      in if length groups = 0 then Inl (GoError ''no registered recording rule or alert'')
         else Inr groups)"

definition registry_BuildPrometheusRule ::
  "string \<Rightarrow> string \<Rightarrow> string gomap option \<Rightarrow> rules_registry \<Rightarrow> prometheus_rule res" where
  "registry_BuildPrometheusRule nm ns labels reg =
     bindR (buildPrometheusRuleSpec reg) (\<lambda>spec.
       Inr \<lparr>pr_Name = nm, pr_Namespace = ns, pr_Labels = labels, pr_Annotations = None, pr_Groups = spec\<rparr>)"

section \<open>What registration keeps\<close>

text \<open>Every entry sits under the key of its value, and no key occurs twice.\<close>

definition keyed_by :: "('r \<Rightarrow> string) \<Rightarrow> 'r gomap \<Rightarrow> bool" where
  "keyed_by key m \<longleftrightarrow> gomap_ok m \<and> list_all (\<lambda>(k, r). k = key r) m"

definition rules_registry_ok :: "rules_registry \<Rightarrow> bool" where
  "rules_registry_ok reg \<longleftrightarrow>
     keyed_by recording_key (registeredRecordingRules reg) \<and> keyed_by alert_key (registeredAlerts reg)"

lemma keyed_by_Nil [simp]: "keyed_by key []"
  by (simp add: keyed_by_def)

lemma keyed_by_iff: "keyed_by key m \<longleftrightarrow> gomap_ok m \<and> (\<forall>k r. map_of m k = Some r \<longrightarrow> k = key r)"
  by (auto simp: keyed_by_def list_all_iff gomap_mem_iff [symmetric])

lemma keyed_by_upd: "keyed_by key m \<Longrightarrow> keyed_by key (gomap_upd (key r) r m)"
  by (auto simp: keyed_by_iff gomap_ok_upd go_map_simps)

lemma keyed_by_put_all: "keyed_by key m \<Longrightarrow> keyed_by key (put_all key rs m)"
  by (induction key rs m rule: put_all.induct) (auto simp: keyed_by_upd)

lemma rules_registry_ok_New [simp]: "rules_registry_ok NewRegistry"
  by (simp add: rules_registry_ok_def NewRegistry_def)

lemma rules_registry_ok_RegisterRecordingRules: "rules_registry_ok reg \<Longrightarrow> rules_registry_ok (RegisterRecordingRules rs reg)"
  by (simp add: rules_registry_ok_def RegisterRecordingRules_def keyed_by_put_all)

lemma rules_registry_ok_RegisterAlerts: "rules_registry_ok reg \<Longrightarrow> rules_registry_ok (RegisterAlerts as reg)"
  by (simp add: rules_registry_ok_def RegisterAlerts_def keyed_by_put_all)

lemma map_of_put_all:
  "distinct (map key rs) \<Longrightarrow>
   map_of (put_all key rs m) k = (case find (\<lambda>r. key r = k) rs of Some r \<Rightarrow> Some r | None \<Rightarrow> map_of m k)"
proof (induction key rs m rule: put_all.induct)
  case (1 key m)
  show ?case by simp
next
  case (2 key r rs m)
  have "find (\<lambda>q. key q = key r) rs = None"
    using "2.prems" by (auto simp: find_None_iff image_iff)
  with 2 show ?case by (auto simp: go_map_simps split: option.splits)
qed

lemma put_all_fresh:
  "distinct (map key rs) \<Longrightarrow> fst ` set m \<inter> key ` set rs = {} \<Longrightarrow>
   put_all key rs m = m @ map (\<lambda>r. (key r, r)) rs"
proof (induction key rs m rule: put_all.induct)
  case (1 key m)
  show ?case by simp
next
  case (2 key r rs m)
  have "gomap_upd (key r) r m = m @ [(key r, r)]"
    using "2.prems" by (intro gomap_upd_fresh) auto
  moreover have "fst ` set (m @ [(key r, r)]) \<inter> key ` set rs = {}"
    using "2.prems" by auto
  ultimately show ?case
    using "2.IH" "2.prems"(1) by simp
qed

lemma put_all_same: "(\<And>r. r \<in> set rs \<Longrightarrow> map_of m (key r) = Some r) \<Longrightarrow> put_all key rs m = m"
  by (induction key rs m rule: put_all.induct) (auto simp: gomap_upd_same)

lemma find_key: "distinct (map key rs) \<Longrightarrow> r \<in> set rs \<Longrightarrow> find (\<lambda>q. key q = key r) rs = Some r"
  by (induction rs) auto

lemma put_all_idem: "distinct (map key rs) \<Longrightarrow> put_all key rs (put_all key rs m) = put_all key rs m"
  by (rule put_all_same) (simp add: map_of_put_all find_key)

text \<open>
  Keys are distinct when each begins with a head of its own and no head begins another; the heads
  are closed strings, so this is computed.
\<close>

fun apart :: "string \<Rightarrow> string \<Rightarrow> bool" where
  "apart (a # as) (b # bs) = (if a = b then apart as bs else True)"
| "apart as bs = False"

lemma apart_not_prefix: "apart a b \<Longrightarrow> \<not> prefix a b \<and> \<not> prefix b a"
  by (induction a b rule: apart.induct) (auto split: if_splits)

lemma apart_heads: "apart a b \<Longrightarrow> prefix a x \<Longrightarrow> prefix b y \<Longrightarrow> x \<noteq> y"
  using apart_not_prefix prefix_same_cases by blast

lemma distinct_by_heads:
  "sorted_wrt apart (map h rs) \<Longrightarrow> (\<And>r. prefix (h r) (k r)) \<Longrightarrow> distinct (map k rs)"
proof (induction rs)
  case Nil
  show ?case by simp
next
  case (Cons r rs)
  have "k r \<noteq> k q" if "q \<in> set rs" for q
    using Cons.prems that by (intro apart_heads [of "h r" "h q"]) auto
  with Cons show ?case by (auto simp: image_iff)
qed

section \<open>What the listings are\<close>

lemma keyed_by_inj: "keyed_by key m \<Longrightarrow> inj_on key (snd ` set m)"
proof (rule inj_onI)
  fix a b
  assume m: "keyed_by key m" and ab: "a \<in> snd ` set m" "b \<in> snd ` set m" "key a = key b"
  have at: "map_of m (key r) = Some r" if "r \<in> snd ` set m" for r
  proof -
    from that obtain k where kr: "(k, r) \<in> set m" by auto
    note kr
    moreover have "k = key r" using m kr unfolding keyed_by_def list_all_iff by blast
    ultimately show ?thesis using m unfolding keyed_by_def by (simp only: gomap_mem_iff)
  qed
  have "Some a = map_of m (key b)" using at [OF ab(1)] unfolding ab(3) by (rule sym)
  also have "\<dots> = Some b" by (rule at [OF ab(2)])
  finally show "a = b" by (rule option.inject [THEN iffD1])
qed

lemma sort_key_perm: "mset xs = mset ys \<Longrightarrow> inj_on f (set xs) \<Longrightarrow> sort_key f xs = sort_key f ys"
  by (rule sort_key_inj_key_eq) simp_all

text \<open>The listings do not depend on the order in which the language iterates the maps.\<close>

lemma listing_order_free:
  assumes "keyed_by key m" and "mset m = mset m'"
  shows "sort_key key (map snd m) = sort_key key (map snd m')"
  using assms keyed_by_inj [OF assms(1)] by (intro sort_key_perm) (simp_all add: mset_map)

lemma keyed_by_perm: "keyed_by key m \<Longrightarrow> mset m = mset m' \<Longrightarrow> keyed_by key m'"
  unfolding keyed_by_def list_all_iff by (metis gomap_perm_eq mset_eq_setD)

lemma record_key_to_rule [simp]: "record_key (recording_to_rule r) = recording_key r"
  by (simp add: record_key_def recording_to_rule_def recording_key_def)

lemma insort_key_map: "insort_key f (g x) (map g xs) = map g (insort_key (\<lambda>y. f (g y)) x xs)"
  by (induction xs) simp_all

lemma sort_key_map: "sort_key f (map g xs) = map g (sort_key (\<lambda>x. f (g x)) xs)"
  by (induction xs) (simp_all add: insort_key_map)

lemma buildRecordingRulesRules_list:
  "buildRecordingRulesRules reg = map recording_to_rule (ListRecordingRules reg)"
proof -
  have "map (\<lambda>e. recording_to_rule (snd e)) (registeredRecordingRules reg) =
      map recording_to_rule (map snd (registeredRecordingRules reg))"
    by simp
  then show ?thesis
    by (simp only: buildRecordingRulesRules_def ListRecordingRules_def sort_key_map record_key_to_rule)
qed

lemma ListAlerts_Nil_iff: "ListAlerts reg = [] \<longleftrightarrow> registeredAlerts reg = []"
  by (metis ListAlerts_def length_0_conv length_map length_sort)

lemma ListRecordingRules_Nil_iff: "ListRecordingRules reg = [] \<longleftrightarrow> registeredRecordingRules reg = []"
  by (metis ListRecordingRules_def length_0_conv length_map length_sort)

lemma set_ListAlerts: "set (ListAlerts reg) = snd ` set (registeredAlerts reg)"
  by (simp add: ListAlerts_def)

lemma buildPrometheusRuleSpec_list:
  "buildPrometheusRuleSpec reg =
     (if ListRecordingRules reg = [] \<and> ListAlerts reg = []
      then Inl (GoError ''no registered recording rule or alert'')
      else Inr ((if ListRecordingRules reg = [] then []
                 else [\<lparr>g_Name = ''recordingRules.rules'',
                        g_Rules = map recording_to_rule (ListRecordingRules reg)\<rparr>]) @
                (if ListAlerts reg = [] then [] else [\<lparr>g_Name = ''alerts.rules'', g_Rules = ListAlerts reg\<rparr>])))"
  by (simp add: buildPrometheusRuleSpec_def buildRecordingRulesRules_list ListAlerts_Nil_iff
      ListRecordingRules_Nil_iff Let_def)

text \<open>Registering into an empty map lists exactly the rules that were registered.\<close>

lemma listing_of_put_all:
  "distinct (map key rs) \<Longrightarrow> mset (sort_key key (map snd (put_all key rs []))) = mset rs"
  by (simp add: put_all_fresh comp_def)

lemma mset_ListAlerts_Register:
  "registeredAlerts reg = [] \<Longrightarrow> distinct (map alert_key as) \<Longrightarrow>
   mset (ListAlerts (RegisterAlerts [as] reg)) = mset as"
  using listing_of_put_all [of alert_key as] by (simp only: ListAlerts_def RegisterAlerts_def) simp

lemma mset_ListRecordingRules_Register:
  "registeredRecordingRules reg = [] \<Longrightarrow> distinct (map recording_key rs) \<Longrightarrow>
   mset (ListRecordingRules (RegisterRecordingRules [rs] reg)) = mset rs"
  using listing_of_put_all [of recording_key rs] by (simp only: ListRecordingRules_def RegisterRecordingRules_def) simp

lemma sorted_ListAlerts: "sorted (map alert_key (ListAlerts reg))"
  by (simp add: ListAlerts_def)

lemma sorted_ListRecordingRules: "sorted (map recording_key (ListRecordingRules reg))"
  by (simp add: ListRecordingRules_def)

end
