(* ===== verification/Recording_Rules.thy ===== *)
theory Recording_Rules
  imports Rules_Registry
begin

text \<open>
  The recording rules of \<open>pkg/monitoring/rules/recordingrules\<close>: one list per file, in the order of the
  source, the allowlist filter and \<open>Register\<close>. A literal of the source is split with \<open>@\<close> where a line
  would be too long.
\<close>

definition apiRecordingRules :: "recording_rule list" where
  "apiRecordingRules =
   [\<lparr>rr_Name = ''cluster:kubevirt_api_request_deprecated_total:sum'',
     rr_Help = ''The total number of requests to deprecated KubeVirt APIs, by API verb (e.g., LIST, '' @
        ''WATCH).'',
     rr_ConstLabels = None, rr_Type = CounterType,
     rr_Expr = FromString (''group by (group,version,resource,subresource) '' @
        ''(apiserver_requested_deprecated_apis{group=\"kubevirt.io\"}) * '' @
        ''on (group,version,resource,subresource) group_right() '' @
        ''sum by (group,version,resource,subresource,verb) (apiserver_request_total)'')\<rparr>]"

definition nodesRecordingRules :: "recording_rule list" where
  "nodesRecordingRules =
   [\<lparr>rr_Name = ''cluster:kubevirt_non_schedulable_nodes:sum'',
     rr_Help = ''The number of non-schedulable nodes in the cluster.'',
     rr_ConstLabels = None, rr_Type = GaugeType,
     rr_Expr = FromString ''sum (count by (node) (kube_node_role{role=~'arbiter'})) or vector(0)''\<rparr>,
    \<lparr>rr_Name = ''cluster:kubevirt_nodes_allocatable:count'',
     rr_Help = ''The number of allocatable nodes in the cluster.'',
     rr_ConstLabels = None, rr_Type = GaugeType,
     rr_Expr = FromString (''count(count (kube_node_status_allocatable) by (node)) - '' @
        ''cluster:kubevirt_non_schedulable_nodes:sum'')\<rparr>,
    \<lparr>rr_Name = ''cluster:kubevirt_nodes_with_kvm:count'',
     rr_Help = ''The number of nodes in the cluster that have the devices.kubevirt.io/kvm resource '' @
        ''available.'',
     rr_ConstLabels = None, rr_Type = GaugeType,
     rr_Expr = FromString (''count(kube_node_status_allocatable{resource=\"devices_kubevirt_io_kvm\"} != 0) or '' @
        ''vector(0)'')\<rparr>]"

definition operatorRecordingRules :: "recording_rule list" where
  "operatorRecordingRules =
   [\<lparr>rr_Name = ''container:kubevirt_memory_delta_from_requested_bytes:max'',
     rr_Help = ''The delta between the pod with highest memory working set or rss and its requested '' @
        ''memory '' @ ''for each container, virt-controller, virt-handler, virt-api, virt-operator and '' @
        ''compute(virt-launcher).'',
     rr_ConstLabels = Some [(''reason'', ''memory_working_set_delta_from_request'')], rr_Type = GaugeType,
     rr_Expr = FromString (''topk by(container)(1,max by(container, namespace, node, pod)'' @
        ''(container_memory_working_set_bytes{container=~\"virt-controller|virt-api|virt-handler|'' @
        ''virt-operator|compute\", pod=~\"virt-.*\"} - '' @ ''on(pod) group_left(node) '' @
        ''(kube_pod_container_resource_requests{'' @
        ''container=~\"virt-controller|virt-api|virt-handler|virt-operator|compute\",'' @
        ''resource=\"memory\"'' @ ''})))'')\<rparr>,
    \<lparr>rr_Name = ''container:kubevirt_memory_delta_from_requested_bytes:max'',
     rr_Help = ''The delta between the pod with highest memory working set or rss and its requested '' @
        ''memory '' @ ''for each container, virt-controller, virt-handler, virt-api, virt-operator and '' @
        ''compute(virt-launcher).'',
     rr_ConstLabels = Some [(''reason'', ''memory_rss_delta_from_request'')], rr_Type = GaugeType,
     rr_Expr = FromString (''topk by(container)(1,max by(container, namespace, node, pod)'' @
        ''(container_memory_rss{container=~\"virt-controller|virt-api|virt-handler|'' @
        ''virt-operator|compute\", pod=~\"virt-.*\"} - '' @ ''on(pod) group_left(node) '' @
        ''(kube_pod_container_resource_requests{'' @
        ''container=~\"virt-controller|virt-api|virt-handler|virt-operator|compute\",'' @
        ''resource=\"memory\"'' @ ''})))'')\<rparr>]"

definition virtRecordingRules :: "string \<Rightarrow> recording_rule list" where
  "virtRecordingRules namespace =
   [\<lparr>rr_Name = ''cluster:kubevirt_virt_api_up:sum'',
     rr_Help = ''The number of virt-api pods that are up.'',
     rr_ConstLabels = None, rr_Type = GaugeType,
     rr_Expr = FromString (sprintf ''sum(up{namespace='%s', pod=~'virt-api-.*'}) or vector(0)'' [FStr namespace])\<rparr>,
    \<lparr>rr_Name = ''cluster:kubevirt_virt_controller_pods_running:count'',
     rr_Help = ''The number of virt-controller pods that are running.'',
     rr_ConstLabels = None, rr_Type = GaugeType,
     rr_Expr = FromString (sprintf (''count(kube_pod_status_phase{pod=~'virt-controller-.*', namespace='%s', '' @
        ''phase='Running'} == 1) or vector(0)'') [FStr namespace])\<rparr>,
    \<lparr>rr_Name = ''cluster:kubevirt_virt_controller_up:sum'',
     rr_Help = ''The number of virt-controller pods that are up.'',
     rr_ConstLabels = None, rr_Type = GaugeType,
     rr_Expr = FromString (sprintf ''sum(up{pod=~'virt-controller-.*', namespace='%s'}) or vector(0)'' [FStr namespace])\<rparr>,
    \<lparr>rr_Name = ''cluster:kubevirt_virt_controller_ready:sum'',
     rr_Help = ''The number of virt-controller pods that are ready.'',
     rr_ConstLabels = None, rr_Type = GaugeType,
     rr_Expr = FromString (sprintf (''sum(kube_pod_status_ready{pod=~'virt-controller-.*', namespace='%s', '' @
        ''condition='true'} * '' @
        '' on(pod, namespace) kubevirt_virt_controller_ready_status{namespace='%s'}) or vector(0)'') [FStr namespace, FStr namespace])\<rparr>,
    \<lparr>rr_Name = ''cluster:kubevirt_virt_operator_up:sum'',
     rr_Help = ''The number of virt-operator pods that are up.'',
     rr_ConstLabels = None, rr_Type = GaugeType,
     rr_Expr = FromString (sprintf ''sum(up{namespace='%s', pod=~'virt-operator-.*'}) or vector(0)'' [FStr namespace])\<rparr>,
    \<lparr>rr_Name = ''cluster:kubevirt_virt_operator_pods_running:count'',
     rr_Help = ''The number of virt-operator pods that are running.'',
     rr_ConstLabels = None, rr_Type = GaugeType,
     rr_Expr = FromString (sprintf (''count(kube_pod_status_phase{pod=~'virt-operator-.*', namespace='%s', '' @
        ''phase='Running'} == 1) or vector(0)'') [FStr namespace])\<rparr>,
    \<lparr>rr_Name = ''cluster:kubevirt_virt_operator_ready:sum'',
     rr_Help = ''The number of virt-operator pods that are ready.'',
     rr_ConstLabels = None, rr_Type = GaugeType,
     rr_Expr = FromString (sprintf (''sum(kube_pod_status_ready{pod=~'virt-operator-.*', condition='true', namespace='%s'} * '' @
        ''on (pod) kubevirt_virt_operator_ready_status{namespace='%s'}) or vector(0)'') [FStr namespace, FStr namespace])\<rparr>,
    \<lparr>rr_Name = ''cluster:kubevirt_virt_operator_leading:sum'',
     rr_Help = ''The number of virt-operator pods that are leading.'',
     rr_ConstLabels = None, rr_Type = GaugeType,
     rr_Expr = FromString (sprintf ''sum(kubevirt_virt_operator_leading_status{namespace='%s'})'' [FStr namespace])\<rparr>,
    \<lparr>rr_Name = ''cluster:kubevirt_virt_handler_up:sum'',
     rr_Help = ''The number of virt-handler pods that are up.'',
     rr_ConstLabels = None, rr_Type = GaugeType,
     rr_Expr = FromString (sprintf ''sum(up{pod=~'virt-handler-.*', namespace='%s'}) or vector(0)'' [FStr namespace])\<rparr>]"

definition vmRecordingRules :: "recording_rule list" where
  "vmRecordingRules =
   [\<lparr>rr_Name = ''pod_container:kubevirt_vm_memory_request_margin_based_on_working_set_bytes:sum'',
     rr_Help = ''Difference between requested memory and working set for VM containers (request margin). '' @
        ''Can be negative when usage exceeds request.'',
     rr_ConstLabels = None, rr_Type = GaugeType,
     rr_Expr = FromString (''sum by(pod, container, namespace) '' @
        ''(kube_pod_container_resource_requests{pod=~'virt-launcher-.*', container='compute', '' @
        ''resource='memory'} - '' @ ''on(pod,container, namespace) '' @
        ''max by(pod, container, namespace) '' @
        ''(container_memory_working_set_bytes{pod=~'virt-launcher-.*', container='compute'}))'')\<rparr>,
    \<lparr>rr_Name = ''pod_container:kubevirt_vm_memory_request_margin_based_on_rss_bytes:sum'',
     rr_Help = ''Difference between requested memory and rss for VM containers (request margin). '' @
        ''Can be negative when usage exceeds request.'',
     rr_ConstLabels = None, rr_Type = GaugeType,
     rr_Expr = FromString (''sum by(pod, container, namespace) '' @
        ''(kube_pod_container_resource_requests{pod=~'virt-launcher-.*', container='compute', '' @
        ''resource='memory'} - '' @ ''on(pod,container, namespace) '' @
        ''container_memory_rss{pod=~'virt-launcher-.*', container='compute'})'')\<rparr>,
    \<lparr>rr_Name = ''namespace:kubevirt_vm:sum'',
     rr_Help = ''The number of VMs in the cluster by namespace.'',
     rr_ConstLabels = None, rr_Type = GaugeType,
     rr_Expr = FromString ''sum by (namespace) (count by (name, namespace) (kubevirt_vm_info))''\<rparr>]"

definition vmiRecordingRules :: "recording_rule list" where
  "vmiRecordingRules =
   [\<lparr>rr_Name = ''node:kubevirt_vmi_phase:sum'',
     rr_Help = ''Sum of VMIs per phase and node. `phase` can be one of the following: '' @
        ''[`Pending`, `Scheduling`, `Scheduled`, `Running`, `Succeeded`, `Failed`, `Unknown`].'',
     rr_ConstLabels = None, rr_Type = GaugeType,
     rr_Expr = FromString (''sum by '' @ ''(node, phase, os, workload, flavor, instance_type, preference, '' @
        ''guest_os_kernel_release, guest_os_machine, guest_os_arch, guest_os_name, '' @
        ''guest_os_version_id) '' @ ''(kubevirt_vmi_info)'')\<rparr>,
    \<lparr>rr_Name = ''vmi:kubevirt_vmi_memory_used_bytes:sum'',
     rr_Help = ''Amount of `used` memory as seen by the domain.'',
     rr_ConstLabels = None, rr_Type = GaugeType,
     rr_Expr = FromString ''kubevirt_vmi_memory_available_bytes-kubevirt_vmi_memory_usable_bytes''\<rparr>,
    \<lparr>rr_Name = ''vmi:kubevirt_vmi_vcpu:count'',
     rr_Help = ''The number of the VMI vCPUs.'',
     rr_ConstLabels = None, rr_Type = GaugeType,
     rr_Expr = FromString ''count by (namespace, name, node) (kubevirt_vmi_vcpu_seconds_total)''\<rparr>,
    \<lparr>rr_Name = ''vmi:kubevirt_vmi_guest_queue_length:sum'',
     rr_Help = ''Guest queue length.'',
     rr_ConstLabels = None, rr_Type = GaugeType,
     rr_Expr = FromString (''sum by (name, namespace) (clamp_min(kubevirt_vmi_guest_load_1m - '' @
        ''vmi:kubevirt_vmi_vcpu:count, 0))'')\<rparr>,
    \<lparr>rr_Name = ''vmi:kubevirt_vmi_memory_headroom_ratio:sum'',
     rr_Help = ''Usable memory to available memory ratio per VMI (aggregated by name, namespace).'',
     rr_ConstLabels = None, rr_Type = GaugeType,
     rr_Expr = FromString (''sum by (name, namespace) (kubevirt_vmi_memory_usable_bytes) / '' @
        ''sum by (name, namespace) (kubevirt_vmi_memory_available_bytes)'')\<rparr>,
    \<lparr>rr_Name = ''vmi:kubevirt_vmi_pgmajfaults:rate5m'',
     rr_Help = ''Rate of major page faults over 5 minutes per VMI (aggregated by name, namespace).'',
     rr_ConstLabels = None, rr_Type = GaugeType,
     rr_Expr = FromString ''sum by (name, namespace) (rate(kubevirt_vmi_memory_pgmajfault_total[5m]))''\<rparr>,
    \<lparr>rr_Name = ''vmi:kubevirt_vmi_swap_traffic_bytes:rate5m'',
     rr_Help = ''Total swap I/O traffic rate over 5 minutes per VMI (swap in + swap out, aggregated '' @
        ''by name, namespace).'',
     rr_ConstLabels = None, rr_Type = GaugeType,
     rr_Expr = FromString (''sum by (name, namespace) (rate(kubevirt_vmi_memory_swap_in_traffic_bytes[5m])) + '' @
        ''sum by (name, namespace) (rate(kubevirt_vmi_memory_swap_out_traffic_bytes[5m]))'')\<rparr>,
    \<lparr>rr_Name = ''vmi:kubevirt_vmi_memory_available_bytes:sum'',
     rr_Help = ''Sum of available memory bytes per VMI (aggregated by name, namespace).'',
     rr_ConstLabels = None, rr_Type = GaugeType,
     rr_Expr = FromString ''sum by (name, namespace) (kubevirt_vmi_memory_available_bytes)''\<rparr>,
    \<lparr>rr_Name = ''vmi:kubevirt_vmi_pgmajfaults:rate30m'',
     rr_Help = ''Rate of major page faults over 30 minutes per VMI (aggregated by name, namespace).'',
     rr_ConstLabels = None, rr_Type = GaugeType,
     rr_Expr = FromString ''sum by (name, namespace) (rate(kubevirt_vmi_memory_pgmajfault_total[30m]))''\<rparr>,
    \<lparr>rr_Name = ''vmi:kubevirt_vmi_swap_traffic_bytes:rate30m'',
     rr_Help = ''Total swap I/O traffic rate over 30 minutes per VMI (swap in + swap out, aggregated '' @
        ''by name, namespace).'',
     rr_ConstLabels = None, rr_Type = GaugeType,
     rr_Expr = FromString (''sum by (name, namespace) (rate(kubevirt_vmi_memory_swap_in_traffic_bytes[30m])) + '' @
        '' sum by (name, namespace) (rate(kubevirt_vmi_memory_swap_out_traffic_bytes[30m]))'')\<rparr>]"

definition vmsnapshotRecordingRules :: "recording_rule list" where
  "vmsnapshotRecordingRules =
   [\<lparr>rr_Name = ''pvc:kubevirt_vmsnapshot_labels:info'',
     rr_Help = ''Returns the labels of the persistent volume claims that are used for restoring '' @
        ''virtual machines.'',
     rr_ConstLabels = None, rr_Type = GaugeType,
     rr_Expr = FromString (''label_replace(label_replace('' @ ''kube_persistentvolumeclaim_labels'' @
        ''{label_restore_kubevirt_io_source_vm_name!='' @ [CHR 0x27, CHR 0x27] @
        '', label_restore_kubevirt_io_source_vm_namespace!='' @ [CHR 0x27, CHR 0x27] @ ''} == 1,'' @
        [CHR 0x27] @ ''vm_namespace', '$1', 'label_restore_kubevirt_io_source_vm_namespace', '(.*)'), '' @
        [CHR 0x27] @ ''vm_name', '$1', 'label_restore_kubevirt_io_source_vm_name', '(.*)')'')\<rparr>,
    \<lparr>rr_Name = ''vm:kubevirt_vmsnapshot_disks_restored:sum'',
     rr_Help = ''Returns the total number of virtual machine disks restored from the source virtual '' @
        ''machine.'',
     rr_ConstLabels = None, rr_Type = GaugeType,
     rr_Expr = FromString ''sum by(vm_name, vm_namespace) (pvc:kubevirt_vmsnapshot_labels:info)''\<rparr>,
    \<lparr>rr_Name = ''vm:kubevirt_vmsnapshot_restored_bytes:sum'',
     rr_Help = ''Returns the amount of space in bytes restored from the source virtual machine.'',
     rr_ConstLabels = None, rr_Type = GaugeType,
     rr_Expr = FromString (''sum by(vm_name, vm_namespace) (kube_persistentvolumeclaim_resource_requests_storage_'' @
        ''bytes * '' @ ''on(persistentvolumeclaim, namespace) group_left(vm_name, vm_namespace) '' @
        ''pvc:kubevirt_vmsnapshot_labels:info)'')\<rparr>]"

definition deprecatedResourceRules :: "recording_rule list" where
  "deprecatedResourceRules =
   [\<lparr>rr_Name = ''kubevirt_allocatable_nodes'',
     rr_Help = ''[Deprecated] Replaced by cluster:kubevirt_nodes_allocatable:count.'',
     rr_ConstLabels = None, rr_Type = GaugeType,
     rr_Expr = FromString ''cluster:kubevirt_nodes_allocatable:count''\<rparr>,
    \<lparr>rr_Name = ''kubevirt_nodes_with_kvm'',
     rr_Help = ''[Deprecated] Replaced by cluster:kubevirt_nodes_with_kvm:count.'',
     rr_ConstLabels = None, rr_Type = GaugeType,
     rr_Expr = FromString ''cluster:kubevirt_nodes_with_kvm:count''\<rparr>,
    \<lparr>rr_Name = ''kubevirt_api_request_deprecated_total'',
     rr_Help = ''[Deprecated] Replaced by cluster:kubevirt_api_request_deprecated_total:sum.'',
     rr_ConstLabels = None, rr_Type = CounterType,
     rr_Expr = FromString ''cluster:kubevirt_api_request_deprecated_total:sum''\<rparr>,
    \<lparr>rr_Name = ''kubevirt_number_of_vms'',
     rr_Help = ''[Deprecated] Replaced by namespace:kubevirt_vm:sum.'',
     rr_ConstLabels = None, rr_Type = GaugeType,
     rr_Expr = FromString ''namespace:kubevirt_vm:sum''\<rparr>,
    \<lparr>rr_Name = ''kubevirt_vm_container_memory_request_margin_based_on_rss_bytes'',
     rr_Help = ''[Deprecated] Replaced by pod_container:kubevirt_vm_memory_request_margin_based_on_rs'' @
        ''s_bytes:sum.'',
     rr_ConstLabels = None, rr_Type = GaugeType,
     rr_Expr = FromString ''pod_container:kubevirt_vm_memory_request_margin_based_on_rss_bytes:sum''\<rparr>,
    \<lparr>rr_Name = ''kubevirt_vm_container_memory_request_margin_based_on_working_set_bytes'',
     rr_Help = ''[Deprecated] Replaced by pod_container:kubevirt_vm_memory_request_margin_based_on_wo'' @
        ''rking_set_bytes:sum.'',
     rr_ConstLabels = None, rr_Type = GaugeType,
     rr_Expr = FromString ''pod_container:kubevirt_vm_memory_request_margin_based_on_working_set_bytes:sum''\<rparr>,
    \<lparr>rr_Name = ''kubevirt_vm_created_total'',
     rr_Help = ''[Deprecated] The total number of VMs created by namespace, since install.'',
     rr_ConstLabels = None, rr_Type = CounterType,
     rr_Expr = FromString ''sum by (namespace) (kubevirt_vm_created_by_pod_total)''\<rparr>,
    \<lparr>rr_Name = ''kubevirt_vmi_guest_vcpu_queue'',
     rr_Help = ''[Deprecated] Replaced by vmi:kubevirt_vmi_guest_queue_length:sum.'',
     rr_ConstLabels = None, rr_Type = GaugeType,
     rr_Expr = FromString ''vmi:kubevirt_vmi_guest_queue_length:sum''\<rparr>,
    \<lparr>rr_Name = ''kubevirt_vmi_memory_used_bytes'',
     rr_Help = ''[Deprecated] Replaced by vmi:kubevirt_vmi_memory_used_bytes:sum.'',
     rr_ConstLabels = None, rr_Type = GaugeType,
     rr_Expr = FromString ''vmi:kubevirt_vmi_memory_used_bytes:sum''\<rparr>,
    \<lparr>rr_Name = ''kubevirt_vmi_phase_count'',
     rr_Help = ''[Deprecated] Replaced by node:kubevirt_vmi_phase:sum.'',
     rr_ConstLabels = None, rr_Type = GaugeType,
     rr_Expr = FromString ''node:kubevirt_vmi_phase:sum''\<rparr>,
    \<lparr>rr_Name = ''kubevirt_vmi_migration_data_total_bytes'',
     rr_Help = ''[Deprecated] Replaced by kubevirt_vmi_migration_data_bytes_total.'',
     rr_ConstLabels = None, rr_Type = CounterType,
     rr_Expr = FromString ''kubevirt_vmi_migration_data_bytes_total''\<rparr>]"

definition deprecatedComponentRules :: "recording_rule list" where
  "deprecatedComponentRules =
   [\<lparr>rr_Name = ''kubevirt_virt_api_up'',
     rr_Help = ''[Deprecated] Replaced by cluster:kubevirt_virt_api_up:sum.'',
     rr_ConstLabels = None, rr_Type = GaugeType,
     rr_Expr = FromString ''cluster:kubevirt_virt_api_up:sum''\<rparr>,
    \<lparr>rr_Name = ''kubevirt_virt_controller_up'',
     rr_Help = ''[Deprecated] Replaced by cluster:kubevirt_virt_controller_up:sum.'',
     rr_ConstLabels = None, rr_Type = GaugeType,
     rr_Expr = FromString ''cluster:kubevirt_virt_controller_up:sum''\<rparr>,
    \<lparr>rr_Name = ''kubevirt_virt_controller_ready'',
     rr_Help = ''[Deprecated] Replaced by cluster:kubevirt_virt_controller_ready:sum.'',
     rr_ConstLabels = None, rr_Type = GaugeType,
     rr_Expr = FromString ''cluster:kubevirt_virt_controller_ready:sum''\<rparr>,
    \<lparr>rr_Name = ''kubevirt_virt_operator_up'',
     rr_Help = ''[Deprecated] Replaced by cluster:kubevirt_virt_operator_up:sum.'',
     rr_ConstLabels = None, rr_Type = GaugeType,
     rr_Expr = FromString ''cluster:kubevirt_virt_operator_up:sum''\<rparr>,
    \<lparr>rr_Name = ''kubevirt_virt_operator_ready'',
     rr_Help = ''[Deprecated] Replaced by cluster:kubevirt_virt_operator_ready:sum.'',
     rr_ConstLabels = None, rr_Type = GaugeType,
     rr_Expr = FromString ''cluster:kubevirt_virt_operator_ready:sum''\<rparr>,
    \<lparr>rr_Name = ''kubevirt_virt_operator_leading'',
     rr_Help = ''[Deprecated] Replaced by cluster:kubevirt_virt_operator_leading:sum.'',
     rr_ConstLabels = None, rr_Type = GaugeType,
     rr_Expr = FromString ''cluster:kubevirt_virt_operator_leading:sum''\<rparr>,
    \<lparr>rr_Name = ''kubevirt_virt_handler_up'',
     rr_Help = ''[Deprecated] Replaced by cluster:kubevirt_virt_handler_up:sum.'',
     rr_ConstLabels = None, rr_Type = GaugeType,
     rr_Expr = FromString ''cluster:kubevirt_virt_handler_up:sum''\<rparr>,
    \<lparr>rr_Name = ''kubevirt_vmsnapshot_persistentvolumeclaim_labels'',
     rr_Help = ''[Deprecated] Replaced by pvc:kubevirt_vmsnapshot_labels:info.'',
     rr_ConstLabels = None, rr_Type = GaugeType,
     rr_Expr = FromString ''pvc:kubevirt_vmsnapshot_labels:info''\<rparr>,
    \<lparr>rr_Name = ''kubevirt_vmsnapshot_disks_restored_from_source'',
     rr_Help = ''[Deprecated] Replaced by vm:kubevirt_vmsnapshot_disks_restored:sum.'',
     rr_ConstLabels = None, rr_Type = GaugeType,
     rr_Expr = FromString ''vm:kubevirt_vmsnapshot_disks_restored:sum''\<rparr>,
    \<lparr>rr_Name = ''kubevirt_vmsnapshot_disks_restored_from_source_bytes'',
     rr_Help = ''[Deprecated] Replaced by vm:kubevirt_vmsnapshot_restored_bytes:sum.'',
     rr_ConstLabels = None, rr_Type = GaugeType,
     rr_Expr = FromString ''vm:kubevirt_vmsnapshot_restored_bytes:sum''\<rparr>,
    \<lparr>rr_Name = ''kubevirt_memory_delta_from_requested_bytes'',
     rr_Help = ''[Deprecated] Replaced by container:kubevirt_memory_delta_from_requested_bytes:max.'',
     rr_ConstLabels = None, rr_Type = GaugeType,
     rr_Expr = FromString ''container:kubevirt_memory_delta_from_requested_bytes:max''\<rparr>]"

text \<open>The list of the source, in two parts.\<close>

definition deprecatedRecordingRules :: "recording_rule list" where
  "deprecatedRecordingRules = deprecatedResourceRules @ deprecatedComponentRules"

fun filterRecordingRules :: "recording_rule list \<Rightarrow> bool gomap \<Rightarrow> recording_rule list" where
  "filterRecordingRules [] allowlist = []"
| "filterRecordingRules (r # rs) allowlist =
     (if bool_at allowlist (rr_Name r) then r # filterRecordingRules rs allowlist
      else filterRecordingRules rs allowlist)"

definition allRecordingRules :: "string \<Rightarrow> recording_rule list list" where
  "allRecordingRules namespace =
     [apiRecordingRules, nodesRecordingRules, operatorRecordingRules, virtRecordingRules namespace,
      vmRecordingRules, vmiRecordingRules, vmsnapshotRecordingRules, deprecatedRecordingRules]"

text \<open>\<open>recordingrules.Register\<close>; a nil allowlist selects every rule.\<close>

definition recordingrules_Register ::
  "rules_registry \<Rightarrow> string \<Rightarrow> bool gomap option \<Rightarrow> rules_registry" where
  "recordingrules_Register registry namespace allowlist =
     (let allRules = allRecordingRules namespace;
          chosen = (case allowlist of None \<Rightarrow> allRules
                    | Some allow \<Rightarrow> map (\<lambda>rs. filterRecordingRules rs allow) allRules)
      in RegisterRecordingRules chosen registry)"


lemmas recording_rule_defs =
  apiRecordingRules_def nodesRecordingRules_def operatorRecordingRules_def virtRecordingRules_def
  vmRecordingRules_def vmiRecordingRules_def vmsnapshotRecordingRules_def deprecatedRecordingRules_def
  deprecatedResourceRules_def deprecatedComponentRules_def

section \<open>The selected rules\<close>

definition recording_selected :: "bool gomap option \<Rightarrow> recording_rule \<Rightarrow> bool" where
  "recording_selected allowlist r = (case allowlist of None \<Rightarrow> True | Some allow \<Rightarrow> bool_at allow (rr_Name r))"

lemma filterRecordingRules_eq: "filterRecordingRules rs allow = filter (\<lambda>r. bool_at allow (rr_Name r)) rs"
  by (induction rs) simp_all

lemma recording_selected_simps:
  "recording_selected None r"
  "recording_selected (Some allow) = (\<lambda>r. bool_at allow (rr_Name r))"
  by (simp_all add: recording_selected_def fun_eq_iff)

lemma recordingrules_Register_eq:
  "recordingrules_Register reg ns allowlist =
     RegisterRecordingRules [filter (recording_selected allowlist) (concat (allRecordingRules ns))] reg"
  by (cases allowlist)
     (simp_all add: filter_concat [symmetric] recordingrules_Register_def RegisterRecordingRules_def recording_selected_simps
        filterRecordingRules_eq)

text \<open>Only one name is declared twice; its two rules carry a constant label and a closed expression.\<close>

definition recording_head :: "recording_rule \<Rightarrow> string" where
  "recording_head r = (if rr_ConstLabels r = None then rr_Name r @ '':'' else recording_key r)"

lemma recording_head_prefix: "prefix (recording_head r) (recording_key r)"
  by (simp add: recording_head_def recording_key_def)

lemma recording_heads_ns:
  "map recording_head (concat (allRecordingRules ns)) = map recording_head (concat (allRecordingRules ''''))"
proof -
  have "map recording_head (virtRecordingRules ns) = map recording_head (virtRecordingRules '''')"
    by (simp add: recording_head_def virtRecordingRules_def)
  then show ?thesis by (simp add: allRecordingRules_def)
qed

lemma recording_heads_apart: "sorted_wrt apart (map recording_head (concat (allRecordingRules '''')))"
  by code_simp

lemma recording_keys_distinct: "distinct (map recording_key (concat (allRecordingRules ns)))"
  by (rule distinct_by_heads [where h = recording_head])
     (simp_all only: recording_heads_ns [of ns] recording_heads_apart recording_head_prefix)

end
