(* ===== verification/Alerts.thy ===== *)
theory Alerts
  imports Rules_Registry
begin

text \<open>
  The alerts of \<open>pkg/monitoring/rules/alerts\<close>: one list per file, in the order of the source, the
  allowlist filter, the runbook template with its panic, and \<open>Register\<close>, which writes the common
  labels into the alerts' own maps. \<open>vmsAlerts\<close> is a package variable whose maps are changed in
  place, so its value is threaded through \<open>Register\<close>; the other lists are rebuilt by every call.
\<close>

section \<open>Names\<close>

definition prometheusRunbookAnnotationKey :: string where
  "prometheusRunbookAnnotationKey = ''runbook_url''"

definition defaultRunbookURLTemplate :: string where
  "defaultRunbookURLTemplate = ''https://kubevirt.io/monitoring/runbooks/%s''"

definition severityAlertLabelKey :: string where
  "severityAlertLabelKey = ''severity''"

definition operatorHealthImpactLabelKey :: string where
  "operatorHealthImpactLabelKey = ''operator_health_impact''"

definition summaryAnnotationKey :: string where
  "summaryAnnotationKey = ''summary''"

definition descriptionAnnotationKey :: string where
  "descriptionAnnotationKey = ''description''"

definition partOfAlertLabelKey :: string where
  "partOfAlertLabelKey = ''kubernetes_operator_part_of''"

definition componentAlertLabelKey :: string where
  "componentAlertLabelKey = ''kubernetes_operator_component''"

definition kubevirtLabelValue :: string where
  "kubevirtLabelValue = ''kubevirt''"

definition eightyPercent :: int where
  "eightyPercent = 80"

definition fiveMinutes :: int where
  "fiveMinutes = 5"

lemmas alert_names =
  prometheusRunbookAnnotationKey_def severityAlertLabelKey_def operatorHealthImpactLabelKey_def
  summaryAnnotationKey_def descriptionAnnotationKey_def partOfAlertLabelKey_def
  componentAlertLabelKey_def kubevirtLabelValue_def

section \<open>Shared expressions\<close>

definition getErrorRatio :: "string \<Rightarrow> string \<Rightarrow> string" where
  "getErrorRatio ns podName =
     (let errorCodeRegex = ''(4|5)[0-9][0-9]'';
          errorRatioQuery = ''sum ( rate ( kubevirt_rest_client_requests_total'' @
            ''{namespace=\"%s\",pod=~\"%s-.*\",code=~\"%s\"} [%dm] ) )  / '' @
            '' sum ( rate ( kubevirt_rest_client_requests_total'' @
            ''{namespace=\"%s\",pod=~\"%s-.*\"} [%dm] ) )''
      in sprintf errorRatioQuery
           [FStr ns, FStr podName, FStr errorCodeRegex, FInt fiveMinutes,
            FStr ns, FStr podName, FInt fiveMinutes])"

definition getRestCallsFailedWarning :: "string \<Rightarrow> string" where
  "getRestCallsFailedWarning component =
     (let duration = sprintf ''%d minutes'' [FInt fiveMinutes];
          failingCallsPercentage = eightyPercent;
          restCallsFailWarningTemplate = ''More than %d%% of the rest calls failed in %s for the last %s''
      in sprintf restCallsFailWarningTemplate [FInt failingCallsPercentage, FStr component, FStr duration])"

section \<open>The alerts of each file\<close>

definition systemAlerts :: "string \<Rightarrow> rule list" where
  "systemAlerts namespace =
   [\<lparr>Record = '''', Alert = ''LowKVMNodesCount'',
     Expr = FromString (''(cluster:kubevirt_nodes_allocatable:count > 1) and '' @
        ''(cluster:kubevirt_nodes_with_kvm:count < 2)''),
     For = Some ''5m'',
     Labels = Some [(severityAlertLabelKey, ''warning''),
      (operatorHealthImpactLabelKey, ''warning'')],
     Annotations = Some [(descriptionAnnotationKey, ''Low number of nodes with KVM resource available.''),
      (summaryAnnotationKey, ''At least two nodes with kvm resource required for '' @ ''VM live migration.'')]\<rparr>,
    \<lparr>Record = '''', Alert = ''KubeVirtNoAvailableNodesToRunVMs'',
     Expr = FromString (''((cluster:kubevirt_nodes_with_kvm:count or on() vector(0)) == 0 '' @
        '' and (sum(kubevirt_configuration_emulation_enabled) or on() vector(0)) == 0) '' @
        '' or (sum(kube_node_labels{label_kubevirt_io_schedulable='true'} '' @
        ''* on(node) group_left() (1 - kube_node_spec_unschedulable)) '' @ '' or on() vector(0)) == 0''),
     For = Some ''5m'',
     Labels = Some [(severityAlertLabelKey, ''warning''),
      (operatorHealthImpactLabelKey, ''critical'')],
     Annotations = Some [(summaryAnnotationKey, ''There are no available nodes in the cluster to run VMs.'')]\<rparr>]"

definition virtAPIAlerts :: "string \<Rightarrow> rule list" where
  "virtAPIAlerts namespace =
   [\<lparr>Record = '''', Alert = ''VirtAPIDown'',
     Expr = FromString ''cluster:kubevirt_virt_api_up:sum == 0'',
     For = Some ''10m'',
     Labels = Some [(severityAlertLabelKey, ''critical''),
      (operatorHealthImpactLabelKey, ''critical'')],
     Annotations = Some [(summaryAnnotationKey, ''All virt-api servers are down.'')]\<rparr>,
    \<lparr>Record = '''', Alert = ''LowVirtAPICount'',
     Expr = FromString (sprintf (''cluster:kubevirt_virt_api_up:sum / on() '' @
        ''kube_deployment_spec_replicas{deployment='virt-api', namespace='%s'} < 0.75'') [FStr namespace]),
     For = Some ''60m'',
     Labels = Some [(severityAlertLabelKey, ''warning''),
      (operatorHealthImpactLabelKey, ''warning'')],
     Annotations = Some [(summaryAnnotationKey, ''Less than 75% of desired virt-api pods are running.'')]\<rparr>,
    \<lparr>Record = '''', Alert = ''VirtApiRESTErrorsBurst'',
     Expr = FromString (getErrorRatio namespace ''virt-api'' @ '' >= 0.8''),
     For = Some ''5m'',
     Labels = Some [(severityAlertLabelKey, ''critical''),
      (operatorHealthImpactLabelKey, ''critical'')],
     Annotations = Some [(summaryAnnotationKey, getRestCallsFailedWarning ''virt-api'')]\<rparr>,
    \<lparr>Record = '''', Alert = ''KubeVirtDeprecatedAPIRequested'',
     Expr = FromString (''sum by (resource,group,version) ('' @
        ''(round(increase(cluster:kubevirt_api_request_deprecated_total:sum{verb!~\"LIST|WATCH|'' @
        ''DELETE\"}[10m])) > 0 and '' @
        '' cluster:kubevirt_api_request_deprecated_total:sum{verb!~\"LIST|WATCH|DELETE\"} '' @
        ''offset 10m) or '' @
        '' (cluster:kubevirt_api_request_deprecated_total:sum{verb!~\"LIST|WATCH|DELETE\"} != 0 '' @
        '' unless cluster:kubevirt_api_request_deprecated_total:sum{verb!~\"LIST|WATCH|DELETE\"}'' @
        '' offset 10m))''),
     For = None,
     Labels = Some [(severityAlertLabelKey, ''info''),
      (operatorHealthImpactLabelKey, ''none'')],
     Annotations = Some [(descriptionAnnotationKey, ''Detected requests to the deprecated {{ $labels.resource }}.{{ $labels.group }}/{{ '' @
        ''$labels.version }} API.''),
      (summaryAnnotationKey, ''Detected {{ $value }} requests in the last 10 minutes.'')]\<rparr>]"

definition virtControllerAlerts :: "string \<Rightarrow> rule list" where
  "virtControllerAlerts namespace =
   [\<lparr>Record = '''', Alert = ''LowReadyVirtControllersCount'',
     Expr = FromString (''cluster:kubevirt_virt_controller_ready:sum < '' @
        ''cluster:kubevirt_virt_controller_pods_running:count''),
     For = Some ''10m'',
     Labels = Some [(severityAlertLabelKey, ''warning''),
      (operatorHealthImpactLabelKey, ''warning'')],
     Annotations = Some [(summaryAnnotationKey, ''Some virt controllers are running but not ready.'')]\<rparr>,
    \<lparr>Record = '''', Alert = ''NoReadyVirtController'',
     Expr = FromString ''cluster:kubevirt_virt_controller_ready:sum == 0'',
     For = Some ''10m'',
     Labels = Some [(severityAlertLabelKey, ''critical''),
      (operatorHealthImpactLabelKey, ''critical'')],
     Annotations = Some [(summaryAnnotationKey, ''No ready virt-controller was detected for the last 10 min.'')]\<rparr>,
    \<lparr>Record = '''', Alert = ''VirtControllerDown'',
     Expr = FromString ''cluster:kubevirt_virt_controller_pods_running:count == 0'',
     For = Some ''10m'',
     Labels = Some [(severityAlertLabelKey, ''critical''),
      (operatorHealthImpactLabelKey, ''critical'')],
     Annotations = Some [(summaryAnnotationKey, ''No running virt-controller was detected for the last 10 min.'')]\<rparr>,
    \<lparr>Record = '''', Alert = ''LowVirtControllersCount'',
     Expr = FromString (sprintf (''cluster:kubevirt_virt_controller_up:sum / on() '' @
        ''kube_deployment_spec_replicas{deployment='virt-controller', namespace='%s'} < 0.75'') [FStr namespace]),
     For = Some ''10m'',
     Labels = Some [(severityAlertLabelKey, ''warning''),
      (operatorHealthImpactLabelKey, ''warning'')],
     Annotations = Some [(summaryAnnotationKey, ''Less than 75% of desired virt-controller pods are ready.'')]\<rparr>,
    \<lparr>Record = '''', Alert = ''VirtControllerRESTErrorsBurst'',
     Expr = FromString (getErrorRatio namespace ''virt-controller'' @ '' >= 0.8''),
     For = Some ''5m'',
     Labels = Some [(severityAlertLabelKey, ''critical''),
      (operatorHealthImpactLabelKey, ''critical'')],
     Annotations = Some [(summaryAnnotationKey, getRestCallsFailedWarning ''virt-controller'')]\<rparr>]"

definition virtHandlerAlerts :: "string \<Rightarrow> rule list" where
  "virtHandlerAlerts namespace =
   [\<lparr>Record = '''', Alert = ''VirtHandlerDaemonSetRolloutFailing'',
     Expr = FromString (sprintf ''(%s - %s) != 0'' [FStr (sprintf ''kube_daemonset_status_number_ready{namespace='%s', daemonset='virt-handler'}'' [FStr namespace]), FStr (sprintf (''kube_daemonset_status_desired_number_scheduled'' @ ''{namespace='%s', daemonset='virt-handler'}'') [FStr namespace])]),
     For = Some ''15m'',
     Labels = Some [(severityAlertLabelKey, ''warning''),
      (operatorHealthImpactLabelKey, ''warning'')],
     Annotations = Some [(summaryAnnotationKey, ''Some virt-handlers failed to roll out'')]\<rparr>,
    \<lparr>Record = '''', Alert = ''VirtHandlerRESTErrorsBurst'',
     Expr = FromString (getErrorRatio namespace ''virt-handler'' @ '' >= 0.8''),
     For = Some ''5m'',
     Labels = Some [(severityAlertLabelKey, ''critical''),
      (operatorHealthImpactLabelKey, ''critical'')],
     Annotations = Some [(summaryAnnotationKey, getRestCallsFailedWarning ''virt-handler'')]\<rparr>]"

definition virtOperatorAlerts :: "string \<Rightarrow> rule list" where
  "virtOperatorAlerts namespace =
   [\<lparr>Record = '''', Alert = ''VirtOperatorDown'',
     Expr = FromString ''cluster:kubevirt_virt_operator_up:sum == 0'',
     For = Some ''10m'',
     Labels = Some [(severityAlertLabelKey, ''critical''),
      (operatorHealthImpactLabelKey, ''critical'')],
     Annotations = Some [(summaryAnnotationKey, ''All virt-operator servers are down.'')]\<rparr>,
    \<lparr>Record = '''', Alert = ''LowVirtOperatorCount'',
     Expr = FromString (sprintf (''cluster:kubevirt_virt_operator_up:sum / on() '' @
        ''kube_deployment_spec_replicas{deployment='virt-operator', namespace='%s'} < 0.75'') [FStr namespace]),
     For = Some ''60m'',
     Labels = Some [(severityAlertLabelKey, ''warning''),
      (operatorHealthImpactLabelKey, ''warning'')],
     Annotations = Some [(summaryAnnotationKey, ''Less than 75% of desired virt-operator pods are running.'')]\<rparr>,
    \<lparr>Record = '''', Alert = ''VirtOperatorRESTErrorsBurst'',
     Expr = FromString (getErrorRatio namespace ''virt-operator'' @ '' >= 0.8''),
     For = Some ''5m'',
     Labels = Some [(severityAlertLabelKey, ''critical''),
      (operatorHealthImpactLabelKey, ''critical'')],
     Annotations = Some [(summaryAnnotationKey, getRestCallsFailedWarning ''virt-operator'')]\<rparr>,
    \<lparr>Record = '''', Alert = ''LowReadyVirtOperatorsCount'',
     Expr = FromString (''cluster:kubevirt_virt_operator_ready:sum < '' @
        ''cluster:kubevirt_virt_operator_pods_running:count''),
     For = Some ''10m'',
     Labels = Some [(severityAlertLabelKey, ''warning''),
      (operatorHealthImpactLabelKey, ''warning'')],
     Annotations = Some [(summaryAnnotationKey, ''Some virt-operators are running but not ready.'')]\<rparr>,
    \<lparr>Record = '''', Alert = ''NoReadyVirtOperator'',
     Expr = FromString ''cluster:kubevirt_virt_operator_ready:sum == 0'',
     For = Some ''10m'',
     Labels = Some [(severityAlertLabelKey, ''critical''),
      (operatorHealthImpactLabelKey, ''critical'')],
     Annotations = Some [(summaryAnnotationKey, ''No ready virt-operator was detected for the last 10 min.'')]\<rparr>,
    \<lparr>Record = '''', Alert = ''NoLeadingVirtOperator'',
     Expr = FromString ''cluster:kubevirt_virt_operator_leading:sum == 0'',
     For = Some ''10m'',
     Labels = Some [(severityAlertLabelKey, ''critical''),
      (operatorHealthImpactLabelKey, ''critical'')],
     Annotations = Some [(summaryAnnotationKey, ''No leading virt-operator was detected for the last 10 min.'')]\<rparr>]"

definition excludedFilesystemTypesRegex :: string where
  "excludedFilesystemTypesRegex =
     ''CDFS|iso9660|udf|squashfs|cramfs|tmpfs|devtmpfs|proc|'' @
     ''sysfs|selinuxfs|securityfs|pstore|debugfs|tracefs|configfs|binfmt_misc|bpf|devpts|'' @
     ''mqueue|nsfs|rpc_pipefs|ramfs|rootfs|overlay|cgroup.*|fuse'' @ [CHR 0x5C, CHR 0x5C] @ ''..*|fusectl''"

definition vmsLauncherAlerts :: "rule list" where
  "vmsLauncherAlerts =
   [\<lparr>Record = '''', Alert = ''VirtLauncherPodsStuckFailed'',
     Expr = FromString ''sum(kube_pod_status_phase{phase='Failed', pod=~'virt-launcher-.*'}) >= 200'',
     For = Some ''10m'',
     Labels = Some [(severityAlertLabelKey, ''critical''),
      (operatorHealthImpactLabelKey, ''critical'')],
     Annotations = Some [(summaryAnnotationKey, ''At least 200 virt-launcher pods are stuck in Failed state '' @
        ''and not deleted for 10 minutes.'')]\<rparr>,
    \<lparr>Record = '''', Alert = ''OrphanedVirtualMachineInstances'',
     Expr = FromString (''(((max by (node) (kube_pod_status_ready{condition='true',pod=~'virt-handler.*'} '' @
        ''* on(pod) group_left(node) max by(pod,node)'' @ ''(kube_pod_info{pod=~'virt-handler.*',node!='' @
        [CHR 0x27, CHR 0x27] @ ''})) ) == 1) '' @
        ''or (count by (node)( kube_pod_info{pod=~'virt-launcher.*',node!='' @ [CHR 0x27, CHR 0x27] @
        ''})*0)) == 0''),
     For = Some ''10m'',
     Labels = Some [(severityAlertLabelKey, ''warning''),
      (operatorHealthImpactLabelKey, ''warning'')],
     Annotations = Some [(summaryAnnotationKey, ''No ready virt-handler pod detected on node {{ $labels.node }} '' @
        ''with running vmis for more than 10 minutes'')]\<rparr>,
    \<lparr>Record = '''', Alert = ''VMCannotBeEvicted'',
     Expr = FromString (''kubevirt_vmi_non_evictable * on(name, namespace) group_left() '' @
        ''kubevirt_vmi_info{phase='running'} == 1''),
     For = Some ''1m'',
     Labels = Some [(severityAlertLabelKey, ''warning''),
      (operatorHealthImpactLabelKey, ''none'')],
     Annotations = Some [(descriptionAnnotationKey, ''Eviction policy for VirtualMachine {{ $labels.name }} '' @
        ''in namespace {{ $labels.namespace }} (on node {{ $labels.node }}) is set to '' @
        ''Live Migration but the VM is not migratable''),
      (summaryAnnotationKey, ''The VM's eviction strategy is set to Live Migration '' @ ''but the VM is not migratable'')]\<rparr>,
    \<lparr>Record = '''', Alert = ''KubeVirtVMIExcessiveMigrations'',
     Expr = FromString (''sum by (vmi, namespace) (topk by (vmi, namespace, vmim) '' @
        ''(1, max_over_time(kubevirt_vmi_migration_succeeded[1d]))) >= 12''),
     For = None,
     Labels = Some [(severityAlertLabelKey, ''warning''),
      (operatorHealthImpactLabelKey, ''none'')],
     Annotations = Some [(descriptionAnnotationKey, ''VirtualMachineInstance {{ $labels.vmi }} in namespace '' @
        ''{{ $labels.namespace }} has been migrated more than 12 times during the last 24 hours''),
      (summaryAnnotationKey, ''An excessive amount of migrations have been detected on '' @
        ''a VirtualMachineInstance in the last 24 hours.'')]\<rparr>,
    \<lparr>Record = '''', Alert = ''OutdatedVirtualMachineInstanceWorkloads'',
     Expr = FromString ''kubevirt_vmi_number_of_outdated != 0'',
     For = Some ''24h'',
     Labels = Some [(severityAlertLabelKey, ''warning''),
      (operatorHealthImpactLabelKey, ''none'')],
     Annotations = Some [(summaryAnnotationKey, ''Some running VMIs are still active in outdated pods after '' @
        ''KubeVirt control plane update has completed.'')]\<rparr>,
    \<lparr>Record = '''', Alert = ''GuestVCPUQueueHighWarning'',
     Expr = FromString ''vmi:kubevirt_vmi_guest_queue_length:sum > 10'',
     For = None,
     Labels = Some [(severityAlertLabelKey, ''warning''),
      (operatorHealthImpactLabelKey, ''none'')],
     Annotations = Some [(descriptionAnnotationKey, ''VirtualMachineInstance {{ $labels.name }} CPU queue length > 10''),
      (summaryAnnotationKey, ''Guest vCPU Queue within collection cycle > 10'')]\<rparr>,
    \<lparr>Record = '''', Alert = ''GuestVCPUQueueHighCritical'',
     Expr = FromString ''vmi:kubevirt_vmi_guest_queue_length:sum > 20'',
     For = None,
     Labels = Some [(severityAlertLabelKey, ''critical''),
      (operatorHealthImpactLabelKey, ''none'')],
     Annotations = Some [(descriptionAnnotationKey, ''VirtualMachineInstance {{ $labels.name }} CPU queue length > 20''),
      (summaryAnnotationKey, ''Guest vCPU Queue within collection cycle > 20'')]\<rparr>]"

definition vmsMachineAlerts :: "rule list" where
  "vmsMachineAlerts =
   [\<lparr>Record = '''', Alert = ''VirtualMachineStuckInUnhealthyState'',
     Expr = FromString (''sum by (name, namespace, status)(kubevirt_vm_info{status='provisioning'}==1 or '' @
        ''kubevirt_vm_info{status='starting'} == 1 '' @
        ''or kubevirt_vm_info{status='terminating'} == 1 or '' @
        ''kubevirt_vm_info{status_group='error'} == 1) '' @
        ''unless on(name, namespace) kubevirt_vmi_info''),
     For = Some ''10m'',
     Labels = Some [(severityAlertLabelKey, ''warning''),
      (operatorHealthImpactLabelKey, ''none'')],
     Annotations = Some [(summaryAnnotationKey, ''Virtual machine in {{ $labels.status }} state for more than 10 minutes''),
      (descriptionAnnotationKey, ''Virtual machine {{ $labels.name }} in namespace {{ $labels.namespace }} '' @
        ''has been in {{ $labels.status }} state for more than 10 minutes.'')]\<rparr>,
    \<lparr>Record = '''', Alert = ''VirtualMachineStuckOnNode'',
     Expr = FromString (''sum by (name, namespace, status, node)((kubevirt_vm_info{status='starting'} == 1 '' @
        ''or kubevirt_vm_info{status='stopping'} == 1 or '' @
        ''kubevirt_vm_info{status='terminating'} == 1 '' @
        ''or (kubevirt_vm_info{status_group='error'} == 1 '' @
        ''and on(name, namespace) kubevirt_vmi_info) ) '' @
        ''* on(name, namespace) group_left(node) kubevirt_vmi_info)''),
     For = Some ''5m'',
     Labels = Some [(severityAlertLabelKey, ''warning''),
      (operatorHealthImpactLabelKey, ''none'')],
     Annotations = Some [(summaryAnnotationKey, ''Virtual machine stuck in unhealthy state for more than 5 minutes''),
      (descriptionAnnotationKey, ''Virtual machine {{ $labels.name }} in namespace {{ $labels.namespace }} '' @
        ''on node {{ $labels.node }} has been in {{ $labels.status }} state for more than 5 '' @
        ''minutes. '' @ ''This may indicate issues with the VM lifecycle on the target node.'')]\<rparr>,
    \<lparr>Record = '''', Alert = ''KubeVirtVMGuestMemoryPressure'',
     Expr = FromString (''(('' @ ''(vmi:kubevirt_vmi_memory_headroom_ratio:sum < 0.05) and '' @
        ''(vmi:kubevirt_vmi_pgmajfaults:rate5m > 5 '' @
        ''or (vmi:kubevirt_vmi_swap_traffic_bytes:rate5m > 1048576)) '' @
        ''and (vmi:kubevirt_vmi_memory_available_bytes:sum > 0)) '' @
        ''* on(name, namespace) group_left(vm)'' @
        ''label_replace(label_replace(kubevirt_vmi_info{phase='running'}, '' @ [CHR 0x27] @
        ''vm', '$1', 'name', '(.+)'), 'name', '$1', 'vmi_pod', '(.+)'))''),
     For = Some ''5m'',
     Labels = Some [(severityAlertLabelKey, ''warning''),
      (operatorHealthImpactLabelKey, ''none'')],
     Annotations = Some [(descriptionAnnotationKey, ''VirtualMachine {{ $labels.vm }} in namespace {{ $labels.namespace }} '' @
        ''is under memory pressure: low usable memory with elevated major faults and/or swap IO.''),
      (summaryAnnotationKey, ''The VirtualMachine is under memory pressure (possible thrashing)'')]\<rparr>,
    \<lparr>Record = '''', Alert = ''GuestFilesystemAlmostOutOfSpace'',
     Expr = FromString (sprintf (''(kubevirt_vmi_filesystem_used_bytes{file_system_type!~'%s',mount_point!='System '' @
        ''Reserved'} / '' @ ''kubevirt_vmi_filesystem_capacity_bytes{file_system_type!~'%s','' @
        ''mount_point!='System Reserved'})*100 >= 85 < 95'') [FStr excludedFilesystemTypesRegex, FStr excludedFilesystemTypesRegex]),
     For = Some ''10m'',
     Labels = Some [(severityAlertLabelKey, ''warning''),
      (operatorHealthImpactLabelKey, ''none'')],
     Annotations = Some [(summaryAnnotationKey, ''Guest filesystem is running out of space''),
      (descriptionAnnotationKey, ''VirtualMachineInstance {{ $labels.name }} in namespace {{ $labels.namespace }} '' @
        ''has filesystem {{ $labels.disk_name }} ({{ $labels.mount_point }}) usage above 85% '' @
        ''(current: {{ $value }}%).'')]\<rparr>,
    \<lparr>Record = '''', Alert = ''GuestFilesystemAlmostOutOfSpace'',
     Expr = FromString (sprintf (''(kubevirt_vmi_filesystem_used_bytes{file_system_type!~'%s',mount_point!='System '' @
        ''Reserved'} / '' @ ''kubevirt_vmi_filesystem_capacity_bytes{file_system_type!~'%s','' @
        ''mount_point!='System Reserved'})*100 >= 95'') [FStr excludedFilesystemTypesRegex, FStr excludedFilesystemTypesRegex]),
     For = None,
     Labels = Some [(severityAlertLabelKey, ''critical''),
      (operatorHealthImpactLabelKey, ''none'')],
     Annotations = Some [(summaryAnnotationKey, ''Guest filesystem is critically low on space''),
      (descriptionAnnotationKey, ''VirtualMachineInstance {{ $labels.name }} in namespace {{ $labels.namespace }} '' @
        ''has filesystem {{ $labels.disk_name }} ({{ $labels.mount_point }}) usage above 95% '' @
        ''(current: {{ $value }}%).'')]\<rparr>,
    \<lparr>Record = '''', Alert = ''VirtualMachineInstanceHasEphemeralHotplugVolume'',
     Expr = FromString ''kubevirt_vmi_contains_ephemeral_hotplug_volume == 1'',
     For = None,
     Labels = Some [(severityAlertLabelKey, ''warning''),
      (operatorHealthImpactLabelKey, ''none'')],
     Annotations = Some [(summaryAnnotationKey, ''Virtual Machine Instance has Ephemeral Hotplug Volume(s). '' @
        ''Ephemeral Hotplugs are deprecated and must be converted to persistent volumes! '' @
        ''In a future release, feature gate `DeclarativeHotplugVolumes` will replace '' @
        ''`HotplugVolumes` and as a result, any remaining ephemeral hotplug volumes will be '' @
        ''automatically unplugged''),
      (descriptionAnnotationKey, ''Virtual Machine Instance {{ $labels.name }} in namespace '' @
        ''{{ $labels.namespace }} has ephemeral hotplug volume(s) {{ $labels.volume_name }}.'')]\<rparr>,
    \<lparr>Record = '''', Alert = ''KubeVirtVMGuestMemoryAvailableLow'',
     Expr = FromString (''(('' @ ''(vmi:kubevirt_vmi_memory_headroom_ratio:sum < 0.03) '' @
        ''and (vmi:kubevirt_vmi_swap_traffic_bytes:rate30m < 2048) '' @
        ''and (vmi:kubevirt_vmi_pgmajfaults:rate30m < 1) '' @
        ''and (vmi:kubevirt_vmi_memory_available_bytes:sum > 0)) '' @
        ''* on(name, namespace) group_left(vm) '' @
        ''label_replace(label_replace(kubevirt_vmi_info{phase='running'}, '' @ [CHR 0x27] @
        ''vm', '$1', 'name', '(.+)'), 'name', '$1', 'vmi_pod', '(.+)'))''),
     For = Some ''30m'',
     Labels = Some [(severityAlertLabelKey, ''info''),
      (operatorHealthImpactLabelKey, ''none'')],
     Annotations = Some [(descriptionAnnotationKey, ''VirtualMachine {{ $labels.vm }} in namespace {{ $labels.namespace }} '' @
        ''has very low available memory (<3% headroom) for 30 minutes with no meaningful swap '' @
        ''IO (likely no swap).''),
      (summaryAnnotationKey, ''The VirtualMachine has low available memory without swap'')]\<rparr>]"

text \<open>The list of the source, in two parts.\<close>

definition vmsAlerts :: "rule list" where
  "vmsAlerts = vmsLauncherAlerts @ vmsMachineAlerts"

section \<open>Filter, template and registration\<close>

fun filterAlerts :: "rule list \<Rightarrow> bool gomap \<Rightarrow> rule list" where
  "filterAlerts [] allowlist = []"
| "filterAlerts (r # rs) allowlist =
     (if bool_at allowlist (Alert r) then r # filterAlerts rs allowlist else filterAlerts rs allowlist)"

text \<open>\<open>env\<close> is the value of \<open>RUNBOOK_URL_TEMPLATE\<close>, None when the variable is not set.\<close>

definition getRunbookURLTemplate :: "string option \<Rightarrow> string res" where
  "getRunbookURLTemplate env =
     (let runbookURLTemplate = (case env of None \<Rightarrow> defaultRunbookURLTemplate | Some t \<Rightarrow> t)
      in if count_verb runbookURLTemplate \<noteq> 1
         then Inl (GoPanic ''runbook URL template must have exactly 1 %s substring'')
         else Inr runbookURLTemplate)"

text \<open>The body of the loop over one alert: three writes into its maps.\<close>

definition label_alert :: "string \<Rightarrow> rule \<Rightarrow> rule res" where
  "label_alert runbookURLTemplate a =
     bindR (nilmap_set partOfAlertLabelKey kubevirtLabelValue (Labels a)) (\<lambda>l1.
     bindR (nilmap_set componentAlertLabelKey kubevirtLabelValue l1) (\<lambda>l2.
     bindR (nilmap_set prometheusRunbookAnnotationKey (sprintf runbookURLTemplate [FStr (Alert a)])
              (Annotations a)) (\<lambda>an.
     Inr (a\<lparr>Labels := l2, Annotations := an\<rparr>))))"

text \<open>
  \<open>alerts.Register\<close>. The last component of the value is \<open>vmsAlerts\<close> afterwards: the alerts that were
  registered have the new entries in their maps, because the filtered list shares them.
\<close>

definition alerts_Register ::
  "rules_registry \<Rightarrow> string \<Rightarrow> bool gomap option \<Rightarrow> string option \<Rightarrow> rule list \<Rightarrow>
   (rules_registry \<times> rule list) res" where
  "alerts_Register registry namespace allowlist env vms =
     (let allAlerts = [systemAlerts namespace, virtAPIAlerts namespace, virtControllerAlerts namespace,
                       virtHandlerAlerts namespace, virtOperatorAlerts namespace, vms];
          chosen = (case allowlist of None \<Rightarrow> allAlerts
                    | Some allow \<Rightarrow> map (\<lambda>as. filterAlerts as allow) allAlerts);
          keep = (\<lambda>a. case allowlist of None \<Rightarrow> True | Some allow \<Rightarrow> bool_at allow (Alert a))
      in bindR (getRunbookURLTemplate env) (\<lambda>template.
         bindR (mapR (mapR (label_alert template)) chosen) (\<lambda>labelled.
         bindR (mapR (\<lambda>a. if keep a then label_alert template a else Inr a) vms) (\<lambda>vms'.
         Inr (RegisterAlerts labelled registry, vms')))))"

lemmas alert_list_defs =
  systemAlerts_def virtAPIAlerts_def virtControllerAlerts_def virtHandlerAlerts_def
  virtOperatorAlerts_def vmsAlerts_def vmsLauncherAlerts_def vmsMachineAlerts_def

section \<open>Labelling an alert\<close>

text \<open>What \<open>label_alert\<close> returns when the two maps exist.\<close>

definition with_labels :: "string \<Rightarrow> rule \<Rightarrow> rule" where
  "with_labels template a = a\<lparr>
     Labels := map_option (\<lambda>m. gomap_upd componentAlertLabelKey kubevirtLabelValue
                 (gomap_upd partOfAlertLabelKey kubevirtLabelValue m)) (Labels a),
     Annotations := map_option (gomap_upd prometheusRunbookAnnotationKey
                 (sprintf template [FStr (Alert a)])) (Annotations a)\<rparr>"

definition has_maps :: "rule \<Rightarrow> bool" where
  "has_maps a \<longleftrightarrow> Labels a \<noteq> None \<and> Annotations a \<noteq> None"

lemma label_alert_eq:
  "label_alert template a = (if has_maps a then Inr (with_labels template a)
     else Inl (GoPanic ''assignment to entry in nil map''))"
  by (cases "Labels a"; cases "Annotations a")
     (auto simp: label_alert_def nilmap_set_def with_labels_def has_maps_def)

lemma with_labels_simps [simp]:
  "Alert (with_labels t a) = Alert a" "Expr (with_labels t a) = Expr a"
  "alert_key (with_labels t a) = alert_key a" "has_maps (with_labels t a) = has_maps a"
  by (simp_all add: with_labels_def alert_key_def has_maps_def)

text \<open>Writing the labels again changes nothing, neither the entries nor their order.\<close>

lemma gomap_upd_upd_same:
  "k \<noteq> k' \<Longrightarrow> gomap_upd k v (gomap_upd k' v' (gomap_upd k v (gomap_upd k' v' m))) =
     gomap_upd k v (gomap_upd k' v' m)"
  by (simp add: gomap_upd_same go_map_simps)

lemma with_labels_idem: "with_labels t (with_labels t a) = with_labels t a"
proof -
  have "componentAlertLabelKey \<noteq> partOfAlertLabelKey"
    by (simp add: alert_names)
  then show ?thesis
    unfolding with_labels_def
    by (cases "Labels a"; cases "Annotations a")
       (simp_all add: gomap_upd_upd_same gomap_upd_same go_map_simps)
qed

section \<open>What every alert declares\<close>

definition alert_declared :: "rule \<Rightarrow> bool" where
  "alert_declared a \<longleftrightarrow>
     has_maps a \<and> Alert a \<noteq> '''' \<and> Record a = '''' \<and>
     nilmap_at (Labels a) severityAlertLabelKey \<in> {''critical'', ''warning'', ''info''} \<and>
     nilmap_at (Labels a) operatorHealthImpactLabelKey \<in> {''critical'', ''warning'', ''none''} \<and>
     nilmap_at (Annotations a) summaryAnnotationKey \<noteq> ''''"

definition alert_complete :: "string \<Rightarrow> rule \<Rightarrow> bool" where
  "alert_complete template a \<longleftrightarrow>
     alert_declared a \<and>
     nilmap_at (Labels a) partOfAlertLabelKey = kubevirtLabelValue \<and>
     nilmap_at (Labels a) componentAlertLabelKey = kubevirtLabelValue \<and>
     nilmap_at (Annotations a) prometheusRunbookAnnotationKey = sprintf template [FStr (Alert a)]"

lemma sprintf_nonempty: "t \<noteq> [] \<Longrightarrow> hd t \<noteq> CHR ''%'' \<Longrightarrow> sprintf t as \<noteq> []"
  by (induction t as rule: sprintf.induct) auto

lemma rest_calls_warning_nonempty: "getRestCallsFailedWarning c \<noteq> ''''"
  unfolding getRestCallsFailedWarning_def Let_def by (rule sprintf_nonempty) simp_all

lemma declared_groups:
  "list_all alert_declared (systemAlerts ns)" "list_all alert_declared (virtAPIAlerts ns)"
  "list_all alert_declared (virtControllerAlerts ns)" "list_all alert_declared (virtHandlerAlerts ns)"
  "list_all alert_declared (virtOperatorAlerts ns)" "list_all alert_declared vmsAlerts"
  unfolding alert_list_defs
  by (simp_all add: alert_declared_def has_maps_def nilmap_at_def str_at_def alert_names
      rest_calls_warning_nonempty)

lemma with_labels_complete: "alert_declared a \<Longrightarrow> alert_complete t (with_labels t a)"
  by (cases "Labels a"; cases "Annotations a")
     (simp_all add: alert_complete_def alert_declared_def has_maps_def with_labels_def str_at_upd alert_names)

section \<open>Keys of the alerts\<close>

definition allAlerts :: "string \<Rightarrow> rule list \<Rightarrow> rule list list" where
  "allAlerts ns vms = [systemAlerts ns, virtAPIAlerts ns, virtControllerAlerts ns,
                       virtHandlerAlerts ns, virtOperatorAlerts ns, vms]"

definition alert_selected :: "bool gomap option \<Rightarrow> rule \<Rightarrow> bool" where
  "alert_selected allowlist a = (case allowlist of None \<Rightarrow> True | Some allow \<Rightarrow> bool_at allow (Alert a))"

text \<open>One alert name is declared twice, with two closed expressions.\<close>

definition alert_head :: "rule \<Rightarrow> string" where
  "alert_head a = (if Alert a = ''GuestFilesystemAlmostOutOfSpace'' then alert_key a else Alert a @ '':'')"

lemma alert_head_prefix: "prefix (alert_head a) (alert_key a)"
  by (simp add: alert_head_def alert_key_def)

lemma alert_heads_ns:
  "map alert_head (concat (allAlerts ns vms)) = map alert_head (concat (allAlerts '''' vms))"
  by (simp add: allAlerts_def systemAlerts_def virtAPIAlerts_def virtControllerAlerts_def
      virtHandlerAlerts_def virtOperatorAlerts_def alert_head_def)

lemma alert_heads_apart: "sorted_wrt apart (map alert_head (concat (allAlerts '''' vmsAlerts)))"
  by code_simp

lemma alert_keys_distinct: "distinct (map alert_key (concat (allAlerts ns vmsAlerts)))"
  by (rule distinct_by_heads [where h = alert_head])
     (simp_all only: alert_heads_ns [of ns] alert_heads_apart alert_head_prefix)

section \<open>Registration\<close>

text \<open>
  The value of \<open>vmsAlerts\<close> between two calls: every alert is the declared one, or the declared one with
  the labels of an earlier call.
\<close>

definition vms_state :: "string \<Rightarrow> rule list \<Rightarrow> bool" where
  "vms_state t vms \<longleftrightarrow> list_all2 (\<lambda>a a0. a = a0 \<or> a = with_labels t a0) vms vmsAlerts"

lemma vms_state_init: "vms_state t vmsAlerts"
  unfolding vms_state_def by (rule list.rel_refl) simp

lemma vms_state_step: "vms_state t vms \<Longrightarrow> vms_state t (map (\<lambda>a. if P a then with_labels t a else a) vms)"
  unfolding vms_state_def list_all2_map1
  by (erule list_all2_mono) (auto simp: with_labels_idem)

lemma map_eq_of_all2:
  assumes "list_all2 R xs ys" and "\<And>x y. R x y \<Longrightarrow> f x = f y"
  shows "map f xs = map f ys"
  using assms(1) by (induction rule: list_all2_induct) (simp_all add: assms(2))

lemma vms_state_labelled: "vms_state t vms \<Longrightarrow> map (with_labels t) vms = map (with_labels t) vmsAlerts"
  unfolding vms_state_def by (erule map_eq_of_all2) (auto simp: with_labels_idem)

lemma vms_state_maps: "vms_state t vms \<Longrightarrow> map has_maps vms = map has_maps vmsAlerts"
  unfolding vms_state_def by (erule map_eq_of_all2) auto

lemma list_all_map_cong: "map f xs = map f ys \<Longrightarrow> list_all f xs = list_all f ys"
proof -
  have "list_all f zs = list_all (\<lambda>b. b) (map f zs)" for zs
    by (induction zs) simp_all
  then show "map f xs = map f ys \<Longrightarrow> list_all f xs = list_all f ys" by metis
qed

lemma filterAlerts_eq: "filterAlerts as allow = filter (\<lambda>a. bool_at allow (Alert a)) as"
  by (induction as) simp_all

lemma alert_selected_simps [simp]:
  "alert_selected None a" "alert_selected (Some allow) a = bool_at allow (Alert a)"
  by (simp_all add: alert_selected_def)

lemma alert_selected_labels [simp]: "alert_selected allow (with_labels t a) = alert_selected allow a"
  by (cases allow) simp_all

definition chosenAlerts :: "string \<Rightarrow> bool gomap option \<Rightarrow> string \<Rightarrow> rule list" where
  "chosenAlerts t allow ns =
     map (with_labels t) (filter (alert_selected allow) (concat (allAlerts ns vmsAlerts)))"

lemma declared_has_maps: "list_all alert_declared as \<Longrightarrow> list_all has_maps as"
  by (simp add: list_all_iff alert_declared_def)

lemma group_has_maps:
  assumes "vms_state t vms" and "a \<in> set (concat (allAlerts ns vms))"
  shows "has_maps a"
proof -
  have "list_all has_maps vms"
    using list_all_map_cong [OF vms_state_maps [OF assms(1)]] declared_has_maps [OF declared_groups(6)] by simp
  then have "list_all has_maps (concat (allAlerts ns vms))"
    using declared_groups [THEN declared_has_maps] by (simp add: allAlerts_def)
  with assms(2) show ?thesis unfolding list_all_iff by blast
qed

lemma chosen_groups:
  assumes "vms_state t vms"
  shows "map (with_labels t) (filter (alert_selected allow) (concat (allAlerts ns vms))) = chosenAlerts t allow ns"
proof -
  have swap: "map (with_labels t) (filter (alert_selected allow) as) =
      filter (alert_selected allow) (map (with_labels t) as)" for as
    by (simp add: filter_map comp_def)
  show ?thesis
    unfolding chosenAlerts_def swap using vms_state_labelled [OF assms] by (simp add: allAlerts_def)
qed

lemma mapR_label: "(\<And>a. a \<in> set as \<Longrightarrow> has_maps a) \<Longrightarrow> mapR (label_alert t) as = Inr (map (with_labels t) as)"
  by (rule mapR_Inr) (simp add: label_alert_eq)

lemma alerts_Register_eq:
  assumes "getRunbookURLTemplate env = Inr t" and "vms_state t vms"
  shows "alerts_Register reg ns allow env vms =
    Inr (RegisterAlerts [chosenAlerts t allow ns] reg,
         map (\<lambda>a. if alert_selected allow a then with_labels t a else a) vms)"
proof -
  let ?chosen = "map (filter (alert_selected allow)) (allAlerts ns vms)"
  have chosen: "(case allow of None \<Rightarrow> allAlerts ns vms
      | Some al \<Rightarrow> map (\<lambda>as. filterAlerts as al) (allAlerts ns vms)) = ?chosen"
  proof (cases allow)
    case None
    then show ?thesis by (simp add: map_idI)
  next
    case (Some al)
    have "alert_selected (Some al) = (\<lambda>a. bool_at al (Alert a))" by (rule ext) simp
    with Some show ?thesis by (simp add: filterAlerts_eq)
  qed
  have keep: "(\<lambda>a. case allow of None \<Rightarrow> True | Some al \<Rightarrow> bool_at al (Alert a)) = alert_selected allow"
    by (simp add: alert_selected_def fun_eq_iff)
  have maps: "has_maps a" if "as \<in> set (allAlerts ns vms)" "a \<in> set as" for as a
    using that by (intro group_has_maps [OF assms(2), of a ns]) auto
  have "mapR (mapR (label_alert t)) ?chosen = Inr (map (map (with_labels t)) ?chosen)"
    by (intro mapR_Inr mapR_label) (auto intro: maps)
  moreover have "mapR (\<lambda>a. if alert_selected allow a then label_alert t a else Inr a) vms =
      Inr (map (\<lambda>a. if alert_selected allow a then with_labels t a else a) vms)"
    using maps [of vms] by (intro mapR_Inr) (simp add: label_alert_eq allAlerts_def)
  moreover have "concat (map (map (with_labels t)) ?chosen) = chosenAlerts t allow ns"
    using chosen_groups [OF assms(2), of allow ns] by (simp add: filter_concat map_concat comp_def)
  ultimately show ?thesis
    using assms(1) chosen keep
    by (simp add: alerts_Register_def allAlerts_def [symmetric] RegisterAlerts_def Let_def)
qed

lemma chosen_keys_distinct: "distinct (map alert_key (chosenAlerts t allow ns))"
proof -
  have "map alert_key (chosenAlerts t allow ns) =
      map alert_key (filter (alert_selected allow) (concat (allAlerts ns vmsAlerts)))"
    by (simp add: chosenAlerts_def comp_def)
  then show ?thesis by (simp add: distinct_map_filter [OF alert_keys_distinct])
qed

lemma chosen_complete: "a \<in> set (chosenAlerts t allow ns) \<Longrightarrow> alert_complete t a"
  using declared_groups unfolding chosenAlerts_def allAlerts_def
  by (auto simp: list_all_iff intro: with_labels_complete)

lemma getRunbookURLTemplate_Inl:
  "getRunbookURLTemplate env = Inl e \<longleftrightarrow>
     e = GoPanic ''runbook URL template must have exactly 1 %s substring'' \<and>
     count_verb (case env of None \<Rightarrow> defaultRunbookURLTemplate | Some t \<Rightarrow> t) \<noteq> 1"
  by (auto simp: getRunbookURLTemplate_def Let_def)

end
