(* ===== verification/Rules.thy ===== *)
theory Rules
  imports Recording_Rules Alerts
begin

text \<open>
  \<open>pkg/monitoring/rules/rules.go\<close>: the package-level registry and the operations the controller
  calls. The state is the registry and \<open>vmsAlerts\<close>; \<open>rules_reach\<close> are the states a process can get
  into, for the value of the template variable it was started with.
\<close>

record rules_state =
  rs_registry :: rules_registry
  rs_vmsAlerts :: "rule list"

definition rules_init :: rules_state where
  "rules_init = \<lparr>rs_registry = NewRegistry, rs_vmsAlerts = vmsAlerts\<rparr>"

definition ResetRegistry :: "rules_state \<Rightarrow> rules_state" where
  "ResetRegistry st = st\<lparr>rs_registry := NewRegistry\<rparr>"

definition SetupRules ::
  "string option \<Rightarrow> string \<Rightarrow> bool gomap option \<Rightarrow> bool gomap option \<Rightarrow> rules_state \<Rightarrow> rules_state res" where
  "SetupRules env namespace alertsAllowlist recordingRulesAllowlist st =
     (let registry = recordingrules_Register (rs_registry st) namespace recordingRulesAllowlist
      in bindR (alerts_Register registry namespace alertsAllowlist env (rs_vmsAlerts st)) (\<lambda>(registry', vms').
         Inr \<lparr>rs_registry = registry', rs_vmsAlerts = vms'\<rparr>))"

definition HasRegisteredRules :: "rules_state \<Rightarrow> bool" where
  "HasRegisteredRules st \<longleftrightarrow>
     length (ListAlerts (rs_registry st)) > 0 \<or> length (ListRecordingRules (rs_registry st)) > 0"

definition BuildPrometheusRule :: "string \<Rightarrow> string \<Rightarrow> string gomap option \<Rightarrow> rules_state \<Rightarrow> prometheus_rule res" where
  "BuildPrometheusRule nm ns labels st = registry_BuildPrometheusRule nm ns labels (rs_registry st)"

definition rules_ListRecordingRules :: "rules_state \<Rightarrow> recording_rule list" where
  "rules_ListRecordingRules st = ListRecordingRules (rs_registry st)"

section \<open>Reachable states\<close>

inductive rules_reach :: "string option \<Rightarrow> rules_state \<Rightarrow> bool" for env where
  init: "rules_reach env rules_init"
| reset: "rules_reach env st \<Longrightarrow> rules_reach env (ResetRegistry st)"
| register: "rules_reach env st \<Longrightarrow> SetupRules env ns aa ra st = Inr st' \<Longrightarrow> rules_reach env st'"

inductive_simps rules_reach_cases: "rules_reach env st"

definition rules_ok :: "string \<Rightarrow> rules_state \<Rightarrow> bool" where
  "rules_ok t st \<longleftrightarrow>
     rules_registry_ok (rs_registry st) \<and> vms_state t (rs_vmsAlerts st) \<and>
     (\<forall>a \<in> set (ListAlerts (rs_registry st)). alert_complete t a)"

lemma SetupRules_eq:
  assumes "getRunbookURLTemplate env = Inr t" and "vms_state t (rs_vmsAlerts st)"
  shows "SetupRules env ns aa ra st = Inr \<lparr>
    rs_registry = RegisterAlerts [chosenAlerts t aa ns] (recordingrules_Register (rs_registry st) ns ra),
    rs_vmsAlerts = map (\<lambda>a. if alert_selected aa a then with_labels t a else a) (rs_vmsAlerts st)\<rparr>"
  using alerts_Register_eq [OF assms] by (simp add: SetupRules_def Let_def)

lemma SetupRules_panics:
  "getRunbookURLTemplate env = Inl e \<Longrightarrow> SetupRules env ns aa ra st = Inl e"
  by (cases aa) (simp_all add: SetupRules_def alerts_Register_def Let_def)

lemma recordings_keep_alerts [simp]:
  "registeredAlerts (recordingrules_Register reg ns ra) = registeredAlerts reg"
  by (simp add: recordingrules_Register_eq RegisterRecordingRules_def)

lemma alerts_keep_recordings [simp]:
  "registeredRecordingRules (RegisterAlerts as reg) = registeredRecordingRules reg"
  by (simp add: RegisterAlerts_def)

lemma put_all_values: "snd ` set (put_all key rs m) \<subseteq> set rs \<union> snd ` set m"
proof (induction key rs m rule: put_all.induct)
  case (1 key m)
  show ?case by simp
next
  case (2 key r rs m)
  have "snd ` set (gomap_upd (key r) r m) \<subseteq> insert r (snd ` set m)"
    unfolding gomap_upd_def by (induction m) auto
  with 2 show ?case by auto
qed

lemma rules_ok_SetupRules:
  assumes "getRunbookURLTemplate env = Inr t" and "rules_ok t st" and "SetupRules env ns aa ra st = Inr st'"
  shows "rules_ok t st'"
proof -
  have vms: "vms_state t (rs_vmsAlerts st)" using assms(2) by (simp add: rules_ok_def)
  let ?reg = "RegisterAlerts [chosenAlerts t aa ns] (recordingrules_Register (rs_registry st) ns ra)"
  have st': "rs_registry st' = ?reg"
    "rs_vmsAlerts st' = map (\<lambda>a. if alert_selected aa a then with_labels t a else a) (rs_vmsAlerts st)"
    using assms(3) SetupRules_eq [OF assms(1) vms] by auto
  have reg: "rules_registry_ok ?reg"
    using assms(2) unfolding rules_ok_def recordingrules_Register_eq
    by (intro rules_registry_ok_RegisterAlerts rules_registry_ok_RegisterRecordingRules) simp
  have "set (ListAlerts ?reg) \<subseteq> set (chosenAlerts t aa ns) \<union> set (ListAlerts (rs_registry st))"
    using put_all_values [of alert_key "chosenAlerts t aa ns" "registeredAlerts (rs_registry st)"]
    by (simp add: set_ListAlerts RegisterAlerts_def)
  then have "alert_complete t a" if "a \<in> set (ListAlerts ?reg)" for a
    using that assms(2) chosen_complete [of a t aa ns] by (auto simp: rules_ok_def)
  with reg show ?thesis
    using vms_state_step [OF vms] by (simp add: rules_ok_def st')
qed

lemma rules_ok_reach:
  assumes "getRunbookURLTemplate env = Inr t" and "rules_reach env st"
  shows "rules_ok t st"
  using assms(2)
proof (induction rule: rules_reach.induct)
  case init
  show ?case by (simp add: rules_ok_def rules_init_def vms_state_init ListAlerts_def NewRegistry_def rules_registry_ok_def)
next
  case (reset st)
  then show ?case by (simp add: rules_ok_def ResetRegistry_def ListAlerts_def NewRegistry_def rules_registry_ok_def)
next
  case (register st ns aa ra st')
  show ?case using rules_ok_SetupRules [OF assms(1) register.IH register.hyps(2)] by simp
qed

section \<open>Correctness\<close>

lemma selected_recording_keys:
  "distinct (map recording_key (filter P (concat (allRecordingRules ns))))"
  by (rule distinct_map_filter [OF recording_keys_distinct])

text \<open>C12: After a reset, \<open>SetupRules\<close> registers exactly the selected rules, whatever the namespace and the
  allowlists: every recording rule and every alert that the allowlist names (all of them without an
  allowlist) is listed once, none overwrites another under the registry's \<open>name:expr\<close> key, and
  nothing else is listed.
\<close>

theorem SetupRules_exact:
  assumes "rules_reach env st" and "getRunbookURLTemplate env = Inr t"
  shows "\<exists>st'. SetupRules env ns aa ra (ResetRegistry st) = Inr st' \<and>
    mset (rules_ListRecordingRules st') = mset (filter (recording_selected ra) (concat (allRecordingRules ns))) \<and>
    mset (ListAlerts (rs_registry st')) =
      mset (map (with_labels t) (filter (alert_selected aa) (concat (allAlerts ns vmsAlerts))))"
proof -
  have vms: "vms_state t (rs_vmsAlerts (ResetRegistry st))"
    using rules_ok_reach [OF assms(2,1)] by (simp add: rules_ok_def ResetRegistry_def)
  let ?reg = "recordingrules_Register (rs_registry (ResetRegistry st)) ns ra"
  have "mset (ListRecordingRules ?reg) = mset (filter (recording_selected ra) (concat (allRecordingRules ns)))"
    unfolding recordingrules_Register_eq
    by (rule mset_ListRecordingRules_Register [OF _ selected_recording_keys])
       (simp add: ResetRegistry_def NewRegistry_def)
  moreover have "mset (ListAlerts (RegisterAlerts [chosenAlerts t aa ns] ?reg)) = mset (chosenAlerts t aa ns)"
    by (rule mset_ListAlerts_Register [OF _ chosen_keys_distinct])
       (simp add: ResetRegistry_def NewRegistry_def)
  ultimately show ?thesis
    unfolding SetupRules_eq [OF assms(2) vms] chosenAlerts_def [symmetric]
    by (simp add: rules_ListRecordingRules_def ListRecordingRules_def)
qed

theorem SetupRules_exact_witness:
  "\<exists>st'. SetupRules None ''kubevirt'' (Some [(''VirtAPIDown'', True)]) None (ResetRegistry rules_init) = Inr st' \<and>
    mset (rules_ListRecordingRules st') =
      mset (filter (recording_selected None) (concat (allRecordingRules ''kubevirt''))) \<and>
    mset (ListAlerts (rs_registry st')) = mset (map (with_labels defaultRunbookURLTemplate)
      (filter (alert_selected (Some [(''VirtAPIDown'', True)])) (concat (allAlerts ''kubevirt'' vmsAlerts))))"
  by (rule SetupRules_exact [OF rules_reach.init]) code_simp

text \<open>C22: \<open>SetupRules\<close> never returns an error, and it panics exactly when the runbook template does not
  contain \<open>%s\<close> exactly once; no write hits a nil map in any state the process can reach.
\<close>

theorem SetupRules_panic_iff:
  assumes "rules_reach env st"
  shows "SetupRules env ns aa ra st = Inl e \<longleftrightarrow>
    e = GoPanic ''runbook URL template must have exactly 1 %s substring'' \<and>
    count_verb (case env of None \<Rightarrow> defaultRunbookURLTemplate | Some t \<Rightarrow> t) \<noteq> 1"
proof (cases "getRunbookURLTemplate env")
  case (Inl e')
  then show ?thesis
    using SetupRules_panics [OF Inl] getRunbookURLTemplate_Inl [of env e'] by auto
next
  case (Inr t)
  have "vms_state t (rs_vmsAlerts st)"
    using rules_ok_reach [OF Inr assms] by (simp add: rules_ok_def)
  then show ?thesis
    using SetupRules_eq [OF Inr] getRunbookURLTemplate_Inl [of env e] Inr by auto
qed

theorem SetupRules_panic_iff_witness:
  "SetupRules (Some ''https://x/'') ''kubevirt'' None None rules_init =
    Inl (GoPanic ''runbook URL template must have exactly 1 %s substring'')"
  using SetupRules_panic_iff [OF rules_reach.init, of "Some ''https://x/''" "''kubevirt''" None None
    "GoPanic ''runbook URL template must have exactly 1 %s substring''"] by simp


lemma SetupRules_again:
  assumes "rules_reach env st" and "SetupRules env ns aa ra st = Inr st'"
  shows "SetupRules env ns aa ra st' = Inr st'"
proof -
  obtain t where t: "getRunbookURLTemplate env = Inr t"
    using assms(2) SetupRules_panics by (cases "getRunbookURLTemplate env") auto
  have vms: "vms_state t (rs_vmsAlerts st)"
    using rules_ok_reach [OF t assms(1)] by (simp add: rules_ok_def)
  note st' = SetupRules_eq [OF t vms, of ns aa ra, unfolded assms(2), simplified]
  have vms': "vms_state t (rs_vmsAlerts st')"
    using vms_state_step [OF vms] by (simp add: st')
  show ?thesis
    unfolding SetupRules_eq [OF t vms']
    by (simp add: st' RegisterAlerts_def recordingrules_Register_eq RegisterRecordingRules_def
        put_all_idem chosen_keys_distinct selected_recording_keys with_labels_idem)
qed

text \<open>Setting the rules up a second time with the same arguments changes nothing.\<close>

theorem SetupRules_idempotent:
  assumes "rules_reach env st" and "SetupRules env ns aa ra st = Inr st'"
  shows "SetupRules env ns aa ra st' = Inr st'"
  by (rule SetupRules_again [OF assms])

text \<open>C20: The PrometheusRule built from a registry does not depend on the order in which the language
  iterates the registry's maps, so two reconciliations of the same rules compare equal.
\<close>

theorem PrometheusRule_order_free:
  assumes "rules_reach env st" and "getRunbookURLTemplate env = Inr t"
    and "mset (registeredRecordingRules (rs_registry st)) = mset (registeredRecordingRules (rs_registry st'))"
    and "mset (registeredAlerts (rs_registry st)) = mset (registeredAlerts (rs_registry st'))"
  shows "BuildPrometheusRule nm ns labels st' = BuildPrometheusRule nm ns labels st"
proof -
  have ok: "rules_registry_ok (rs_registry st)"
    using rules_ok_reach [OF assms(2,1)] by (simp add: rules_ok_def)
  have "ListRecordingRules (rs_registry st') = ListRecordingRules (rs_registry st)"
    using listing_order_free [OF _ assms(3)] ok by (simp add: ListRecordingRules_def rules_registry_ok_def)
  moreover have "ListAlerts (rs_registry st') = ListAlerts (rs_registry st)"
    using listing_order_free [OF _ assms(4)] ok by (simp add: ListAlerts_def rules_registry_ok_def)
  ultimately show ?thesis
    by (simp add: BuildPrometheusRule_def registry_BuildPrometheusRule_def buildPrometheusRuleSpec_list)
qed

definition example_allow :: "bool gomap option" where
  "example_allow = Some [(''VirtAPIDown'', True), (''VirtOperatorDown'', True)]"

definition example_rules :: rules_state where
  "example_rules = (case SetupRules None ''kubevirt'' example_allow (Some []) rules_init of
     Inr st \<Rightarrow> st | Inl e \<Rightarrow> rules_init)"

lemma default_template: "getRunbookURLTemplate None = Inr defaultRunbookURLTemplate"
  by code_simp

lemma example_rules_setup: "SetupRules None ''kubevirt'' example_allow (Some []) rules_init = Inr example_rules"
  using SetupRules_eq [OF default_template, of rules_init "''kubevirt''" example_allow "Some []"]
  by (simp add: example_rules_def rules_init_def vms_state_init)

lemma example_rules_reach: "rules_reach None example_rules"
  by (rule rules_reach.register [OF rules_reach.init example_rules_setup])

theorem PrometheusRule_order_free_witness:
  "BuildPrometheusRule ''r'' ''kubevirt'' None (example_rules\<lparr>rs_registry := (rs_registry example_rules)
       \<lparr>registeredAlerts := rev (registeredAlerts (rs_registry example_rules))\<rparr>\<rparr>) =
     BuildPrometheusRule ''r'' ''kubevirt'' None example_rules"
  by (rule PrometheusRule_order_free [OF example_rules_reach default_template]) simp_all


theorem SetupRules_idempotent_witness:
  "SetupRules None ''kubevirt'' example_allow (Some []) example_rules = Inr example_rules"
  by (rule SetupRules_idempotent [OF rules_reach.init example_rules_setup])

text \<open>Building the PrometheusRule fails exactly when \<open>HasRegisteredRules\<close> is false; otherwise it has one
  group per kind of rule that is registered, recording rules first, each sorted by \<open>name:expr\<close>.
\<close>

theorem BuildPrometheusRule_spec:
  "(case BuildPrometheusRule nm ns labels st of
      Inl e \<Rightarrow> \<not> HasRegisteredRules st \<and> e = GoError ''no registered recording rule or alert''
    | Inr pr \<Rightarrow> HasRegisteredRules st \<and> pr_Name pr = nm \<and> pr_Namespace pr = ns \<and> pr_Labels pr = labels \<and>
        concat (map g_Rules (pr_Groups pr)) =
          map recording_to_rule (rules_ListRecordingRules st) @ ListAlerts (rs_registry st) \<and>
        sublist (map g_Name (pr_Groups pr)) [''recordingRules.rules'', ''alerts.rules''] \<and>
        sorted (map recording_key (rules_ListRecordingRules st)) \<and>
        sorted (map alert_key (ListAlerts (rs_registry st))) \<and>
        list_all (\<lambda>g. g_Rules g \<noteq> []) (pr_Groups pr))"
  by (auto simp: BuildPrometheusRule_def registry_BuildPrometheusRule_def buildPrometheusRuleSpec_list
      HasRegisteredRules_def rules_ListRecordingRules_def sorted_ListAlerts sorted_ListRecordingRules
      sublist_Cons_right)

text \<open>A template with an escaped verb passes the check, and every runbook URL then names no alert.\<close>

lemma escaped_template_accepted:
  "getRunbookURLTemplate (Some ''https://x/%%s'') = Inr ''https://x/%%s''"
  "sprintf ''https://x/%%s'' [FStr n] = ''https://x/%s%!(EXTRA string='' @ n @ '')''"
  by (simp_all add: getRunbookURLTemplate_def fmt_extra_def)

end
