(* ===== verification/Kube_Client.thy ===== *)
theory Kube_Client
  imports Rules_Registry
begin

text \<open>
  The API client the controllers call (\<open>sigs.k8s.io/controller-runtime/pkg/client\<close>; the server behind
  it is not part of the program). A client for one kind of object works on a world \<open>'w\<close> that only the
  server knows. The contract a reconciler relies on is the locale \<open>object_api\<close>: what was written is read
  back, up to the fields the reconciler compares. An in-memory server shows that the contract can hold.
\<close>

section \<open>Clients\<close>

datatype api_error = NotFound string | OtherErr string

definition IsNotFound :: "api_error option \<Rightarrow> bool" where
  "IsNotFound err = (case err of Some (NotFound m) \<Rightarrow> True | _ \<Rightarrow> False)"

primrec api_error_text :: "api_error \<Rightarrow> string" where
  "api_error_text (NotFound m) = m"
| "api_error_text (OtherErr m) = m"

record ('o, 'w) kclient =
  cl_get :: "string \<Rightarrow> string \<Rightarrow> 'w \<Rightarrow> api_error + 'o"
  cl_create :: "'o \<Rightarrow> 'w \<Rightarrow> 'w \<times> api_error option"
  cl_update :: "'o \<Rightarrow> 'w \<Rightarrow> 'w \<times> api_error option"
  cl_delete :: "'o \<Rightarrow> 'w \<Rightarrow> 'w \<times> api_error option"

section \<open>Semantic equality\<close>

text \<open>
  \<open>equality.Semantic.DeepEqual\<close> on maps and slices: nil and empty are equal, maps are compared by
  length and lookup, slices element by element.
\<close>

definition map_entries :: "'v gomap option \<Rightarrow> 'v gomap" where
  "map_entries m = (case m of None \<Rightarrow> [] | Some es \<Rightarrow> es)"

definition sem_map_eq :: "'v gomap option \<Rightarrow> 'v gomap option \<Rightarrow> bool" where
  "sem_map_eq a b \<longleftrightarrow> length (map_entries a) = length (map_entries b) \<and>
     list_all (\<lambda>(k, v). map_of (map_entries b) k = Some v) (map_entries a)"

lemma map_entries_simps [simp]: "map_entries None = []" "map_entries (Some es) = es"
  by (simp_all add: map_entries_def)

lemma sem_map_eq_refl: "gomap_ok (map_entries a) \<Longrightarrow> sem_map_eq a a"
  by (auto simp: sem_map_eq_def list_all_iff gomap_mem_iff)

lemma sem_map_eq_trans: "sem_map_eq a b \<Longrightarrow> sem_map_eq b c \<Longrightarrow> sem_map_eq a c"
  by (fastforce simp: sem_map_eq_def list_all_iff dest: map_of_SomeD)

lemma sem_map_eq_lookup:
  assumes "gomap_ok (map_entries a)" and "gomap_ok (map_entries b)"
  shows "sem_map_eq a b \<longleftrightarrow> map_of (map_entries a) = map_of (map_entries b)"
proof
  assume eq: "sem_map_eq a b"
  then have "set (map_entries a) \<subseteq> set (map_entries b)"
    by (auto simp: sem_map_eq_def list_all_iff dest: map_of_SomeD)
  moreover have "card (set (map_entries a)) = card (set (map_entries b))"
    using eq assms unfolding sem_map_eq_def gomap_ok_def
    by (metis distinct_card distinct_map)
  ultimately have "set (map_entries a) = set (map_entries b)"
    by (simp add: card_subset_eq)
  with assms show "map_of (map_entries a) = map_of (map_entries b)"
    by (simp add: gomap_ok_def map_of_inject_set)
next
  assume eq: "map_of (map_entries a) = map_of (map_entries b)"
  with assms have "set (map_entries a) = set (map_entries b)"
    by (simp add: gomap_ok_def map_of_inject_set)
  with assms eq show "sem_map_eq a b"
    unfolding sem_map_eq_def gomap_ok_def
    by (metis (mono_tags, lifting) assms(1) case_prodI2 distinct_card distinct_map gomap_mem_iff list_all_iff)
qed

lemma sem_map_eq_str_at:
  "gomap_ok (map_entries a) \<Longrightarrow> gomap_ok (map_entries b) \<Longrightarrow> sem_map_eq a b \<Longrightarrow>
   str_at (map_entries a) k = str_at (map_entries b) k"
  by (simp add: sem_map_eq_lookup str_at_def)

lemma list_all2_refl_on: "(\<And>x. x \<in> set xs \<Longrightarrow> R x x) \<Longrightarrow> list_all2 R xs xs"
  by (induction xs) simp_all

section \<open>Reconciling one object\<close>

text \<open>
  The shape the reconcilers of the program share: get, create when absent, update when the compared
  fields differ, with the differing fields merged into the existing object.
\<close>

definition reconcile_object ::
  "('o, 'w) kclient \<Rightarrow> ('o \<Rightarrow> 'o \<Rightarrow> bool) \<Rightarrow> ('o \<Rightarrow> 'o \<Rightarrow> 'o) \<Rightarrow> string \<Rightarrow> string \<Rightarrow> 'o \<Rightarrow> 'w \<Rightarrow>
   'w \<times> api_error option" where
  "reconcile_object cl matches merge nm ns desired w =
     (case cl_get cl nm ns w of
        Inl err \<Rightarrow> if IsNotFound (Some err) then cl_create cl desired w else (w, Some err)
      | Inr existing \<Rightarrow> if \<not> matches existing desired then cl_update cl (merge existing desired) w else (w, None))"

locale object_api =
  fixes cl :: "('o, 'w) kclient"
    and key_of :: "'o \<Rightarrow> string \<times> string"
    and matches :: "'o \<Rightarrow> 'o \<Rightarrow> bool"
    and merge :: "'o \<Rightarrow> 'o \<Rightarrow> 'o"
    and good :: "'o \<Rightarrow> bool"
  assumes get_key: "cl_get cl nm ns w = Inr e \<Longrightarrow> key_of e = (ns, nm)"
    and created: "cl_create cl d w = (w', None) \<Longrightarrow> key_of d = (ns, nm) \<Longrightarrow> good d \<Longrightarrow>
      \<exists>e. cl_get cl nm ns w' = Inr e \<and> matches e d"
    and updated: "cl_update cl (merge e d) w = (w', None) \<Longrightarrow> key_of e = (ns, nm) \<Longrightarrow> good d \<Longrightarrow>
      \<exists>e'. cl_get cl nm ns w' = Inr e' \<and> matches e' d"
begin

lemma reconciled:
  assumes "reconcile_object cl matches merge nm ns d w = (w', None)" and "key_of d = (ns, nm)" and "good d"
  shows "\<exists>e. cl_get cl nm ns w' = Inr e \<and> matches e d"
proof (cases "cl_get cl nm ns w")
  case (Inl err)
  then show ?thesis
    using assms created by (auto simp: reconcile_object_def split: if_splits)
next
  case (Inr e)
  show ?thesis
  proof (cases "matches e d")
    case True
    then show ?thesis using Inr assms(1) by (auto simp: reconcile_object_def)
  next
    case False
    then have "cl_update cl (merge e d) w = (w', None)"
      using Inr assms(1) by (simp add: reconcile_object_def)
    then show ?thesis using updated get_key [OF Inr] assms(3) by blast
  qed
qed

lemma stable:
  assumes "cl_get cl nm ns w = Inr e" and "matches e d"
  shows "reconcile_object cl matches merge nm ns d w = (w, None)"
  using assms by (simp add: reconcile_object_def)

lemma converges:
  assumes "reconcile_object cl matches merge nm ns d w = (w', None)" and "key_of d = (ns, nm)" and "good d"
  shows "reconcile_object cl matches merge nm ns d w' = (w', None)"
  using reconciled [OF assms] stable by blast

end

text \<open>A client that can also remove an object: afterwards, the object is not found.\<close>

locale deletable_api = object_api +
  assumes deleted: "cl_delete cl e w = (w', err) \<Longrightarrow> err = None \<or> IsNotFound err \<Longrightarrow> key_of e = (ns, nm) \<Longrightarrow>
    \<exists>m. cl_get cl nm ns w' = Inl (NotFound m)"
begin

lemma gone_after_delete:
  assumes "cl_get cl nm ns w = Inr e" and "cl_delete cl e w = (w', err)" and "err = None \<or> IsNotFound err"
  shows "\<exists>m. cl_get cl nm ns w' = Inl (NotFound m)"
  by (rule deleted [OF assms(2,3) get_key [OF assms(1)]])

end

text \<open>Writes through one client do not change what another client reads.\<close>

definition kinds_apart :: "('o, 'w) kclient \<Rightarrow> ('p, 'w) kclient \<Rightarrow> bool" where
  "kinds_apart cl cl' \<longleftrightarrow> (\<forall>nm ns w d.
     cl_get cl nm ns (fst (cl_create cl' d w)) = cl_get cl nm ns w \<and>
     cl_get cl nm ns (fst (cl_update cl' d w)) = cl_get cl nm ns w)"

lemma reconcile_frame:
  assumes "kinds_apart cl cl'" and "reconcile_object cl' matches merge nm' ns' d w = (w', err)"
  shows "cl_get cl nm ns w' = cl_get cl nm ns w"
proof -
  have "w' = w \<or> w' = fst (cl_create cl' d w) \<or> (\<exists>e. w' = fst (cl_update cl' e w))"
    using assms(2)
    by (auto simp: reconcile_object_def split: sum.splits if_splits) (metis fst_conv)+
  then show ?thesis using assms(1) unfolding kinds_apart_def by metis
qed

section \<open>An in-memory server\<close>

text \<open>The objects of one kind are a list; an object is found by namespace and name.\<close>

definition memory_client ::
  "('o \<Rightarrow> string \<times> string) \<Rightarrow> ('w \<Rightarrow> 'o list) \<Rightarrow> ('o list \<Rightarrow> 'w \<Rightarrow> 'w) \<Rightarrow> ('o, 'w) kclient" where
  "memory_client key_of sel upd = \<lparr>
     cl_get = (\<lambda>nm ns w. case find (\<lambda>e. key_of e = (ns, nm)) (sel w) of
        None \<Rightarrow> Inl (NotFound (nm @ '' not found'')) | Some e \<Rightarrow> Inr e),
     cl_create = (\<lambda>d w. if key_of d \<in> key_of ` set (sel w)
        then (w, Some (OtherErr (snd (key_of d) @ '' already exists''))) else (upd (sel w @ [d]) w, None)),
     cl_update = (\<lambda>d w. if key_of d \<in> key_of ` set (sel w)
        then (upd (map (\<lambda>e. if key_of e = key_of d then d else e) (sel w)) w, None)
        else (w, Some (NotFound (snd (key_of d) @ '' not found'')))),
     cl_delete = (\<lambda>d w. if key_of d \<in> key_of ` set (sel w)
        then (upd (filter (\<lambda>e. key_of e \<noteq> key_of d) (sel w)) w, None)
        else (w, Some (NotFound (snd (key_of d) @ '' not found''))))\<rparr>"

lemma find_append_new: "x \<notin> f ` set es \<Longrightarrow> f d = x \<Longrightarrow> find (\<lambda>e. f e = x) (es @ [d]) = Some d"
  by (induction es) auto

lemma find_map_update:
  "f d \<in> f ` set es \<Longrightarrow> find (\<lambda>e. f e = f d) (map (\<lambda>e. if f e = f d then d else e) es) = Some d"
  by (induction es) auto

text \<open>
  The in-memory server meets the contract of every reconciler whose comparison holds after its merge.
\<close>

lemma memory_object_api:
  assumes lens: "\<And>l w. sel (upd l w) = l"
    and merge_key: "\<And>e d. key_of (merge e d) = key_of e"
    and merge_matches: "\<And>e d. good d \<Longrightarrow> matches (merge e d) d"
    and refl: "\<And>d. good d \<Longrightarrow> matches d d"
  shows "object_api (memory_client key_of sel upd) key_of matches merge good"
proof
  fix nm ns w e
  assume "cl_get (memory_client key_of sel upd) nm ns w = Inr e"
  then show "key_of e = (ns, nm)"
    by (auto simp: memory_client_def find_Some_iff split: option.splits)
next
  fix d w w' nm ns
  assume "cl_create (memory_client key_of sel upd) d w = (w', None)" "key_of d = (ns, nm)" "good d"
  then show "\<exists>e. cl_get (memory_client key_of sel upd) nm ns w' = Inr e \<and> matches e d"
    using refl [of d] find_append_new [of "(ns, nm)" key_of "sel w" d]
    by (auto simp: memory_client_def lens split: if_splits)
next
  fix e d w w' nm ns
  assume a: "cl_update (memory_client key_of sel upd) (merge e d) w = (w', None)" "key_of e = (ns, nm)" "good d"
  have "key_of (merge e d) = (ns, nm)" using merge_key a(2) by simp
  moreover have "key_of (merge e d) \<in> key_of ` set (sel w)"
    using a(1) by (auto simp: memory_client_def split: if_splits)
  ultimately show "\<exists>e'. cl_get (memory_client key_of sel upd) nm ns w' = Inr e' \<and> matches e' d"
    using a merge_matches find_map_update [of key_of "merge e d" "sel w"]
    by (auto simp: memory_client_def lens split: if_splits)
qed

lemma memory_deletable_api:
  assumes lens: "\<And>l w. sel (upd l w) = l"
    and "object_api (memory_client key_of sel upd) key_of matches merge good"
  shows "deletable_api (memory_client key_of sel upd) key_of matches merge good"
proof (rule deletable_api.intro [OF assms(2)])
  have absent: "find (\<lambda>e. key_of e = k) (filter (\<lambda>e. key_of e \<noteq> k) es) = None"
    "k \<notin> key_of ` set es \<Longrightarrow> find (\<lambda>e. key_of e = k) es = None" for k es
    by (auto simp: find_None_iff)
  show "deletable_api_axioms (memory_client key_of sel upd) key_of"
    by (rule deletable_api_axioms.intro)
       (auto simp: memory_client_def lens absent IsNotFound_def split: if_splits)
qed

lemma memory_kinds_apart:
  assumes "\<And>l w. sel (upd' l w) = sel w"
  shows "kinds_apart (memory_client key_of sel upd) (memory_client key_of' sel' upd')"
  using assms by (auto simp: kinds_apart_def memory_client_def)

end
