(* ===== verification/Metrics_Resources.thy ===== *)
theory Metrics_Resources
  imports Kube_Client
begin

text \<open>
  \<open>pkg/controller/constants.go\<close> and \<open>pkg/controller/metricsresources_controller.go\<close>: the Service, the
  token Secret and the ServiceMonitor of the metrics endpoint, how the desired objects are built, how
  each is compared with the existing one, and the reconciler that handles the three in order.
\<close>

section \<open>Constants\<close>

definition controllerName :: string where
  "controllerName = ''virt-observability-controller''"

definition labelKeyName :: string where
  "labelKeyName = ''app.kubernetes.io/name''"

definition labelKeyComponent :: string where
  "labelKeyComponent = ''app.kubernetes.io/component''"

definition labelKeyManagedBy :: string where
  "labelKeyManagedBy = ''app.kubernetes.io/managed-by''"

definition labelValueComponentMetrics :: string where
  "labelValueComponentMetrics = ''metrics''"

definition labelValueComponentRules :: string where
  "labelValueComponentRules = ''rules''"

definition commonLabels :: "string \<Rightarrow> string gomap" where
  "commonLabels component =
     [(labelKeyName, controllerName), (labelKeyComponent, component), (labelKeyManagedBy, controllerName)]"

definition metricsServiceName :: string where
  "metricsServiceName = ''virt-observability-controller-metrics''"

definition metricsTokenSecretName :: string where
  "metricsTokenSecretName = ''virt-observability-controller-metrics-token''"

definition metricsServiceMonitorName :: string where
  "metricsServiceMonitorName = ''virt-observability-controller''"

definition metricsPortName :: string where
  "metricsPortName = ''metrics''"

definition metricsTokenKey :: string where
  "metricsTokenKey = ''token''"

lemma commonLabels_ok [simp]: "gomap_ok (commonLabels c)"
  by (simp add: commonLabels_def labelKeyName_def labelKeyComponent_def labelKeyManagedBy_def)

section \<open>Objects\<close>

record object_meta =
  om_Name :: string
  om_Namespace :: string
  om_Labels :: "string gomap option"
  om_Annotations :: "string gomap option"

record service_port =
  sp_Name :: string
  sp_Port :: int
  sp_TargetPort :: IntOrString
  sp_Protocol :: string
  sp_NodePort :: int

text \<open>\<open>sv_ClusterIP\<close> stands for the fields of the specification that the server assigns.\<close>

record service =
  sv_Meta :: object_meta
  sv_Ports :: "service_port list"
  sv_Selector :: "string gomap option"
  sv_ClusterIP :: string

record secret =
  sc_Meta :: object_meta
  sc_Type :: string
  sc_Data :: "string gomap option"

record monitor_endpoint =
  ep_Port :: string
  ep_Scheme :: "string option"
  ep_CredentialsName :: "string option"
  ep_CredentialsKey :: string
  ep_TLSConfig :: "bool option option"

text \<open>\<open>sm_OtherSpec\<close> stands for the fields of the specification that the program leaves at their zero value.\<close>

record service_monitor =
  sm_Meta :: object_meta
  sm_MatchLabels :: "string gomap option"
  sm_Endpoints :: "monitor_endpoint list"
  sm_OtherSpec :: string

section \<open>The desired objects\<close>

record metrics_reconciler =
  mr_Namespace :: string
  mr_ServiceAccountName :: string
  mr_MetricsPort :: int
  mr_SecureMetrics :: bool

definition ServiceAccountNameKey :: string where
  "ServiceAccountNameKey = ''kubernetes.io/service-account.name''"

definition buildDesiredService :: "metrics_reconciler \<Rightarrow> service" where
  "buildDesiredService r = \<lparr>
     sv_Meta = \<lparr>om_Name = metricsServiceName, om_Namespace = mr_Namespace r,
       om_Labels = Some (commonLabels labelValueComponentMetrics), om_Annotations = None\<rparr>,
     sv_Ports = [\<lparr>sp_Name = metricsPortName, sp_Port = mr_MetricsPort r,
       sp_TargetPort = FromInt (mr_MetricsPort r), sp_Protocol = ''TCP'', sp_NodePort = 0\<rparr>],
     sv_Selector = Some [(labelKeyName, controllerName)],
     sv_ClusterIP = ''''\<rparr>"

definition buildDesiredSecret :: "metrics_reconciler \<Rightarrow> secret" where
  "buildDesiredSecret r = \<lparr>
     sc_Meta = \<lparr>om_Name = metricsTokenSecretName, om_Namespace = mr_Namespace r,
       om_Labels = Some (commonLabels labelValueComponentMetrics),
       om_Annotations = Some [(ServiceAccountNameKey, mr_ServiceAccountName r)]\<rparr>,
     sc_Type = ''kubernetes.io/service-account-token'',
     sc_Data = None\<rparr>"

definition buildDesiredServiceMonitor :: "metrics_reconciler \<Rightarrow> service_monitor" where
  "buildDesiredServiceMonitor r =
     (let endpoint = \<lparr>ep_Port = metricsPortName, ep_Scheme = None,
            ep_CredentialsName = Some metricsTokenSecretName, ep_CredentialsKey = metricsTokenKey,
            ep_TLSConfig = None\<rparr>;
          endpoint' = (if mr_SecureMetrics r
            then endpoint\<lparr>ep_Scheme := Some ''https'', ep_TLSConfig := Some (Some True)\<rparr>
            else endpoint\<lparr>ep_Scheme := Some ''http''\<rparr>)
      in \<lparr>sm_Meta = \<lparr>om_Name = metricsServiceMonitorName, om_Namespace = mr_Namespace r,
            om_Labels = Some (commonLabels labelValueComponentMetrics), om_Annotations = None\<rparr>,
          sm_MatchLabels = Some (commonLabels labelValueComponentMetrics),
          sm_Endpoints = [endpoint'], sm_OtherSpec = ''''\<rparr>)"

section \<open>Reconciliation\<close>

definition reconcileService ::
  "(service, 'w) kclient \<Rightarrow> metrics_reconciler \<Rightarrow> 'w \<Rightarrow> 'w \<times> api_error option" where
  "reconcileService cl r w =
     (let desired = buildDesiredService r
      in case cl_get cl metricsServiceName (mr_Namespace r) w of
           Inl err \<Rightarrow> if IsNotFound (Some err) then cl_create cl desired w else (w, Some err)
         | Inr existing \<Rightarrow>
             if sv_Ports existing \<noteq> sv_Ports desired \<or>
                \<not> sem_map_eq (sv_Selector existing) (sv_Selector desired) \<or>
                \<not> sem_map_eq (om_Labels (sv_Meta existing)) (om_Labels (sv_Meta desired))
             then cl_update cl (existing\<lparr>sv_Ports := sv_Ports desired, sv_Selector := sv_Selector desired,
                    sv_Meta := (sv_Meta existing)\<lparr>om_Labels := om_Labels (sv_Meta desired)\<rparr>\<rparr>) w
             else (w, None))"

definition reconcileSecret ::
  "(secret, 'w) kclient \<Rightarrow> metrics_reconciler \<Rightarrow> 'w \<Rightarrow> 'w \<times> api_error option" where
  "reconcileSecret cl r w =
     (let desired = buildDesiredSecret r
      in case cl_get cl metricsTokenSecretName (mr_Namespace r) w of
           Inl err \<Rightarrow> if IsNotFound (Some err) then cl_create cl desired w else (w, Some err)
         | Inr existing \<Rightarrow>
             if nilmap_at (om_Annotations (sc_Meta existing)) ServiceAccountNameKey \<noteq> mr_ServiceAccountName r \<or>
                \<not> sem_map_eq (om_Labels (sc_Meta existing)) (om_Labels (sc_Meta desired))
             then cl_update cl (existing\<lparr>sc_Meta := (sc_Meta existing)
                    \<lparr>om_Labels := om_Labels (sc_Meta desired), om_Annotations := om_Annotations (sc_Meta desired)\<rparr>\<rparr>) w
             else (w, None))"

definition reconcileServiceMonitor ::
  "(service_monitor, 'w) kclient \<Rightarrow> metrics_reconciler \<Rightarrow> 'w \<Rightarrow> 'w \<times> api_error option" where
  "reconcileServiceMonitor cl r w =
     (let desired = buildDesiredServiceMonitor r
      in case cl_get cl metricsServiceMonitorName (mr_Namespace r) w of
           Inl err \<Rightarrow> if IsNotFound (Some err) then cl_create cl desired w else (w, Some err)
         | Inr existing \<Rightarrow>
             if \<not> (sem_map_eq (sm_MatchLabels existing) (sm_MatchLabels desired) \<and>
                   sm_Endpoints existing = sm_Endpoints desired \<and>
                   sm_OtherSpec existing = sm_OtherSpec desired) \<or>
                \<not> sem_map_eq (om_Labels (sm_Meta existing)) (om_Labels (sm_Meta desired))
             then cl_update cl (existing\<lparr>sm_MatchLabels := sm_MatchLabels desired,
                    sm_Endpoints := sm_Endpoints desired, sm_OtherSpec := sm_OtherSpec desired,
                    sm_Meta := (sm_Meta existing)\<lparr>om_Labels := om_Labels (sm_Meta desired)\<rparr>\<rparr>) w
             else (w, None))"

text \<open>\<open>Reconcile\<close>: Service, Secret, ServiceMonitor; the first error ends it, with the name of the step.\<close>

definition MetricsResources_Reconcile ::
  "(service, 'w) kclient \<Rightarrow> (secret, 'w) kclient \<Rightarrow> (service_monitor, 'w) kclient \<Rightarrow>
   metrics_reconciler \<Rightarrow> 'w \<Rightarrow> 'w \<times> string option" where
  "MetricsResources_Reconcile svc sec mon r w0 =
     (case reconcileService svc r w0 of
        (w1, Some err) \<Rightarrow> (w1, Some (''reconciling Service: '' @ api_error_text err))
      | (w1, None) \<Rightarrow>
          (case reconcileSecret sec r w1 of
             (w2, Some err) \<Rightarrow> (w2, Some (''reconciling Secret: '' @ api_error_text err))
           | (w2, None) \<Rightarrow>
               (case reconcileServiceMonitor mon r w2 of
                  (w3, Some err) \<Rightarrow> (w3, Some (''reconciling ServiceMonitor: '' @ api_error_text err))
                | (w3, None) \<Rightarrow> (w3, None))))"

text \<open>
  The watches of \<open>SetupWithManager\<close>: an event of an object of the given namespace and one of the
  names enqueues one request, any other none; every KubeVirt event enqueues one.
\<close>

definition mapIfOwned :: "metrics_reconciler \<Rightarrow> string list \<Rightarrow> string \<Rightarrow> string \<Rightarrow> nat" where
  "mapIfOwned r names ns nm =
     (if ns \<noteq> mr_Namespace r then 0 else if nm \<notin> set names then 0 else 1)"

datatype watched = WKubeVirt | WService | WSecret | WServiceMonitor | WPrometheusRule

fun metricsresources_requests :: "metrics_reconciler \<Rightarrow> watched \<Rightarrow> string \<Rightarrow> string \<Rightarrow> nat" where
  "metricsresources_requests r WKubeVirt ns nm = 1"
| "metricsresources_requests r WService ns nm = mapIfOwned r [metricsServiceName] ns nm"
| "metricsresources_requests r WSecret ns nm = mapIfOwned r [metricsTokenSecretName] ns nm"
| "metricsresources_requests r WServiceMonitor ns nm = mapIfOwned r [metricsServiceMonitorName] ns nm"
| "metricsresources_requests r WPrometheusRule ns nm = 0"


section \<open>The contract of each kind\<close>

definition service_key :: "service \<Rightarrow> string \<times> string" where
  "service_key s = (om_Namespace (sv_Meta s), om_Name (sv_Meta s))"

definition service_matches :: "service \<Rightarrow> service \<Rightarrow> bool" where
  "service_matches e d \<longleftrightarrow> sv_Ports e = sv_Ports d \<and> sem_map_eq (sv_Selector e) (sv_Selector d) \<and>
     sem_map_eq (om_Labels (sv_Meta e)) (om_Labels (sv_Meta d))"

definition service_merge :: "service \<Rightarrow> service \<Rightarrow> service" where
  "service_merge e d = e\<lparr>sv_Ports := sv_Ports d, sv_Selector := sv_Selector d,
     sv_Meta := (sv_Meta e)\<lparr>om_Labels := om_Labels (sv_Meta d)\<rparr>\<rparr>"

definition service_wf :: "service \<Rightarrow> bool" where
  "service_wf s \<longleftrightarrow> gomap_ok (map_entries (sv_Selector s)) \<and> gomap_ok (map_entries (om_Labels (sv_Meta s)))"

definition secret_key :: "secret \<Rightarrow> string \<times> string" where
  "secret_key s = (om_Namespace (sc_Meta s), om_Name (sc_Meta s))"

definition secret_matches :: "secret \<Rightarrow> secret \<Rightarrow> bool" where
  "secret_matches e d \<longleftrightarrow>
     nilmap_at (om_Annotations (sc_Meta e)) ServiceAccountNameKey =
       nilmap_at (om_Annotations (sc_Meta d)) ServiceAccountNameKey \<and>
     sem_map_eq (om_Labels (sc_Meta e)) (om_Labels (sc_Meta d))"

definition secret_merge :: "secret \<Rightarrow> secret \<Rightarrow> secret" where
  "secret_merge e d = e\<lparr>sc_Meta := (sc_Meta e)
     \<lparr>om_Labels := om_Labels (sc_Meta d), om_Annotations := om_Annotations (sc_Meta d)\<rparr>\<rparr>"

definition secret_wf :: "secret \<Rightarrow> bool" where
  "secret_wf s \<longleftrightarrow> gomap_ok (map_entries (om_Labels (sc_Meta s)))"

definition monitor_key :: "service_monitor \<Rightarrow> string \<times> string" where
  "monitor_key s = (om_Namespace (sm_Meta s), om_Name (sm_Meta s))"

definition monitor_matches :: "service_monitor \<Rightarrow> service_monitor \<Rightarrow> bool" where
  "monitor_matches e d \<longleftrightarrow> sem_map_eq (sm_MatchLabels e) (sm_MatchLabels d) \<and>
     sm_Endpoints e = sm_Endpoints d \<and> sm_OtherSpec e = sm_OtherSpec d \<and>
     sem_map_eq (om_Labels (sm_Meta e)) (om_Labels (sm_Meta d))"

definition monitor_merge :: "service_monitor \<Rightarrow> service_monitor \<Rightarrow> service_monitor" where
  "monitor_merge e d = e\<lparr>sm_MatchLabels := sm_MatchLabels d, sm_Endpoints := sm_Endpoints d,
     sm_OtherSpec := sm_OtherSpec d, sm_Meta := (sm_Meta e)\<lparr>om_Labels := om_Labels (sm_Meta d)\<rparr>\<rparr>"

definition monitor_wf :: "service_monitor \<Rightarrow> bool" where
  "monitor_wf s \<longleftrightarrow> gomap_ok (map_entries (sm_MatchLabels s)) \<and> gomap_ok (map_entries (om_Labels (sm_Meta s)))"

lemmas service_rel_defs = service_key_def service_matches_def service_merge_def service_wf_def
lemmas secret_rel_defs = secret_key_def secret_matches_def secret_merge_def secret_wf_def
lemmas monitor_rel_defs = monitor_key_def monitor_matches_def monitor_merge_def monitor_wf_def

lemma reconcileService_object:
  "reconcileService cl r w =
     reconcile_object cl service_matches service_merge metricsServiceName (mr_Namespace r) (buildDesiredService r) w"
  unfolding reconcileService_def reconcile_object_def Let_def service_matches_def service_merge_def de_Morgan_conj ..

lemma reconcileSecret_object:
  "reconcileSecret cl r w =
     reconcile_object cl secret_matches secret_merge metricsTokenSecretName (mr_Namespace r) (buildDesiredSecret r) w"
proof -
  have "nilmap_at (om_Annotations (sc_Meta (buildDesiredSecret r))) ServiceAccountNameKey = mr_ServiceAccountName r"
    by (simp add: buildDesiredSecret_def str_at_def)
  then show ?thesis
    unfolding reconcileSecret_def reconcile_object_def Let_def secret_matches_def secret_merge_def de_Morgan_conj
    by (simp only:)
qed

lemma reconcileServiceMonitor_object:
  "reconcileServiceMonitor cl r w =
     reconcile_object cl monitor_matches monitor_merge metricsServiceMonitorName (mr_Namespace r)
       (buildDesiredServiceMonitor r) w"
  unfolding reconcileServiceMonitor_def reconcile_object_def Let_def monitor_matches_def monitor_merge_def
    de_Morgan_conj disj_assoc ..

lemma desired_keys:
  "service_key (buildDesiredService r) = (mr_Namespace r, metricsServiceName)"
  "secret_key (buildDesiredSecret r) = (mr_Namespace r, metricsTokenSecretName)"
  "monitor_key (buildDesiredServiceMonitor r) = (mr_Namespace r, metricsServiceMonitorName)"
  by (simp_all add: service_key_def secret_key_def monitor_key_def buildDesiredService_def
      buildDesiredSecret_def buildDesiredServiceMonitor_def Let_def)

lemma desired_wf:
  "service_wf (buildDesiredService r)" "secret_wf (buildDesiredSecret r)" "monitor_wf (buildDesiredServiceMonitor r)"
  by (simp_all add: service_wf_def secret_wf_def monitor_wf_def buildDesiredService_def
      buildDesiredSecret_def buildDesiredServiceMonitor_def Let_def)

section \<open>The in-memory server provides the contract\<close>

record memory_world =
  mw_services :: "service list"
  mw_secrets :: "secret list"
  mw_monitors :: "service_monitor list"

definition memory_services :: "(service, memory_world) kclient" where
  "memory_services = memory_client service_key mw_services (\<lambda>l w. w\<lparr>mw_services := l\<rparr>)"

definition memory_secrets :: "(secret, memory_world) kclient" where
  "memory_secrets = memory_client secret_key mw_secrets (\<lambda>l w. w\<lparr>mw_secrets := l\<rparr>)"

definition memory_monitors :: "(service_monitor, memory_world) kclient" where
  "memory_monitors = memory_client monitor_key mw_monitors (\<lambda>l w. w\<lparr>mw_monitors := l\<rparr>)"

interpretation services: object_api memory_services service_key service_matches service_merge service_wf
  unfolding memory_services_def
  by (rule memory_object_api) (simp_all add: service_rel_defs sem_map_eq_refl)

interpretation secrets: object_api memory_secrets secret_key secret_matches secret_merge secret_wf
  unfolding memory_secrets_def
  by (rule memory_object_api) (simp_all add: secret_rel_defs sem_map_eq_refl)

interpretation monitors: object_api memory_monitors monitor_key monitor_matches monitor_merge monitor_wf
  unfolding memory_monitors_def
  by (rule memory_object_api) (simp_all add: monitor_rel_defs sem_map_eq_refl)

lemma memory_apart:
  "kinds_apart memory_services memory_secrets" "kinds_apart memory_services memory_monitors"
  "kinds_apart memory_secrets memory_monitors"
  unfolding memory_services_def memory_secrets_def memory_monitors_def
  by (rule memory_kinds_apart; simp)+

section \<open>Correctness\<close>

lemma Reconcile_None:
  "MetricsResources_Reconcile svc sec mon r w = (w3, None) \<longleftrightarrow>
     (\<exists>w1 w2. reconcileService svc r w = (w1, None) \<and> reconcileSecret sec r w1 = (w2, None) \<and>
        reconcileServiceMonitor mon r w2 = (w3, None))"
  by (auto simp: MetricsResources_Reconcile_def split: prod.splits option.splits)

text \<open>C3: With an API server that returns what was written, a reconciliation that reports no error has
  established the three objects - the Service with the configured port and the controller's selector,
  the token Secret bound to the service account, the ServiceMonitor with an endpoint that matches the
  scheme of the server - and the next reconciliation writes nothing.\<close>

theorem metrics_resources_converge:
  assumes "object_api svc service_key service_matches service_merge service_wf"
    and "object_api sec secret_key secret_matches secret_merge secret_wf"
    and "object_api mon monitor_key monitor_matches monitor_merge monitor_wf"
    and "kinds_apart svc sec" and "kinds_apart svc mon" and "kinds_apart sec mon"
    and "MetricsResources_Reconcile svc sec mon r w = (w', None)"
  shows "(\<exists>s. cl_get svc metricsServiceName (mr_Namespace r) w' = Inr s \<and>
      sv_Ports s = [\<lparr>sp_Name = ''metrics'', sp_Port = mr_MetricsPort r, sp_TargetPort = FromInt (mr_MetricsPort r),
        sp_Protocol = ''TCP'', sp_NodePort = 0\<rparr>] \<and>
      sem_map_eq (sv_Selector s) (Some [(labelKeyName, controllerName)])) \<and>
    (\<exists>s. cl_get sec metricsTokenSecretName (mr_Namespace r) w' = Inr s \<and>
      nilmap_at (om_Annotations (sc_Meta s)) ServiceAccountNameKey = mr_ServiceAccountName r) \<and>
    (\<exists>m. cl_get mon metricsServiceMonitorName (mr_Namespace r) w' = Inr m \<and>
      map ep_Scheme (sm_Endpoints m) = [Some (if mr_SecureMetrics r then ''https'' else ''http'')] \<and>
      map ep_CredentialsName (sm_Endpoints m) = [Some metricsTokenSecretName]) \<and>
    MetricsResources_Reconcile svc sec mon r w' = (w', None)"
proof -
  obtain w1 w2 where s1: "reconcileService svc r w = (w1, None)" and s2: "reconcileSecret sec r w1 = (w2, None)"
    and s3: "reconcileServiceMonitor mon r w2 = (w', None)"
    using assms(7) unfolding Reconcile_None by blast
  note o1 = s1 [unfolded reconcileService_object] and o2 = s2 [unfolded reconcileSecret_object]
    and o3 = s3 [unfolded reconcileServiceMonitor_object]
  obtain s where s: "cl_get svc metricsServiceName (mr_Namespace r) w1 = Inr s" "service_matches s (buildDesiredService r)"
    using object_api.reconciled [OF assms(1) o1 desired_keys(1) desired_wf(1)] by blast
  obtain c where c: "cl_get sec metricsTokenSecretName (mr_Namespace r) w2 = Inr c" "secret_matches c (buildDesiredSecret r)"
    using object_api.reconciled [OF assms(2) o2 desired_keys(2) desired_wf(2)] by blast
  obtain m where m: "cl_get mon metricsServiceMonitorName (mr_Namespace r) w' = Inr m"
      "monitor_matches m (buildDesiredServiceMonitor r)"
    using object_api.reconciled [OF assms(3) o3 desired_keys(3) desired_wf(3)] by blast
  have s': "cl_get svc metricsServiceName (mr_Namespace r) w' = Inr s"
    using s(1) reconcile_frame [OF assms(4) o2] reconcile_frame [OF assms(5) o3] by metis
  have c': "cl_get sec metricsTokenSecretName (mr_Namespace r) w' = Inr c"
    using c(1) reconcile_frame [OF assms(6) o3] by metis
  have "MetricsResources_Reconcile svc sec mon r w' = (w', None)"
    unfolding Reconcile_None reconcileService_object reconcileSecret_object reconcileServiceMonitor_object
    using object_api.stable [OF assms(1) s' s(2)] object_api.stable [OF assms(2) c' c(2)]
      object_api.stable [OF assms(3) m] by blast
  moreover have "map ep_Scheme (sm_Endpoints m) = [Some (if mr_SecureMetrics r then ''https'' else ''http'')]"
    "map ep_CredentialsName (sm_Endpoints m) = [Some metricsTokenSecretName]"
    using m(2) by (auto simp: monitor_matches_def buildDesiredServiceMonitor_def Let_def)
  moreover have "nilmap_at (om_Annotations (sc_Meta c)) ServiceAccountNameKey = mr_ServiceAccountName r"
    using c(2) by (simp add: secret_matches_def buildDesiredSecret_def str_at_def)
  ultimately show ?thesis
    using s' s(2) c' m(1) by (auto simp: service_matches_def buildDesiredService_def metricsPortName_def)
qed

definition demo_metrics_reconciler :: metrics_reconciler where
  "demo_metrics_reconciler =
     \<lparr>mr_Namespace = ''kubevirt'', mr_ServiceAccountName = ''sa'', mr_MetricsPort = 8443, mr_SecureMetrics = True\<rparr>"

lemma service_merge_key: "service_key (service_merge e d) = service_key e"
  by (simp add: service_rel_defs)

lemma secret_merge_key: "secret_key (secret_merge e d) = secret_key e"
  by (simp add: secret_rel_defs)

lemma monitor_merge_key: "monitor_key (monitor_merge e d) = monitor_key e"
  by (simp add: monitor_rel_defs)

lemma memory_reconcile_succeeds:
  assumes "\<And>e d. key_of (merge e d) = key_of e" and "key_of d = (ns, nm)"
  shows "\<exists>w'. reconcile_object (memory_client key_of sel upd) matches merge nm ns d w = (w', None)"
proof (cases "find (\<lambda>e. key_of e = (ns, nm)) (sel w)")
  case None
  then have "key_of d \<notin> key_of ` set (sel w)" using assms(2) by (auto simp: find_None_iff)
  with None show ?thesis by (simp add: reconcile_object_def memory_client_def IsNotFound_def)
next
  case (Some e)
  then have "key_of (merge e d) \<in> key_of ` set (sel w)"
    using assms(1) by (auto simp: find_Some_iff)
  with Some show ?thesis by (simp add: reconcile_object_def memory_client_def)
qed

lemma memory_succeeds:
  "\<exists>w'. reconcileService memory_services r w = (w', None)"
  "\<exists>w'. reconcileSecret memory_secrets r w = (w', None)"
  "\<exists>w'. reconcileServiceMonitor memory_monitors r w = (w', None)"
  unfolding reconcileService_object reconcileSecret_object reconcileServiceMonitor_object
    memory_services_def memory_secrets_def memory_monitors_def
  by (rule memory_reconcile_succeeds; simp only: service_merge_key secret_merge_key monitor_merge_key desired_keys)+

lemma memory_Reconcile:
  "\<exists>w'. MetricsResources_Reconcile memory_services memory_secrets memory_monitors r w = (w', None)"
  unfolding Reconcile_None using memory_succeeds by metis

definition empty_world :: memory_world where
  "empty_world = \<lparr>mw_services = [], mw_secrets = [], mw_monitors = []\<rparr>"

theorem metrics_resources_converge_witness:
  "\<exists>w'. MetricsResources_Reconcile memory_services memory_secrets memory_monitors demo_metrics_reconciler empty_world =
      (w', None) \<and>
    MetricsResources_Reconcile memory_services memory_secrets memory_monitors demo_metrics_reconciler w' = (w', None)"
  using memory_Reconcile [of demo_metrics_reconciler empty_world]
    metrics_resources_converge [OF services.object_api_axioms secrets.object_api_axioms
      monitors.object_api_axioms memory_apart] by blast


definition drifted_world :: memory_world where
  "drifted_world = \<lparr>
     mw_services = [(buildDesiredService demo_metrics_reconciler)\<lparr>sv_Ports := [], sv_ClusterIP := ''10.0.0.7''\<rparr>],
     mw_secrets = [(buildDesiredSecret demo_metrics_reconciler)
       \<lparr>sc_Data := Some [(''token'', ''t'')], sc_Meta := \<lparr>om_Name = metricsTokenSecretName, om_Namespace = ''kubevirt'',
          om_Labels = None, om_Annotations = None\<rparr>\<rparr>],
     mw_monitors = []\<rparr>"


end
