(* ===== verification/Prometheus_Rule_Controller.thy ===== *)
theory Prometheus_Rule_Controller
  imports Rules Metrics_Resources
begin

text \<open>
  \<open>pkg/controller/prometheusrule_controller.go\<close>: the reconciler that sets the rules up, and creates,
  updates or deletes the PrometheusRule. Its state is the package-level registry and the world behind
  the API client.
\<close>

definition prometheusRuleName :: string where
  "prometheusRuleName = ''virt-observability-rules''"

record rule_reconciler =
  pc_Namespace :: string
  pc_AlertsAllowlist :: "bool gomap option"
  pc_RecordingRulesAllowlist :: "bool gomap option"

section \<open>Comparing two PrometheusRules\<close>

definition rule_sem_eq :: "rule \<Rightarrow> rule \<Rightarrow> bool" where
  "rule_sem_eq a b \<longleftrightarrow> Record a = Record b \<and> Alert a = Alert b \<and> Expr a = Expr b \<and> For a = For b \<and>
     sem_map_eq (Labels a) (Labels b) \<and> sem_map_eq (Annotations a) (Annotations b)"

definition group_sem_eq :: "rule_group \<Rightarrow> rule_group \<Rightarrow> bool" where
  "group_sem_eq a b \<longleftrightarrow> g_Name a = g_Name b \<and> list_all2 rule_sem_eq (g_Rules a) (g_Rules b)"

definition spec_sem_eq :: "rule_group list \<Rightarrow> rule_group list \<Rightarrow> bool" where
  "spec_sem_eq = list_all2 group_sem_eq"

section \<open>Reconciliation\<close>

definition buildDesiredPrometheusRule :: "rule_reconciler \<Rightarrow> rules_state \<Rightarrow> prometheus_rule res" where
  "buildDesiredPrometheusRule r st =
     BuildPrometheusRule prometheusRuleName (pc_Namespace r) (Some (commonLabels labelValueComponentRules)) st"

text \<open>
  A panic of \<open>SetupRules\<close> leaves the recording rules registered, because they come first. Errors of the
  client are returned with their own text.
\<close>

definition PrometheusRule_Reconcile ::
  "(prometheus_rule, 'w) kclient \<Rightarrow> string option \<Rightarrow> rule_reconciler \<Rightarrow> rules_state \<times> 'w \<Rightarrow>
   (rules_state \<times> 'w) \<times> fault option" where
  "PrometheusRule_Reconcile cl env r s =
     (case s of (st, w) \<Rightarrow>
      case SetupRules env (pc_Namespace r) (pc_AlertsAllowlist r) (pc_RecordingRulesAllowlist r) st of
        Inl e \<Rightarrow>
          ((st\<lparr>rs_registry := recordingrules_Register (rs_registry st) (pc_Namespace r) (pc_RecordingRulesAllowlist r)\<rparr>, w),
           Some (if is_panic e then e else GoError (''setting up rules: '' @ fault_text e)))
      | Inr st' \<Rightarrow>
          (let got = cl_get cl prometheusRuleName (pc_Namespace r) w
           in if \<not> HasRegisteredRules st' then
                (case got of
                   Inr existing \<Rightarrow>
                     (case cl_delete cl existing w of
                        (w', None) \<Rightarrow> ((st', w'), None)
                      | (w', Some err) \<Rightarrow>
                          if \<not> IsNotFound (Some err) then ((st', w'), Some (GoError (api_error_text err)))
                          else ((st', w'), None))
                 | Inl getErr \<Rightarrow>
                     if \<not> IsNotFound (Some getErr) then ((st', w), Some (GoError (api_error_text getErr)))
                     else ((st', w), None))
              else
                (case buildDesiredPrometheusRule r st' of
                   Inl e \<Rightarrow> ((st', w), Some (GoError (''building PrometheusRule: '' @ fault_text e)))
                 | Inr desired \<Rightarrow>
                     (case got of
                        Inl getErr \<Rightarrow>
                          if IsNotFound (Some getErr) then
                            (case cl_create cl desired w of (w', err) \<Rightarrow>
                               ((st', w'), map_option (\<lambda>e. GoError (api_error_text e)) err))
                          else ((st', w), Some (GoError (api_error_text getErr)))
                      | Inr existing \<Rightarrow>
                          if \<not> spec_sem_eq (pr_Groups existing) (pr_Groups desired) \<or>
                             \<not> sem_map_eq (pr_Labels existing) (pr_Labels desired) \<or>
                             \<not> sem_map_eq (pr_Annotations existing) (pr_Annotations desired)
                          then
                            (case cl_update cl (existing\<lparr>pr_Groups := pr_Groups desired,
                                pr_Labels := pr_Labels desired, pr_Annotations := pr_Annotations desired\<rparr>) w of (w', err) \<Rightarrow>
                               ((st', w'), map_option (\<lambda>e. GoError (api_error_text e)) err))
                          else ((st', w), None)))))"

fun prometheusrule_requests :: "rule_reconciler \<Rightarrow> watched \<Rightarrow> string \<Rightarrow> string \<Rightarrow> (string \<times> string) list" where
  "prometheusrule_requests r WPrometheusRule ns nm =
     (if ns \<noteq> pc_Namespace r \<or> nm \<noteq> prometheusRuleName then [] else [(pc_Namespace r, prometheusRuleName)])"
| "prometheusrule_requests r WKubeVirt ns nm = [(pc_Namespace r, prometheusRuleName)]"
| "prometheusrule_requests r w ns nm = []"

section \<open>The contract\<close>

definition prule_key :: "prometheus_rule \<Rightarrow> string \<times> string" where
  "prule_key p = (pr_Namespace p, pr_Name p)"

definition prule_matches :: "prometheus_rule \<Rightarrow> prometheus_rule \<Rightarrow> bool" where
  "prule_matches e d \<longleftrightarrow> spec_sem_eq (pr_Groups e) (pr_Groups d) \<and> sem_map_eq (pr_Labels e) (pr_Labels d) \<and>
     sem_map_eq (pr_Annotations e) (pr_Annotations d)"

definition prule_merge :: "prometheus_rule \<Rightarrow> prometheus_rule \<Rightarrow> prometheus_rule" where
  "prule_merge e d = e\<lparr>pr_Groups := pr_Groups d, pr_Labels := pr_Labels d, pr_Annotations := pr_Annotations d\<rparr>"

definition rule_maps_ok :: "rule \<Rightarrow> bool" where
  "rule_maps_ok a \<longleftrightarrow> gomap_ok (map_entries (Labels a)) \<and> gomap_ok (map_entries (Annotations a))"

definition prule_wf :: "prometheus_rule \<Rightarrow> bool" where
  "prule_wf p \<longleftrightarrow> list_all (\<lambda>g. list_all rule_maps_ok (g_Rules g)) (pr_Groups p) \<and>
     gomap_ok (map_entries (pr_Labels p)) \<and> gomap_ok (map_entries (pr_Annotations p))"

lemma rule_sem_eq_refl: "rule_maps_ok a \<Longrightarrow> rule_sem_eq a a"
  by (simp add: rule_sem_eq_def rule_maps_ok_def sem_map_eq_refl)

lemma prule_matches_refl: "prule_wf p \<Longrightarrow> prule_matches p p"
  by (auto simp: prule_wf_def prule_matches_def spec_sem_eq_def group_sem_eq_def list_all_iff
      intro!: list_all2_refl_on sem_map_eq_refl rule_sem_eq_refl)

definition memory_rules :: "(prometheus_rule, prometheus_rule list) kclient" where
  "memory_rules = memory_client prule_key (\<lambda>w. w) (\<lambda>l w. l)"

interpretation prules: deletable_api memory_rules prule_key prule_matches prule_merge prule_wf
  unfolding memory_rules_def
proof (rule memory_deletable_api)
  show "object_api (memory_client prule_key (\<lambda>w. w) (\<lambda>l w. l)) prule_key prule_matches prule_merge prule_wf"
    by (rule memory_object_api)
       (simp_all add: prule_key_def prule_merge_def prule_matches_refl prule_matches_refl [unfolded prule_matches_def]
          prule_matches_def)
qed simp

section \<open>The maps of the registered rules\<close>

lemma rule_maps_ok_labels: "rule_maps_ok a \<Longrightarrow> rule_maps_ok (with_labels t a)"
  by (cases "Labels a"; cases "Annotations a") (simp_all add: rule_maps_ok_def with_labels_def gomap_ok_upd)

lemma declared_maps_ok:
  "list_all rule_maps_ok (systemAlerts ns)" "list_all rule_maps_ok (virtAPIAlerts ns)"
  "list_all rule_maps_ok (virtControllerAlerts ns)" "list_all rule_maps_ok (virtHandlerAlerts ns)"
  "list_all rule_maps_ok (virtOperatorAlerts ns)" "list_all rule_maps_ok vmsAlerts"
  unfolding alert_list_defs by (simp_all add: rule_maps_ok_def alert_names)

lemma chosen_maps_ok: "a \<in> set (chosenAlerts t allow ns) \<Longrightarrow> rule_maps_ok a"
  using declared_maps_ok unfolding chosenAlerts_def allAlerts_def
  by (auto simp: list_all_iff intro: rule_maps_ok_labels)

definition const_labels_ok :: "recording_rule \<Rightarrow> bool" where
  "const_labels_ok r \<longleftrightarrow> gomap_ok (map_entries (rr_ConstLabels r))"

lemma recording_labels_ok: "list_all const_labels_ok (concat (allRecordingRules ns))"
  by (simp add: allRecordingRules_def recording_rule_defs const_labels_ok_def)

definition registry_maps_ok :: "rules_registry \<Rightarrow> bool" where
  "registry_maps_ok reg \<longleftrightarrow> (\<forall>a \<in> snd ` set (registeredAlerts reg). rule_maps_ok a) \<and>
     (\<forall>r \<in> snd ` set (registeredRecordingRules reg). const_labels_ok r)"

lemma registry_maps_ok_reach:
  assumes "rules_reach env st"
  shows "registry_maps_ok (rs_registry st)"
  using assms
proof (induction rule: rules_reach.induct)
  case init
  show ?case by (simp add: registry_maps_ok_def rules_init_def NewRegistry_def)
next
  case (reset st)
  show ?case by (simp add: registry_maps_ok_def ResetRegistry_def NewRegistry_def)
next
  case (register st ns aa ra st')
  obtain t where t: "getRunbookURLTemplate env = Inr t"
    using register.hyps(2) SetupRules_panics by (cases "getRunbookURLTemplate env") auto
  have vms: "vms_state t (rs_vmsAlerts st)"
    using rules_ok_reach [OF t register.hyps(1)] by (simp add: rules_ok_def)
  note st' = SetupRules_eq [OF t vms, of ns aa ra, unfolded register.hyps(2), simplified]
  let ?rs = "filter (recording_selected ra) (concat (allRecordingRules ns))"
  have "snd ` set (registeredAlerts (rs_registry st')) \<subseteq>
      set (chosenAlerts t aa ns) \<union> snd ` set (registeredAlerts (rs_registry st))"
    using put_all_values [of alert_key "chosenAlerts t aa ns"] by (simp add: st' RegisterAlerts_def)
  moreover have "snd ` set (registeredRecordingRules (rs_registry st')) \<subseteq>
      set ?rs \<union> snd ` set (registeredRecordingRules (rs_registry st))"
    using put_all_values [of recording_key ?rs]
    by (simp add: st' recordingrules_Register_eq RegisterRecordingRules_def)
  moreover have "const_labels_ok r" if "r \<in> set ?rs" for r
    using that recording_labels_ok [of ns] unfolding list_all_iff by (simp del: set_concat)
  ultimately show ?case
    unfolding registry_maps_ok_def
  proof (intro conjI ballI)
    fix a
    assume "snd ` set (registeredAlerts (rs_registry st')) \<subseteq>
        set (chosenAlerts t aa ns) \<union> snd ` set (registeredAlerts (rs_registry st))"
      and "a \<in> snd ` set (registeredAlerts (rs_registry st'))"
    then consider "a \<in> set (chosenAlerts t aa ns)" | "a \<in> snd ` set (registeredAlerts (rs_registry st))" by blast
    then show "rule_maps_ok a"
      by cases (rule chosen_maps_ok, assumption, rule conjunct1 [OF register.IH [unfolded registry_maps_ok_def], rule_format])
  next
    fix q
    assume "snd ` set (registeredRecordingRules (rs_registry st')) \<subseteq>
        set ?rs \<union> snd ` set (registeredRecordingRules (rs_registry st))"
      and "\<And>r. r \<in> set ?rs \<Longrightarrow> const_labels_ok r"
      and "q \<in> snd ` set (registeredRecordingRules (rs_registry st'))"
    then show "const_labels_ok q"
      using conjunct2 [OF register.IH [unfolded registry_maps_ok_def], rule_format, of q] by blast
  qed
qed

lemma desired_prule:
  assumes "rules_reach env st" and "buildDesiredPrometheusRule r st = Inr d"
  shows "prule_wf d" and "prule_key d = (pc_Namespace r, prometheusRuleName)"
proof -
  have ok: "registry_maps_ok (rs_registry st)" by (rule registry_maps_ok_reach [OF assms(1)])
  have "rule_maps_ok a" if "a \<in> set (ListAlerts (rs_registry st))" for a
    using ok that unfolding registry_maps_ok_def set_ListAlerts by blast
  moreover have "rule_maps_ok (recording_to_rule q)" if "q \<in> set (ListRecordingRules (rs_registry st))" for q
  proof -
    have "q \<in> snd ` set (registeredRecordingRules (rs_registry st))"
      using that by (simp add: ListRecordingRules_def)
    with ok have "const_labels_ok q" unfolding registry_maps_ok_def by blast
    then show ?thesis by (simp add: const_labels_ok_def rule_maps_ok_def recording_to_rule_def)
  qed
  ultimately show "prule_wf d"
    using assms(2)
    by (auto simp: buildDesiredPrometheusRule_def BuildPrometheusRule_def registry_BuildPrometheusRule_def
        buildPrometheusRuleSpec_list prule_wf_def list_all_iff split: if_splits)
  show "prule_key d = (pc_Namespace r, prometheusRuleName)"
    using assms(2)
    by (auto simp: buildDesiredPrometheusRule_def BuildPrometheusRule_def registry_BuildPrometheusRule_def
        buildPrometheusRuleSpec_list prule_key_def split: if_splits)
qed

lemma desired_some_iff: "(\<exists>d. buildDesiredPrometheusRule r st = Inr d) \<longleftrightarrow> HasRegisteredRules st"
  by (auto simp: buildDesiredPrometheusRule_def BuildPrometheusRule_def registry_BuildPrometheusRule_def
      buildPrometheusRuleSpec_list HasRegisteredRules_def)

section \<open>Correctness\<close>

text \<open>The part of the reconciler after the rules are set up.\<close>

definition reconcile_registered ::
  "(prometheus_rule, 'w) kclient \<Rightarrow> rule_reconciler \<Rightarrow> rules_state \<Rightarrow> 'w \<Rightarrow> 'w \<times> api_error option" where
  "reconcile_registered cl r st w =
     (case buildDesiredPrometheusRule r st of
        Inr d \<Rightarrow> reconcile_object cl prule_matches prule_merge prometheusRuleName (pc_Namespace r) d w
      | Inl e \<Rightarrow>
          (case cl_get cl prometheusRuleName (pc_Namespace r) w of
             Inr existing \<Rightarrow> (case cl_delete cl existing w of (w', err) \<Rightarrow> (w', if IsNotFound err then None else err))
           | Inl err \<Rightarrow> (w, if IsNotFound (Some err) then None else Some err)))"

lemma PrometheusRule_Reconcile_eq:
  assumes "SetupRules env (pc_Namespace r) (pc_AlertsAllowlist r) (pc_RecordingRulesAllowlist r) st = Inr st'"
  shows "PrometheusRule_Reconcile cl env r (st, w) =
    (let (w', err) = reconcile_registered cl r st' w
     in ((st', w'), map_option (\<lambda>e. GoError (api_error_text e)) err))"
proof (cases "HasRegisteredRules st'")
  case True
  then obtain d where d: "buildDesiredPrometheusRule r st' = Inr d" using desired_some_iff by blast
  show ?thesis
  proof (cases "cl_get cl prometheusRuleName (pc_Namespace r) w")
    case (Inl err)
    then show ?thesis
      using assms True d by (simp add: PrometheusRule_Reconcile_def reconcile_registered_def reconcile_object_def)
  next
    case (Inr e)
    then show ?thesis
      using assms True d unfolding prule_matches_def prule_merge_def
      by (auto simp: PrometheusRule_Reconcile_def reconcile_registered_def reconcile_object_def prule_matches_def
          prule_merge_def)
  qed
next
  case False
  then obtain e where e: "buildDesiredPrometheusRule r st' = Inl e"
    using desired_some_iff by (cases "buildDesiredPrometheusRule r st'") blast+
  then show ?thesis
    using assms False
    by (auto simp: PrometheusRule_Reconcile_def reconcile_registered_def IsNotFound_def split: sum.splits prod.splits option.splits)
qed

text \<open>With no rule registered, a run without an error leaves no PrometheusRule behind.\<close>

lemma registered_none_gone:
  assumes "deletable_api cl prule_key prule_matches prule_merge prule_wf" and none: "buildDesiredPrometheusRule r st = Inl e"
    and rec: "reconcile_registered cl r st w = (w', None)"
  shows "\<exists>m. cl_get cl prometheusRuleName (pc_Namespace r) w' = Inl (NotFound m)"
proof (cases "cl_get cl prometheusRuleName (pc_Namespace r) w")
  case (Inl err)
  then show ?thesis
    using rec none by (auto simp: reconcile_registered_def IsNotFound_def split: api_error.splits if_splits)
next
  case (Inr existing)
  obtain w2 err where "cl_delete cl existing w = (w2, err)" by (cases "cl_delete cl existing w")
  moreover have "w2 = w'" "err = None \<or> IsNotFound err"
    using calculation rec none Inr by (auto simp: reconcile_registered_def split: if_splits)
  ultimately show ?thesis
    using deletable_api.gone_after_delete [OF assms(1) Inr] by blast
qed


definition demo_rule_reconciler :: rule_reconciler where
  "demo_rule_reconciler = \<lparr>pc_Namespace = ''kubevirt'', pc_AlertsAllowlist = example_allow,
     pc_RecordingRulesAllowlist = Some []\<rparr>"

lemma memory_registered:
  assumes "rules_reach env st"
  shows "\<exists>w'. reconcile_registered memory_rules r st w = (w', None)"
proof (cases "buildDesiredPrometheusRule r st")
  case (Inl e)
  then show ?thesis
    by (auto simp: reconcile_registered_def memory_rules_def memory_client_def IsNotFound_def find_Some_iff
        split: option.splits)
next
  case (Inr d)
  have "prule_key (prule_merge e d') = prule_key e" for e d'
    by (simp add: prule_key_def prule_merge_def)
  then obtain w' where "reconcile_object memory_rules prule_matches prule_merge prometheusRuleName (pc_Namespace r) d w =
      (w', None)"
    using memory_reconcile_succeeds [of prule_key prule_merge d "pc_Namespace r" prometheusRuleName "\<lambda>w. w"
        "\<lambda>l w. l" prule_matches w] desired_prule(2) [OF assms Inr]
    unfolding memory_rules_def by blast
  with Inr show ?thesis by (simp add: reconcile_registered_def)
qed


text \<open>C23: The reconciler writes at most once, never when the lookup fails with an error other than not-found,
  and never when the runbook template is invalid: the panic comes before any call of the client.\<close>

theorem prometheus_rule_errors:
  assumes "rules_reach env st" and "PrometheusRule_Reconcile cl env r (st, w) = ((st', w'), err)"
  shows "(count_verb (case env of None \<Rightarrow> defaultRunbookURLTemplate | Some t \<Rightarrow> t) \<noteq> 1 \<longrightarrow>
      w' = w \<and> err = Some (GoPanic ''runbook URL template must have exactly 1 %s substring'')) \<and>
    (cl_get cl prometheusRuleName (pc_Namespace r) w = Inl (OtherErr m) \<longrightarrow> w' = w \<and> err \<noteq> None) \<and>
    (w' = w \<or> (\<exists>d. w' = fst (cl_create cl d w)) \<or> (\<exists>d. w' = fst (cl_update cl d w)) \<or> (\<exists>d. w' = fst (cl_delete cl d w)))"
proof (cases "SetupRules env (pc_Namespace r) (pc_AlertsAllowlist r) (pc_RecordingRulesAllowlist r) st")
  case (Inl e)
  have bad: "getRunbookURLTemplate env = Inl e"
  proof (cases "getRunbookURLTemplate env")
    case (Inr t)
    then have "vms_state t (rs_vmsAlerts st)" using rules_ok_reach [OF Inr assms(1)] by (simp add: rules_ok_def)
    then show ?thesis using SetupRules_eq [OF Inr] Inl by simp
  qed (use SetupRules_panics Inl in fastforce)
  then have "is_panic e" by (simp add: getRunbookURLTemplate_Inl)
  then show ?thesis
    using assms(2) Inl bad by (auto simp: PrometheusRule_Reconcile_def getRunbookURLTemplate_Inl)
next
  case (Inr s)
  have good: "count_verb (case env of None \<Rightarrow> defaultRunbookURLTemplate | Some t \<Rightarrow> t) = 1"
  proof (rule ccontr)
    assume "count_verb (case env of None \<Rightarrow> defaultRunbookURLTemplate | Some t \<Rightarrow> t) \<noteq> 1"
    then have "getRunbookURLTemplate env = Inl (GoPanic ''runbook URL template must have exactly 1 %s substring'')"
      by (simp add: getRunbookURLTemplate_Inl)
    with Inr show False using SetupRules_panics by fastforce
  qed
  obtain e where rec: "reconcile_registered cl r s w = (w', e)" and err: "err = map_option (\<lambda>e. GoError (api_error_text e)) e"
    using assms(2) unfolding PrometheusRule_Reconcile_eq [OF Inr] by (auto simp: Let_def split: prod.splits)
  have "e = Some (OtherErr m) \<and> w' = w" if "cl_get cl prometheusRuleName (pc_Namespace r) w = Inl (OtherErr m)"
    using rec that by (auto simp: reconcile_registered_def reconcile_object_def IsNotFound_def split: sum.splits)
  moreover have "w' = w \<or> (\<exists>d. w' = fst (cl_create cl d w)) \<or> (\<exists>d. w' = fst (cl_update cl d w)) \<or>
      (\<exists>d. w' = fst (cl_delete cl d w))"
    using rec
    by (auto simp: reconcile_registered_def reconcile_object_def split: sum.splits prod.splits if_splits) (metis fst_conv)+
  ultimately show ?thesis using err good by simp
qed

theorem prometheus_rule_errors_witness:
  "\<exists>st' w' err. PrometheusRule_Reconcile memory_rules (Some ''no verb'') demo_rule_reconciler (rules_init, []) =
     ((st', w'), err) \<and> w' = [] \<and> err = Some (GoPanic ''runbook URL template must have exactly 1 %s substring'')"
proof -
  obtain st' w' err where r: "PrometheusRule_Reconcile memory_rules (Some ''no verb'') demo_rule_reconciler
      (rules_init, []) = ((st', w'), err)"
    by (metis prod.collapse)
  have "count_verb ''no verb'' \<noteq> 1" by code_simp
  with prometheus_rule_errors [OF rules_reach.init r] r show ?thesis by auto
qed

end
