(* ===== verification/Startup.thy ===== *)
theory Startup
  imports Metrics_Setup VMStats_Run Flag_Parse Prometheus_Rule_Controller
begin

text \<open>
  \<open>cmd/main.go\<close>: the flags and the environment the process is started with, the checks that end it, and
  what it hands to the servers, the controllers and the poller. An exit with status 1 is a fault with
  the text of the log line before it. The manager, the certificate loader and the Prometheus registry
  are arguments: what they answer to each call is part of the environment.
\<close>

section \<open>Flags and environment\<close>

record flags =
  metricsAddr :: string
  probeAddr :: string
  enableLeaderElection :: bool
  secureMetrics :: bool
  webhookCertPath :: string
  webhookCertName :: string
  webhookCertKey :: string
  metricsCertPath :: string
  metricsCertName :: string
  metricsCertKey :: string
  enableHTTP2 :: bool
  tlsSecurityProfile :: string
  tlsMinVersion :: string
  tlsCiphers :: string
  tlsGroups :: string
  metricsAllowlist :: string
  alertsAllowlistRaw :: string
  recordingRulesAllowlistRaw :: string
  enableVMStats :: bool
  vmstatsPort :: int
  vmstatsCertPath :: string
  vmstatsCertName :: string
  vmstatsCertKey :: string

definition default_flags :: flags where
  "default_flags = \<lparr>
     metricsAddr = '':8080'', probeAddr = '':8081'', enableLeaderElection = False, secureMetrics = True,
     webhookCertPath = '''', webhookCertName = ''tls.crt'', webhookCertKey = ''tls.key'',
     metricsCertPath = '''', metricsCertName = ''tls.crt'', metricsCertKey = ''tls.key'',
     enableHTTP2 = False, tlsSecurityProfile = '''', tlsMinVersion = '''', tlsCiphers = '''', tlsGroups = '''',
     metricsAllowlist = '''', alertsAllowlistRaw = '''', recordingRulesAllowlistRaw = '''',
     enableVMStats = False, vmstatsPort = 8187,
     vmstatsCertPath = '''', vmstatsCertName = ''tls.crt'', vmstatsCertKey = ''tls.key''\<rparr>"

text \<open>
  \<open>env_cert\<close> and \<open>env_manager\<close> say with which error, if any, the certificate loader answers for a pair
  of files and the manager for the call of that name.
\<close>

record environment =
  env_pod_namespace :: string
  env_service_account :: string
  env_namespace_file :: "string option"
  env_cert :: "string \<Rightarrow> string \<Rightarrow> string option"
  env_manager :: "string \<Rightarrow> string option"

definition exit_if :: "string option \<Rightarrow> string \<Rightarrow> unit res" where
  "exit_if err msg = (case err of None \<Rightarrow> Inr () | Some e \<Rightarrow> Inl (GoError (msg @ '': '' @ e)))"

definition require :: "bool \<Rightarrow> string \<Rightarrow> unit res" where
  "require ok msg = (if ok then Inr () else Inl (GoError msg))"

section \<open>TLS options\<close>

type_synonym tls_opt = "tls_config \<Rightarrow> tls_config"

definition disableHTTP2 :: tls_opt where
  "disableHTTP2 c = c\<lparr>NextProtos := [''http/1.1'']\<rparr>"

definition serve_cert :: "string \<Rightarrow> tls_opt" where
  "serve_cert file c = c\<lparr>GetCertificate := Some file\<rparr>"

record tls_setup =
  ts_webhook :: "tls_opt list"
  ts_metrics :: "tls_opt list"
  ts_watchers :: "string list"

definition startup_tls :: "environment \<Rightarrow> flags \<Rightarrow> tls_setup res" where
  "startup_tls env fl =
     (let tlsOpts = (if \<not> enableHTTP2 fl then [disableHTTP2] else []);
          webhookCert = path_join [webhookCertPath fl, webhookCertName fl];
          metricsCert = path_join [metricsCertPath fl, metricsCertName fl]
      in
      bindR (require (\<not> (tlsSecurityProfile fl = '''' \<and> (tlsMinVersion fl \<noteq> '''' \<or> tlsCiphers fl \<noteq> '''')))
               (''invalid flag combination: --tls-min-version and --tls-ciphers are only valid '' @
                ''with --tls-security-profile=Custom'')) (\<lambda>_.
      bindR (if length (webhookCertPath fl) > 0 then
               bindR (exit_if (env_cert env webhookCert (path_join [webhookCertPath fl, webhookCertKey fl]))
                        ''Failed to initialize webhook certificate watcher'')
                 (\<lambda>_. Inr (tlsOpts @ [serve_cert webhookCert], [webhookCert]))
             else Inr (tlsOpts, [])) (\<lambda>(webhookTLSOpts, webhookWatcher).
      bindR (if tlsSecurityProfile fl \<noteq> '''' then
               (case TLSSecurityProfileToTLSConfig (tlsSecurityProfile fl) (tlsMinVersion fl) (tlsCiphers fl) (tlsGroups fl) of
                  Inl err \<Rightarrow> Inl (GoError (''invalid TLS security profile configuration: '' @ fault_text err))
                | Inr tlsConfigFn \<Rightarrow> Inr (tlsOpts @ [tlsConfigFn]))
             else Inr tlsOpts) (\<lambda>metricsTLSOpts.
      bindR (if length (metricsCertPath fl) > 0 then
               bindR (exit_if (env_cert env metricsCert (path_join [metricsCertPath fl, metricsCertKey fl]))
                        ''to initialize metrics certificate watcher'')
                 (\<lambda>_. Inr (metricsTLSOpts @ [serve_cert metricsCert], [metricsCert]))
             else Inr (metricsTLSOpts, [])) (\<lambda>(metricsTLSOpts', metricsWatcher).
      Inr \<lparr>ts_webhook = webhookTLSOpts, ts_metrics = metricsTLSOpts', ts_watchers = metricsWatcher @ webhookWatcher\<rparr>)))))"

text \<open>A server applies its options in order to a fresh configuration.\<close>

definition apply_opts :: "tls_opt list \<Rightarrow> tls_opt" where
  "apply_opts opts cfg = foldl (\<lambda>c f. f c) cfg opts"

section \<open>Metrics and the names that are warned about\<close>

text \<open>The names of the allowlist that no registered metric has, in the order the map is iterated.\<close>

definition unknown_names :: "bool gomap option \<Rightarrow> metric list \<Rightarrow> string list" where
  "unknown_names allowlist registered =
     (case allowlist of None \<Rightarrow> []
      | Some allow \<Rightarrow>
          (let registeredNames = map (\<lambda>m. (m_name m, True)) registered
           in filter (\<lambda>name. \<not> bool_at registeredNames name) (map fst allow)))"

section \<open>Starting\<close>

record poller_setup =
  ps_Port :: int
  ps_CertFile :: string
  ps_KeyFile :: string
  ps_MaxConcurrent :: nat
  ps_PollSeconds :: int

record 'p started =
  sd_tls :: tls_setup
  sd_bind :: string
  sd_secure :: bool
  sd_filter :: bool
  sd_probe :: string
  sd_leader :: bool
  sd_mstate :: mstate
  sd_registry :: "registry \<times> 'p"
  sd_warnings :: "string list"
  sd_metrics_reconciler :: metrics_reconciler
  sd_rule_reconciler :: rule_reconciler
  sd_poller :: "poller_setup option"

text \<open>The two reconcilers, from the environment, the flags and the parsed allowlists.\<close>

definition startup_controllers :: "environment \<Rightarrow> flags \<Rightarrow> (metrics_reconciler \<times> rule_reconciler) res" where
  "startup_controllers env fl =
     (let podNamespace = getPodNamespace (env_pod_namespace env) (env_namespace_file env)
      in
      bindR (require (podNamespace \<noteq> '''') ''missing required environment variable: POD_NAMESPACE not set'') (\<lambda>_.
      bindR (require (env_service_account env \<noteq> '''')
               ''missing required environment variable: POD_SERVICE_ACCOUNT not set'') (\<lambda>_.
      bindR (case parseMetricsPort (metricsAddr fl) of
               Inl err \<Rightarrow> Inl (GoError (''unable to parse metrics port: '' @ fault_text err))
             | Inr port \<Rightarrow> Inr port) (\<lambda>metricsPort.
      bindR (exit_if (env_manager env ''MetricsResources'') ''unable to create controller'') (\<lambda>_.
      bindR (exit_if (env_manager env ''PrometheusRule'') ''unable to create controller'') (\<lambda>_.
      Inr (\<lparr>mr_Namespace = podNamespace, mr_ServiceAccountName = env_service_account env,
            mr_MetricsPort = metricsPort, mr_SecureMetrics = secureMetrics fl\<rparr>,
           \<lparr>pc_Namespace = podNamespace, pc_AlertsAllowlist = parseAllowlist (alertsAllowlistRaw fl),
            pc_RecordingRulesAllowlist = parseAllowlist (recordingRulesAllowlistRaw fl)\<rparr>)))))))"

definition setupVMStats ::
  "(stats_cache, 'p) register_fn \<Rightarrow> (stats_cache, 'p) unregister_fn \<Rightarrow> stats_cache collector \<Rightarrow>
   environment \<Rightarrow> flags \<Rightarrow> bool gomap option \<Rightarrow> registry \<times> 'p \<Rightarrow> ((registry \<times> 'p) \<times> poller_setup) res" where
  "setupVMStats creg cunreg collector env fl allowlist s =
     (let certFile = path_join [vmstatsCertPath fl, vmstatsCertName fl];
          keyFile = path_join [vmstatsCertPath fl, vmstatsCertKey fl]
      in
      bindR (require (vmstatsCertPath fl \<noteq> '''')
               ''missing required flag: vmstats-cert-path is required when vmstats is enabled'') (\<lambda>_.
      bindR (exit_if (env_cert env certFile keyFile) ''unable to load vmstats client certificate'') (\<lambda>_.
      (case RegisterVMStatsCollector creg cunreg collector allowlist s of
         (s', Some err) \<Rightarrow> Inl (GoError (''unable to register vmstats collector: '' @ fault_text err))
       | (s', None) \<Rightarrow>
           bindR (exit_if (env_manager env ''vmstats poller'') ''unable to add vmstats poller'') (\<lambda>_.
           Inr (s', \<lparr>ps_Port = vmstatsPort fl, ps_CertFile = certFile, ps_KeyFile = keyFile,
                     ps_MaxConcurrent = 10, ps_PollSeconds = 30\<rparr>))))))"

definition program_main ::
  "(mstate, 'p) register_fn \<Rightarrow> (mstate, 'p) unregister_fn \<Rightarrow>
   (stats_cache, 'p) register_fn \<Rightarrow> (stats_cache, 'p) unregister_fn \<Rightarrow>
   mstate collector list \<Rightarrow> stats_cache collector \<Rightarrow>
   environment \<Rightarrow> flags \<Rightarrow> mstate \<Rightarrow> registry \<times> 'p \<Rightarrow> 'p started res" where
  "program_main preg punreg creg cunreg collectors vmstats env fl st0 s0 =
     (let allowlist = parseAllowlist (metricsAllowlist fl)
      in
      bindR (startup_tls env fl) (\<lambda>tls.
      (case SetupMetrics preg punreg collectors None None allowlist st0 s0 of
         (st1, s1, Some err) \<Rightarrow> Inl (GoError (''unable to set up metrics: '' @ fault_text err))
       | (st1, s1, None) \<Rightarrow>
          (let warnings = unknown_names allowlist (ListMetrics (fst s1))
           in
           bindR (exit_if (env_manager env ''NewManager'') ''unable to start manager'') (\<lambda>_.
           bindR (startup_controllers env fl) (\<lambda>(mr, pr).
           bindR (exit_if (env_manager env ''informers'') ''unable to add metrics informer setup'') (\<lambda>_.
           bindR (if enableVMStats fl then
                    bindR (setupVMStats creg cunreg vmstats env fl allowlist s1) (\<lambda>(s2, ps). Inr (s2, Some ps))
                  else Inr (s1, None)) (\<lambda>(s2, poller).
           bindR (if length (metricsCertPath fl) > 0 then exit_if (env_manager env ''metrics certificate watcher'')
                    ''unable to add metrics certificate watcher to manager'' else Inr ()) (\<lambda>_.
           bindR (if length (webhookCertPath fl) > 0 then exit_if (env_manager env ''webhook certificate watcher'')
                    ''unable to add webhook certificate watcher to manager'' else Inr ()) (\<lambda>_.
           bindR (exit_if (env_manager env ''healthz'') ''unable to set up health check'') (\<lambda>_.
           bindR (exit_if (env_manager env ''readyz'') ''unable to set up ready check'') (\<lambda>_.
           Inr \<lparr>sd_tls = tls, sd_bind = metricsAddr fl, sd_secure = secureMetrics fl, sd_filter = secureMetrics fl,
                sd_probe = probeAddr fl, sd_leader = enableLeaderElection fl, sd_mstate = st1, sd_registry = s2,
                sd_warnings = warnings, sd_metrics_reconciler = mr, sd_rule_reconciler = pr,
                sd_poller = poller\<rparr>))))))))))))"

section \<open>Waiting for the informers\<close>

text \<open>
  The wait of the poller's runnable before it starts: it looks at the stores once per second until the
  two caches it needs are there or the context is done. A trace is what it sees, second by second: the
  state of the metrics package, and whether the context is done before the next look. \<open>None\<close> is a wait
  that the trace does not end.
\<close>

fun wait_for_stores :: "string \<Rightarrow> (mstate \<times> bool) list \<Rightarrow> stores res option" where
  "wait_for_stores ctx_err [] = None"
| "wait_for_stores ctx_err ((st, ctx_done) # trace) =
     (case getStores st of
        Some s \<Rightarrow>
          if s_vmi s \<noteq> None \<and> s_virt_handler_pod s \<noteq> None then Some (Inr s)
          else if ctx_done then Some (Inl (GoError ctx_err)) else wait_for_stores ctx_err trace
      | None \<Rightarrow> if ctx_done then Some (Inl (GoError ctx_err)) else wait_for_stores ctx_err trace)"

lemma wait_ready: "stores_ready st \<Longrightarrow> wait_for_stores e ((st, d) # trace) = Some (Inr (the (getStores st)))"
  by (auto simp: stores_ready_def split: option.splits)

lemma wait_not_ready: "\<not> stores_ready st \<Longrightarrow> wait_for_stores e ((st, d) # trace) =
    (if d then Some (Inl (GoError e)) else wait_for_stores e trace)"
  by (auto simp: stores_ready_def split: option.splits)

lemma wait_skips:
  assumes "\<forall>x \<in> set before. \<not> stores_ready (fst x) \<and> \<not> snd x"
  shows "wait_for_stores e (before @ trace) = wait_for_stores e trace"
  using assms
proof (induction before)
  case Nil
  show ?case by simp
next
  case (Cons x before)
  obtain st d where "x = (st, d)" by (cases x)
  with Cons show ?case by (simp add: wait_not_ready del: wait_for_stores.simps)
qed

text \<open>The wait ends with the first look after the informers are set up, if the context is not done
  before: it then hands the stores of that moment to the poller; and when it ends otherwise the
  context was done, so the poller never starts on missing stores.\<close>

theorem wait_ends_when_informers_ready:
  assumes "\<forall>x \<in> set before. \<not> stores_ready (fst x) \<and> \<not> snd x" and "SetupInformers c st = Inr st'"
  shows "wait_for_stores e (before @ (st', d) # trace) = Some (Inr (the (getStores st'))) \<and>
    s_vmi (the (getStores st')) \<noteq> None \<and> s_virt_handler_pod (the (getStores st')) \<noteq> None"
proof -
  have ready: "stores_ready st'" by (rule SetupInformers_stores [OF assms(2)])
  then show ?thesis
    unfolding wait_skips [OF assms(1)] using wait_ready [OF ready]
    by (auto simp: stores_ready_def split: option.splits)
qed

theorem wait_ends_when_informers_ready_witness:
  "\<exists>st'. wait_for_stores ''ctx'' ([(\<lparr>stores_ref = None, indexers_ref = None\<rparr>, False)] @ [(st', False)]) =
     Some (Inr (the (getStores st')))"
proof -
  obtain st' where st': "SetupInformers demo_informers \<lparr>stores_ref = None, indexers_ref = None\<rparr> = Inr st'"
    using demo_informers_setup by blast
  have "\<forall>x \<in> set [(\<lparr>stores_ref = None, indexers_ref = None\<rparr>, False)]. \<not> stores_ready (fst x) \<and> \<not> snd x"
    by (simp add: stores_ready_def getStores_def)
  from wait_ends_when_informers_ready [OF this st', of "''ctx''" False "[]"] show ?thesis by blast
qed

section \<open>Correctness\<close>

lemma require_Inr [simp]: "require ok msg = Inr u \<longleftrightarrow> ok"
  by (simp add: require_def)

lemma exit_if_Inr [simp]: "exit_if err msg = Inr u \<longleftrightarrow> err = None"
  by (cases err) (simp_all add: exit_if_def)

lemma startup_tls_Inr:
  assumes "startup_tls env fl = Inr ts"
  shows "\<exists>wopt mopt popt. let base = (if enableHTTP2 fl then [] else [disableHTTP2]) in
    ts_webhook ts = base @ wopt \<and> ts_metrics ts = base @ popt @ mopt \<and>
    wopt = (if webhookCertPath fl = '''' then [] else [serve_cert (path_join [webhookCertPath fl, webhookCertName fl])]) \<and>
    mopt = (if metricsCertPath fl = '''' then [] else [serve_cert (path_join [metricsCertPath fl, metricsCertName fl])]) \<and>
    (if tlsSecurityProfile fl = '''' then popt = []
     else \<exists>f. TLSSecurityProfileToTLSConfig (tlsSecurityProfile fl) (tlsMinVersion fl) (tlsCiphers fl) (tlsGroups fl) = Inr f \<and>
       popt = [f])"
  using assms
  by (auto simp: startup_tls_def go_err Let_def simp del: bindR_simps split: if_splits sum.splits)

text \<open>C19: The configuration the metrics server ends with: HTTP/2 is off unless it was enabled, the certificate
  is the one of the flags, and minimum version, suites and groups are those of the profile, untouched
  without one. The profile does not reach the webhook server.\<close>

theorem startup_tls_configuration:
  assumes "startup_tls env fl = Inr ts"
  shows "NextProtos (apply_opts (ts_metrics ts) cfg) = (if enableHTTP2 fl then NextProtos cfg else [''http/1.1'']) \<and>
    GetCertificate (apply_opts (ts_metrics ts) cfg) =
      (if metricsCertPath fl = '''' then GetCertificate cfg else Some (path_join [metricsCertPath fl, metricsCertName fl])) \<and>
    (\<exists>f. (tlsSecurityProfile fl = '''' \<and> f = id \<or>
        TLSSecurityProfileToTLSConfig (tlsSecurityProfile fl) (tlsMinVersion fl) (tlsCiphers fl) (tlsGroups fl) = Inr f) \<and>
      MinVersion (apply_opts (ts_metrics ts) cfg) = MinVersion (f cfg) \<and>
      CipherSuites (apply_opts (ts_metrics ts) cfg) = CipherSuites (f cfg) \<and>
      CurvePreferences (apply_opts (ts_metrics ts) cfg) = CurvePreferences (f cfg)) \<and>
    MinVersion (apply_opts (ts_webhook ts) cfg) = MinVersion cfg \<and>
    CipherSuites (apply_opts (ts_webhook ts) cfg) = CipherSuites cfg"
proof (cases "tlsSecurityProfile fl = ''''")
  case True
  then show ?thesis
    using startup_tls_Inr [OF assms]
    by (auto simp: apply_opts_def disableHTTP2_def serve_cert_def Let_def split: if_splits)
next
  case False
  with startup_tls_Inr [OF assms] obtain f where
    f: "TLSSecurityProfileToTLSConfig (tlsSecurityProfile fl) (tlsMinVersion fl) (tlsCiphers fl) (tlsGroups fl) = Inr f"
    and ts: "ts_metrics ts = (if enableHTTP2 fl then [] else [disableHTTP2]) @ [f] @
        (if metricsCertPath fl = '''' then [] else [serve_cert (path_join [metricsCertPath fl, metricsCertName fl])])"
      "ts_webhook ts = (if enableHTTP2 fl then [] else [disableHTTP2]) @
        (if webhookCertPath fl = '''' then [] else [serve_cert (path_join [webhookCertPath fl, webhookCertName fl])])"
    by (auto simp: Let_def)
  obtain v ids curves where "f = (\<lambda>cfg. cfg\<lparr>MinVersion := v, CipherSuites := ids, CurvePreferences := curves\<rparr>)"
    using tls_config_fn_shape [OF f] by blast
  with f ts show ?thesis
    by (auto simp: apply_opts_def disableHTTP2_def serve_cert_def)
qed

definition demo_environment :: environment where
  "demo_environment = \<lparr>env_pod_namespace = ''kubevirt'', env_service_account = ''sa'', env_namespace_file = None,
     env_cert = (\<lambda>c k. None), env_manager = (\<lambda>call. None)\<rparr>"

definition blank_config :: tls_config where
  "blank_config = \<lparr>MinVersion = 0, CipherSuites = [], CurvePreferences = [], NextProtos = [], GetCertificate = None\<rparr>"

lemma demo_startup_tls:
  "\<exists>ts. startup_tls demo_environment (default_flags\<lparr>tlsSecurityProfile := ''Modern'', metricsCertPath := ''/certs''\<rparr>) = Inr ts"
  using named_profile_config [of Modern]
  by (simp add: startup_tls_def default_flags_def demo_environment_def require_def exit_if_def Let_def)

theorem startup_tls_configuration_witness:
  "\<exists>ts. startup_tls demo_environment (default_flags\<lparr>tlsSecurityProfile := ''Modern'', metricsCertPath := ''/certs''\<rparr>) = Inr ts \<and>
    MinVersion (apply_opts (ts_metrics ts) blank_config) = 0x0304 \<and>
    GetCertificate (apply_opts (ts_metrics ts) blank_config) = Some ''/certs/tls.crt''"
proof -
  obtain ts where ts: "startup_tls demo_environment
      (default_flags\<lparr>tlsSecurityProfile := ''Modern'', metricsCertPath := ''/certs''\<rparr>) = Inr ts"
    using demo_startup_tls by blast
  have "path_join [''/certs'', ''tls.crt''] = ''/certs/tls.crt''" by code_simp
  with startup_tls_configuration [OF ts, of blank_config] ts named_profile_config [of Modern] show ?thesis
    by (auto simp: default_flags_def)
qed

text \<open>C34: Without a profile, a minimum version or a cipher list ends the process, but a group list is ignored
  without a word: the start-up is the same as if the flag had not been given.\<close>

theorem groups_flag_ignored:
  assumes "tlsSecurityProfile fl = ''''"
  shows "startup_tls env (fl\<lparr>tlsGroups := groups\<rparr>) = startup_tls env (fl\<lparr>tlsGroups := ''''\<rparr>) \<and>
    (tlsMinVersion fl \<noteq> '''' \<or> tlsCiphers fl \<noteq> '''' \<longrightarrow> (\<exists>m. startup_tls env fl = Inl (GoError m)))"
  using assms by (simp add: startup_tls_def require_def Let_def cong: if_cong)

theorem groups_flag_ignored_witness:
  "\<exists>ts. startup_tls demo_environment (default_flags\<lparr>tlsGroups := ''X25519''\<rparr>) = Inr ts \<and> ts_metrics ts = [disableHTTP2]"
proof -
  have "tlsSecurityProfile default_flags = ''''" by (simp add: default_flags_def)
  from groups_flag_ignored [OF this, of demo_environment "''X25519''"] show ?thesis
    by (simp add: startup_tls_def default_flags_def require_def Let_def)
qed

lemma startup_controllers_Inr:
  assumes "startup_controllers env fl = Inr (mr, pr)"
  shows "mr_Namespace mr = getPodNamespace (env_pod_namespace env) (env_namespace_file env) \<and> mr_Namespace mr \<noteq> '''' \<and>
    mr_ServiceAccountName mr = env_service_account env \<and> mr_ServiceAccountName mr \<noteq> '''' \<and>
    parseMetricsPort (metricsAddr fl) = Inr (mr_MetricsPort mr) \<and> mr_SecureMetrics mr = secureMetrics fl \<and>
    pc_Namespace pr = mr_Namespace mr \<and> pc_AlertsAllowlist pr = parseAllowlist (alertsAllowlistRaw fl) \<and>
    pc_RecordingRulesAllowlist pr = parseAllowlist (recordingRulesAllowlistRaw fl)"
  using assms
  by (auto simp: startup_controllers_def go_err Let_def simp del: bindR_simps split: sum.splits)

lemma program_main_Inr:
  assumes "program_main preg punreg creg cunreg collectors vmstats env fl st0 s0 = Inr sd"
  shows "\<exists>tls st1 s1 s2 mr pr poller. startup_tls env fl = Inr tls \<and>
    SetupMetrics preg punreg collectors None None (parseAllowlist (metricsAllowlist fl)) st0 s0 = (st1, s1, None) \<and>
    startup_controllers env fl = Inr (mr, pr) \<and>
    (if enableVMStats fl then
       \<exists>ps. setupVMStats creg cunreg vmstats env fl (parseAllowlist (metricsAllowlist fl)) s1 = Inr (s2, ps) \<and> poller = Some ps
     else s2 = s1 \<and> poller = None) \<and>
    sd = \<lparr>sd_tls = tls, sd_bind = metricsAddr fl, sd_secure = secureMetrics fl, sd_filter = secureMetrics fl,
      sd_probe = probeAddr fl, sd_leader = enableLeaderElection fl, sd_mstate = st1, sd_registry = s2,
      sd_warnings = unknown_names (parseAllowlist (metricsAllowlist fl)) (ListMetrics (fst s1)),
      sd_metrics_reconciler = mr, sd_rule_reconciler = pr, sd_poller = poller\<rparr>"
proof -
  obtain st1 r1 p1 e where m: "SetupMetrics preg punreg collectors None None (parseAllowlist (metricsAllowlist fl)) st0 s0 =
      (st1, (r1, p1), e)"
    by (metis prod.collapse)
  show ?thesis
    using assms
    by (cases e; cases "enableVMStats fl")
       (auto simp: program_main_def m go_err Let_def simp del: bindR_simps)
qed

text \<open>C18: What a successful start hands out agrees: both reconcilers work in the same non-empty namespace, the
  Service publishes the port the metrics server binds to, the ServiceMonitor scrapes with the scheme the
  server speaks, and the poller exists exactly when it was enabled.\<close>

theorem started_configuration_agrees:
  assumes "program_main preg punreg creg cunreg collectors vmstats env fl st0 s0 = Inr sd"
  shows "pc_Namespace (sd_rule_reconciler sd) = mr_Namespace (sd_metrics_reconciler sd) \<and>
    mr_Namespace (sd_metrics_reconciler sd) \<noteq> '''' \<and> mr_ServiceAccountName (sd_metrics_reconciler sd) \<noteq> '''' \<and>
    map (\<lambda>p. Inr (sp_Port p)) (sv_Ports (buildDesiredService (sd_metrics_reconciler sd))) = [parseMetricsPort (sd_bind sd)] \<and>
    map ep_Scheme (sm_Endpoints (buildDesiredServiceMonitor (sd_metrics_reconciler sd))) =
      [Some (if sd_secure sd then ''https'' else ''http'')] \<and>
    (sd_poller sd \<noteq> None \<longleftrightarrow> enableVMStats fl) \<and> sd_filter sd = sd_secure sd"
proof -
  obtain tls st1 s1 s2 mr pr poller where
    c: "startup_controllers env fl = Inr (mr, pr)"
    and p: "poller \<noteq> None \<longleftrightarrow> enableVMStats fl"
    and sd: "sd = \<lparr>sd_tls = tls, sd_bind = metricsAddr fl, sd_secure = secureMetrics fl, sd_filter = secureMetrics fl,
      sd_probe = probeAddr fl, sd_leader = enableLeaderElection fl, sd_mstate = st1, sd_registry = s2,
      sd_warnings = unknown_names (parseAllowlist (metricsAllowlist fl)) (ListMetrics (fst s1)),
      sd_metrics_reconciler = mr, sd_rule_reconciler = pr, sd_poller = poller\<rparr>"
    using program_main_Inr [OF assms] by (auto split: if_splits)
  have "pc_Namespace pr = mr_Namespace mr" "mr_Namespace mr \<noteq> ''''" "mr_ServiceAccountName mr \<noteq> ''''"
    "parseMetricsPort (metricsAddr fl) = Inr (mr_MetricsPort mr)" "mr_SecureMetrics mr = secureMetrics fl"
    using startup_controllers_Inr [OF c] by metis+
  with p show ?thesis
    by (simp add: sd buildDesiredService_def buildDesiredServiceMonitor_def Let_def)
qed

section \<open>Names the allowlist does not know\<close>

lemma insert_metrics_dom: "fst ` set (insert_metrics ms reg) = fst ` set reg \<union> m_name ` set ms"
proof (induction ms reg rule: insert_metrics.induct)
  case (1 m)
  show ?case by simp
next
  case (2 x xs m)
  have "fst ` set (gomap_upd (m_name x) x m) = insert (m_name x) (fst ` set m)"
    unfolding dom_map_of_conv_image_fst [symmetric] go_map_simps by auto
  with 2 show ?case by simp
qed

lemma RegisterCollectors_one:
  assumes "quiet_registry preg punreg"
  shows "\<exists>s'. RegisterCollectors preg punreg [c] s = (s', None) \<and>
    m_name ` set (c_metrics c) \<subseteq> fst ` set (reg_cmetrics (fst s'))"
proof -
  have "\<exists>s1. (if collectorExists (fst s) (c_metrics c) then unregisterCollector punreg c s else (s, None)) = (s1, None)"
    using assms by (auto simp: quiet_registry_def unregisterCollector_def Let_def split: prod.splits) (metis snd_conv)+
  then obtain s1 where s1: "(if collectorExists (fst s) (c_metrics c) then unregisterCollector punreg c s else (s, None)) = (s1, None)" ..
  obtain p' where r: "registerCollector preg c s1 =
      ((\<lparr>reg_collectors = gomap_upd (collector_hash (c_metrics c)) (c_metrics c) (reg_collectors (fst s1)),
         reg_cmetrics = insert_metrics (c_metrics c) (reg_cmetrics (fst s1))\<rparr>, p'), None)"
    using registerCollector_quiet [OF assms] by blast
  show ?thesis
    using insert_metrics_dom [of "c_metrics c"] unfolding RegisterCollectors.simps s1
    by (simp add: r)
qed

lemma vmstats_names_new:
  assumes "m \<in> set vmstatsMetrics"
  shows "m_name m \<notin> m_name ` set all_metrics"
proof
  assume "m_name m \<in> m_name ` set all_metrics"
  then obtain x where x: "x \<in> set all_metrics" "m_name m = m_name x" by blast
  have "list_all (\<lambda>m. list_all (\<lambda>m'. drop 11 (m_name m) \<noteq> drop 11 (m_name m')) all_metrics) vmstatsMetrics"
    by code_simp
  then have "drop 11 (m_name m) \<noteq> drop 11 (m_name x)"
    using assms x(1) unfolding list_all_iff by blast
  with x(2) show False by metis
qed

lemma vmstats_registered:
  assumes "quiet_registry creg cunreg" and "m \<in> set vmstatsMetrics" and "bool_at al (m_name m)"
  shows "\<exists>s'. RegisterVMStatsCollector creg cunreg (vmStatsCollector gd rng) (Some al) s = (s', None) \<and>
    m_name m \<in> fst ` set (reg_cmetrics (fst s'))"
proof -
  have "filter (\<lambda>m. bool_at al (m_name m)) vmstatsMetrics \<noteq> []"
    using assms(2,3) by (auto simp: filter_empty_conv)
  then obtain c where c: "filterVMStatsCollector (vmStatsCollector gd rng) al = Some c"
    and "c_metrics c = filter (\<lambda>m. bool_at al (m_name m)) vmstatsMetrics"
    unfolding filterVMStatsCollector_def by (simp add: vmStatsCollector_def Let_def)
  with assms(2,3) have "m_name m \<in> m_name ` set (c_metrics c)" by auto
  moreover obtain s' where "RegisterCollectors creg cunreg [c] s = (s', None)"
    and "m_name ` set (c_metrics c) \<subseteq> fst ` set (reg_cmetrics (fst s'))"
    using RegisterCollectors_one [OF assms(1)] by blast
  ultimately show ?thesis
    using c unfolding RegisterVMStatsCollector_def by auto
qed

lemma unknown_names_set:
  "set (unknown_names (Some allow) ms) = {n \<in> fst ` set allow. n \<notin> m_name ` set ms}"
proof -
  have "map_of (map (\<lambda>m. (m_name m, True)) ms) n = Some True \<longleftrightarrow> n \<in> m_name ` set ms" for n
    by (induction ms) auto
  then show ?thesis by (auto simp: unknown_names_def bool_at_def Let_def)
qed

lemma bool_at_key: "bool_at al n \<Longrightarrow> n \<in> fst ` set al"
  unfolding bool_at_def dom_map_of_conv_image_fst [symmetric] by (auto split: option.splits)

lemma setupVMStats_Inr:
  "setupVMStats creg cunreg c env fl al s = Inr (s2, ps) \<Longrightarrow> RegisterVMStatsCollector creg cunreg c al s = (s2, None)"
  by (auto simp: setupVMStats_def go_err Let_def simp del: bindR_simps split: prod.splits option.splits)

text \<open>C25: A metric of the statistics collector that the allowlist names is reported as unknown at every start that
  registers it: the warning is computed before the statistics collector is added to the registry.\<close>

theorem vmstats_names_always_warned:
  assumes "quiet_registry preg punreg" and "quiet_registry creg cunreg"
    and "m \<in> set vmstatsMetrics" and "parseAllowlist (metricsAllowlist fl) = Some allow" and "bool_at allow (m_name m)"
    and "enableVMStats fl"
    and "program_main preg punreg creg cunreg (allCollectors pq rng) (vmStatsCollector gd rng') env fl st0 (newRegistry, p) = Inr sd"
  shows "m_name m \<in> set (sd_warnings sd) \<and> m_name m \<in> fst ` set (reg_cmetrics (fst (sd_registry sd)))"
proof -
  obtain st1 s1 s2 ps where
    m: "SetupMetrics preg punreg (allCollectors pq rng) None None (Some allow) st0 (newRegistry, p) = (st1, s1, None)"
    and v: "setupVMStats creg cunreg (vmStatsCollector gd rng') env fl (Some allow) s1 = Inr (s2, ps)"
    and w: "sd_warnings sd = unknown_names (Some allow) (ListMetrics (fst s1))" and r: "sd_registry sd = s2"
    using program_main_Inr [OF assms(7)] assms(4,6) by auto
  have "set (ListMetrics (fst s1)) \<subseteq> set all_metrics"
    using SetupMetrics_fresh [OF assms(1), of pq rng None None "Some allow" st0 p] m by auto
  then have "m_name m \<notin> m_name ` set (ListMetrics (fst s1))"
    using vmstats_names_new [OF assms(3)] by blast
  moreover have "m_name m \<in> fst ` set (reg_cmetrics (fst s2))"
    using vmstats_registered [OF assms(2,3,5), of gd rng' s1] setupVMStats_Inr [OF v] by auto
  ultimately show ?thesis
    using bool_at_key [OF assms(5)] by (simp add: w r unknown_names_set)
qed

definition demo_cache_register :: "(stats_cache, unit) register_fn" where
  "demo_cache_register c p = (p, None)"

definition demo_cache_unregister :: "(stats_cache, unit) unregister_fn" where
  "demo_cache_unregister c p = (p, True)"

lemma demo_quiet:
  "quiet_registry demo_register demo_unregister" "quiet_registry demo_cache_register demo_cache_unregister"
  by (simp_all add: quiet_registry_def demo_register_def demo_unregister_def
      demo_cache_register_def demo_cache_unregister_def)

definition demo_flags :: flags where
  "demo_flags = default_flags\<lparr>enableVMStats := True, vmstatsCertPath := ''/certs'',
     metricsAllowlist := ''kubevirt_vmi_guest_load_1m''\<rparr>"

lemma demo_allow: "parseAllowlist (metricsAllowlist demo_flags) = Some [(''kubevirt_vmi_guest_load_1m'', True)]"
  by code_simp

lemma demo_port: "parseMetricsPort (metricsAddr demo_flags) = Inr 8080"
proof -
  have "show_int 8080 = ''8080''" by (simp add: show_int_def show_nat.simps) code_simp
  then have "metricsAddr demo_flags = '''' @ '':'' @ show_int 8080" by (simp add: demo_flags_def default_flags_def)
  moreover have "SplitHostPort ('''' @ '':'' @ show_int 8080) = Inr ('''', show_int 8080)"
    using show_int_no [of 8080] by (intro plain_host_split) simp_all
  ultimately show ?thesis by (simp only: parseMetricsPort_def) (simp add: ParseInt32_show)
qed

lemma demo_metric:
  "guestLoad1m \<in> set vmstatsMetrics" "m_name guestLoad1m = ''kubevirt_vmi_guest_load_1m''"
proof -
  have "guestLoad1m \<in> set cpuMetricsList" unfolding cpuMetricsList_def by simp
  then show "guestLoad1m \<in> set vmstatsMetrics" unfolding vmstatsMetrics_def set_append by blast
  show "m_name guestLoad1m = ''kubevirt_vmi_guest_load_1m''" by (simp add: guestLoad1m_def)
qed

lemma demo_starts:
  "\<exists>sd. program_main demo_register demo_unregister demo_cache_register demo_cache_unregister
     (allCollectors (\<lambda>_. None) id) (vmStatsCollector no_decoders id) demo_environment demo_flags
     \<lparr>stores_ref = None, indexers_ref = None\<rparr> (newRegistry, ()) = Inr sd"
proof -
  let ?al = "Some [(''kubevirt_vmi_guest_load_1m'', True)]"
  obtain st1 s1 where m: "SetupMetrics demo_register demo_unregister (allCollectors (\<lambda>_. None) id) None None ?al
      \<lparr>stores_ref = None, indexers_ref = None\<rparr> (newRegistry, ()) = (st1, s1, None)"
    using SetupMetrics_fresh [OF demo_quiet(1), of "\<lambda>_. None" id None None ?al "\<lparr>stores_ref = None, indexers_ref = None\<rparr>" "()"]
    by blast
  have g: "bool_at [(''kubevirt_vmi_guest_load_1m'', True)] (m_name guestLoad1m)"
    unfolding demo_metric(2) by (simp add: bool_at_def)
  obtain s2 where v: "RegisterVMStatsCollector demo_cache_register demo_cache_unregister (vmStatsCollector no_decoders id)
      ?al s1 = (s2, None)"
    using vmstats_registered [OF demo_quiet(2) demo_metric(1) g] by blast
  have t: "startup_tls demo_environment demo_flags = Inr \<lparr>ts_webhook = [disableHTTP2], ts_metrics = [disableHTTP2], ts_watchers = []\<rparr>"
    by (simp add: startup_tls_def demo_flags_def default_flags_def require_def Let_def)
  have c: "\<exists>mr pr. startup_controllers demo_environment demo_flags = Inr (mr, pr)"
    using demo_port
    by (simp add: startup_controllers_def demo_environment_def getPodNamespace_def require_def exit_if_def Let_def)
  then obtain mr pr where c: "startup_controllers demo_environment demo_flags = Inr (mr, pr)" by blast
  have s: "\<exists>ps. setupVMStats demo_cache_register demo_cache_unregister (vmStatsCollector no_decoders id)
      demo_environment demo_flags ?al s1 = Inr (s2, ps)"
    using v by (simp add: setupVMStats_def demo_environment_def demo_flags_def require_def exit_if_def Let_def)
  then obtain ps where s: "setupVMStats demo_cache_register demo_cache_unregister (vmStatsCollector no_decoders id)
      demo_environment demo_flags ?al s1 = Inr (s2, ps)" by blast
  have f: "env_manager demo_environment = (\<lambda>call. None)" "enableVMStats demo_flags"
    "metricsCertPath demo_flags = ''''" "webhookCertPath demo_flags = ''''"
    by (simp_all add: demo_environment_def demo_flags_def default_flags_def)
  show ?thesis
    by (simp add: program_main_def demo_allow m t c s f exit_if_def Let_def)
qed

theorem vmstats_names_always_warned_witness:
  "\<exists>sd. program_main demo_register demo_unregister demo_cache_register demo_cache_unregister
     (allCollectors (\<lambda>_. None) id) (vmStatsCollector no_decoders id) demo_environment demo_flags
     \<lparr>stores_ref = None, indexers_ref = None\<rparr> (newRegistry, ()) = Inr sd \<and>
     ''kubevirt_vmi_guest_load_1m'' \<in> set (sd_warnings sd)"
proof -
  obtain sd where sd: "program_main demo_register demo_unregister demo_cache_register demo_cache_unregister
     (allCollectors (\<lambda>_. None) id) (vmStatsCollector no_decoders id) demo_environment demo_flags
     \<lparr>stores_ref = None, indexers_ref = None\<rparr> (newRegistry, ()) = Inr sd"
    using demo_starts by blast
  have "bool_at [(''kubevirt_vmi_guest_load_1m'', True)] (m_name guestLoad1m)" "enableVMStats demo_flags"
    unfolding demo_metric(2) by (simp_all add: bool_at_def demo_flags_def)
  from vmstats_names_always_warned [OF demo_quiet demo_metric(1) demo_allow this sd] sd show ?thesis
    unfolding demo_metric(2) by blast
qed

theorem started_configuration_agrees_witness:
  "\<exists>sd. program_main demo_register demo_unregister demo_cache_register demo_cache_unregister
     (allCollectors (\<lambda>_. None) id) (vmStatsCollector no_decoders id) demo_environment demo_flags
     \<lparr>stores_ref = None, indexers_ref = None\<rparr> (newRegistry, ()) = Inr sd \<and>
     mr_Namespace (sd_metrics_reconciler sd) = pc_Namespace (sd_rule_reconciler sd) \<and> sd_poller sd \<noteq> None"
proof -
  obtain sd where sd: "program_main demo_register demo_unregister demo_cache_register demo_cache_unregister
     (allCollectors (\<lambda>_. None) id) (vmStatsCollector no_decoders id) demo_environment demo_flags
     \<lparr>stores_ref = None, indexers_ref = None\<rparr> (newRegistry, ()) = Inr sd"
    using demo_starts by blast
  have "enableVMStats demo_flags" by (simp add: demo_flags_def)
  with started_configuration_agrees [OF sd] sd show ?thesis by simp
qed

end
