(* ===== verification/Spec2Isabelle.thy ===== *)
theory Spec2Isabelle
  imports Startup Rules
begin

text \<open>
  The verification library of the KubeVirt observability controller.

  The program. The controller runs beside KubeVirt and publishes Prometheus metrics, recording rules and
  alerts about virtual machines. \<open>cmd/main.go\<close> parses the flags, prepares TLS, registers the collectors,
  starts the manager of controller-runtime with two reconcilers and the informer set-up, and, when
  enabled, the statistics poller. The parts interact as follows.

    \<^item> The informers fill stores; \<open>SetupInformers\<close> publishes them through an atomic pointer. A scrape calls
      the callbacks of three collectors (migrations, VMIs, VMs), which read the stores and return results;
      the metrics toolkit turns results into samples.
    \<^item> The poller asks the virt-handler of every node for the statistics of its VMIs, every 30 seconds, with
      at most 10 requests at a time, and stores the answers in a cache that a fourth collector reads.
    \<^item> The two reconcilers keep a Service, a Secret, a ServiceMonitor and a PrometheusRule in the cluster as
      the configuration and the registered rules demand.

  The theories, in the order of their imports.

    \<^item> \<open>Go_Prelude\<close>, \<open>Go_Strings\<close>, \<open>Go_Float\<close>, \<open>Net_Parse\<close>: what the program uses of Go and its standard library.
      A call that returns an error or panics is \<open>fault + 'a\<close>, chained by \<open>bindR\<close>. A Go map is an association
      list without duplicate keys (\<open>gomap\<close>, \<open>gomap_ok\<close>), whose order is the order of iteration: a theorem about
      any order quantifies over the list. Strings are byte strings. Integers of a fixed width are words, or
      \<open>int\<close> with the wrap written out (\<open>i64\<close>). \<open>float64\<close> is the finite double nearest to a rational, ties to even
      (\<open>rnd\<close>).
    \<^item> \<open>Kube_Quantity\<close>, \<open>Kube_Types\<close>: the fields of the API objects the program reads; elements of a store are
      a datatype (\<open>any\<close>), so that a type assertion can fail as in the code.
    \<^item> \<open>Metrics_Stores\<close> (stores.go, informers.go, the references of metrics.go), \<open>Metrics_Helpers\<close> (helpers.go),
      \<open>Operator_Metrics\<close> (the toolkit's collectors: locale \<open>metric_collector\<close>), \<open>Migration_Stats\<close>, \<open>VMI_Stats\<close>,
      \<open>VM_Stats\<close> (the three collectors, each an interpretation of the locale), \<open>Metrics_Setup\<close> (registration
      and the allowlist filter). Lemmas: every callback is total and reports the declared metrics once per
      object, results fit their metric, the registry holds exactly the selected metrics.
    \<^item> \<open>VMStats_Types\<close>, \<open>VMStats_Metrics\<close> (types.go, convert.go, report.go, metrics_*.go), \<open>VMStats_Cache\<close>
      (cache.go, collector.go; locales \<open>object_store\<close> and \<open>prunable_store\<close>), \<open>VMStats_Poller\<close> (client.go, one poll
      of poller.go), \<open>VMStats_Run\<close> (the loop of \<open>Start\<close>). One poll is given twice: as the function \<open>pollOnce\<close>, and
      as the step relation \<open>poll_step\<close> of the goroutines under the semaphore; every complete schedule of the
      second gives the cache of the first, none needs more steps than \<open>poll_work\<close>, and none is stuck. A scrape
      between any two steps, and after any number of polls, shows no series twice.
    \<^item> \<open>Rules_Registry\<close> (the toolkit's operatorrules), \<open>Recording_Rules\<close>, \<open>Alerts\<close>, \<open>Rules\<close> (pkg/monitoring/rules):
      the literal tables of all rules and the package-level state, threaded. The loops of \<open>alerts.Register\<close>
      write into maps the package variable \<open>vmsAlerts\<close> shares, so that variable is part of the state.
      \<open>rules_reach\<close> is the inductive set of states the process can reach.
    \<^item> \<open>TLS_Util\<close> (pkg/tlsutil with the name tables of the libraries it calls).
    \<^item> \<open>Kube_Client\<close>, \<open>Metrics_Resources\<close>, \<open>Prometheus_Rule_Controller\<close> (pkg/controller): the API client is a
      parameter. What a reconciler relies on is the locale \<open>object_api\<close> (\<open>deletable_api\<close> where it deletes):
      an object that was written reads back as written up to the fields the server owns, and equal objects
      stay equal. The locales are interpreted on an in-memory server for each of the four kinds.
    \<^item> \<open>Flag_Parse\<close>, \<open>Startup\<close> (cmd/main.go): the flags, every exit before the manager runs, what is handed to
      servers, reconcilers and poller, and the wait for the stores.

  Parameters. The Prometheus registry (register and unregister functions), the API server, the HTTP client
  and the JSON decoder of the poller, the JSON decoding of guest-agent strings, \<open>resource.ParseQuantity\<close>, the
  certificate loader, the manager, and the iteration order of a map, where the code depends on it, are
  arguments of the definitions that use them. A theorem that needs something of them says so in a hypothesis
  (\<open>quiet_registry\<close>, \<open>object_api\<close>, \<open>unique_devices\<close>), and its witness supplies a concrete one.

  Bounds. No definition uses fuel: every loop is structural over a list or has a measure. The loop of the
  poller and the wait for the stores, which last as long as the process, are functions of a finite sequence
  of events, so they say what holds at every moment; that they end is proved for the sequences that contain
  the event they wait for.

  Not modelled. Log lines (except the warnings about unknown names), timers beyond the order of their events,
  the parsing of the command line by package flag, the scheme registration, the manager's own caches and
  queues, leader election; the documentation generator under hack/, the tests under test/, the manifests and
  scripts; and everything under vendor/ but the parts named above. The fields of API objects that the program
  neither reads nor writes are absent from the records.

  What later work can add: the queues of the two controllers as a step relation in which watch events trigger
  reconciliations, informer events between two scrapes of the store-backed collectors, and the guest-agent
  decoders against a grammar of the JSON they read.
\<close>

end
